(* ===== verification/Hal_Prelude.thy ===== *)
theory Hal_Prelude
  imports Main "HOL-Library.Word"
begin

text \<open>
  Shared vocabulary of the development: Go's byte slices, strings and 64-bit \<open>int\<close>, the
  errors the module returns, and the two result types that every translated function uses.
  \<^item> An \<open>outcome\<close> is what a Go function call ends with: a value, a returned \<open>error\<close>, or a
    panic. Every panic of the source (an explicit \<open>panic\<close>, an index out of range, a panicking
    library call) is a value here, so that a theorem can say that it does not happen.
  \<^item> An \<open>act\<close> is a function on the state of the chain: it returns an outcome and the state it
    leaves behind, also when it fails, because a Go handler does not undo its writes.
\<close>

unbundle bit_operations_syntax

section \<open>Fact collections\<close>

named_theorems outcome_simps \<open>how the outcome combinators compute\<close>
named_theorems act_simps \<open>how the state combinators compute\<close>
named_theorems writes_intro \<open>what a buffer writer writes\<close>
named_theorems size_simps \<open>sizes of encodings\<close>

section \<open>Bytes and strings\<close>

type_synonym byte = "8 word"
type_synonym bytes = "byte list"

text \<open>A Go string is a sequence of bytes, as a HOL string is; the conversions
  \<open>[]byte(s)\<close> and \<open>string(b)\<close> keep every byte.\<close>

definition bytes_of :: "string \<Rightarrow> bytes" where
  "bytes_of s = map (\<lambda>c. word_of_nat (of_char c)) s"

definition string_of :: "bytes \<Rightarrow> string" where
  "string_of bs = map (\<lambda>b. char_of (unat b)) bs"

lemma char_of_byte [simp]: "char_of (unat (word_of_nat (of_char c) :: byte)) = c"
proof -
  have "of_char c < (256 :: nat)"
    using of_char_mod_256 [of c, where 'a = nat] mod_less_divisor [of 256 "of_char c :: nat"] by simp
  then have "unat (word_of_nat (of_char c) :: byte) = of_char c"
    by (simp add: unat_of_nat)
  then show ?thesis by simp
qed

lemma byte_of_char [simp]: "word_of_nat (of_char (char_of (unat b))) = (b :: byte)"
proof -
  have "unat b < 2 ^ LENGTH(8)"
    by (rule unsigned_less)
  then show ?thesis by (simp add: of_char_of)
qed

lemma string_of_bytes_of [simp]: "string_of (bytes_of s) = s"
  by (simp add: string_of_def bytes_of_def o_def)

lemma bytes_of_string_of [simp]: "bytes_of (string_of bs) = bs"
  by (induction bs) (simp_all add: string_of_def bytes_of_def del: of_char_of)

lemma length_bytes_of [simp]: "length (bytes_of s) = length s"
  by (simp add: bytes_of_def)

lemma length_string_of [simp]: "length (string_of bs) = length bs"
  by (simp add: string_of_def)

lemma bytes_of_inject [simp]: "bytes_of s = bytes_of t \<longleftrightarrow> s = t"
  by (metis string_of_bytes_of)

lemma bytes_of_append [simp]: "bytes_of (s @ t) = bytes_of s @ bytes_of t"
  by (simp add: bytes_of_def)

lemma bytes_of_Nil [simp]: "bytes_of s = [] \<longleftrightarrow> s = []"
  by (simp add: bytes_of_def)

section \<open>Go's int\<close>

text \<open>On the 64-bit targets of the chain \<open>int\<close> has 64 bits. A value of type \<open>int\<close> is a HOL
  integer, and an addition that may leave the range is wrapped with \<open>go_int\<close>.\<close>

definition go_int :: "int \<Rightarrow> int" where
  "go_int x = (x + 2 ^ 63) mod 2 ^ 64 - 2 ^ 63"

lemma go_int_id [simp]: "- (2 ^ 63) \<le> x \<Longrightarrow> x < 2 ^ 63 \<Longrightarrow> go_int x = x"
  by (simp add: go_int_def)

lemma go_int_bounds: "- (2 ^ 63) \<le> go_int x \<and> go_int x < 2 ^ 63"
  by (simp add: go_int_def)

lemma go_int_sum_nonneg:
  assumes "0 \<le> a" "a \<le> 2 ^ 63" "0 \<le> b" "b < 2 ^ 63" "0 \<le> go_int (a + b)"
  shows "go_int (a + b) = a + b"
proof (cases "a + b < 2 ^ 63")
  case True
  with assms show ?thesis by simp
next
  case False
  with assms have "(a + b + 2 ^ 63 - 2 ^ 64) mod 2 ^ 64 = a + b + 2 ^ 63 - 2 ^ 64"
    by (intro mod_pos_pos_trivial) auto
  then have "(a + b + 2 ^ 63) mod 2 ^ 64 = a + b + 2 ^ 63 - 2 ^ 64"
    using mod_add_self2 [of "a + b + 2 ^ 63 - 2 ^ 64" "2 ^ 64"] by (simp add: ac_simps)
  with assms show ?thesis
    by (simp add: go_int_def)
qed

lemma go_int_add_ge:
  "0 \<le> a \<Longrightarrow> a \<le> 2 ^ 63 \<Longrightarrow> 0 \<le> b \<Longrightarrow> b < 2 ^ 63 \<Longrightarrow> 0 \<le> go_int (a + b) \<Longrightarrow> a \<le> go_int (a + b)"
  using go_int_sum_nonneg [of a b] by simp

section \<open>Errors\<close>

text \<open>The files of generated marshalling code; each has its own error variables.\<close>

datatype pbfile = PbGenesis | PbParams | PbQuery | PbRedeemRequest | PbTickets | PbTx | PbRuntime

text \<open>Sentinel errors that the handlers wrap (\<open>sdkerrors\<close> and \<open>types/errors.go\<close>).\<close>

datatype sentinel =
    SdkErrInvalidAddress | SdkErrInvalidRequest | SdkErrInsufficientFunds | SdkErrUnauthorized
  | ErrInvalidSigner | ErrSample | StatusInvalidArgument

datatype go_error =
    ErrUnexpectedEOF
  | ErrInvalidLength pbfile
  | ErrIntOverflow pbfile
  | ErrUnexpectedEndOfGroup pbfile
  | EndGroupForNonGroup string
  | IllegalTag string int "64 word"
  | WrongWireType int string
  | IllegalWireType int
  | Wrapped sentinel string
  | Errorf string
  | ExternalError string

section \<open>Outcomes\<close>

datatype 'a outcome = Ok 'a | Err go_error | Panic string

definition is_Ok :: "'a outcome \<Rightarrow> bool" where
  "is_Ok r = (case r of Ok _ \<Rightarrow> True | _ \<Rightarrow> False)"

definition is_Panic :: "'a outcome \<Rightarrow> bool" where
  "is_Panic r = (case r of Panic _ \<Rightarrow> True | _ \<Rightarrow> False)"

definition bind_o :: "'a outcome \<Rightarrow> ('a \<Rightarrow> 'b outcome) \<Rightarrow> 'b outcome" where
  "bind_o r f = (case r of Ok a \<Rightarrow> f a | Err e \<Rightarrow> Err e | Panic s \<Rightarrow> Panic s)"

text \<open>A call that panics where the callee returns an error (the \<open>Must\<close> functions).\<close>

definition must :: "'a outcome \<Rightarrow> 'a outcome" where
  "must r = (case r of Ok a \<Rightarrow> Ok a | Err e \<Rightarrow> Panic ''must'' | Panic s \<Rightarrow> Panic s)"

lemma is_Ok_simps [simp, outcome_simps]:
  "is_Ok (Ok a)" "\<not> is_Ok (Err e)" "\<not> is_Ok (Panic s)"
  by (simp_all add: is_Ok_def)

lemma is_Panic_simps [simp, outcome_simps]:
  "\<not> is_Panic (Ok a)" "\<not> is_Panic (Err e)" "is_Panic (Panic s)"
  by (simp_all add: is_Panic_def)

lemma bind_o_simps [simp, outcome_simps]:
  "bind_o (Ok a) f = f a" "bind_o (Err e) f = Err e" "bind_o (Panic s) f = Panic s"
  by (simp_all add: bind_o_def)

lemma must_simps [simp, outcome_simps]:
  "must (Ok a) = Ok a" "must (Err e) = Panic ''must''" "must (Panic s) = Panic s"
  by (simp_all add: must_def)

lemma bind_o_eq_Ok: "bind_o r f = Ok b \<longleftrightarrow> (\<exists>a. r = Ok a \<and> f a = Ok b)"
  by (cases r) auto

lemma bind_o_cong [fundef_cong]:
  "r = r' \<Longrightarrow> (\<And>a. r' = Ok a \<Longrightarrow> f a = g a) \<Longrightarrow> bind_o r f = bind_o r' g"
  by (cases r') auto

lemma bind_o_assoc: "bind_o (bind_o r f) g = bind_o r (\<lambda>a. bind_o (f a) g)"
  by (cases r) auto

lemma is_Panic_bind_o:
  "is_Panic (bind_o r f) \<longleftrightarrow> is_Panic r \<or> (\<exists>a. r = Ok a \<and> is_Panic (f a))"
  by (cases r) auto

section \<open>State-passing actions\<close>

type_synonym ('w, 'a) act = "'w \<Rightarrow> 'a outcome \<times> 'w"

definition ret_a :: "'a \<Rightarrow> ('w, 'a) act" where
  "ret_a a = (\<lambda>w. (Ok a, w))"

definition fail_a :: "go_error \<Rightarrow> ('w, 'a) act" where
  "fail_a e = (\<lambda>w. (Err e, w))"

definition panic_a :: "string \<Rightarrow> ('w, 'a) act" where
  "panic_a s = (\<lambda>w. (Panic s, w))"

definition lift_a :: "'a outcome \<Rightarrow> ('w, 'a) act" where
  "lift_a r = (\<lambda>w. (r, w))"

text \<open>An outcome computed from the state, without changing it.\<close>

definition read_a :: "('w \<Rightarrow> 'a outcome) \<Rightarrow> ('w, 'a) act" where
  "read_a f = (\<lambda>w. (f w, w))"

definition bind_a :: "('w, 'a) act \<Rightarrow> ('a \<Rightarrow> ('w, 'b) act) \<Rightarrow> ('w, 'b) act" where
  "bind_a m f = (\<lambda>w. case m w of
      (Ok a, w') \<Rightarrow> f a w' | (Err e, w') \<Rightarrow> (Err e, w') | (Panic s, w') \<Rightarrow> (Panic s, w'))"

text \<open>\<open>if err := m; err != nil { return nil, e }\<close>: the callee's error is replaced by \<open>e\<close>.\<close>

definition wrap_a :: "go_error \<Rightarrow> ('w, 'a) act \<Rightarrow> ('w, 'a) act" where
  "wrap_a e m = (\<lambda>w. case m w of (Err _, w') \<Rightarrow> (Err e, w') | r \<Rightarrow> r)"

text \<open>A call statement whose error result is not looked at.\<close>

definition discard_a :: "('w, 'a) act \<Rightarrow> ('w, unit) act" where
  "discard_a m = (\<lambda>w. case m w of (Panic s, w') \<Rightarrow> (Panic s, w') | (_, w') \<Rightarrow> (Ok (), w'))"

text \<open>\<open>if err := m; err != nil { h }\<close> where \<open>h\<close> does not return the error, such as a \<open>continue\<close>; without
  an error the function goes on with \<open>f\<close>.\<close>

definition try_a :: "('w, 'a) act \<Rightarrow> (go_error \<Rightarrow> ('w, 'b) act) \<Rightarrow> ('a \<Rightarrow> ('w, 'b) act) \<Rightarrow> ('w, 'b) act" where
  "try_a m h f = (\<lambda>w. case m w of
      (Ok a, w') \<Rightarrow> f a w' | (Err e, w') \<Rightarrow> h e w' | (Panic s, w') \<Rightarrow> (Panic s, w'))"

lemma act_basic [simp, act_simps]:
  "ret_a a w = (Ok a, w)" "fail_a e w = (Err e, w)" "panic_a s w = (Panic s, w)"
  "lift_a r w = (r, w)" "read_a f w = (f w, w)"
  by (simp_all add: ret_a_def fail_a_def panic_a_def lift_a_def read_a_def)

lemma bind_a_Ok [act_simps]: "m w = (Ok a, w') \<Longrightarrow> bind_a m f w = f a w'"
  and bind_a_Err [act_simps]: "m w = (Err e, w') \<Longrightarrow> bind_a m f w = (Err e, w')"
  and bind_a_Panic [act_simps]: "m w = (Panic s, w') \<Longrightarrow> bind_a m f w = (Panic s, w')"
  by (simp_all add: bind_a_def)

lemma bind_a_apply:
  "bind_a m f w = (case m w of
      (Ok a, w') \<Rightarrow> f a w' | (Err e, w') \<Rightarrow> (Err e, w') | (Panic s, w') \<Rightarrow> (Panic s, w'))"
  by (simp add: bind_a_def)

lemma bind_a_eq_Ok:
  "bind_a m f w = (Ok b, w'') \<longleftrightarrow> (\<exists>a w'. m w = (Ok a, w') \<and> f a w' = (Ok b, w''))"
  by (auto simp: bind_a_def split: prod.splits outcome.splits)

lemma bind_a_basic [simp, act_simps]:
  "bind_a (ret_a a) f = f a" "bind_a (lift_a (Ok a)) f = f a"
  "bind_a (lift_a (Err e)) f = fail_a e" "bind_a (lift_a (Panic s)) f = panic_a s"
  by (simp_all add: fun_eq_iff bind_a_def)

lemma bind_a_read [act_simps]:
  "bind_a (read_a r) f w = (case r w of Ok a \<Rightarrow> f a w | Err e \<Rightarrow> (Err e, w) | Panic s \<Rightarrow> (Panic s, w))"
  by (simp add: bind_a_def split: outcome.splits)

lemma try_a_apply:
  "try_a m h f w = (case m w of
      (Ok a, w') \<Rightarrow> f a w' | (Err e, w') \<Rightarrow> h e w' | (Panic s, w') \<Rightarrow> (Panic s, w'))"
  by (simp add: try_a_def)

lemma wrap_a_apply: "wrap_a e m w = (case m w of (Err _, w') \<Rightarrow> (Err e, w') | r \<Rightarrow> r)"
  by (simp add: wrap_a_def)

lemma discard_a_apply:
  "discard_a m w = (case m w of (Panic s, w') \<Rightarrow> (Panic s, w') | (_, w') \<Rightarrow> (Ok (), w'))"
  by (simp add: discard_a_def)

lemma is_PanicE: "is_Panic r \<Longrightarrow> (\<And>s. r = Panic s \<Longrightarrow> P) \<Longrightarrow> P"
  by (cases r) auto

lemma wrap_a_eq_Ok [simp]: "wrap_a e m w = (Ok a, w') \<longleftrightarrow> m w = (Ok a, w')"
  by (auto simp: wrap_a_def split: prod.splits outcome.splits)

lemma discard_a_eq_Ok:
  "discard_a m w = (Ok (), w') \<longleftrightarrow> (\<exists>r. m w = (r, w') \<and> \<not> is_Panic r)"
  by (auto simp: discard_a_def split: prod.splits outcome.splits)

end
