(* ===== verification/Wire_Decode.thy ===== *)
theory Wire_Decode
  imports Hal_Prelude
begin

text \<open>
  The decoding half of the generated protobuf code (\<open>x/hal/types/*.pb.go\<close>): the varint loop that
  every \<open>Unmarshal\<close> method and every \<open>skip\<close> function repeats inline, the \<open>skip\<close> function of
  unknown fields, and the loop of an \<open>Unmarshal\<close> method over the fields of the input. The loops
  are total functions; the lemmas show that decoding never panics, and that it depends only
  on the bytes from the current index on.
\<close>

section \<open>Reading from a slice\<close>

text \<open>An index is a Go \<open>int\<close>, so it is below \<open>2 ^ 63\<close>.\<close>

definition index :: "bytes \<Rightarrow> int \<Rightarrow> byte outcome" where
  "index dAtA i =
     (if 0 \<le> i \<and> i < int (length dAtA) \<and> i < 2 ^ 63 then Ok (dAtA ! nat i)
      else Panic ''index out of range'')"

definition slice :: "bytes \<Rightarrow> int \<Rightarrow> int \<Rightarrow> bytes outcome" where
  "slice dAtA lo hi =
     (if 0 \<le> lo \<and> lo \<le> hi \<and> hi \<le> int (length dAtA)
      then Ok (take (nat (hi - lo)) (drop (nat lo) dAtA))
      else Panic ''slice bounds out of range'')"

section \<open>Varints\<close>

text \<open>
  \<open>for shift := uint(0); ; shift += 7 { ... v |= uintN(b&0x7F) << shift; if b < 0x80 { break } }\<close>,
  for a variable of any width: \<open>uint64\<close> tags and lengths, \<open>int\<close> lengths, \<open>int32\<close> and
  \<open>uint32\<close> fields.
\<close>

function decode_varint ::
    "pbfile \<Rightarrow> bytes \<Rightarrow> int \<Rightarrow> nat \<Rightarrow> 'a::len word \<Rightarrow> ('a word \<times> int) outcome" where
  "decode_varint pf dAtA iNdEx shift v =
     (if shift \<ge> 64 then Err (ErrIntOverflow pf)
      else if iNdEx \<ge> int (length dAtA) then Err ErrUnexpectedEOF
      else case index dAtA iNdEx of
        Ok b \<Rightarrow>
          (let v' = v OR push_bit shift (ucast (b AND 0x7F))
           in if b < 0x80 then Ok (v', iNdEx + 1)
              else decode_varint pf dAtA (iNdEx + 1) (shift + 7) v')
      | Err e \<Rightarrow> Err e
      | Panic s \<Rightarrow> Panic s)"
  by pat_completeness auto
termination
  by (relation "measure (\<lambda>(pf, dAtA, iNdEx, shift, v). 64 - shift)") auto

declare decode_varint.simps [simp del]

lemma decode_varint_progress:
  "decode_varint pf dAtA i s v = Ok (w, j) \<Longrightarrow>
     0 \<le> i \<and> i < j \<and> j \<le> int (length dAtA) \<and> j \<le> 2 ^ 63"
proof (induction pf dAtA i s v rule: decode_varint.induct)
  case (1 pf dAtA i s v)
  show ?case
  proof (cases "index dAtA i")
    case (Ok b)
    then have i: "0 \<le> i" "i < int (length dAtA)" "i < 2 ^ 63"
      by (auto simp: index_def split: if_splits)
    show ?thesis
    proof (cases "b < 0x80")
      case True
      with "1.prems" Ok i show ?thesis
        by (subst (asm) decode_varint.simps) (auto simp: Let_def split: if_splits)
    next
      case False
      have step: "s < 64 \<and>
          decode_varint pf dAtA (i + 1) (s + 7) (v OR push_bit s (ucast (b AND 0x7F))) = Ok (w, j)"
        using "1.prems" Ok False
        by (subst (asm) decode_varint.simps) (auto simp: Let_def split: if_splits)
      then have "i + 1 < j \<and> j \<le> int (length dAtA) \<and> j \<le> 2 ^ 63"
        using "1.IH" [OF _ _ Ok refl False] i by auto
      with i show ?thesis by auto
    qed
  qed (use "1.prems" in \<open>subst (asm) decode_varint.simps, auto split: if_splits\<close>)+
qed

lemma decode_varint_no_panic:
  "0 \<le> i \<Longrightarrow> length dAtA < 2 ^ 63 \<Longrightarrow> \<not> is_Panic (decode_varint pf dAtA i s v)"
proof (induction pf dAtA i s v rule: decode_varint.induct)
  case (1 pf dAtA i s v)
  show ?case
  proof (cases "s < 64 \<and> i < int (length dAtA)")
    case True
    with "1.prems" have ix: "index dAtA i = Ok (dAtA ! nat i)"
      by (auto simp: index_def)
    show ?thesis
      using "1.IH" [OF _ _ ix refl] "1.prems" True
      by (subst decode_varint.simps) (auto simp: ix Let_def)
  next
    case False
    then show ?thesis by (subst decode_varint.simps) auto
  qed
qed

section \<open>Skipping an unknown field\<close>

text \<open>The \<open>switch wireType\<close> of a \<open>skip\<close> function: the new index and the new group depth.\<close>

definition skip_field :: "pbfile \<Rightarrow> bytes \<Rightarrow> 64 word \<Rightarrow> int \<Rightarrow> int \<Rightarrow> (int \<times> int) outcome" where
  "skip_field pf dAtA wireType iNdEx depth =
     (if wireType = 0 then
        bind_o (decode_varint pf dAtA iNdEx 0 (0 :: 64 word)) (\<lambda>(_, i). Ok (i, depth))
      else if wireType = 1 then Ok (go_int (iNdEx + 8), depth)
      else if wireType = 2 then
        bind_o (decode_varint pf dAtA iNdEx 0 (0 :: 64 word)) (\<lambda>(v, i).
          let len = sint v
          in if len < 0 then Err (ErrInvalidLength pf) else Ok (go_int (i + len), depth))
      else if wireType = 3 then Ok (iNdEx, depth + 1)
      else if wireType = 4 then
        (if depth = 0 then Err (ErrUnexpectedEndOfGroup pf) else Ok (iNdEx, depth - 1))
      else if wireType = 5 then Ok (go_int (iNdEx + 4), depth)
      else Err (IllegalWireType (uint wireType)))"

lemma skip_field_progress:
  assumes "skip_field pf dAtA t i d = Ok (j, d')" and "0 \<le> i" "i \<le> 2 ^ 63" "0 \<le> j"
  shows "i \<le> j"
proof -
  have fixed: "i \<le> j" if "j = go_int (i + k)" "k \<in> {4, 8}" for k
    using that assms(2-4) go_int_add_ge [of i k] by auto
  have len: "i \<le> j" if "decode_varint pf dAtA i 0 0 = Ok (v :: 64 word, i')"
      "\<not> sint v < 0" "j = go_int (i' + sint v)" for v i'
    using that assms(4) go_int_add_ge [of i' "sint v"] decode_varint_progress [OF that(1)]
      sint_less [of v] by auto
  show ?thesis
    using assms(1) fixed len
    by (auto simp: skip_field_def bind_o_eq_Ok Let_def split: if_splits
        dest: decode_varint_progress)
qed

function skip_loop :: "pbfile \<Rightarrow> bytes \<Rightarrow> int \<Rightarrow> int \<Rightarrow> int outcome" where
  "skip_loop pf dAtA iNdEx depth =
     (if iNdEx < int (length dAtA) then
        (case decode_varint pf dAtA iNdEx 0 (0 :: 64 word) of
           Ok (wire, i1) \<Rightarrow>
             (case skip_field pf dAtA (wire AND 7) i1 depth of
                Ok (i2, depth2) \<Rightarrow>
                  (if i2 < 0 then Err (ErrInvalidLength pf)
                   else if depth2 = 0 then Ok i2
                   else skip_loop pf dAtA i2 depth2)
              | Err e \<Rightarrow> Err e
              | Panic s \<Rightarrow> Panic s)
         | Err e \<Rightarrow> Err e
         | Panic s \<Rightarrow> Panic s)
      else Err ErrUnexpectedEOF)"
  by pat_completeness auto
termination
proof (relation "measure (\<lambda>(pf, dAtA, iNdEx, depth). nat (int (length dAtA) - iNdEx))")
  fix pf dAtA iNdEx depth wi and wire :: "64 word" and i1 id2 i2 depth2
  assume "iNdEx < int (length dAtA)" "decode_varint pf dAtA iNdEx 0 0 = Ok wi" "(wire, i1) = wi"
    "skip_field pf dAtA (wire AND 7) i1 depth = Ok id2" "(i2, depth2) = id2" "\<not> i2 < 0"
  then have "iNdEx < i1" "i1 \<le> i2"
    using decode_varint_progress [of pf dAtA iNdEx 0 0 wire i1]
      skip_field_progress [of pf dAtA "wire AND 7" i1 depth i2 depth2] by auto
  with \<open>iNdEx < int (length dAtA)\<close>
  show "((pf, dAtA, i2, depth2), (pf, dAtA, iNdEx, depth))
      \<in> measure (\<lambda>(pf, dAtA, iNdEx, depth). nat (int (length dAtA) - iNdEx))"
    by simp
qed auto

declare skip_loop.simps [simp del]

text \<open>\<open>skipTickets\<close>, \<open>skipTx\<close>, and the other five copies of the same function.\<close>

definition skip :: "pbfile \<Rightarrow> bytes \<Rightarrow> int outcome" where
  "skip pf dAtA = skip_loop pf dAtA 0 0"

lemma skip_loop_progress:
  "skip_loop pf dAtA i d = Ok j \<Longrightarrow> i < j \<and> 0 \<le> i"
proof (induction pf dAtA i d rule: skip_loop.induct)
  case (1 pf dAtA i d)
  from "1.prems" obtain wire i1 i2 d2 where
    lt: "i < int (length dAtA)" and dv: "decode_varint pf dAtA i 0 0 = Ok (wire :: 64 word, i1)"
    and sf: "skip_field pf dAtA (wire AND 7) i1 d = Ok (i2, d2)" and nn: "\<not> i2 < 0"
    and rest: "(d2 = 0 \<and> j = i2) \<or> (d2 \<noteq> 0 \<and> skip_loop pf dAtA i2 d2 = Ok j)"
    by (subst (asm) skip_loop.simps) (auto split: if_splits outcome.splits)
  have "0 \<le> i" "i < i1" "i1 \<le> i2"
    using decode_varint_progress [OF dv] skip_field_progress [OF sf] nn by auto
  then show ?case
    using rest "1.IH" [OF lt dv refl sf refl nn] by auto
qed

lemma skip_field_no_panic:
  "0 \<le> i \<Longrightarrow> length dAtA < 2 ^ 63 \<Longrightarrow> \<not> is_Panic (skip_field pf dAtA t i d)"
  using decode_varint_no_panic [of i dAtA pf 0 "0 :: 64 word"]
  by (auto simp: skip_field_def is_Panic_bind_o Let_def split: if_splits)

lemma skip_loop_no_panic:
  "0 \<le> i \<Longrightarrow> length dAtA < 2 ^ 63 \<Longrightarrow> \<not> is_Panic (skip_loop pf dAtA i d)"
proof (induction pf dAtA i d rule: skip_loop.induct)
  case (1 pf dAtA i d)
  show ?case
  proof (cases "decode_varint pf dAtA i 0 (0 :: 64 word)")
    case (Ok wi)
    obtain wire i1 where wi: "wi = (wire, i1)" by (cases wi)
    from decode_varint_progress Ok wi have i1: "0 \<le> i1" by fastforce
    show ?thesis
    proof (cases "skip_field pf dAtA (wire AND 7) i1 d")
      case ok2: (Ok id2)
      show ?thesis
        using "1.IH" [OF _ Ok wi [symmetric] ok2] "1.prems"(2)
        by (subst skip_loop.simps) (auto simp: Ok wi ok2 split: prod.splits)
    next
      case (Panic s)
      with skip_field_no_panic [OF i1 "1.prems"(2), of pf "wire AND 7" d] show ?thesis by simp
    qed (use "1.prems" Ok wi in \<open>subst skip_loop.simps, auto\<close>)
  next
    case (Panic s)
    with decode_varint_no_panic [OF "1.prems", of pf 0 "0 :: 64 word"] show ?thesis by simp
  qed (subst skip_loop.simps, auto)
qed

lemma skip_field_bound:
  "skip_field pf dAtA t i d = Ok (j, d') \<Longrightarrow> i \<le> 2 ^ 63 \<Longrightarrow> j \<le> 2 ^ 63"
  using go_int_bounds
  by (auto simp: skip_field_def bind_o_eq_Ok Let_def less_imp_le split: if_splits
      dest: decode_varint_progress)

lemma skip_loop_bound: "skip_loop pf dAtA i d = Ok j \<Longrightarrow> j \<le> 2 ^ 63"
proof (induction pf dAtA i d rule: skip_loop.induct)
  case (1 pf dAtA i d)
  from "1.prems" obtain wire i1 i2 d2 where
    lt: "i < int (length dAtA)" and dv: "decode_varint pf dAtA i 0 0 = Ok (wire :: 64 word, i1)"
    and sf: "skip_field pf dAtA (wire AND 7) i1 d = Ok (i2, d2)" and nn: "\<not> i2 < 0"
    and rest: "(d2 = 0 \<and> j = i2) \<or> (d2 \<noteq> 0 \<and> skip_loop pf dAtA i2 d2 = Ok j)"
    by (subst (asm) skip_loop.simps) (auto split: if_splits outcome.splits)
  from skip_field_bound [OF sf] decode_varint_progress [OF dv] have "i2 \<le> 2 ^ 63" by auto
  with rest "1.IH" [OF lt dv refl sf refl nn] show ?case by auto
qed

section \<open>The Unmarshal loop\<close>

text \<open>
  An \<open>Unmarshal\<close> method differs from the next only in its \<open>switch fieldNum\<close>: for each field
  number the wire type it wants and what it does with the payload. \<open>LenDelim\<close> is a string,
  an embedded message or a standard time (wire type 2), \<open>Varint\<close> an integer (wire type 0);
  the default case skips the field.
\<close>

datatype (dead 'm) field_case =
    LenDelim string "bytes \<Rightarrow> 'm \<Rightarrow> 'm outcome"
  | Varint string "64 word \<Rightarrow> 'm \<Rightarrow> 'm"

text \<open>The three kinds of length-delimited field: \<open>m.F = string(dAtA[iNdEx:postIndex])\<close>;
  \<open>m.F.Unmarshal(dAtA[iNdEx:postIndex])\<close>, which decodes into the value that \<open>m.F\<close> has;
  and \<open>StdTimeUnmarshal(&m.F, dAtA[iNdEx:postIndex])\<close>, which replaces it.\<close>

definition string_case :: "string \<Rightarrow> (string \<Rightarrow> 'm \<Rightarrow> 'm) \<Rightarrow> 'm field_case" where
  "string_case name put = LenDelim name (\<lambda>bs m. Ok (put (string_of bs) m))"

definition message_case ::
    "string \<Rightarrow> ('m \<Rightarrow> 'x) \<Rightarrow> ('x \<Rightarrow> 'm \<Rightarrow> 'm) \<Rightarrow> ('x \<Rightarrow> bytes \<Rightarrow> 'x outcome) \<Rightarrow> 'm field_case" where
  "message_case name get put unm =
     LenDelim name (\<lambda>bs m. bind_o (unm (get m) bs) (\<lambda>x. Ok (put x m)))"

definition std_case ::
    "string \<Rightarrow> ('x \<Rightarrow> 'm \<Rightarrow> 'm) \<Rightarrow> (bytes \<Rightarrow> 'x outcome) \<Rightarrow> 'm field_case" where
  "std_case name put unm = LenDelim name (\<lambda>bs m. bind_o (unm bs) (\<lambda>x. Ok (put x m)))"

type_synonym 'm fields = "int \<Rightarrow> 'm field_case option"

text \<open>\<open>sk\<close> is the \<open>skip\<close> function of the file, and \<open>keep\<close> what the default case does with the bytes of
  the field it has skipped: the methods of \<open>x/hal/types\<close> do nothing with them.\<close>

definition unmarshal_field ::
    "pbfile \<Rightarrow> (bytes \<Rightarrow> int outcome) \<Rightarrow> (bytes \<Rightarrow> 'm \<Rightarrow> 'm) \<Rightarrow> 'm fields \<Rightarrow> bytes \<Rightarrow> int \<Rightarrow> int \<Rightarrow> int \<Rightarrow>
      int \<Rightarrow> 'm \<Rightarrow> ('m \<times> int) outcome" where
  "unmarshal_field pf sk keep fields dAtA preIndex iNdEx fieldNum wireType m =
     (let l = int (length dAtA) in
      case fields fieldNum of
        Some (LenDelim name st) \<Rightarrow>
          (if wireType \<noteq> 2 then Err (WrongWireType wireType name)
           else bind_o (decode_varint pf dAtA iNdEx 0 (0 :: 64 word)) (\<lambda>(v, i).
             let msglen = sint v in
             if msglen < 0 then Err (ErrInvalidLength pf)
             else let postIndex = go_int (i + msglen) in
               if postIndex < 0 then Err (ErrInvalidLength pf)
               else if postIndex > l then Err ErrUnexpectedEOF
               else bind_o (slice dAtA i postIndex) (\<lambda>bs.
                 bind_o (st bs m) (\<lambda>m'. Ok (m', postIndex)))))
      | Some (Varint name st) \<Rightarrow>
          (if wireType \<noteq> 0 then Err (WrongWireType wireType name)
           else bind_o (decode_varint pf dAtA iNdEx 0 0) (\<lambda>(v, i). Ok (st v m, i)))
      | None \<Rightarrow>
          bind_o (slice dAtA preIndex l) (\<lambda>tl.
            bind_o (sk tl) (\<lambda>skippy.
              if skippy < 0 \<or> go_int (preIndex + skippy) < 0 then Err (ErrInvalidLength pf)
              else if go_int (preIndex + skippy) > l then Err ErrUnexpectedEOF
              else Ok (keep (take (nat skippy) tl) m, go_int (preIndex + skippy)))))"

definition wire_field :: "64 word \<Rightarrow> int" where
  "wire_field wire = sint (ucast (drop_bit 3 wire) :: 32 word)"

definition wire_type :: "64 word \<Rightarrow> int" where
  "wire_type wire = uint (wire AND 7)"

lemma unmarshal_field_progress:
  assumes "unmarshal_field pf (skip pf) keep fields dAtA pre i n t m = Ok (m', j)"
    and "0 \<le> pre" "pre < i" "pre < 2 ^ 63"
  shows "pre < j"
proof -
  have len: "pre < j" if "decode_varint pf dAtA i 0 0 = Ok (v :: 64 word, i')"
      "\<not> sint v < 0" "\<not> go_int (i' + sint v) < 0" "j = go_int (i' + sint v)" for v i'
    using that assms(3) go_int_add_ge [of i' "sint v"] decode_varint_progress [OF that(1)]
      sint_less [of v] by auto
  have sk: "pre < j" if "skip pf tl = Ok k" "\<not> go_int (pre + k) < 0" "j = go_int (pre + k)" for tl k
    using that assms(2,4) skip_loop_progress [of pf tl 0 0 k] skip_loop_bound [of pf tl 0 0 k]
      go_int_sum_nonneg [of k pre] by (auto simp: skip_def add.commute)
  show ?thesis
    using assms(1,3) len sk
    by (auto simp: unmarshal_field_def bind_o_eq_Ok Let_def not_less split: if_splits
        option.splits field_case.splits dest: decode_varint_progress)
qed

function unmarshal_loop ::
    "pbfile \<Rightarrow> string \<Rightarrow> (bytes \<Rightarrow> 'm \<Rightarrow> 'm) \<Rightarrow> 'm fields \<Rightarrow> bytes \<Rightarrow> int \<Rightarrow> 'm \<Rightarrow> 'm outcome" where
  "unmarshal_loop pf msg keep fields dAtA iNdEx m =
     (if iNdEx < int (length dAtA) then
        (case decode_varint pf dAtA iNdEx 0 (0 :: 64 word) of
           Ok (wire, i1) \<Rightarrow>
             (if wire_type wire = 4 then Err (EndGroupForNonGroup msg)
              else if wire_field wire \<le> 0 then Err (IllegalTag msg (wire_field wire) wire)
              else case unmarshal_field pf (skip pf) keep fields dAtA iNdEx i1 (wire_field wire) (wire_type wire) m of
                Ok (m', i2) \<Rightarrow> unmarshal_loop pf msg keep fields dAtA i2 m'
              | Err e \<Rightarrow> Err e
              | Panic s \<Rightarrow> Panic s)
         | Err e \<Rightarrow> Err e
         | Panic s \<Rightarrow> Panic s)
      else if iNdEx > int (length dAtA) then Err ErrUnexpectedEOF
      else Ok m)"
  by pat_completeness auto
termination
proof (relation "measure (\<lambda>(pf, msg, keep, fields, dAtA, iNdEx, m). nat (int (length dAtA) - iNdEx))")
  fix pf msg and keep :: "bytes \<Rightarrow> 'm \<Rightarrow> 'm" and fields :: "'m fields" and dAtA iNdEx m wi and wire :: "64 word" and i1 mi m' i2
  assume lt: "iNdEx < int (length dAtA)" and "decode_varint pf dAtA iNdEx 0 0 = Ok wi"
    "(wire, i1) = wi"
    and uf: "unmarshal_field pf (skip pf) keep fields dAtA iNdEx i1 (wire_field wire) (wire_type wire) m = Ok mi"
    "(m', i2) = mi"
  then have "0 \<le> iNdEx" "iNdEx < i1" "i1 \<le> 2 ^ 63"
    using decode_varint_progress [of pf dAtA iNdEx 0 0 wire i1] by auto
  then have "iNdEx < i2"
    using unmarshal_field_progress [of pf keep fields dAtA iNdEx i1 _ _ m m' i2] uf by auto
  with lt show "((pf, msg, keep, fields, dAtA, i2, m'), (pf, msg, keep, fields, dAtA, iNdEx, m))
      \<in> measure (\<lambda>(pf, msg, keep, fields, dAtA, iNdEx, m). nat (int (length dAtA) - iNdEx))"
    by simp
qed auto

declare unmarshal_loop.simps [simp del]

text \<open>A method call \<open>m.Unmarshal(dAtA)\<close>: it decodes into \<open>m\<close>, keeping the fields of \<open>m\<close> that
  do not occur in the input.\<close>

definition unmarshal :: "pbfile \<Rightarrow> string \<Rightarrow> 'm fields \<Rightarrow> 'm \<Rightarrow> bytes \<Rightarrow> 'm outcome" where
  "unmarshal pf msg fields m dAtA = unmarshal_loop pf msg (\<lambda>_ m. m) fields dAtA 0 m"

section \<open>Decoding does not panic\<close>

text \<open>A table of fields is safe when no payload makes its own decoder panic.\<close>

definition safe_fields :: "'m fields \<Rightarrow> bool" where
  "safe_fields fields \<longleftrightarrow>
     (\<forall>n name st. fields n = Some (LenDelim name st) \<longrightarrow>
        (\<forall>bs m. length bs < 2 ^ 63 \<longrightarrow> \<not> is_Panic (st bs m)))"

text \<open>The same, one field at a time.\<close>

fun safe_case :: "'m field_case \<Rightarrow> bool" where
  "safe_case (LenDelim name st) = (\<forall>bs m. length bs < 2 ^ 63 \<longrightarrow> \<not> is_Panic (st bs m))"
| "safe_case (Varint name st) = True"

lemma safe_fieldsI: "(\<And>n c. fields n = Some c \<Longrightarrow> safe_case c) \<Longrightarrow> safe_fields fields"
  unfolding safe_fields_def by fastforce

lemma safe_string_case [simp]: "safe_case (string_case name put)"
  by (simp add: string_case_def)

lemma safe_message_case:
  "(\<And>x bs. length bs < 2 ^ 63 \<Longrightarrow> \<not> is_Panic (unm x bs)) \<Longrightarrow> safe_case (message_case name get put unm)"
  by (auto simp: message_case_def is_Panic_bind_o)

lemma safe_std_case:
  "(\<And>bs. length bs < 2 ^ 63 \<Longrightarrow> \<not> is_Panic (unm bs)) \<Longrightarrow> safe_case (std_case name put unm)"
  by (auto simp: std_case_def is_Panic_bind_o)

lemma slice_Ok: "0 \<le> lo \<Longrightarrow> lo \<le> hi \<Longrightarrow> hi \<le> int (length dAtA) \<Longrightarrow>
    slice dAtA lo hi = Ok (take (nat (hi - lo)) (drop (nat lo) dAtA))"
  by (simp add: slice_def)

lemma slice_length: "slice dAtA lo hi = Ok bs \<Longrightarrow> length bs \<le> length dAtA"
  by (auto simp: slice_def split: if_splits)

lemma unmarshal_field_no_panic:
  assumes safe: "safe_fields fields" and len: "length dAtA < 2 ^ 63"
    and i: "0 \<le> pre" "pre \<le> int (length dAtA)" "0 \<le> i"
  shows "\<not> is_Panic (unmarshal_field pf (skip pf) keep fields dAtA pre i n t m)"
proof -
  note dv = decode_varint_no_panic [OF i(3) len]
  have sl: "\<not> is_Panic (slice dAtA i' (go_int (i' + sint v)))"
    if "decode_varint pf dAtA i 0 0 = Ok (v :: 64 word, i')" "\<not> sint v < 0"
      "\<not> go_int (i' + sint v) < 0" "\<not> int (length dAtA) < go_int (i' + sint v)" for v i'
    using that go_int_add_ge [of i' "sint v"] decode_varint_progress [OF that(1)] sint_less [of v]
    by (simp add: slice_def)
  have sk: "\<not> is_Panic (skip pf tl)" if "slice dAtA pre (int (length dAtA)) = Ok tl" for tl
    using skip_loop_no_panic [of 0 tl] slice_length [OF that] len by (simp add: skip_def)
  show ?thesis
    using safe len sl sk i
    by (auto simp: unmarshal_field_def is_Panic_bind_o Let_def dv slice_Ok safe_fields_def
        dest!: slice_length split: option.splits field_case.splits)
qed

lemma unmarshal_loop_no_panic:
  assumes "safe_fields fields" "length dAtA < 2 ^ 63" "0 \<le> i"
  shows "\<not> is_Panic (unmarshal_loop pf msg keep fields dAtA i m)"
  using assms
proof (induction pf msg keep fields dAtA i m rule: unmarshal_loop.induct)
  case (1 pf msg keep fields dAtA i m)
  note dv = decode_varint_no_panic [OF "1.prems"(3,2), of pf 0 "0 :: 64 word"]
  show ?case
  proof (cases "decode_varint pf dAtA i 0 (0 :: 64 word)")
    case (Ok wi)
    obtain wire i1 where wi: "wi = (wire, i1)" by (cases wi)
    note pr = decode_varint_progress [OF Ok [unfolded wi]]
    note uf = unmarshal_field_no_panic [OF "1.prems"(1,2), of i i1 pf keep "wire_field wire" "wire_type wire" m]
    show ?thesis
    proof (cases "unmarshal_field pf (skip pf) keep fields dAtA i i1 (wire_field wire) (wire_type wire) m")
      case ok2: (Ok mi)
      then have "i < snd mi"
        using unmarshal_field_progress [of pf keep fields dAtA i i1 _ _ m "fst mi" "snd mi"] pr by simp
      with "1.prems" ok2 show ?thesis
        using "1.IH" [OF _ Ok wi [symmetric] _ _ ok2]
        by (subst unmarshal_loop.simps) (auto simp: Ok wi ok2 split: prod.splits)
    qed (use pr uf in \<open>subst unmarshal_loop.simps, auto simp: Ok wi\<close>)+
  qed (use dv in \<open>subst unmarshal_loop.simps, auto\<close>)+
qed

lemma unmarshal_no_panic:
  "safe_fields fields \<Longrightarrow> length dAtA < 2 ^ 63 \<Longrightarrow> \<not> is_Panic (unmarshal pf msg fields m dAtA)"
  by (simp add: unmarshal_def unmarshal_loop_no_panic)

end
