(* ===== verification/Wire_Encode.thy ===== *)
theory Wire_Encode
  imports Hal_Prelude Wire_Decode
begin

text \<open>
  The encoding half of the generated protobuf code. The methods \<open>MarshalToSizedBuffer\<close> fill a
  buffer from its end to its start; here they are writers on a buffer and an index. A
  forward encoding of each kind of field is the reference, and a writer is shown to write
  exactly that encoding just before the index and nothing else (\<open>writes\<close>), so that the size
  a \<open>Size\<close> method computes is the space that is filled.
\<close>

section \<open>Sizes of varints\<close>

text \<open>\<open>math/bits.Len64\<close>: the number of bits needed for a value.\<close>

fun bit_len :: "nat \<Rightarrow> nat" where
  "bit_len n = (if n = 0 then 0 else Suc (bit_len (n div 2)))"

declare bit_len.simps [simp del]

definition Len64 :: "64 word \<Rightarrow> int" where
  "Len64 x = int (bit_len (unat x))"

text \<open>\<open>sovTickets\<close>, \<open>sovTx\<close> and so on; \<open>sozTickets\<close> for zigzag values.\<close>

definition sov :: "64 word \<Rightarrow> int" where
  "sov x = (Len64 (x OR 1) + 6) div 7"

definition soz :: "64 word \<Rightarrow> int" where
  "soz x = sov (push_bit 1 x XOR signed_drop_bit 63 x)"

section \<open>Writing into a buffer\<close>

definition store :: "bytes \<Rightarrow> int \<Rightarrow> byte \<Rightarrow> bytes outcome" where
  "store dAtA i b =
     (if 0 \<le> i \<and> i < int (length dAtA) then Ok (dAtA[nat i := b])
      else Panic ''index out of range'')"

function encode_varint_loop :: "bytes \<Rightarrow> int \<Rightarrow> 64 word \<Rightarrow> bytes outcome" where
  "encode_varint_loop dAtA offset v =
     (if v \<ge> 0x80 then
        bind_o (store dAtA offset (ucast (v AND 0x7f OR 0x80))) (\<lambda>d.
          encode_varint_loop d (offset + 1) (drop_bit 7 v))
      else store dAtA offset (ucast v))"
  by pat_completeness auto

lemma unat_drop_bit_7: "unat (drop_bit 7 (v :: 64 word)) = unat v div 128"
proof -
  have "unat v < 2 ^ LENGTH(64)"
    by (rule unsigned_less)
  then have "unat (drop_bit 7 v) = drop_bit 7 (unat v)"
    by (simp add: unsigned_drop_bit_eq take_bit_nat_eq_self)
  then show ?thesis
    by (simp only: drop_bit_eq_div) simp
qed

termination encode_varint_loop
proof (relation "measure (\<lambda>(dAtA, offset, v). unat v)")
  fix dAtA offset and v :: "64 word" and d
  assume "v \<ge> 0x80"
  then have "unat v \<ge> 0x80"
    by (simp add: word_le_nat_alt)
  then show "((d, offset + 1, drop_bit 7 v), (dAtA, offset, v)) \<in> measure (\<lambda>(dAtA, offset, v). unat v)"
    by (simp add: unat_drop_bit_7)
qed simp

declare encode_varint_loop.simps [simp del]

text \<open>\<open>encodeVarintTickets\<close>, \<open>encodeVarintTx\<close> and so on: the new buffer and \<open>base\<close>.\<close>

definition encodeVarint :: "bytes \<Rightarrow> int \<Rightarrow> 64 word \<Rightarrow> (bytes \<times> int) outcome" where
  "encodeVarint dAtA offset v =
     (let base = offset - sov v
      in bind_o (encode_varint_loop dAtA base v) (\<lambda>d. Ok (d, base)))"

text \<open>A writer takes the buffer and the index \<open>i\<close> of a \<open>MarshalToSizedBuffer\<close> method.\<close>

type_synonym wr = "bytes \<times> int \<Rightarrow> (bytes \<times> int) outcome"

definition then_w :: "wr \<Rightarrow> wr \<Rightarrow> wr" where
  "then_w w1 w2 = (\<lambda>s. bind_o (w1 s) w2)"

definition skip_w :: wr where
  "skip_w = (\<lambda>s. Ok s)"

definition when_w :: "bool \<Rightarrow> wr \<Rightarrow> wr" where
  "when_w c w = (\<lambda>s. if c then w s else Ok s)"

text \<open>\<open>i -= len(s); copy(dAtA[i:], s)\<close>\<close>

definition put_bytes :: "bytes \<Rightarrow> wr" where
  "put_bytes s = (\<lambda>(dAtA, i).
     let i' = i - int (length s)
     in bind_o (slice dAtA i' (int (length dAtA))) (\<lambda>dst.
          let k = min (length dst) (length s)
          in Ok (take (nat i') dAtA @ take k s @ drop k dst, i')))"

text \<open>\<open>i--; dAtA[i] = b\<close>\<close>

definition put_byte :: "byte \<Rightarrow> wr" where
  "put_byte b = (\<lambda>(dAtA, i). bind_o (store dAtA (i - 1) b) (\<lambda>d. Ok (d, i - 1)))"

text \<open>\<open>i = encodeVarint(dAtA, i, v)\<close>\<close>

definition put_varint :: "64 word \<Rightarrow> wr" where
  "put_varint v = (\<lambda>(dAtA, i). encodeVarint dAtA i v)"

text \<open>\<open>size, err := x.MarshalToSizedBuffer(dAtA[:i]); i -= size; i = encodeVarint(dAtA, i, uint64(size))\<close>;
  the callee writes through the slice, so its bytes are the first \<open>i\<close> bytes of the buffer.\<close>

definition put_message :: "(bytes \<Rightarrow> (bytes \<times> int) outcome) \<Rightarrow> wr" where
  "put_message marshalToSizedBuffer = (\<lambda>(dAtA, i).
     bind_o (slice dAtA 0 i) (\<lambda>buf.
     bind_o (marshalToSizedBuffer buf) (\<lambda>(buf', sz).
       encodeVarint (buf' @ drop (nat i) dAtA) (i - sz) (word_of_int sz))))"

text \<open>\<open>n, err := StdTimeMarshalTo(t, dAtA[i-SizeOfStdTime(t):]); i -= n; i = encodeVarint(dAtA, i, uint64(n))\<close>\<close>

definition put_std :: "int \<Rightarrow> (bytes \<Rightarrow> (bytes \<times> int) outcome) \<Rightarrow> wr" where
  "put_std sz marshalTo = (\<lambda>(dAtA, i).
     bind_o (slice dAtA (i - sz) (int (length dAtA))) (\<lambda>buf.
     bind_o (marshalTo buf) (\<lambda>(buf', n).
       encodeVarint (take (nat (i - sz)) dAtA @ buf') (i - n) (word_of_int n))))"

text \<open>A string field: \<open>if len(s) > 0 { ... dAtA[i] = tag }\<close>; an integer field; an embedded
  message; a standard time or duration.\<close>

definition put_string_field :: "byte \<Rightarrow> string \<Rightarrow> wr" where
  "put_string_field tag s = when_w (s \<noteq> [])
     (then_w (put_bytes (bytes_of s))
       (then_w (put_varint (word_of_nat (length s))) (put_byte tag)))"

definition put_varint_field :: "byte \<Rightarrow> 64 word \<Rightarrow> wr" where
  "put_varint_field tag v = when_w (v \<noteq> 0) (then_w (put_varint v) (put_byte tag))"

definition put_message_field :: "byte \<Rightarrow> (bytes \<Rightarrow> (bytes \<times> int) outcome) \<Rightarrow> wr" where
  "put_message_field tag f = then_w (put_message f) (put_byte tag)"

definition put_std_field :: "byte \<Rightarrow> int \<Rightarrow> (bytes \<Rightarrow> (bytes \<times> int) outcome) \<Rightarrow> wr" where
  "put_std_field tag sz f = then_w (put_std sz f) (put_byte tag)"

text \<open>\<open>MarshalToSizedBuffer\<close> around its body: it starts at \<open>i := len(dAtA)\<close> and returns
  \<open>len(dAtA) - i\<close>.\<close>

definition to_sized_buffer :: "wr \<Rightarrow> bytes \<Rightarrow> (bytes \<times> int) outcome" where
  "to_sized_buffer body dAtA =
     bind_o (body (dAtA, int (length dAtA))) (\<lambda>(d, i). Ok (d, int (length dAtA) - i))"

text \<open>\<open>Marshal\<close>: \<open>make([]byte, size)\<close>, fill it, return \<open>dAtA[:n]\<close>.\<close>

definition marshal :: "int \<Rightarrow> (bytes \<Rightarrow> (bytes \<times> int) outcome) \<Rightarrow> bytes outcome" where
  "marshal sz toSizedBuffer =
     (if sz < 0 then Panic ''makeslice: len out of range''
      else bind_o (toSizedBuffer (replicate (nat sz) 0)) (\<lambda>(d, n). slice d 0 n))"

text \<open>\<open>MarshalTo\<close>: fill \<open>dAtA[:size]\<close>.\<close>

definition marshalTo :: "int \<Rightarrow> (bytes \<Rightarrow> (bytes \<times> int) outcome) \<Rightarrow> bytes \<Rightarrow> (bytes \<times> int) outcome" where
  "marshalTo sz toSizedBuffer dAtA =
     bind_o (slice dAtA 0 sz) (\<lambda>buf.
     bind_o (toSizedBuffer buf) (\<lambda>(buf', n). Ok (buf' @ drop (nat sz) dAtA, n)))"

section \<open>Reference encodings\<close>

function enc_varint :: "64 word \<Rightarrow> bytes" where
  "enc_varint v =
     (if v \<ge> 0x80 then ucast (v AND 0x7f OR 0x80) # enc_varint (drop_bit 7 v) else [ucast v])"
  by pat_completeness auto
termination
proof (relation "measure unat")
  fix v :: "64 word"
  assume "v \<ge> 0x80"
  then have "unat v \<ge> 0x80"
    by (simp add: word_le_nat_alt)
  then show "(drop_bit 7 v, v) \<in> measure unat"
    by (simp add: unat_drop_bit_7)
qed simp

declare enc_varint.simps [simp del]

lemma enc_varint_Cons:
  "v \<ge> 0x80 \<Longrightarrow> enc_varint v = ucast (v AND 0x7f OR 0x80) # enc_varint (drop_bit 7 v)"
  by (subst enc_varint.simps) (rule if_P)

lemma enc_varint_single: "v < 0x80 \<Longrightarrow> enc_varint v = [ucast v]"
  by (subst enc_varint.simps) (rule if_not_P, simp)

text \<open>A length-delimited field, and the fields that proto3 leaves out when they are zero.\<close>

definition enc_len :: "byte \<Rightarrow> bytes \<Rightarrow> bytes" where
  "enc_len tag bs = tag # enc_varint (word_of_nat (length bs)) @ bs"

definition enc_string_field :: "byte \<Rightarrow> string \<Rightarrow> bytes" where
  "enc_string_field tag s = (if s = [] then [] else enc_len tag (bytes_of s))"

definition enc_varint_field :: "byte \<Rightarrow> 64 word \<Rightarrow> bytes" where
  "enc_varint_field tag v = (if v = 0 then [] else tag # enc_varint v)"

section \<open>The size of a varint\<close>

lemma bit_len_Suc: "0 < m \<Longrightarrow> bit_len m = Suc (bit_len (m div 2))"
  by (subst bit_len.simps) simp

lemma bit_len_double_div: "2 * k \<le> n \<Longrightarrow> 0 < k \<Longrightarrow> bit_len n = Suc (bit_len (n div 2)) \<and> k \<le> n div 2"
  using bit_len_Suc [of n] by auto

lemma bit_len_ge_128: "n \<ge> 128 \<Longrightarrow> bit_len n = 7 + bit_len (n div 128)"
proof -
  assume n: "n \<ge> 128"
  note h = bit_len_double_div
  from h [of 64 n] h [of 32 "n div 2"] h [of 16 "n div 4"] h [of 8 "n div 8"] h [of 4 "n div 16"]
    h [of 2 "n div 32"] h [of 1 "n div 64"] n
  show ?thesis
    by (simp add: div_mult2_eq [symmetric])
qed

lemma bit_len_less_power: "n < 2 ^ k \<Longrightarrow> bit_len n \<le> k"
proof (induction k arbitrary: n)
  case 0
  then show ?case by (simp add: bit_len.simps)
next
  case (Suc k)
  then have "bit_len (n div 2) \<le> k" by (intro Suc.IH) simp
  then show ?case by (subst bit_len.simps) simp
qed

lemma bit_len_or_1: "bit_len (n OR 1) = Suc (bit_len (n div 2))"
proof -
  have "n OR 1 \<noteq> 0" and "(n OR 1) div 2 = n div 2"
    by (auto simp: or_Suc_0_eq odd_pos)
  then show ?thesis by (subst bit_len.simps) simp
qed

lemma Len64_or_1: "Len64 (x OR 1) = 1 + int (bit_len (unat x div 2))"
  using bit_len_or_1 [of "unat x"] by (simp add: Len64_def unsigned_or_eq)

lemma sov_pos: "0 < sov v"
  by (simp add: sov_def Len64_or_1)

lemma length_enc_varint [size_simps]: "int (length (enc_varint v)) = sov v"
proof (induction v rule: enc_varint.induct)
  have carry: "(7 + x + 6) div 7 = 1 + (x + 6) div 7" for x :: int
    by presburger
  case (1 v)
  show ?case
  proof (cases "v \<ge> 0x80")
    case True
    then have v: "unat v \<ge> 128"
      by (simp add: word_le_nat_alt)
    then have "bit_len (unat v) = 7 + bit_len (unat v div 128)"
      by (rule bit_len_ge_128)
    moreover from v have "bit_len (unat v) = Suc (bit_len (unat v div 2))"
      and "bit_len (unat v div 128) = Suc (bit_len (unat v div 128 div 2))"
      using bit_len_Suc [of "unat v"] bit_len_Suc [of "unat v div 128"] by auto
    ultimately have "bit_len (unat v div 2) = 7 + bit_len (unat v div 128 div 2)"
      by simp
    then have "Len64 (v OR 1) = 7 + Len64 (drop_bit 7 v OR 1)"
      by (simp add: Len64_or_1 unat_drop_bit_7)
    then have "sov v = 1 + sov (drop_bit 7 v)"
      by (simp add: sov_def carry)
    moreover from True have "enc_varint v = ucast (v AND 0x7f OR 0x80) # enc_varint (drop_bit 7 v)"
      by (rule enc_varint_Cons)
    ultimately show ?thesis
      using 1 [OF True] by simp
  next
    case False
    then have v: "unat v < 128"
      by (simp add: word_le_nat_alt)
    then have "bit_len (unat v div 2) \<le> 6"
      by (intro bit_len_less_power) simp
    moreover from False have "enc_varint v = [ucast v]"
      by (intro enc_varint_single) simp
    ultimately show ?thesis
      by (simp add: sov_def Len64_or_1)
  qed
qed

section \<open>What the writers write\<close>

text \<open>With enough room before the index, the writer puts \<open>xs\<close> just before it, keeps all other
  bytes, and moves the index to the start of \<open>xs\<close>.\<close>

definition writes :: "wr \<Rightarrow> bytes \<Rightarrow> bool" where
  "writes w xs \<longleftrightarrow> (\<forall>pre gap post. length gap = length xs \<longrightarrow>
     w (pre @ gap @ post, int (length (pre @ gap))) = Ok (pre @ xs @ post, int (length pre)))"

text \<open>A method that fills the end of the buffer it is given.\<close>

definition fills :: "(bytes \<Rightarrow> (bytes \<times> int) outcome) \<Rightarrow> bytes \<Rightarrow> bool" where
  "fills f xs \<longleftrightarrow> (\<forall>pre gap. length gap = length xs \<longrightarrow>
     f (pre @ gap) = Ok (pre @ xs, int (length xs)))"

text \<open>A method that fills the start of the buffer it is given.\<close>

definition fills_front :: "(bytes \<Rightarrow> (bytes \<times> int) outcome) \<Rightarrow> bytes \<Rightarrow> bool" where
  "fills_front f xs \<longleftrightarrow> (\<forall>gap post. length gap = length xs \<longrightarrow>
     f (gap @ post) = Ok (xs @ post, int (length xs)))"

lemma writesD:
  "writes w xs \<Longrightarrow> length gap = length xs \<Longrightarrow> n = int (length pre + length xs) \<Longrightarrow>
     w (pre @ gap @ post, n) = Ok (pre @ xs @ post, int (length pre))"
  by (simp add: writes_def)

lemma writes_then [writes_intro]:
  assumes "writes w1 xs" "writes w2 ys"
  shows "writes (then_w w1 w2) (ys @ xs)"
  unfolding writes_def
proof (intro allI impI)
  fix pre gap post :: bytes
  assume len: "length gap = length (ys @ xs)"
  define g1 g2 where "g1 = take (length ys) gap" and "g2 = drop (length ys) gap"
  have gap: "gap = g1 @ g2" and l: "length g1 = length ys" "length g2 = length xs"
    using len by (simp_all add: g1_def g2_def)
  have "w1 (pre @ gap @ post, int (length (pre @ gap)))
      = Ok ((pre @ g1) @ xs @ post, int (length (pre @ g1)))"
    using writesD [OF assms(1) l(2), of _ "pre @ g1" post] by (simp add: gap l add.assoc)
  moreover have "w2 (pre @ g1 @ (xs @ post), int (length (pre @ g1)))
      = Ok (pre @ ys @ (xs @ post), int (length pre))"
    using writesD [OF assms(2) l(1)] by (simp add: l)
  ultimately show "then_w w1 w2 (pre @ gap @ post, int (length (pre @ gap)))
      = Ok (pre @ (ys @ xs) @ post, int (length pre))"
    by (simp add: then_w_def)
qed

lemma writes_when [writes_intro]:
  "writes w xs \<Longrightarrow> writes (when_w c w) (if c then xs else [])"
  by (auto simp: writes_def when_w_def)

lemma writes_skip: "writes skip_w []"
  by (simp add: writes_def skip_w_def)

lemma writes_put_byte [writes_intro]: "writes (put_byte b) [b]"
  by (auto simp: writes_def put_byte_def store_def length_Suc_conv list_update_append nth_append
      nat_add_distrib)

lemma writes_put_bytes [writes_intro]: "writes (put_bytes s) s"
  by (auto simp: writes_def put_bytes_def slice_def Let_def)

lemma encode_varint_loop_writes:
  "length gap = length (enc_varint v) \<Longrightarrow>
     encode_varint_loop (pre @ gap @ post) (int (length pre)) v = Ok (pre @ enc_varint v @ post)"
proof (induction v arbitrary: pre gap rule: enc_varint.induct)
  case (1 v)
  have "gap \<noteq> []"
    using "1.prems" length_enc_varint [of v] sov_pos [of v] by auto
  then obtain g gs where gap: "gap = g # gs"
    by (cases gap) auto
  have st: "store (pre @ gap @ post) (int (length pre)) b = Ok ((pre @ [b]) @ gs @ post)" for b
    by (simp add: store_def gap)
  show ?case
  proof (cases "v \<ge> 0x80")
    case True
    from "1.prems" enc_varint_Cons [OF True] gap
    have "length gs = length (enc_varint (drop_bit 7 v))" by simp
    from "1.IH" [OF True this, of "pre @ [ucast (v AND 0x7f OR 0x80)]"] show ?thesis
      using True
      by (subst encode_varint_loop.simps) (simp add: st enc_varint_Cons [OF True] add.commute)
  next
    case False
    then have s: "enc_varint v = [ucast v]" by (intro enc_varint_single) simp
    with "1.prems" gap have "gs = []" by simp
    with False s show ?thesis
      by (subst encode_varint_loop.simps) (simp add: st)
  qed
qed

lemma encodeVarint_writes:
  "length gap = length (enc_varint v) \<Longrightarrow> n = int (length pre + length gap) \<Longrightarrow>
     encodeVarint (pre @ gap @ post) n v = Ok (pre @ enc_varint v @ post, int (length pre))"
  by (simp add: encodeVarint_def Let_def length_enc_varint [symmetric] encode_varint_loop_writes)

lemma writes_put_varint [writes_intro]: "writes (put_varint v) (enc_varint v)"
  by (simp add: writes_def put_varint_def encodeVarint_writes)

text \<open>An embedded message or a standard value is preceded by its length.\<close>

lemma split_gap:
  assumes "length gap = length (ys @ xs)"
  obtains g1 g2 where "gap = g1 @ g2" "length g1 = length ys" "length g2 = length xs"
  using assms by (metis add_diff_cancel_left' append_take_drop_id length_append length_drop
      length_take min.absorb2 le_add1)

lemma writes_put_message [writes_intro]:
  assumes "fills f xs"
  shows "writes (put_message f) (enc_varint (word_of_nat (length xs)) @ xs)"
  unfolding writes_def
proof (intro allI impI)
  fix pre gap post :: bytes
  let ?v = "word_of_nat (length xs) :: 64 word"
  assume "length gap = length (enc_varint ?v @ xs)"
  then obtain g1 g2 where gap: "gap = g1 @ g2" "length g1 = length (enc_varint ?v)"
      "length g2 = length xs" by (rule split_gap)
  have "f (pre @ gap) = Ok (pre @ g1 @ xs, int (length xs))"
    using assms [unfolded fills_def, rule_format, OF gap(3), of "pre @ g1"] gap by simp
  then show "put_message f (pre @ gap @ post, int (length (pre @ gap)))
      = Ok (pre @ (enc_varint ?v @ xs) @ post, int (length pre))"
    using encodeVarint_writes [OF gap(2) refl, of pre "xs @ post"] gap
    by (simp add: put_message_def slice_def)
qed

lemma writes_put_std [writes_intro]:
  assumes "fills_front f xs" "n = int (length xs)"
  shows "writes (put_std n f) (enc_varint (word_of_nat (length xs)) @ xs)"
  unfolding writes_def
proof (intro allI impI)
  fix pre gap post :: bytes
  let ?v = "word_of_nat (length xs) :: 64 word"
  assume "length gap = length (enc_varint ?v @ xs)"
  then obtain g1 g2 where gap: "gap = g1 @ g2" "length g1 = length (enc_varint ?v)"
      "length g2 = length xs" by (rule split_gap)
  have "f (g2 @ post) = Ok (xs @ post, int (length xs))"
    using assms(1) gap(3) by (simp add: fills_front_def)
  then show "put_std n f (pre @ gap @ post, int (length (pre @ gap)))
      = Ok (pre @ (enc_varint ?v @ xs) @ post, int (length pre))"
    using encodeVarint_writes [OF gap(2) refl, of pre "xs @ post"] gap assms(2)
    by (simp add: put_std_def slice_def nat_add_distrib)
qed

section \<open>Whole messages\<close>

lemma writes_string_field [writes_intro]:
  "writes (put_string_field tag s) (enc_string_field tag s)"
proof -
  have "writes (put_string_field tag s)
      (if s \<noteq> [] then (([tag] @ enc_varint (word_of_nat (length s))) @ bytes_of s) else [])"
    unfolding put_string_field_def by (intro writes_intro)
  moreover have "(if s \<noteq> [] then (([tag] @ enc_varint (word_of_nat (length s))) @ bytes_of s) else [])
      = enc_string_field tag s"
    by (simp add: enc_string_field_def enc_len_def)
  ultimately show ?thesis by simp
qed

lemma writes_varint_field [writes_intro]:
  "writes (put_varint_field tag v) (enc_varint_field tag v)"
proof -
  have "writes (put_varint_field tag v) (if v \<noteq> 0 then [tag] @ enc_varint v else [])"
    unfolding put_varint_field_def by (intro writes_intro)
  moreover have "(if v \<noteq> 0 then [tag] @ enc_varint v else []) = enc_varint_field tag v"
    by (simp add: enc_varint_field_def)
  ultimately show ?thesis by simp
qed

lemma writes_message_field [writes_intro]:
  assumes "fills f xs"
  shows "writes (put_message_field tag f) (enc_len tag xs)"
proof -
  have "writes (put_message_field tag f) ([tag] @ enc_varint (word_of_nat (length xs)) @ xs)"
    unfolding put_message_field_def using assms by (intro writes_intro)
  then show ?thesis by (simp add: enc_len_def)
qed

lemma writes_std_field [writes_intro]:
  assumes "fills_front f xs" "n = int (length xs)"
  shows "writes (put_std_field tag n f) (enc_len tag xs)"
proof -
  have "writes (put_std_field tag n f) ([tag] @ enc_varint (word_of_nat (length xs)) @ xs)"
    unfolding put_std_field_def using assms by (intro writes_intro)
  then show ?thesis by (simp add: enc_len_def)
qed

lemma fills_to_sized_buffer: "writes w xs \<Longrightarrow> fills (to_sized_buffer w) xs"
  using writesD [of w xs _ _ _ "[]"] by (auto simp: fills_def to_sized_buffer_def)

lemma fillsD: "fills f xs \<Longrightarrow> length gap = length xs \<Longrightarrow> f gap = Ok (xs, int (length xs))"
  unfolding fills_def by (metis append_Nil)

lemma marshal_fills: "fills f xs \<Longrightarrow> n = int (length xs) \<Longrightarrow> marshal n f = Ok xs"
  by (simp add: marshal_def slice_def fillsD)

lemma marshalTo_fills:
  "fills f xs \<Longrightarrow> n = int (length xs) \<Longrightarrow> length xs \<le> length dAtA \<Longrightarrow>
     marshalTo n f dAtA = Ok (xs @ drop (length xs) dAtA, n)"
  by (simp add: marshalTo_def slice_def fillsD)

text \<open>Sizes of the reference encodings, in the form the \<open>Size\<close> methods compute them.\<close>

lemma length_enc_len [size_simps]:
  "int (length (enc_len tag bs)) = 1 + int (length bs) + sov (word_of_nat (length bs))"
  by (simp add: enc_len_def length_enc_varint)

lemma length_enc_string_field [size_simps]:
  "int (length (enc_string_field tag s)) =
     (if int (length s) > 0 then 1 + int (length s) + sov (word_of_nat (length s)) else 0)"
  by (simp add: enc_string_field_def length_enc_len)

lemma length_enc_varint_field [size_simps]:
  "int (length (enc_varint_field tag v)) = (if v \<noteq> 0 then 1 + sov v else 0)"
  by (simp add: enc_varint_field_def length_enc_varint)

end
