(* ===== verification/Wire_Roundtrip.thy ===== *)
theory Wire_Roundtrip
  imports Wire_Decode Wire_Encode
begin

text \<open>
  What the decoder does on the reference encodings: a varint is read back, a field of a known
  number updates the message, a field of an unknown number is skipped. Each step lemma
  consumes one encoded field at the head of the remaining input, so that the round trip of
  a message is a chain of rewrites over its fields.
\<close>

section \<open>Bits of a varint byte\<close>

lemma and_7f: "(x :: 'a::len word) AND 0x7f = take_bit 7 x"
  by (simp add: take_bit_eq_mask mask_eq_exp_minus_1)

lemma bit_128: "bit (0x80 :: 'a::len word) n \<longleftrightarrow> n = 7 \<and> 7 < LENGTH('a)"
  using bit_exp_iff [of 7 n, where 'a = "'a word"] by auto

lemma bit_128_int: "bit (0x80 :: int) n \<longleftrightarrow> n = 7"
  using bit_exp_iff [of 7 n, where 'a = int] by auto

lemma less_128_iff: "(x :: 'a::len word) < 0x80 \<longleftrightarrow> take_bit 7 x = x" if "7 < LENGTH('a)"
proof -
  have "unat x < 128 \<longleftrightarrow> take_bit 7 (unat x) = unat x"
    by (simp add: take_bit_nat_eq_self_iff)
  moreover have "unat (0x80 :: 'a word) = 128"
    using that power_increasing [of 8 "LENGTH('a)" "2::nat"]
    by (simp add: unat_numeral take_bit_nat_eq_self)
  ultimately show ?thesis
    by (simp add: word_less_nat_alt unsigned_take_bit_eq [symmetric] word_unat_eq_iff)
qed

lemma continuation_payload:
  "(ucast (ucast (u AND 0x7f OR 0x80 :: 64 word) AND 0x7f :: byte) :: 64 word) = take_bit 7 u"
  unfolding and_7f by (rule bit_eqI) (auto simp: bit_simps bit_128 bit_128_int)

lemma continuation_bit: "\<not> (ucast (u AND 0x7f OR 0x80 :: 64 word) < (0x80 :: byte))"
proof -
  have "bit (ucast (u AND 0x7f OR 0x80 :: 64 word) :: byte) 7"
    by (simp add: bit_simps bit_128)
  moreover have "\<not> bit (take_bit 7 x :: byte) 7" for x
    by (simp add: bit_simps)
  ultimately show ?thesis by (simp add: less_128_iff) metis
qed

lemma bit_less_7: "take_bit 7 u = (u :: 64 word) \<Longrightarrow> bit u n \<Longrightarrow> n < 7"
  by (metis bit_take_bit_iff)

lemma last_byte_less: "(u :: 64 word) < 0x80 \<Longrightarrow> (ucast u :: byte) < 0x80"
  by (simp add: less_128_iff) (rule bit_eqI, auto simp: bit_simps dest: bit_less_7)

lemma last_byte_payload: "(u :: 64 word) < 0x80 \<Longrightarrow> ucast (ucast u AND 0x7f :: byte) = u"
  by (simp add: less_128_iff and_7f) (rule bit_eqI, auto simp: bit_simps dest: bit_less_7)

lemma or_push_take_drop:
  "((acc :: 64 word) OR push_bit s (take_bit 7 u)) OR push_bit (s + 7) (drop_bit 7 u)
     = acc OR push_bit s u"
proof (rule bit_eqI)
  fix n
  consider "n < s" | "s \<le> n" "n < s + 7" | "s + 7 \<le> n" by linarith
  then show "bit ((acc OR push_bit s (take_bit 7 u)) OR push_bit (s + 7) (drop_bit 7 u)) n
      = bit (acc OR push_bit s u) n"
    by cases (auto simp: bit_simps)
qed

section \<open>Varints are read back\<close>

lemma index_append:
  "length (pre @ b # post) < 2 ^ 63 \<Longrightarrow> index (pre @ b # post) (int (length pre)) = Ok b"
  by (simp add: index_def)

lemma decode_varint_enc_aux:
  "unat u < 2 ^ (64 - s) \<Longrightarrow> s < 64 \<Longrightarrow> length (pre @ enc_varint u @ post) < 2 ^ 63 \<Longrightarrow>
     decode_varint pf (pre @ enc_varint u @ post) (int (length pre)) s acc
       = Ok (acc OR push_bit s u, int (length (pre @ enc_varint u)))"
proof (induction u arbitrary: pre s acc rule: enc_varint.induct)
  case (1 u)
  show ?case
  proof (cases "u \<ge> 0x80")
    case True
    let ?b = "ucast (u AND 0x7f OR 0x80) :: byte"
    note enc = enc_varint_Cons [OF True]
    from True have u: "unat u \<ge> 2 ^ 7"
      by (simp add: word_le_nat_alt)
    with "1.prems"(1) have "(2::nat) ^ 7 < 2 ^ (64 - s)" by linarith
    then have s: "s + 7 < 64"
      by (simp add: power_strict_increasing_iff del: power_numeral)
    have "(2::nat) ^ (64 - s) = 2 ^ (64 - (s + 7)) * 128"
      using s power_add [of "2::nat" "64 - (s + 7)" 7] by simp
    with "1.prems"(1) have du: "unat (drop_bit 7 u) < 2 ^ (64 - (s + 7))"
      by (simp add: unat_drop_bit_7 less_mult_imp_div_less)
    have ix: "index (pre @ enc_varint u @ post) (int (length pre)) = Ok ?b"
      using index_append [of pre ?b] "1.prems"(3) by (simp add: enc)
    have "decode_varint pf (pre @ enc_varint u @ post) (int (length pre)) s acc
        = decode_varint pf ((pre @ [?b]) @ enc_varint (drop_bit 7 u) @ post)
            (int (length (pre @ [?b]))) (s + 7) (acc OR push_bit s (take_bit 7 u))"
      using "1.prems"(2) continuation_bit [of u]
      by (subst decode_varint.simps)
        (simp add: ix continuation_payload Let_def, simp add: enc add.commute)
    also have "\<dots> = Ok ((acc OR push_bit s (take_bit 7 u)) OR push_bit (s + 7) (drop_bit 7 u),
        int (length ((pre @ [?b]) @ enc_varint (drop_bit 7 u))))"
      by (rule "1.IH" [OF True du s]) (use "1.prems"(3) in \<open>simp add: enc\<close>)
    finally show ?thesis
      by (simp add: or_push_take_drop enc)
  next
    case False
    then have lt: "u < 0x80" by simp
    have ix: "index (pre @ enc_varint u @ post) (int (length pre)) = Ok (ucast u)"
      using index_append [of pre "ucast u"] "1.prems"(3) by (simp add: enc_varint_single [OF lt])
    show ?thesis
      using "1.prems"(2)
      by (subst decode_varint.simps)
        (simp add: ix Let_def last_byte_less [OF lt] last_byte_payload [OF lt],
          simp add: enc_varint_single [OF lt])
  qed
qed

lemma decode_varint_enc:
  assumes "length (pre @ enc_varint u @ post) < 2 ^ 63"
  shows "decode_varint pf (pre @ enc_varint u @ post) (int (length pre)) 0 0
    = Ok (u, int (length (pre @ enc_varint u)))"
proof -
  have "unat u < 2 ^ LENGTH(64)" by (rule unsigned_less)
  with assms decode_varint_enc_aux [of u 0 pre post pf 0] show ?thesis by simp
qed

text \<open>A tag of one byte.\<close>

lemma enc_varint_tag: "t < 0x80 \<Longrightarrow> enc_varint (ucast (t :: byte)) = [t]"
proof -
  assume t: "t < 0x80"
  then have "(ucast t :: 64 word) < 0x80"
    by (simp add: word_less_nat_alt unsigned_ucast_eq take_bit_nat_eq_self)
  moreover have "ucast (ucast t :: 64 word) = t"
    by (rule bit_eqI) (auto simp: bit_simps)
  ultimately show ?thesis
    by (simp add: enc_varint_single)
qed

lemma decode_varint_tag:
  assumes "t < 0x80" "length (pre @ t # post) < 2 ^ 63"
  shows "decode_varint pf (pre @ t # post) (int (length pre)) 0 0
    = Ok (ucast t :: 64 word, int (length (pre @ [t])))"
  using decode_varint_enc [of pre "ucast t" post pf] assms by (simp add: enc_varint_tag)

section \<open>Decoding at an offset\<close>

definition unmarshal_at ::
    "pbfile \<Rightarrow> string \<Rightarrow> (bytes \<Rightarrow> 'm \<Rightarrow> 'm) \<Rightarrow> 'm fields \<Rightarrow> bytes \<Rightarrow> bytes \<Rightarrow> 'm \<Rightarrow> 'm outcome" where
  "unmarshal_at pf msg keep fs pre post m = unmarshal_loop pf msg keep fs (pre @ post) (int (length pre)) m"

text \<open>\<open>tag_for n w t\<close>: the byte \<open>t\<close> is the tag of field \<open>n\<close> with wire type \<open>w\<close>.\<close>

definition tag_for :: "int \<Rightarrow> int \<Rightarrow> byte \<Rightarrow> bool" where
  "tag_for n w t \<longleftrightarrow> t < 0x80 \<and> 0 < n \<and> wire_field (ucast t) = n \<and> wire_type (ucast t) = w"

lemma unmarshal_eq_at: "unmarshal pf msg fs m dAtA = unmarshal_at pf msg (\<lambda>_ m. m) fs [] dAtA m"
  by (simp add: unmarshal_def unmarshal_at_def)

lemma unmarshal_at_Nil [simp]: "unmarshal_at pf msg keep fs pre [] m = Ok m"
  by (simp add: unmarshal_at_def unmarshal_loop.simps)

lemma unmarshal_at_step:
  assumes t: "tag_for n w t" "w \<noteq> 4" and len: "length (pre @ (t # xs) @ post) < 2 ^ 63"
    and f: "unmarshal_field pf (skip pf) keep fs (pre @ (t # xs) @ post) (int (length pre)) (int (length pre) + 1) n w m
      = Ok (m', int (length (pre @ t # xs)))"
  shows "unmarshal_at pf msg keep fs pre ((t # xs) @ post) m = unmarshal_at pf msg keep fs (pre @ t # xs) post m'"
proof -
  have "decode_varint pf (pre @ (t # xs) @ post) (int (length pre)) 0 0
      = Ok (ucast t :: 64 word, int (length pre) + 1)"
    using decode_varint_tag [of t pre "xs @ post" pf] t len by (simp add: tag_for_def add.commute)
  with t f show ?thesis
    unfolding unmarshal_at_def
    by (subst unmarshal_loop.simps) (simp add: tag_for_def)
qed

lemma slice_append: "slice (xs @ ys @ zs) (int (length xs)) (int (length (xs @ ys))) = Ok ys"
  by (simp add: slice_def)

lemma sint_word_of_nat: "n < 2 ^ 63 \<Longrightarrow> sint (word_of_nat n :: 64 word) = int n"
  by (simp add: signed_of_nat signed_take_bit_int_eq_self)

lemma unmarshal_at_len:
  assumes fs: "fs n = Some (LenDelim name st)" and t: "tag_for n 2 t" and st: "st bs m = Ok m'"
    and len: "length (pre @ enc_len t bs @ post) < 2 ^ 63"
  shows "unmarshal_at pf msg keep fs pre (enc_len t bs @ post) m
    = unmarshal_at pf msg keep fs (pre @ enc_len t bs) post m'"
proof -
  let ?v = "word_of_nat (length bs) :: 64 word"
  let ?d = "pre @ enc_len t bs @ post"
  let ?i = "int (length (pre @ t # enc_varint ?v))"
  have bs: "length bs < 2 ^ 63" using len by (simp add: enc_len_def)
  have dv: "decode_varint pf ?d (int (length pre) + 1) 0 0 = Ok (?v, ?i)"
    using decode_varint_enc [of "pre @ [t]" ?v "bs @ post"] len
    by (simp add: enc_len_def add.commute)
  have go: "go_int (?i + int (length bs)) = int (length (pre @ enc_len t bs))"
    using len by (subst go_int_id) (simp_all add: enc_len_def)
  have sl: "slice ?d ?i (int (length (pre @ enc_len t bs))) = Ok bs"
    using slice_append [of "pre @ t # enc_varint ?v" bs post] by (simp add: enc_len_def)
  have "unmarshal_field pf (skip pf) keep fs ?d (int (length pre)) (int (length pre) + 1) n 2 m
      = Ok (m', int (length (pre @ enc_len t bs)))"
    unfolding unmarshal_field_def fs
    by (simp only: option.case field_case.case Let_def dv bind_o_simps prod.case
        sint_word_of_nat [OF bs] go sl st) simp
  with unmarshal_at_step [OF t, of pre "enc_varint ?v @ bs" post pf keep fs m m' msg] len show ?thesis
    by (simp add: enc_len_def)
qed

lemma unmarshal_at_varint:
  assumes fs: "fs n = Some (Varint name st)" and t: "tag_for n 0 t"
    and len: "length (pre @ (t # enc_varint v) @ post) < 2 ^ 63"
  shows "unmarshal_at pf msg keep fs pre ((t # enc_varint v) @ post) m
    = unmarshal_at pf msg keep fs (pre @ t # enc_varint v) post (st v m)"
proof -
  have "decode_varint pf (pre @ (t # enc_varint v) @ post) (int (length pre) + 1) 0 0
      = Ok (v, int (length (pre @ t # enc_varint v)))"
    using decode_varint_enc [of "pre @ [t]" v post] len by (simp add: add.commute)
  then have "unmarshal_field pf (skip pf) keep fs (pre @ (t # enc_varint v) @ post) (int (length pre))
      (int (length pre) + 1) n 0 m = Ok (st v m, int (length (pre @ t # enc_varint v)))"
    by (simp add: unmarshal_field_def fs Let_def)
  with unmarshal_at_step [OF t] len show ?thesis by simp
qed

text \<open>A length-delimited field that the message does not know is skipped.\<close>

lemma skip_enc_len:
  assumes t: "tag_for n 2 t" and len: "length (enc_len t bs @ post) < 2 ^ 63"
  shows "skip pf (enc_len t bs @ post) = Ok (int (length (enc_len t bs)))"
proof -
  let ?v = "word_of_nat (length bs) :: 64 word"
  let ?d = "enc_len t bs @ post"
  have bs: "length bs < 2 ^ 63" using len by (simp add: enc_len_def)
  have tag: "decode_varint pf ?d 0 0 0 = Ok (ucast t :: 64 word, 1)"
    using decode_varint_tag [of t "[]" "enc_varint ?v @ bs @ post" pf] t len
    by (simp add: tag_for_def enc_len_def)
  have dv: "decode_varint pf ?d 1 0 0 = Ok (?v, int (length (t # enc_varint ?v)))"
    using decode_varint_enc [of "[t]" ?v "bs @ post"] len by (simp add: enc_len_def)
  have "uint (ucast t AND 7 :: 64 word) = 2"
    using t by (simp add: tag_for_def wire_type_def)
  then have w: "ucast t AND 7 = (2 :: 64 word)"
    by (intro word_uint_eqI) simp
  have go: "go_int (int (length (t # enc_varint ?v)) + int (length bs)) = int (length (enc_len t bs))"
    using len by (subst go_int_id) (simp_all add: enc_len_def)
  have "skip_field pf ?d (ucast t AND 7) 1 0 = Ok (int (length (enc_len t bs)), 0)"
    unfolding w skip_field_def by (simp only: dv bind_o_simps prod.case Let_def
        sint_word_of_nat [OF bs] go) simp
  moreover have "0 < int (length ?d)"
    by (simp add: enc_len_def)
  ultimately show ?thesis
    unfolding skip_def by (subst skip_loop.simps) (simp add: tag del: length_append of_nat_add)
qed

text \<open>A field in the raw: its tag is of a number the message does not know, and the \<open>skip\<close> function
  finds its end.\<close>

definition raw_field :: "pbfile \<Rightarrow> 'm fields \<Rightarrow> bytes \<Rightarrow> bool" where
  "raw_field pf fs xs \<longleftrightarrow> (\<exists>wire rest. xs = enc_varint wire @ rest \<and> 0 < wire_field wire \<and> wire_type wire \<noteq> 4 \<and>
     fs (wire_field wire) = None \<and>
     (\<forall>post. length (xs @ post) < 2 ^ 63 \<longrightarrow> skip pf (xs @ post) = Ok (int (length xs))))"

lemma raw_field_len:
  assumes "fs n = None" "tag_for n 2 t"
  shows "raw_field pf fs (enc_len t bs)"
proof -
  have "enc_varint (ucast t) = [t]" "0 < wire_field (ucast t)" "wire_type (ucast t) = 2" "wire_field (ucast t) = n"
    using assms(2) by (simp_all add: tag_for_def enc_varint_tag)
  then show ?thesis
    unfolding raw_field_def using assms skip_enc_len [OF assms(2)]
    by (intro exI [of _ "ucast t"] exI [of _ "enc_varint (word_of_nat (length bs)) @ bs"]) (simp add: enc_len_def)
qed

lemma unmarshal_at_raw:
  assumes raw: "raw_field pf fs xs" and len: "length (pre @ xs @ post) < 2 ^ 63"
  shows "unmarshal_at pf msg keep fs pre (xs @ post) m = unmarshal_at pf msg keep fs (pre @ xs) post (keep xs m)"
proof -
  let ?d = "pre @ xs @ post"
  from raw obtain wire rest where xs: "xs = enc_varint wire @ rest" and w: "0 < wire_field wire" "wire_type wire \<noteq> 4"
      "fs (wire_field wire) = None"
    and sk: "\<forall>post. length (xs @ post) < 2 ^ 63 \<longrightarrow> skip pf (xs @ post) = Ok (int (length xs))"
    unfolding raw_field_def by blast
  have sk': "skip pf (xs @ post) = Ok (int (length xs))"
    using sk len by simp
  have dv: "decode_varint pf ?d (int (length pre)) 0 0 = Ok (wire, int (length (pre @ enc_varint wire)))"
    using decode_varint_enc [of pre wire "rest @ post" pf] len by (simp add: xs)
  have sl: "slice ?d (int (length pre)) (int (length ?d)) = Ok (xs @ post)"
    using slice_append [of pre "xs @ post" "[]"] by simp
  have go: "go_int (int (length pre) + int (length xs)) = int (length (pre @ xs))"
    using len by (subst go_int_id) simp_all
  have uf: "unmarshal_field pf (skip pf) keep fs ?d (int (length pre)) i (wire_field wire) (wire_type wire) m
      = Ok (keep xs m, int (length (pre @ xs)))" for i
    unfolding unmarshal_field_def w(3)
    by (simp only: option.case Let_def sl sk' bind_o_simps go) simp
  have "xs \<noteq> []" by (cases "wire < 0x80") (simp_all add: xs enc_varint_single enc_varint_Cons)
  then have ne: "0 < int (length xs) + int (length post)" by (cases xs) simp_all
  show ?thesis
    unfolding unmarshal_at_def
    by (subst unmarshal_loop.simps) (use ne w in \<open>simp add: dv uf\<close>)
qed

section \<open>Decoding as a relation\<close>

text \<open>\<open>decodes_k pf msg keep fs xs m m'\<close>: wherever \<open>xs\<close> stands in the input, the loop consumes it and
  turns \<open>m\<close> into \<open>m'\<close>.\<close>

definition decodes_k ::
    "pbfile \<Rightarrow> string \<Rightarrow> (bytes \<Rightarrow> 'm \<Rightarrow> 'm) \<Rightarrow> 'm fields \<Rightarrow> bytes \<Rightarrow> 'm \<Rightarrow> 'm \<Rightarrow> bool" where
  "decodes_k pf msg keep fs xs m m' \<longleftrightarrow> (\<forall>pre post. length (pre @ xs @ post) < 2 ^ 63 \<longrightarrow>
     unmarshal_at pf msg keep fs pre (xs @ post) m = unmarshal_at pf msg keep fs (pre @ xs) post m')"

abbreviation decodes :: "pbfile \<Rightarrow> string \<Rightarrow> 'm fields \<Rightarrow> bytes \<Rightarrow> 'm \<Rightarrow> 'm \<Rightarrow> bool" where
  "decodes pf msg \<equiv> decodes_k pf msg (\<lambda>_ m. m)"

lemma decodes_Nil: "decodes_k pf msg keep fs [] m m"
  by (simp add: decodes_k_def)

lemma decodesD:
  "decodes_k pf msg keep fs xs m m' \<Longrightarrow> length (pre @ xs @ post) < 2 ^ 63 \<Longrightarrow>
     unmarshal_at pf msg keep fs pre (xs @ post) m = unmarshal_at pf msg keep fs (pre @ xs) post m'"
  unfolding decodes_k_def by blast

lemma decodes_append:
  assumes "decodes_k pf msg keep fs xs m m'" "decodes_k pf msg keep fs ys m' m''"
  shows "decodes_k pf msg keep fs (xs @ ys) m m''"
  unfolding decodes_k_def
proof (intro allI impI)
  fix pre post :: bytes
  assume len: "length (pre @ (xs @ ys) @ post) < 2 ^ 63"
  have "unmarshal_at pf msg keep fs pre (xs @ (ys @ post)) m = unmarshal_at pf msg keep fs (pre @ xs) (ys @ post) m'"
    using len by (intro decodesD [OF assms(1)]) simp
  also have "\<dots> = unmarshal_at pf msg keep fs ((pre @ xs) @ ys) post m''"
    using len by (intro decodesD [OF assms(2)]) simp
  finally show "unmarshal_at pf msg keep fs pre ((xs @ ys) @ post) m
      = unmarshal_at pf msg keep fs (pre @ (xs @ ys)) post m''"
    by simp
qed

lemma decodes_k_loop:
  assumes "decodes_k pf msg keep fs xs m m'" "length xs < 2 ^ 63"
  shows "unmarshal_loop pf msg keep fs xs 0 m = Ok m'"
  using decodesD [OF assms(1), of "[]" "[]"] assms(2)
  by (simp add: unmarshal_at_def unmarshal_loop.simps)

lemma decodes_unmarshal:
  assumes "decodes pf msg fs xs m m'" "length xs < 2 ^ 63"
  shows "unmarshal pf msg fs m xs = Ok m'"
  using decodes_k_loop [OF assms] by (simp add: unmarshal_def)

lemma decodes_len:
  "fs n = Some (LenDelim name st) \<Longrightarrow> tag_for n 2 t \<Longrightarrow> st bs m = Ok m' \<Longrightarrow>
     decodes_k pf msg keep fs (enc_len t bs) m m'"
  unfolding decodes_k_def by (intro allI impI) (rule unmarshal_at_len)

text \<open>The resulting message is a premise of its own, so that a proof can name it.\<close>

lemma decodes_string:
  assumes "fs n = Some (string_case name put)" "tag_for n 2 t" "m' = (if s = [] then m else put s m)"
  shows "decodes_k pf msg keep fs (enc_string_field t s) m m'"
proof -
  have "decodes_k pf msg keep fs (enc_len t (bytes_of s)) m (put s m)"
    by (rule decodes_len, rule assms(1) [unfolded string_case_def], rule assms(2)) simp
  then show ?thesis
    by (simp add: enc_string_field_def decodes_Nil assms(3))
qed

lemma decodes_message:
  assumes "fs n = Some (message_case name get put unm)" "tag_for n 2 t" "unm (get m) bs = Ok x"
    "m' = put x m"
  shows "decodes_k pf msg keep fs (enc_len t bs) m m'"
  by (rule decodes_len, rule assms(1) [unfolded message_case_def], rule assms(2)) (simp add: assms(3,4))

lemma decodes_std:
  assumes "fs n = Some (std_case name put unm)" "tag_for n 2 t" "unm bs = Ok x" "m' = put x m"
  shows "decodes_k pf msg keep fs (enc_len t bs) m m'"
  by (rule decodes_len, rule assms(1) [unfolded std_case_def], rule assms(2)) (simp add: assms(3,4))

lemma decodes_varint:
  assumes "fs n = Some (Varint name st)" "tag_for n 0 t" "m' = (if v = 0 then m else st v m)"
  shows "decodes_k pf msg keep fs (enc_varint_field t v) m m'"
proof -
  have "decodes_k pf msg keep fs (t # enc_varint v) m (st v m)"
    unfolding decodes_k_def by (intro allI impI) (rule unmarshal_at_varint, rule assms, rule assms)
  then show ?thesis
    by (simp add: enc_varint_field_def decodes_Nil assms(3))
qed

lemma decodes_raw: "raw_field pf fs xs \<Longrightarrow> decodes_k pf msg keep fs xs m (keep xs m)"
  unfolding decodes_k_def by (intro allI impI) (rule unmarshal_at_raw)

lemma decodes_skip: "fs n = None \<Longrightarrow> tag_for n 2 t \<Longrightarrow> decodes pf msg fs (enc_len t bs) m m"
  using decodes_raw [OF raw_field_len [of fs n t pf bs], of msg "\<lambda>_ m. m" m] by simp

text \<open>The tags that the generated code writes.\<close>

lemma tags [simp]:
  "tag_for 1 2 0x0a" "tag_for 2 2 0x12" "tag_for 3 2 0x1a" "tag_for 4 2 0x22"
  "tag_for 1 0 0x08" "tag_for 2 0 0x10" "tag_for 3 0 0x18"
  by code_simp+

section \<open>Input that is rejected\<close>

text \<open>\<open>rejects pf msg fs xs m\<close>: wherever \<open>xs\<close> stands in the input, the loop returns an error there.\<close>

definition rejects :: "pbfile \<Rightarrow> string \<Rightarrow> 'm fields \<Rightarrow> bytes \<Rightarrow> 'm \<Rightarrow> bool" where
  "rejects pf msg fs xs m \<longleftrightarrow> (\<forall>pre post. length (pre @ xs @ post) < 2 ^ 63 \<longrightarrow>
     (\<exists>e. unmarshal_at pf msg (\<lambda>_ m. m) fs pre (xs @ post) m = Err e))"

lemma rejects_append: "rejects pf msg fs xs m \<Longrightarrow> rejects pf msg fs (xs @ ys) m"
  unfolding rejects_def by (metis append.assoc)

lemma decodes_rejects:
  assumes "decodes pf msg fs xs m m'" "rejects pf msg fs ys m'"
  shows "rejects pf msg fs (xs @ ys) m"
  unfolding rejects_def
proof (intro allI impI)
  fix pre post :: bytes
  assume len: "length (pre @ (xs @ ys) @ post) < 2 ^ 63"
  then have "unmarshal_at pf msg (\<lambda>_ m. m) fs pre (xs @ ys @ post) m = unmarshal_at pf msg (\<lambda>_ m. m) fs (pre @ xs) (ys @ post) m'"
    by (intro decodesD [OF assms(1)]) simp
  moreover obtain e where "unmarshal_at pf msg (\<lambda>_ m. m) fs (pre @ xs) (ys @ post) m' = Err e"
    using assms(2) len unfolding rejects_def by (metis append.assoc)
  ultimately show "\<exists>e. unmarshal_at pf msg (\<lambda>_ m. m) fs pre ((xs @ ys) @ post) m = Err e" by simp
qed

lemma rejects_unmarshal:
  assumes "rejects pf msg fs xs m" "length xs < 2 ^ 63"
  shows "\<exists>e. unmarshal pf msg fs m xs = Err e"
  using assms unfolding rejects_def unmarshal_eq_at by (metis append_Nil append_Nil2)

lemma unmarshal_at_error:
  assumes t: "tag_for n w t" "w \<noteq> 4" and len: "length (pre @ t # post) < 2 ^ 63"
    and f: "unmarshal_field pf (skip pf) (\<lambda>_ m. m) fs (pre @ t # post) (int (length pre)) (int (length pre) + 1) n w m = Err e"
  shows "unmarshal_at pf msg (\<lambda>_ m. m) fs pre (t # post) m = Err e"
proof -
  have "decode_varint pf (pre @ t # post) (int (length pre)) 0 0
      = Ok (ucast t :: 64 word, int (length pre) + 1)"
    using decode_varint_tag [of t pre post pf] t len by (simp add: tag_for_def add.commute)
  with t f show ?thesis
    unfolding unmarshal_at_def
    by (subst unmarshal_loop.simps) (simp add: tag_for_def)
qed

text \<open>An integer where the message has a string, a message or a time.\<close>

lemma rejects_varint:
  assumes "fs n = Some (LenDelim name st)" "tag_for n 0 t"
  shows "rejects pf msg fs (t # xs) m"
  unfolding rejects_def
proof (intro allI impI exI)
  fix pre post :: bytes
  assume "length (pre @ (t # xs) @ post) < 2 ^ 63"
  then show "unmarshal_at pf msg (\<lambda>_ m. m) fs pre ((t # xs) @ post) m = Err (WrongWireType 0 name)"
    using unmarshal_at_error [OF assms(2), of pre "xs @ post" pf fs m "WrongWireType 0 name" msg]
    by (simp add: unmarshal_field_def assms(1))
qed

text \<open>A payload that the field's decoder rejects.\<close>

lemma rejects_len:
  assumes fs: "fs n = Some (LenDelim name st)" and t: "tag_for n 2 t" and st: "st bs m = Err e"
  shows "rejects pf msg fs (enc_len t bs) m"
  unfolding rejects_def
proof (intro allI impI exI)
  fix pre post :: bytes
  let ?v = "word_of_nat (length bs) :: 64 word"
  let ?d = "pre @ enc_len t bs @ post"
  let ?i = "int (length (pre @ t # enc_varint ?v))"
  assume len: "length ?d < 2 ^ 63"
  have bs: "length bs < 2 ^ 63" using len by (simp add: enc_len_def)
  have dv: "decode_varint pf ?d (int (length pre) + 1) 0 0 = Ok (?v, ?i)"
    using decode_varint_enc [of "pre @ [t]" ?v "bs @ post"] len
    by (simp add: enc_len_def add.commute)
  have go: "go_int (?i + int (length bs)) = int (length (pre @ enc_len t bs))"
    using len by (subst go_int_id) (simp_all add: enc_len_def)
  have sl: "slice ?d ?i (int (length (pre @ enc_len t bs))) = Ok bs"
    using slice_append [of "pre @ t # enc_varint ?v" bs post] by (simp add: enc_len_def)
  have "unmarshal_field pf (skip pf) (\<lambda>_ m. m) fs ?d (int (length pre)) (int (length pre) + 1) n 2 m = Err e"
    unfolding unmarshal_field_def fs
    by (simp only: option.case field_case.case Let_def dv bind_o_simps prod.case
        sint_word_of_nat [OF bs] go sl st) simp
  then show "unmarshal_at pf msg (\<lambda>_ m. m) fs pre (enc_len t bs @ post) m = Err e"
    using unmarshal_at_error [OF t, of pre "enc_varint ?v @ bs @ post" pf fs m e msg] len
    by (simp add: enc_len_def)
qed

text \<open>Input that starts with a zero byte: field number 0 is illegal.\<close>

lemma zero_byte_less: "(0 :: byte) < 0x80"
  by code_simp

lemma rejects_zero: "rejects pf msg fs (0 # xs) m"
  unfolding rejects_def
proof (intro allI impI exI)
  fix pre post :: bytes
  assume "length (pre @ (0 # xs) @ post) < 2 ^ 63"
  then have "decode_varint pf (pre @ (0 # xs) @ post) (int (length pre)) 0 0
      = Ok (0 :: 64 word, int (length pre) + 1)"
    using decode_varint_tag [OF zero_byte_less, of pre "xs @ post" pf] by (simp add: add.commute)
  then show "unmarshal_at pf msg (\<lambda>_ m. m) fs pre ((0 # xs) @ post) m = Err (IllegalTag msg (wire_field 0) 0)"
    unfolding unmarshal_at_def
    by (subst unmarshal_loop.simps) (simp add: wire_field_def wire_type_def)
qed

section \<open>The contract of a generated message\<close>

text \<open>
  What the code of a message type has to provide: its \<open>Size\<close>, the body of its
  \<open>MarshalToSizedBuffer\<close>, the table of its \<open>Unmarshal\<close>, and a reference encoding they agree
  on. From this every message type gets the same theorems: \<open>Marshal\<close> returns the reference
  encoding without panicking, \<open>Unmarshal\<close> inverts it, and never panics on any input.
\<close>

locale message =
  fixes pf :: pbfile and msg :: string and fs :: "'m fields"
    and sz :: "'m \<Rightarrow> int" and body :: "'m \<Rightarrow> wr" and enc :: "'m \<Rightarrow> bytes"
    and zero :: 'm and wf :: "'m \<Rightarrow> bool"
  assumes writes_enc: "wf m \<Longrightarrow> writes (body m) (enc m)"
    and size_enc: "wf m \<Longrightarrow> sz m = int (length (enc m))"
    and decodes_enc: "wf m \<Longrightarrow> decodes pf msg fs (enc m) zero m"
    and safe: "safe_fields fs"
begin

lemma fills_enc: "wf m \<Longrightarrow> fills (to_sized_buffer (body m)) (enc m)"
  by (rule fills_to_sized_buffer) (rule writes_enc)

lemma marshal_enc: "wf m \<Longrightarrow> marshal (sz m) (to_sized_buffer (body m)) = Ok (enc m)"
  by (rule marshal_fills, erule fills_enc, erule size_enc)

lemma marshalTo_enc:
  assumes "wf m" "sz m \<le> int (length dAtA)"
  shows "marshalTo (sz m) (to_sized_buffer (body m)) dAtA = Ok (enc m @ drop (length (enc m)) dAtA, sz m)"
  using assms(2) by (intro marshalTo_fills fills_enc size_enc assms(1)) (simp add: size_enc [OF assms(1)])

lemma unmarshal_enc:
  assumes "wf m" "sz m < 2 ^ 63"
  shows "unmarshal pf msg fs zero (enc m) = Ok m"
  using assms(2) by (intro decodes_unmarshal decodes_enc assms(1)) (simp add: size_enc [OF assms(1)])

lemma roundtrip:
  "wf m \<Longrightarrow> sz m < 2 ^ 63 \<Longrightarrow>
     bind_o (marshal (sz m) (to_sized_buffer (body m))) (unmarshal pf msg fs zero) = Ok m"
  by (simp add: marshal_enc unmarshal_enc)

lemma enc_inject: "wf m \<Longrightarrow> wf m' \<Longrightarrow> sz m < 2 ^ 63 \<Longrightarrow> sz m' < 2 ^ 63 \<Longrightarrow> enc m = enc m' \<Longrightarrow> m = m'"
  by (metis unmarshal_enc outcome.inject(1))

lemma no_panic: "length dAtA < 2 ^ 63 \<Longrightarrow> \<not> is_Panic (unmarshal pf msg fs m dAtA)"
  by (rule unmarshal_no_panic [OF safe])

end

section \<open>Fields of 32 bits\<close>

text \<open>The loop on a 32-bit variable gives the low half of what it gives on a 64-bit variable.\<close>

lemma ucast_or_push:
  "ucast (v OR push_bit s (ucast (b :: byte)) :: 64 word) = (ucast v OR push_bit s (ucast b) :: 32 word)"
  by (rule bit_eqI) (auto simp: bit_simps)

lemma decode_varint_32:
  "decode_varint pf dAtA i s (ucast v :: 32 word)
     = map_outcome (\<lambda>(w, j). (ucast w, j)) (decode_varint pf dAtA i s (v :: 64 word))"
proof (induction pf dAtA i s v rule: decode_varint.induct)
  case (1 pf dAtA i s v)
  show ?case
  proof (cases "index dAtA i")
    case (Ok b)
    then show ?thesis
      using "1.IH" [OF _ _ Ok refl]
      by (simp add: decode_varint.simps [of pf dAtA i s v]
          decode_varint.simps [of pf dAtA i s "ucast v :: 32 word"] Let_def ucast_or_push)
  qed (simp_all add: decode_varint.simps [of pf dAtA i s v]
          decode_varint.simps [of pf dAtA i s "ucast v :: 32 word"])
qed

end
