(* ===== verification/Sdk_Wire.thy ===== *)
theory Sdk_Wire
  imports Wire_Roundtrip
begin

text \<open>
  The values of other packages that the module's messages embed, and the code of those
  packages that encodes them: \<open>sdk.Coin\<close> (cosmos-sdk), and the standard times and durations of
  gogoproto. That code is not part of this repository, so it is a parameter of the model, the
  record \<open>wire_ext\<close>; the locale \<open>wire_ext_laws\<close> states what the module relies on.
\<close>

section \<open>Values\<close>

text \<open>\<open>math.Int\<close> holds a pointer to a big integer; \<open>None\<close> is the nil pointer of a zero \<open>Int\<close>.\<close>

record coin =
  coin_Denom :: string
  coin_Amount :: "int option"

definition coin_zero :: coin where
  "coin_zero = \<lparr>coin_Denom = [], coin_Amount = None\<rparr>"

text \<open>A \<open>time.Time\<close> is an instant, in nanoseconds from the Unix epoch; its zero value is the first
  of January of the year 1. A \<open>time.Duration\<close> is an \<open>int64\<close> of nanoseconds.\<close>

type_synonym gtime = int
type_synonym duration = "64 word"

definition second :: int where
  "second = 10 ^ 9"

definition time_zero :: gtime where
  "time_zero = - 62135596800 * second"

text \<open>The times that a protobuf timestamp can hold: the years 1 to 9999.\<close>

definition timestamp_ok :: "gtime \<Rightarrow> bool" where
  "timestamp_ok t \<longleftrightarrow> time_zero \<le> t \<and> t < 253402300800 * second"

definition time_Add :: "gtime \<Rightarrow> duration \<Rightarrow> gtime" where
  "time_Add t d = t + sint d"

definition time_After :: "gtime \<Rightarrow> gtime \<Rightarrow> bool" where
  "time_After t u \<longleftrightarrow> t > u"

section \<open>Code of other packages\<close>

record wire_ext =
  CoinSize :: "coin \<Rightarrow> int"
  CoinMarshalToSizedBuffer :: "coin \<Rightarrow> bytes \<Rightarrow> (bytes \<times> int) outcome"
  CoinUnmarshal :: "coin \<Rightarrow> bytes \<Rightarrow> coin outcome"
  SizeOfStdTime :: "gtime \<Rightarrow> int"
  StdTimeMarshalTo :: "gtime \<Rightarrow> bytes \<Rightarrow> (bytes \<times> int) outcome"
  StdTimeUnmarshal :: "bytes \<Rightarrow> gtime outcome"
  SizeOfStdDuration :: "duration \<Rightarrow> int"
  StdDurationMarshalTo :: "duration \<Rightarrow> bytes \<Rightarrow> (bytes \<times> int) outcome"
  StdDurationUnmarshal :: "bytes \<Rightarrow> duration outcome"

text \<open>The bytes such a function writes into a buffer of the size it asks for.\<close>

definition written :: "(bytes \<Rightarrow> (bytes \<times> int) outcome) \<Rightarrow> int \<Rightarrow> bytes" where
  "written f n = (case f (replicate (nat n) 0) of Ok (bs, _) \<Rightarrow> bs | _ \<Rightarrow> [])"

definition enc_coin :: "wire_ext \<Rightarrow> coin \<Rightarrow> bytes" where
  "enc_coin X c = written (CoinMarshalToSizedBuffer X c) (CoinSize X c)"

definition enc_time :: "wire_ext \<Rightarrow> gtime \<Rightarrow> bytes" where
  "enc_time X t = written (StdTimeMarshalTo X t) (SizeOfStdTime X t)"

definition enc_duration :: "wire_ext \<Rightarrow> duration \<Rightarrow> bytes" where
  "enc_duration X d = written (StdDurationMarshalTo X d) (SizeOfStdDuration X d)"

text \<open>Coins whose amount is present and fits the 256 bits of \<open>math.Int\<close>.\<close>

definition coin_ok :: "coin \<Rightarrow> bool" where
  "coin_ok c = (case coin_Amount c of None \<Rightarrow> False | Some n \<Rightarrow> \<bar>n\<bar> < 2 ^ 256)"

text \<open>
  The documented behaviour: the size functions give the number of bytes the marshal functions
  write, at the end or at the start of the buffer; decoding what was encoded gives the value
  back; and decoding returns an error rather than panicking. Encoding a time outside the
  years 1 to 9999 is an error.
\<close>

locale wire_ext_laws =
  fixes X :: wire_ext
  assumes coin_fills: "fills (CoinMarshalToSizedBuffer X c) (enc_coin X c)"
    and coin_size: "CoinSize X c = int (length (enc_coin X c))"
    and coin_roundtrip: "coin_ok c \<Longrightarrow> length (enc_coin X c) < 2 ^ 63 \<Longrightarrow>
      CoinUnmarshal X coin_zero (enc_coin X c) = Ok c"
    and coin_no_panic: "length bs < 2 ^ 63 \<Longrightarrow> \<not> is_Panic (CoinUnmarshal X c bs)"
    and time_fills: "timestamp_ok t \<Longrightarrow> fills_front (StdTimeMarshalTo X t) (enc_time X t)"
    and time_size: "timestamp_ok t \<Longrightarrow> SizeOfStdTime X t = int (length (enc_time X t))"
    and time_roundtrip: "timestamp_ok t \<Longrightarrow> StdTimeUnmarshal X (enc_time X t) = Ok t"
    and time_no_panic: "length bs < 2 ^ 63 \<Longrightarrow> \<not> is_Panic (StdTimeUnmarshal X bs)"
    and duration_fills: "fills_front (StdDurationMarshalTo X d) (enc_duration X d)"
    and duration_size: "SizeOfStdDuration X d = int (length (enc_duration X d))"
    and duration_roundtrip: "StdDurationUnmarshal X (enc_duration X d) = Ok d"
    and duration_no_panic: "length bs < 2 ^ 63 \<Longrightarrow> \<not> is_Panic (StdDurationUnmarshal X bs)"

end
