(* ===== verification/Params_Pb.thy ===== *)
theory Params_Pb
  imports Sdk_Wire
begin

text \<open>
  \<open>x/hal/types/params.pb.go\<close>: the \<open>Params\<close> and \<open>TokenMeta\<close> messages with their generated methods
  and their generated \<open>Equal\<close>.
\<close>

section \<open>TokenMeta\<close>

record token_meta =
  tm_Denom :: string
  tm_Decimals :: "32 word"
  tm_Description :: string

definition TokenMeta_Reset :: token_meta where
  "TokenMeta_Reset = \<lparr>tm_Denom = [], tm_Decimals = 0, tm_Description = []\<rparr>"

definition TokenMeta_GetDenom :: "token_meta option \<Rightarrow> string" where
  "TokenMeta_GetDenom m = (case m of Some t \<Rightarrow> tm_Denom t | None \<Rightarrow> [])"

definition TokenMeta_GetDecimals :: "token_meta option \<Rightarrow> 32 word" where
  "TokenMeta_GetDecimals m = (case m of Some t \<Rightarrow> tm_Decimals t | None \<Rightarrow> 0)"

definition TokenMeta_GetDescription :: "token_meta option \<Rightarrow> string" where
  "TokenMeta_GetDescription m = (case m of Some t \<Rightarrow> tm_Description t | None \<Rightarrow> [])"

definition TokenMeta_Size :: "token_meta \<Rightarrow> int" where
  "TokenMeta_Size m =
     (let l = int (length (tm_Denom m)) in
        if l > 0 then 1 + l + sov (word_of_nat (length (tm_Denom m))) else 0)
   + (if tm_Decimals m \<noteq> 0 then 1 + sov (ucast (tm_Decimals m)) else 0)
   + (let l = int (length (tm_Description m)) in
        if l > 0 then 1 + l + sov (word_of_nat (length (tm_Description m))) else 0)"

definition TokenMeta_body :: "token_meta \<Rightarrow> wr" where
  "TokenMeta_body m =
     then_w (put_string_field 0x1a (tm_Description m))
    (then_w (when_w (tm_Decimals m \<noteq> 0) (then_w (put_varint (ucast (tm_Decimals m))) (put_byte 0x10)))
            (put_string_field 0x0a (tm_Denom m)))"

definition TokenMeta_MarshalToSizedBuffer :: "token_meta \<Rightarrow> bytes \<Rightarrow> (bytes \<times> int) outcome" where
  "TokenMeta_MarshalToSizedBuffer m = to_sized_buffer (TokenMeta_body m)"

definition TokenMeta_Marshal :: "token_meta \<Rightarrow> bytes outcome" where
  "TokenMeta_Marshal m = marshal (TokenMeta_Size m) (TokenMeta_MarshalToSizedBuffer m)"

definition TokenMeta_MarshalTo :: "token_meta \<Rightarrow> bytes \<Rightarrow> (bytes \<times> int) outcome" where
  "TokenMeta_MarshalTo m = marshalTo (TokenMeta_Size m) (TokenMeta_MarshalToSizedBuffer m)"

text \<open>\<open>Decimals\<close> is decoded by the loop on a \<open>uint32\<close>, which gives the low half of the loop on a
  \<open>uint64\<close> (\<open>decode_varint_32\<close>).\<close>

definition TokenMeta_fields :: "token_meta fields" where
  "TokenMeta_fields n =
     (if n = 1 then Some (string_case ''Denom'' (\<lambda>s m. m\<lparr>tm_Denom := s\<rparr>))
      else if n = 2 then Some (Varint ''Decimals'' (\<lambda>v m. m\<lparr>tm_Decimals := ucast v\<rparr>))
      else if n = 3 then Some (string_case ''Description'' (\<lambda>s m. m\<lparr>tm_Description := s\<rparr>))
      else None)"

definition TokenMeta_Unmarshal :: "token_meta \<Rightarrow> bytes \<Rightarrow> token_meta outcome" where
  "TokenMeta_Unmarshal m dAtA = unmarshal PbParams ''TokenMeta'' TokenMeta_fields m dAtA"

text \<open>\<open>Equal\<close> compares with a value that may be nil, a pointer, a value or something of another
  type; both pointers may be nil.\<close>

datatype 'm any = NilAny | PtrAny "'m option" | ValAny 'm | OtherAny

definition TokenMeta_Equal :: "token_meta option \<Rightarrow> token_meta any \<Rightarrow> bool" where
  "TokenMeta_Equal this that =
     (case that of
        NilAny \<Rightarrow> this = None
      | OtherAny \<Rightarrow> False
      | PtrAny None \<Rightarrow> this = None
      | PtrAny (Some that1) \<Rightarrow>
          (case this of None \<Rightarrow> False
           | Some t \<Rightarrow> if tm_Denom t \<noteq> tm_Denom that1 then False
               else if tm_Decimals t \<noteq> tm_Decimals that1 then False
               else if tm_Description t \<noteq> tm_Description that1 then False
               else True)
      | ValAny that1 \<Rightarrow>
          (case this of None \<Rightarrow> False
           | Some t \<Rightarrow> if tm_Denom t \<noteq> tm_Denom that1 then False
               else if tm_Decimals t \<noteq> tm_Decimals that1 then False
               else if tm_Description t \<noteq> tm_Description that1 then False
               else True))"

section \<open>Params\<close>

record params =
  pa_RedeemDur :: duration
  pa_MaxRedeemEntries :: "32 word"
  pa_CollateralMetas :: token_meta
  pa_HalMeta :: token_meta

definition Params_Reset :: params where
  "Params_Reset = \<lparr>pa_RedeemDur = 0, pa_MaxRedeemEntries = 0,
     pa_CollateralMetas = TokenMeta_Reset, pa_HalMeta = TokenMeta_Reset\<rparr>"

definition Params_GetRedeemDur :: "params option \<Rightarrow> duration" where
  "Params_GetRedeemDur m = (case m of Some p \<Rightarrow> pa_RedeemDur p | None \<Rightarrow> 0)"

definition Params_GetMaxRedeemEntries :: "params option \<Rightarrow> 32 word" where
  "Params_GetMaxRedeemEntries m = (case m of Some p \<Rightarrow> pa_MaxRedeemEntries p | None \<Rightarrow> 0)"

definition Params_GetCollateralMetas :: "params option \<Rightarrow> token_meta" where
  "Params_GetCollateralMetas m = (case m of Some p \<Rightarrow> pa_CollateralMetas p | None \<Rightarrow> TokenMeta_Reset)"

definition Params_GetHalMeta :: "params option \<Rightarrow> token_meta" where
  "Params_GetHalMeta m = (case m of Some p \<Rightarrow> pa_HalMeta p | None \<Rightarrow> TokenMeta_Reset)"

text \<open>\<open>uint64(m.MaxRedeemEntries)\<close> of an \<open>int32\<close> extends the sign.\<close>

definition Params_Size :: "wire_ext \<Rightarrow> params \<Rightarrow> int" where
  "Params_Size X m =
     (let l = SizeOfStdDuration X (pa_RedeemDur m) in 1 + l + sov (word_of_int l))
   + (if pa_MaxRedeemEntries m \<noteq> 0 then 1 + sov (scast (pa_MaxRedeemEntries m)) else 0)
   + (let l = TokenMeta_Size (pa_CollateralMetas m) in 1 + l + sov (word_of_int l))
   + (let l = TokenMeta_Size (pa_HalMeta m) in 1 + l + sov (word_of_int l))"

definition Params_body :: "wire_ext \<Rightarrow> params \<Rightarrow> wr" where
  "Params_body X m =
     then_w (put_message_field 0x22 (TokenMeta_MarshalToSizedBuffer (pa_HalMeta m)))
    (then_w (put_message_field 0x1a (TokenMeta_MarshalToSizedBuffer (pa_CollateralMetas m)))
    (then_w (when_w (pa_MaxRedeemEntries m \<noteq> 0)
              (then_w (put_varint (scast (pa_MaxRedeemEntries m))) (put_byte 0x10)))
            (put_std_field 0x0a (SizeOfStdDuration X (pa_RedeemDur m))
              (StdDurationMarshalTo X (pa_RedeemDur m)))))"

definition Params_MarshalToSizedBuffer :: "wire_ext \<Rightarrow> params \<Rightarrow> bytes \<Rightarrow> (bytes \<times> int) outcome" where
  "Params_MarshalToSizedBuffer X m = to_sized_buffer (Params_body X m)"

definition Params_Marshal :: "wire_ext \<Rightarrow> params \<Rightarrow> bytes outcome" where
  "Params_Marshal X m = marshal (Params_Size X m) (Params_MarshalToSizedBuffer X m)"

definition Params_MarshalTo :: "wire_ext \<Rightarrow> params \<Rightarrow> bytes \<Rightarrow> (bytes \<times> int) outcome" where
  "Params_MarshalTo X m = marshalTo (Params_Size X m) (Params_MarshalToSizedBuffer X m)"

definition Params_fields :: "wire_ext \<Rightarrow> params fields" where
  "Params_fields X n =
     (if n = 1 then
        Some (std_case ''RedeemDur'' (\<lambda>d m. m\<lparr>pa_RedeemDur := d\<rparr>) (StdDurationUnmarshal X))
      else if n = 2 then
        Some (Varint ''MaxRedeemEntries'' (\<lambda>v m. m\<lparr>pa_MaxRedeemEntries := ucast v\<rparr>))
      else if n = 3 then
        Some (message_case ''CollateralMetas'' pa_CollateralMetas
          (\<lambda>t m. m\<lparr>pa_CollateralMetas := t\<rparr>) TokenMeta_Unmarshal)
      else if n = 4 then
        Some (message_case ''HalMeta'' pa_HalMeta (\<lambda>t m. m\<lparr>pa_HalMeta := t\<rparr>) TokenMeta_Unmarshal)
      else None)"

definition Params_Unmarshal :: "wire_ext \<Rightarrow> params \<Rightarrow> bytes \<Rightarrow> params outcome" where
  "Params_Unmarshal X m dAtA = unmarshal PbParams ''Params'' (Params_fields X) m dAtA"

definition Params_Equal :: "params option \<Rightarrow> params any \<Rightarrow> bool" where
  "Params_Equal this that =
     (let eq = (\<lambda>that1. case this of None \<Rightarrow> False
        | Some t \<Rightarrow> if pa_RedeemDur t \<noteq> pa_RedeemDur that1 then False
            else if pa_MaxRedeemEntries t \<noteq> pa_MaxRedeemEntries that1 then False
            else if \<not> TokenMeta_Equal (Some (pa_CollateralMetas t)) (PtrAny (Some (pa_CollateralMetas that1)))
            then False
            else if \<not> TokenMeta_Equal (Some (pa_HalMeta t)) (PtrAny (Some (pa_HalMeta that1))) then False
            else True)
      in case that of
        NilAny \<Rightarrow> this = None
      | OtherAny \<Rightarrow> False
      | PtrAny None \<Rightarrow> this = None
      | PtrAny (Some that1) \<Rightarrow> eq that1
      | ValAny that1 \<Rightarrow> eq that1)"

section \<open>Equal decides equality\<close>

lemma TokenMeta_Equal_iff:
  "TokenMeta_Equal (Some t) (PtrAny (Some u)) \<longleftrightarrow> t = u"
  by (cases t; cases u) (simp add: TokenMeta_Equal_def)

lemma Params_Equal_iff:
  "Params_Equal (Some p) (PtrAny (Some q)) \<longleftrightarrow> p = q"
  "Params_Equal (Some p) (ValAny q) \<longleftrightarrow> p = q"
  by (cases p; cases q; simp add: Params_Equal_def TokenMeta_Equal_iff)+

lemma Params_Equal_nil:
  "Params_Equal None NilAny" "\<not> Params_Equal (Some p) NilAny" "\<not> Params_Equal (Some p) OtherAny"
  by (simp_all add: Params_Equal_def)

section \<open>The message contract of TokenMeta\<close>

definition TokenMeta_enc :: "token_meta \<Rightarrow> bytes" where
  "TokenMeta_enc m =
     enc_string_field 0x0a (tm_Denom m) @ enc_varint_field 0x10 (ucast (tm_Decimals m))
   @ enc_string_field 0x1a (tm_Description m)"

lemma ucast_ucast_32 [simp]: "ucast (ucast (v :: 32 word) :: 64 word) = v"
  by (rule bit_eqI) (auto simp: bit_simps)

lemma ucast_32_64_eq_0 [simp]: "(ucast (v :: 32 word) :: 64 word) = 0 \<longleftrightarrow> v = 0"
proof
  assume "(ucast v :: 64 word) = 0"
  then have "(ucast (ucast v :: 64 word) :: 32 word) = ucast (0 :: 64 word)" by simp
  then show "v = 0" by simp
qed simp

lemma ucast_scast_32 [simp]: "ucast (scast (v :: 32 word) :: 64 word) = v"
  by (rule bit_eqI) (auto simp: bit_simps)

lemma scast_32_64_eq_0 [simp]: "(scast (v :: 32 word) :: 64 word) = 0 \<longleftrightarrow> v = 0"
proof
  assume "(scast v :: 64 word) = 0"
  then have "(ucast (scast v :: 64 word) :: 32 word) = ucast (0 :: 64 word)" by simp
  then show "v = 0" by simp
qed simp

lemma writes_varint_when:
  assumes "c \<longleftrightarrow> v \<noteq> 0"
  shows "writes (when_w c (then_w (put_varint v) (put_byte t))) (enc_varint_field t v)"
proof -
  have "when_w c (then_w (put_varint v) (put_byte t)) = put_varint_field t v"
    by (simp add: put_varint_field_def assms)
  then show ?thesis by (simp add: writes_varint_field)
qed

lemma TokenMeta_writes: "writes (TokenMeta_body m) (TokenMeta_enc m)"
proof -
  have "writes (TokenMeta_body m)
      ((enc_string_field 0x0a (tm_Denom m) @ enc_varint_field 0x10 (ucast (tm_Decimals m)))
        @ enc_string_field 0x1a (tm_Description m))"
    unfolding TokenMeta_body_def
    by (intro writes_then writes_string_field writes_varint_when) simp
  then show ?thesis by (simp add: TokenMeta_enc_def)
qed

lemma TokenMeta_size_enc: "TokenMeta_Size m = int (length (TokenMeta_enc m))"
  by (simp add: TokenMeta_Size_def TokenMeta_enc_def size_simps Let_def)

lemma TokenMeta_fields_simps [simp]:
  "TokenMeta_fields 1 = Some (string_case ''Denom'' (\<lambda>s m. m\<lparr>tm_Denom := s\<rparr>))"
  "TokenMeta_fields 2 = Some (Varint ''Decimals'' (\<lambda>v m. m\<lparr>tm_Decimals := ucast v\<rparr>))"
  "TokenMeta_fields 3 = Some (string_case ''Description'' (\<lambda>s m. m\<lparr>tm_Description := s\<rparr>))"
  by (simp_all add: TokenMeta_fields_def)

lemma TokenMeta_decodes: "decodes PbParams ''TokenMeta'' TokenMeta_fields (TokenMeta_enc m) TokenMeta_Reset m"
proof -
  let ?m1 = "if tm_Denom m = [] then TokenMeta_Reset else TokenMeta_Reset\<lparr>tm_Denom := tm_Denom m\<rparr>"
  let ?v = "ucast (tm_Decimals m) :: 64 word"
  let ?m2 = "if ?v = 0 then ?m1 else ?m1\<lparr>tm_Decimals := ucast ?v\<rparr>"
  let ?m3 = "if tm_Description m = [] then ?m2 else ?m2\<lparr>tm_Description := tm_Description m\<rparr>"
  let ?d = "decodes PbParams ''TokenMeta'' TokenMeta_fields"
  have "?d (enc_string_field 0x0a (tm_Denom m)) TokenMeta_Reset ?m1"
    by (rule decodes_string [where n = 1], rule TokenMeta_fields_simps, rule tags, rule refl)
  moreover have "?d (enc_varint_field 0x10 ?v) ?m1 ?m2"
    by (rule decodes_varint [where n = 2], rule TokenMeta_fields_simps, rule tags, rule refl)
  moreover have "?d (enc_string_field 0x1a (tm_Description m)) ?m2 ?m3"
    by (rule decodes_string [where n = 3], rule TokenMeta_fields_simps, rule tags, rule refl)
  ultimately have "?d (TokenMeta_enc m) TokenMeta_Reset ?m3"
    unfolding TokenMeta_enc_def by (intro decodes_append)
  moreover have "?m3 = m"
    by (cases m) (simp add: TokenMeta_Reset_def)
  ultimately show ?thesis by simp
qed

lemma TokenMeta_safe: "safe_fields TokenMeta_fields"
  by (rule safe_fieldsI) (auto simp: TokenMeta_fields_def split: if_splits)

interpretation TokenMeta: message PbParams "''TokenMeta''" TokenMeta_fields TokenMeta_Size TokenMeta_body
    TokenMeta_enc TokenMeta_Reset "\<lambda>_. True"
  by unfold_locales (simp_all add: TokenMeta_writes TokenMeta_size_enc TokenMeta_decodes TokenMeta_safe)

lemma TokenMeta_fills: "fills (TokenMeta_MarshalToSizedBuffer m) (TokenMeta_enc m)"
  using TokenMeta.fills_enc [of m] by (simp add: TokenMeta_MarshalToSizedBuffer_def)

section \<open>The message contract of Params\<close>

definition Params_enc :: "wire_ext \<Rightarrow> params \<Rightarrow> bytes" where
  "Params_enc X m =
     enc_len 0x0a (enc_duration X (pa_RedeemDur m))
   @ enc_varint_field 0x10 (scast (pa_MaxRedeemEntries m))
   @ enc_len 0x1a (TokenMeta_enc (pa_CollateralMetas m)) @ enc_len 0x22 (TokenMeta_enc (pa_HalMeta m))"

definition Params_wf :: "wire_ext \<Rightarrow> params \<Rightarrow> bool" where
  "Params_wf X m \<longleftrightarrow> Params_Size X m < 2 ^ 63"

lemma Params_fields_simps [simp]:
  "Params_fields X 1 =
     Some (std_case ''RedeemDur'' (\<lambda>d m. m\<lparr>pa_RedeemDur := d\<rparr>) (StdDurationUnmarshal X))"
  "Params_fields X 2 =
     Some (Varint ''MaxRedeemEntries'' (\<lambda>v m. m\<lparr>pa_MaxRedeemEntries := ucast v\<rparr>))"
  "Params_fields X 3 = Some (message_case ''CollateralMetas'' pa_CollateralMetas
     (\<lambda>t m. m\<lparr>pa_CollateralMetas := t\<rparr>) TokenMeta_Unmarshal)"
  "Params_fields X 4 =
     Some (message_case ''HalMeta'' pa_HalMeta (\<lambda>t m. m\<lparr>pa_HalMeta := t\<rparr>) TokenMeta_Unmarshal)"
  by (simp_all add: Params_fields_def)

context wire_ext_laws
begin

lemma Params_writes: "writes (Params_body X m) (Params_enc X m)"
proof -
  have "writes (Params_body X m)
      (((enc_len 0x0a (enc_duration X (pa_RedeemDur m))
        @ enc_varint_field 0x10 (scast (pa_MaxRedeemEntries m)))
        @ enc_len 0x1a (TokenMeta_enc (pa_CollateralMetas m)))
        @ enc_len 0x22 (TokenMeta_enc (pa_HalMeta m)))"
    unfolding Params_body_def
    by (intro writes_then writes_message_field writes_std_field writes_varint_when TokenMeta_fills
        duration_fills duration_size) simp
  then show ?thesis by (simp add: Params_enc_def)
qed

lemma Params_size_enc: "Params_Size X m = int (length (Params_enc X m))"
  unfolding Params_Size_def Params_enc_def duration_size TokenMeta_size_enc Let_def
    length_append of_nat_add length_enc_len length_enc_varint_field of_int_of_nat_eq scast_32_64_eq_0
  by (simp only: add.assoc)

lemma TokenMeta_Unmarshal_enc_in:
  assumes "Params_wf X m" "t = pa_CollateralMetas m \<or> t = pa_HalMeta m"
  shows "TokenMeta_Unmarshal TokenMeta_Reset (TokenMeta_enc t) = Ok t"
proof -
  have "length (TokenMeta_enc t) \<le> length (Params_enc X m)"
    using assms(2) by (auto simp: Params_enc_def enc_len_def)
  then have "TokenMeta_Size t \<le> Params_Size X m"
    unfolding TokenMeta_size_enc Params_size_enc by simp
  then have "TokenMeta_Size t < 2 ^ 63"
    using assms(1) unfolding Params_wf_def by linarith
  then show ?thesis
    using TokenMeta.unmarshal_enc [of t] by (simp add: TokenMeta_Unmarshal_def)
qed

lemma Params_decodes:
  assumes "Params_wf X m"
  shows "decodes PbParams ''Params'' (Params_fields X) (Params_enc X m) Params_Reset m"
proof -
  let ?v = "scast (pa_MaxRedeemEntries m) :: 64 word"
  let ?m1 = "Params_Reset\<lparr>pa_RedeemDur := pa_RedeemDur m\<rparr>"
  let ?m2 = "if ?v = 0 then ?m1 else ?m1\<lparr>pa_MaxRedeemEntries := ucast ?v\<rparr>"
  let ?m3 = "?m2\<lparr>pa_CollateralMetas := pa_CollateralMetas m\<rparr>"
  let ?m4 = "?m3\<lparr>pa_HalMeta := pa_HalMeta m\<rparr>"
  have z: "pa_CollateralMetas ?m2 = TokenMeta_Reset" "pa_HalMeta ?m3 = TokenMeta_Reset"
    by (simp_all add: Params_Reset_def)
  have c: "TokenMeta_Unmarshal (pa_CollateralMetas ?m2) (TokenMeta_enc (pa_CollateralMetas m))
      = Ok (pa_CollateralMetas m)"
    unfolding z by (rule TokenMeta_Unmarshal_enc_in [OF assms disjI1 [OF refl]])
  have h: "TokenMeta_Unmarshal (pa_HalMeta ?m3) (TokenMeta_enc (pa_HalMeta m)) = Ok (pa_HalMeta m)"
    unfolding z by (rule TokenMeta_Unmarshal_enc_in [OF assms disjI2 [OF refl]])
  let ?d = "decodes PbParams ''Params'' (Params_fields X)"
  have "?d (enc_len 0x0a (enc_duration X (pa_RedeemDur m))) Params_Reset ?m1"
    by (rule decodes_std [where n = 1], rule Params_fields_simps, rule tags,
        rule duration_roundtrip, rule refl)
  moreover have "?d (enc_varint_field 0x10 ?v) ?m1 ?m2"
    by (rule decodes_varint [where n = 2], rule Params_fields_simps, rule tags, rule refl)
  moreover have "?d (enc_len 0x1a (TokenMeta_enc (pa_CollateralMetas m))) ?m2 ?m3"
    by (rule decodes_message [where n = 3], rule Params_fields_simps, rule tags, rule c, rule refl)
  moreover have "?d (enc_len 0x22 (TokenMeta_enc (pa_HalMeta m))) ?m3 ?m4"
    by (rule decodes_message [where n = 4], rule Params_fields_simps, rule tags, rule h, rule refl)
  ultimately have "?d (Params_enc X m) Params_Reset ?m4"
    unfolding Params_enc_def by (intro decodes_append)
  moreover have "?m4 = m"
    by (cases m) (simp add: Params_Reset_def)
  ultimately show ?thesis by simp
qed

lemma TokenMeta_Unmarshal_no_panic: "length dAtA < 2 ^ 63 \<Longrightarrow> \<not> is_Panic (TokenMeta_Unmarshal m dAtA)"
  using TokenMeta.no_panic [of dAtA m] by (simp add: TokenMeta_Unmarshal_def)

lemma Params_safe: "safe_fields (Params_fields X)"
  by (rule safe_fieldsI)
    (auto simp: Params_fields_def duration_no_panic TokenMeta_Unmarshal_no_panic split: if_splits
      intro!: safe_message_case safe_std_case)

end

sublocale wire_ext_laws \<subseteq> Params: message PbParams "''Params''" "Params_fields X" "Params_Size X"
    "Params_body X" "Params_enc X" Params_Reset "Params_wf X"
  by unfold_locales (simp_all add: Params_writes Params_size_enc Params_decodes Params_safe)

context wire_ext_laws
begin

lemma Params_fills: "Params_wf X m \<Longrightarrow> fills (Params_MarshalToSizedBuffer X m) (Params_enc X m)"
  using Params.fills_enc [of m] by (simp add: Params_MarshalToSizedBuffer_def)

lemma Params_Marshal_enc: "Params_wf X m \<Longrightarrow> Params_Marshal X m = Ok (Params_enc X m)"
  using Params.marshal_enc [of m] by (simp add: Params_Marshal_def Params_MarshalToSizedBuffer_def)

lemma Params_Unmarshal_enc: "Params_wf X m \<Longrightarrow> Params_Unmarshal X Params_Reset (Params_enc X m) = Ok m"
  using Params.unmarshal_enc [of m] by (simp add: Params_Unmarshal_def Params_wf_def)

lemma Params_Unmarshal_no_panic: "length dAtA < 2 ^ 63 \<Longrightarrow> \<not> is_Panic (Params_Unmarshal X m dAtA)"
  using Params.no_panic [of dAtA m] by (simp add: Params_Unmarshal_def)

end

end
