(* ===== verification/Redeem_Request_Pb.thy ===== *)
theory Redeem_Request_Pb
  imports Sdk_Wire
begin

text \<open>
  \<open>x/hal/types/redeem_request.pb.go\<close>: the \<open>RedeemRequest\<close> message with its generated methods. The
  encodings of \<open>sdk.Coin\<close> and of times are the parameter \<open>X\<close>.
\<close>

section \<open>The message and its methods\<close>

record redeem_request =
  rr_Account :: string
  rr_Collateral :: coin
  rr_Completiontime :: gtime

definition RedeemRequest_Reset :: redeem_request where
  "RedeemRequest_Reset =
     \<lparr>rr_Account = [], rr_Collateral = coin_zero, rr_Completiontime = time_zero\<rparr>"

definition RedeemRequest_GetAccount :: "redeem_request option \<Rightarrow> string" where
  "RedeemRequest_GetAccount m = (case m of Some r \<Rightarrow> rr_Account r | None \<Rightarrow> [])"

definition RedeemRequest_GetCollateral :: "redeem_request option \<Rightarrow> coin" where
  "RedeemRequest_GetCollateral m = (case m of Some r \<Rightarrow> rr_Collateral r | None \<Rightarrow> coin_zero)"

definition RedeemRequest_GetCompletiontime :: "redeem_request option \<Rightarrow> gtime" where
  "RedeemRequest_GetCompletiontime m =
     (case m of Some r \<Rightarrow> rr_Completiontime r | None \<Rightarrow> time_zero)"

definition RedeemRequest_Size :: "wire_ext \<Rightarrow> redeem_request \<Rightarrow> int" where
  "RedeemRequest_Size X m =
     (let l = int (length (rr_Account m)) in
        if l > 0 then 1 + l + sov (word_of_nat (length (rr_Account m))) else 0)
   + (let l = CoinSize X (rr_Collateral m) in 1 + l + sov (word_of_int l))
   + (let l = SizeOfStdTime X (rr_Completiontime m) in 1 + l + sov (word_of_int l))"

definition RedeemRequest_body :: "wire_ext \<Rightarrow> redeem_request \<Rightarrow> wr" where
  "RedeemRequest_body X m =
     then_w (put_std_field 0x1a (SizeOfStdTime X (rr_Completiontime m))
              (StdTimeMarshalTo X (rr_Completiontime m)))
    (then_w (put_message_field 0x12 (CoinMarshalToSizedBuffer X (rr_Collateral m)))
            (put_string_field 0x0a (rr_Account m)))"

definition RedeemRequest_MarshalToSizedBuffer ::
    "wire_ext \<Rightarrow> redeem_request \<Rightarrow> bytes \<Rightarrow> (bytes \<times> int) outcome" where
  "RedeemRequest_MarshalToSizedBuffer X m = to_sized_buffer (RedeemRequest_body X m)"

definition RedeemRequest_Marshal :: "wire_ext \<Rightarrow> redeem_request \<Rightarrow> bytes outcome" where
  "RedeemRequest_Marshal X m =
     marshal (RedeemRequest_Size X m) (RedeemRequest_MarshalToSizedBuffer X m)"

definition RedeemRequest_MarshalTo ::
    "wire_ext \<Rightarrow> redeem_request \<Rightarrow> bytes \<Rightarrow> (bytes \<times> int) outcome" where
  "RedeemRequest_MarshalTo X m =
     marshalTo (RedeemRequest_Size X m) (RedeemRequest_MarshalToSizedBuffer X m)"

definition RedeemRequest_fields :: "wire_ext \<Rightarrow> redeem_request fields" where
  "RedeemRequest_fields X n =
     (if n = 1 then Some (string_case ''Account'' (\<lambda>s m. m\<lparr>rr_Account := s\<rparr>))
      else if n = 2 then
        Some (message_case ''Collateral'' rr_Collateral (\<lambda>c m. m\<lparr>rr_Collateral := c\<rparr>) (CoinUnmarshal X))
      else if n = 3 then
        Some (std_case ''Completiontime'' (\<lambda>t m. m\<lparr>rr_Completiontime := t\<rparr>) (StdTimeUnmarshal X))
      else None)"

definition RedeemRequest_Unmarshal ::
    "wire_ext \<Rightarrow> redeem_request \<Rightarrow> bytes \<Rightarrow> redeem_request outcome" where
  "RedeemRequest_Unmarshal X m dAtA =
     unmarshal PbRedeemRequest ''RedeemRequest'' (RedeemRequest_fields X) m dAtA"

section \<open>The message contract\<close>

definition RedeemRequest_enc :: "wire_ext \<Rightarrow> redeem_request \<Rightarrow> bytes" where
  "RedeemRequest_enc X m =
     enc_string_field 0x0a (rr_Account m) @ enc_len 0x12 (enc_coin X (rr_Collateral m))
   @ enc_len 0x1a (enc_time X (rr_Completiontime m))"

text \<open>The requests that can be stored and read back.\<close>

definition RedeemRequest_wf :: "wire_ext \<Rightarrow> redeem_request \<Rightarrow> bool" where
  "RedeemRequest_wf X m \<longleftrightarrow>
     coin_ok (rr_Collateral m) \<and> timestamp_ok (rr_Completiontime m) \<and> RedeemRequest_Size X m < 2 ^ 63"

lemma RedeemRequest_wf_time: "RedeemRequest_wf X m \<Longrightarrow> timestamp_ok (rr_Completiontime m)"
  by (simp add: RedeemRequest_wf_def)

lemma RedeemRequest_fields_simps [simp]:
  "RedeemRequest_fields X 1 = Some (string_case ''Account'' (\<lambda>s m. m\<lparr>rr_Account := s\<rparr>))"
  "RedeemRequest_fields X 2 =
     Some (message_case ''Collateral'' rr_Collateral (\<lambda>c m. m\<lparr>rr_Collateral := c\<rparr>) (CoinUnmarshal X))"
  "RedeemRequest_fields X 3 =
     Some (std_case ''Completiontime'' (\<lambda>t m. m\<lparr>rr_Completiontime := t\<rparr>) (StdTimeUnmarshal X))"
  "RedeemRequest_fields X 4 = None"
  by (simp_all add: RedeemRequest_fields_def)

context wire_ext_laws
begin

lemma RedeemRequest_writes:
  assumes "timestamp_ok (rr_Completiontime m)"
  shows "writes (RedeemRequest_body X m) (RedeemRequest_enc X m)"
proof -
  have "writes (RedeemRequest_body X m)
      ((enc_string_field 0x0a (rr_Account m) @ enc_len 0x12 (enc_coin X (rr_Collateral m)))
        @ enc_len 0x1a (enc_time X (rr_Completiontime m)))"
    unfolding RedeemRequest_body_def
    by (intro writes_intro coin_fills time_fills time_size assms)
  then show ?thesis by (simp add: RedeemRequest_enc_def)
qed

lemma RedeemRequest_size_enc:
  "timestamp_ok (rr_Completiontime m) \<Longrightarrow> RedeemRequest_Size X m = int (length (RedeemRequest_enc X m))"
  by (simp add: RedeemRequest_Size_def RedeemRequest_enc_def size_simps
      coin_size time_size)

lemma coin_length_less:
  "RedeemRequest_wf X m \<Longrightarrow> length (enc_coin X (rr_Collateral m)) < 2 ^ 63"
  using RedeemRequest_size_enc [of m]
  by (auto simp: RedeemRequest_wf_def RedeemRequest_enc_def enc_len_def)

lemma RedeemRequest_decodes:
  assumes "RedeemRequest_wf X m"
  shows "decodes PbRedeemRequest ''RedeemRequest'' (RedeemRequest_fields X) (RedeemRequest_enc X m)
    RedeemRequest_Reset m"
proof -
  let ?m1 = "if rr_Account m = [] then RedeemRequest_Reset
    else RedeemRequest_Reset\<lparr>rr_Account := rr_Account m\<rparr>"
  let ?m2 = "?m1\<lparr>rr_Collateral := rr_Collateral m\<rparr>"
  let ?m3 = "?m2\<lparr>rr_Completiontime := rr_Completiontime m\<rparr>"
  have "rr_Collateral ?m1 = coin_zero"
    by (simp add: RedeemRequest_Reset_def)
  then have c: "CoinUnmarshal X (rr_Collateral ?m1) (enc_coin X (rr_Collateral m)) = Ok (rr_Collateral m)"
    using coin_roundtrip coin_length_less [OF assms] assms by (simp add: RedeemRequest_wf_def)
  have t: "StdTimeUnmarshal X (enc_time X (rr_Completiontime m)) = Ok (rr_Completiontime m)"
    using assms time_roundtrip by (simp add: RedeemRequest_wf_def)
  let ?d = "decodes PbRedeemRequest ''RedeemRequest'' (RedeemRequest_fields X)"
  have "?d (enc_string_field 0x0a (rr_Account m)) RedeemRequest_Reset ?m1"
    by (rule decodes_string [where n = 1], rule RedeemRequest_fields_simps, rule tags, rule refl)
  moreover have "?d (enc_len 0x12 (enc_coin X (rr_Collateral m))) ?m1 ?m2"
    by (rule decodes_message [where n = 2], rule RedeemRequest_fields_simps, rule tags, rule c, rule refl)
  moreover have "?d (enc_len 0x1a (enc_time X (rr_Completiontime m))) ?m2 ?m3"
    by (rule decodes_std [where n = 3], rule RedeemRequest_fields_simps, rule tags, rule t, rule refl)
  ultimately have "?d (RedeemRequest_enc X m) RedeemRequest_Reset ?m3"
    unfolding RedeemRequest_enc_def by (intro decodes_append)
  moreover have "?m3 = m"
    by (cases m) (simp add: RedeemRequest_Reset_def)
  ultimately show ?thesis by simp
qed

lemma RedeemRequest_safe: "safe_fields (RedeemRequest_fields X)"
  by (rule safe_fieldsI)
    (auto simp: RedeemRequest_fields_def coin_no_panic time_no_panic split: if_splits
      intro!: safe_message_case safe_std_case)

end

sublocale wire_ext_laws \<subseteq> RR: message PbRedeemRequest "''RedeemRequest''" "RedeemRequest_fields X"
    "RedeemRequest_Size X" "RedeemRequest_body X" "RedeemRequest_enc X" RedeemRequest_Reset
    "RedeemRequest_wf X"
  by unfold_locales
    (auto simp: RedeemRequest_writes RedeemRequest_size_enc RedeemRequest_decodes
      RedeemRequest_safe dest: RedeemRequest_wf_time)

context wire_ext_laws
begin

lemma RedeemRequest_Marshal_enc: "RedeemRequest_wf X m \<Longrightarrow> RedeemRequest_Marshal X m = Ok (RedeemRequest_enc X m)"
  using RR.marshal_enc [of m]
  by (simp add: RedeemRequest_Marshal_def RedeemRequest_MarshalToSizedBuffer_def)

lemma RedeemRequest_Unmarshal_enc:
  "RedeemRequest_wf X m \<Longrightarrow> RedeemRequest_Unmarshal X RedeemRequest_Reset (RedeemRequest_enc X m) = Ok m"
  using RR.unmarshal_enc [of m] by (simp add: RedeemRequest_Unmarshal_def RedeemRequest_wf_def)

lemma RedeemRequest_Unmarshal_no_panic:
  "length dAtA < 2 ^ 63 \<Longrightarrow> \<not> is_Panic (RedeemRequest_Unmarshal X m dAtA)"
  using RR.no_panic [of dAtA m] by (simp add: RedeemRequest_Unmarshal_def)

end

end
