(* ===== verification/Ticket_Pb.thy ===== *)
theory Ticket_Pb
  imports Wire_Roundtrip
begin

text \<open>
  \<open>x/hal/types/tickets.pb.go\<close>: the \<open>Ticket\<close> message with its generated methods, and the
  theorems it gets as an instance of the message contract.
\<close>

section \<open>The message and its methods\<close>

record ticket =
  tk_Author :: string
  tk_Issue :: string
  tk_Id :: "64 word"
  tk_AdditionalInfo :: string

text \<open>\<open>Ticket{}\<close>, which is also what \<open>Reset\<close> leaves.\<close>

definition Ticket_Reset :: ticket where
  "Ticket_Reset = \<lparr>tk_Author = [], tk_Issue = [], tk_Id = 0, tk_AdditionalInfo = []\<rparr>"

text \<open>The getters work on a possibly nil pointer.\<close>

definition Ticket_GetAuthor :: "ticket option \<Rightarrow> string" where
  "Ticket_GetAuthor m = (case m of Some t \<Rightarrow> tk_Author t | None \<Rightarrow> [])"

definition Ticket_GetIssue :: "ticket option \<Rightarrow> string" where
  "Ticket_GetIssue m = (case m of Some t \<Rightarrow> tk_Issue t | None \<Rightarrow> [])"

definition Ticket_GetId :: "ticket option \<Rightarrow> 64 word" where
  "Ticket_GetId m = (case m of Some t \<Rightarrow> tk_Id t | None \<Rightarrow> 0)"

definition Ticket_GetAdditionalInfo :: "ticket option \<Rightarrow> string" where
  "Ticket_GetAdditionalInfo m = (case m of Some t \<Rightarrow> tk_AdditionalInfo t | None \<Rightarrow> [])"

text \<open>The helper functions that every file repeats, such as \<open>sovTickets\<close>, are the shared ones.\<close>

definition Ticket_Size :: "ticket \<Rightarrow> int" where
  "Ticket_Size m =
     (let l = int (length (tk_Author m)) in
        if l > 0 then 1 + l + sov (word_of_nat (length (tk_Author m))) else 0)
   + (let l = int (length (tk_Issue m)) in
        if l > 0 then 1 + l + sov (word_of_nat (length (tk_Issue m))) else 0)
   + (if tk_Id m \<noteq> 0 then 1 + sov (tk_Id m) else 0)
   + (let l = int (length (tk_AdditionalInfo m)) in
        if l > 0 then 1 + l + sov (word_of_nat (length (tk_AdditionalInfo m))) else 0)"

text \<open>The statements of \<open>MarshalToSizedBuffer\<close> between \<open>i := len(dAtA)\<close> and the return, last
  field first.\<close>

definition Ticket_body :: "ticket \<Rightarrow> wr" where
  "Ticket_body m =
     then_w (put_string_field 0x22 (tk_AdditionalInfo m))
    (then_w (put_varint_field 0x18 (tk_Id m))
    (then_w (put_string_field 0x12 (tk_Issue m))
            (put_string_field 0x0a (tk_Author m))))"

definition Ticket_MarshalToSizedBuffer :: "ticket \<Rightarrow> bytes \<Rightarrow> (bytes \<times> int) outcome" where
  "Ticket_MarshalToSizedBuffer m = to_sized_buffer (Ticket_body m)"

definition Ticket_Marshal :: "ticket \<Rightarrow> bytes outcome" where
  "Ticket_Marshal m = marshal (Ticket_Size m) (Ticket_MarshalToSizedBuffer m)"

definition Ticket_MarshalTo :: "ticket \<Rightarrow> bytes \<Rightarrow> (bytes \<times> int) outcome" where
  "Ticket_MarshalTo m = marshalTo (Ticket_Size m) (Ticket_MarshalToSizedBuffer m)"

text \<open>The \<open>switch fieldNum\<close> of \<open>Unmarshal\<close>.\<close>

definition Ticket_fields :: "ticket fields" where
  "Ticket_fields n =
     (if n = 1 then Some (string_case ''Author'' (\<lambda>s m. m\<lparr>tk_Author := s\<rparr>))
      else if n = 2 then Some (string_case ''Issue'' (\<lambda>s m. m\<lparr>tk_Issue := s\<rparr>))
      else if n = 3 then Some (Varint ''Id'' (\<lambda>v m. m\<lparr>tk_Id := v\<rparr>))
      else if n = 4 then Some (string_case ''AdditionalInfo'' (\<lambda>s m. m\<lparr>tk_AdditionalInfo := s\<rparr>))
      else None)"

definition Ticket_Unmarshal :: "ticket \<Rightarrow> bytes \<Rightarrow> ticket outcome" where
  "Ticket_Unmarshal m dAtA = unmarshal PbTickets ''Ticket'' Ticket_fields m dAtA"

section \<open>The message contract\<close>

definition Ticket_enc :: "ticket \<Rightarrow> bytes" where
  "Ticket_enc m =
     enc_string_field 0x0a (tk_Author m) @ enc_string_field 0x12 (tk_Issue m)
   @ enc_varint_field 0x18 (tk_Id m) @ enc_string_field 0x22 (tk_AdditionalInfo m)"

lemma Ticket_writes: "writes (Ticket_body m) (Ticket_enc m)"
proof -
  have "writes (Ticket_body m)
      (((enc_string_field 0x0a (tk_Author m) @ enc_string_field 0x12 (tk_Issue m))
        @ enc_varint_field 0x18 (tk_Id m)) @ enc_string_field 0x22 (tk_AdditionalInfo m))"
    unfolding Ticket_body_def by (intro writes_intro)
  then show ?thesis by (simp add: Ticket_enc_def)
qed

lemma Ticket_size_enc: "Ticket_Size m = int (length (Ticket_enc m))"
  by (simp add: Ticket_Size_def Ticket_enc_def size_simps Let_def)

lemma Ticket_fields_simps [simp]:
  "Ticket_fields 1 = Some (string_case ''Author'' (\<lambda>s m. m\<lparr>tk_Author := s\<rparr>))"
  "Ticket_fields 2 = Some (string_case ''Issue'' (\<lambda>s m. m\<lparr>tk_Issue := s\<rparr>))"
  "Ticket_fields 3 = Some (Varint ''Id'' (\<lambda>v m. m\<lparr>tk_Id := v\<rparr>))"
  "Ticket_fields 4 = Some (string_case ''AdditionalInfo'' (\<lambda>s m. m\<lparr>tk_AdditionalInfo := s\<rparr>))"
  by (simp_all add: Ticket_fields_def)

lemma Ticket_decodes: "decodes PbTickets ''Ticket'' Ticket_fields (Ticket_enc m) Ticket_Reset m"
proof -
  let ?m1 = "if tk_Author m = [] then Ticket_Reset else Ticket_Reset\<lparr>tk_Author := tk_Author m\<rparr>"
  let ?m2 = "if tk_Issue m = [] then ?m1 else ?m1\<lparr>tk_Issue := tk_Issue m\<rparr>"
  let ?m3 = "if tk_Id m = 0 then ?m2 else ?m2\<lparr>tk_Id := tk_Id m\<rparr>"
  let ?m4 = "if tk_AdditionalInfo m = [] then ?m3 else ?m3\<lparr>tk_AdditionalInfo := tk_AdditionalInfo m\<rparr>"
  let ?d = "decodes PbTickets ''Ticket'' Ticket_fields"
  have "?d (enc_string_field 0x0a (tk_Author m)) Ticket_Reset ?m1"
    by (rule decodes_string [where n = 1], rule Ticket_fields_simps, rule tags, rule refl)
  moreover have "?d (enc_string_field 0x12 (tk_Issue m)) ?m1 ?m2"
    by (rule decodes_string [where n = 2], rule Ticket_fields_simps, rule tags, rule refl)
  moreover have "?d (enc_varint_field 0x18 (tk_Id m)) ?m2 ?m3"
    by (rule decodes_varint [where n = 3], rule Ticket_fields_simps, rule tags, rule refl)
  moreover have "?d (enc_string_field 0x22 (tk_AdditionalInfo m)) ?m3 ?m4"
    by (rule decodes_string [where n = 4], rule Ticket_fields_simps, rule tags, rule refl)
  ultimately have "?d (Ticket_enc m) Ticket_Reset ?m4"
    unfolding Ticket_enc_def by (intro decodes_append)
  moreover have "?m4 = m"
    by (cases m) (simp add: Ticket_Reset_def)
  ultimately show ?thesis by simp
qed

lemma Ticket_safe: "safe_fields Ticket_fields"
  by (rule safe_fieldsI) (auto simp: Ticket_fields_def split: if_splits)

interpretation Ticket: message PbTickets "''Ticket''" Ticket_fields Ticket_Size Ticket_body Ticket_enc
    Ticket_Reset "\<lambda>_. True"
  by unfold_locales (simp_all add: Ticket_writes Ticket_size_enc Ticket_decodes Ticket_safe)

lemma Ticket_Marshal_enc: "Ticket_Marshal m = Ok (Ticket_enc m)"
  using Ticket.marshal_enc [of m] by (simp add: Ticket_Marshal_def Ticket_MarshalToSizedBuffer_def)

lemma Ticket_Unmarshal_enc: "Ticket_Size m < 2 ^ 63 \<Longrightarrow> Ticket_Unmarshal Ticket_Reset (Ticket_enc m) = Ok m"
  using Ticket.unmarshal_enc [of m] by (simp add: Ticket_Unmarshal_def)

end
