(* ===== verification/Sdk_Interface.thy ===== *)
theory Sdk_Interface
  imports Params_Pb Redeem_Request_Pb Ticket_Pb "HOL-Library.List_Lexorder"
begin

text \<open>
  The interfaces of the packages that the module is built on, none of which is part of this
  repository: address, coin and decimal functions of cosmos-sdk, the binary codec, the
  key-value store of the module, and the keepers of \<open>x/auth\<close> and \<open>x/bank\<close> as
  \<open>x/hal/types/expected_keepers.go\<close> declares them. Each interface is a record of functions, a
  parameter of the model; a locale per interface states the documented behaviour the module
  relies on. The laws speak of calls that have enough gas.
\<close>

type_synonym acc_address = bytes

section \<open>Library functions\<close>

text \<open>A \<open>LegacyDec\<close> is a number with eighteen decimals; \<open>dec\<close> counts units of the last one.\<close>

type_synonym dec = int

definition dec_one :: dec where
  "dec_one = 10 ^ 18"

record sdk_lib =
  AccAddressFromBech32 :: "string \<Rightarrow> acc_address outcome"
  AccAddress_String :: "acc_address \<Rightarrow> string"
  err_Error :: "go_error \<Rightarrow> string"
  ValidateDenom :: "string \<Rightarrow> bool"
  NewCoin :: "string \<Rightarrow> int option \<Rightarrow> coin outcome"
  NewCoins :: "coin list \<Rightarrow> coin list outcome"
  Coin_IsValid :: "coin \<Rightarrow> bool outcome"
  Coin_IsZero :: "coin \<Rightarrow> bool outcome"
  Coin_Add :: "coin \<Rightarrow> coin \<Rightarrow> coin outcome"
  NewUint :: "64 word \<Rightarrow> int option"
  Int_Sub :: "int option \<Rightarrow> int option \<Rightarrow> int option outcome"
  Int_GT :: "int option \<Rightarrow> int option \<Rightarrow> bool outcome"
  Int_IsNegative :: "int option \<Rightarrow> bool outcome"
  Int_String :: "int option \<Rightarrow> string"
  LegacyNewDec :: "64 word \<Rightarrow> dec"
  LegacyNewDecFromInt :: "int option \<Rightarrow> dec outcome"
  Dec_Mul :: "dec \<Rightarrow> dec \<Rightarrow> dec outcome"
  Dec_Quo :: "dec \<Rightarrow> dec \<Rightarrow> dec outcome"
  Dec_TruncateInt :: "dec \<Rightarrow> int option outcome"

text \<open>
  \<open>NewCoin\<close> and \<open>NewCoins\<close> panic on invalid input, \<open>NewCoins\<close> drops zero coins, integers have at
  most 256 bits and decimals 315, and methods of a nil integer panic.
\<close>

locale sdk_laws =
  fixes S :: sdk_lib
  assumes address_no_panic: "\<not> is_Panic (AccAddressFromBech32 S s)"
    and address_roundtrip: "AccAddressFromBech32 S s = Ok a \<Longrightarrow>
      AccAddressFromBech32 S (AccAddress_String S a) = Ok a"
    and address_length: "AccAddressFromBech32 S s = Ok a \<Longrightarrow> length (AccAddress_String S a) \<le> 1023"
    and address_input: "AccAddressFromBech32 S s = Ok a \<Longrightarrow> length s \<le> 1023"
    and NewCoin_ok: "ValidateDenom S d \<Longrightarrow> 0 \<le> n \<Longrightarrow>
      NewCoin S d (Some n) = Ok \<lparr>coin_Denom = d, coin_Amount = Some n\<rparr>"
    and NewCoin_panic: "\<not> ValidateDenom S d \<or> n < 0 \<Longrightarrow> is_Panic (NewCoin S d (Some n))"
    and NewCoin_nil: "is_Panic (NewCoin S d None)"
    and NewCoins_zero: "coin_Amount c = Some 0 \<Longrightarrow> NewCoins S [c] = Ok []"
    and NewCoins_pos: "ValidateDenom S (coin_Denom c) \<Longrightarrow> coin_Amount c = Some n \<Longrightarrow> 0 < n \<Longrightarrow>
      NewCoins S [c] = Ok [c]"
    and NewCoins_panic: "coin_Amount c = Some n \<Longrightarrow> n < 0 \<or> n \<noteq> 0 \<and> \<not> ValidateDenom S (coin_Denom c) \<Longrightarrow>
      is_Panic (NewCoins S [c])"
    and NewCoins_nil: "coin_Amount c = None \<Longrightarrow> is_Panic (NewCoins S [c])"
    and Coin_IsValid: "Coin_IsValid S c =
      Ok (ValidateDenom S (coin_Denom c) \<and> (case coin_Amount c of None \<Rightarrow> False | Some n \<Rightarrow> 0 \<le> n))"
    and Coin_IsZero: "coin_Amount c = Some n \<Longrightarrow> Coin_IsZero S c = Ok (n = 0)"
    and Coin_IsZero_nil: "coin_Amount c = None \<Longrightarrow> is_Panic (Coin_IsZero S c)"
    and Coin_Add: "coin_Amount c = Some n \<Longrightarrow> coin_Amount c' = Some n' \<Longrightarrow> coin_Denom c' = coin_Denom c \<Longrightarrow>
      \<bar>n + n'\<bar> < 2 ^ 256 \<Longrightarrow> Coin_Add S c c' = Ok \<lparr>coin_Denom = coin_Denom c, coin_Amount = Some (n + n')\<rparr>"
    and NewUint: "NewUint S u = Some (uint u)"
    and Int_Sub: "\<bar>x - y\<bar> < 2 ^ 256 \<Longrightarrow> Int_Sub S (Some x) (Some y) = Ok (Some (x - y))"
    and Int_GT: "Int_GT S (Some x) (Some y) = Ok (y < x)"
    and Int_IsNegative: "Int_IsNegative S (Some x) = Ok (x < 0)"
    and NewDec: "LegacyNewDec S i = sint i * dec_one"
    and NewDecFromInt: "LegacyNewDecFromInt S (Some n) = Ok (n * dec_one)"
    and Dec_Mul: "dec_one dvd x * y \<Longrightarrow> \<bar>x * y div dec_one\<bar> < 2 ^ 315 \<Longrightarrow>
      Dec_Mul S x y = Ok (x * y div dec_one)"
    and Dec_Quo: "0 < y \<Longrightarrow> y dvd x * dec_one \<Longrightarrow> \<bar>x * dec_one div y\<bar> < 2 ^ 315 \<Longrightarrow>
      Dec_Quo S x y = Ok (x * dec_one div y)"
    and Dec_TruncateInt: "0 \<le> x \<or> dec_one dvd x \<Longrightarrow> \<bar>x div dec_one\<bar> < 2 ^ 256 \<Longrightarrow>
      Dec_TruncateInt S x = Ok (Some (x div dec_one))"

text \<open>What \<open>NewCoins\<close> makes of one coin with a non-negative amount.\<close>

definition one_coin :: "string \<Rightarrow> int \<Rightarrow> coin list" where
  "one_coin d n = (if n = 0 then [] else [\<lparr>coin_Denom = d, coin_Amount = Some n\<rparr>])"

context sdk_laws
begin

lemma NewCoins_one:
  "ValidateDenom S d \<Longrightarrow> 0 \<le> n \<Longrightarrow>
     NewCoins S [\<lparr>coin_Denom = d, coin_Amount = Some n\<rparr>] = Ok (one_coin d n)"
  using NewCoins_zero [of "\<lparr>coin_Denom = d, coin_Amount = Some n\<rparr>"]
    NewCoins_pos [of "\<lparr>coin_Denom = d, coin_Amount = Some n\<rparr>" n]
  by (auto simp: one_coin_def)

lemma sint_2: "sint (2 :: 64 word) = 2"
  by simp

text \<open>The conversions of the handlers: an amount times two, and half of it rounded down.\<close>

lemma double_amount_abs:
  assumes "\<bar>2 * n\<bar> < 2 ^ 255"
  shows "bind_o (Dec_Mul S (n * dec_one) (LegacyNewDec S 2)) (Dec_TruncateInt S) = Ok (Some (2 * n))"
proof -
  have e: "n * dec_one * (2 * dec_one) = (2 * n * dec_one) * dec_one" by simp
  then have "n * dec_one * (2 * dec_one) div dec_one = 2 * n * dec_one" "dec_one dvd n * dec_one * (2 * dec_one)"
    by (simp_all add: dec_one_def)
  moreover have "\<bar>2 * n * dec_one\<bar> < 2 ^ 315"
  proof -
    have "\<bar>2 * n * dec_one\<bar> = \<bar>2 * n\<bar> * dec_one"
      by (simp add: dec_one_def abs_mult)
    also have "\<dots> \<le> 2 ^ 255 * dec_one"
      using assms by (intro mult_right_mono) (auto simp: dec_one_def)
    also have "\<dots> < 2 ^ 315" by (simp add: dec_one_def)
    finally show ?thesis .
  qed
  ultimately have "Dec_Mul S (n * dec_one) (2 * dec_one) = Ok (2 * n * dec_one)"
    using Dec_Mul [of "n * dec_one" "2 * dec_one"] by simp
  moreover have "Dec_TruncateInt S (2 * n * dec_one) = Ok (Some (2 * n))"
    using Dec_TruncateInt [of "2 * n * dec_one"] assms by (simp add: dec_one_def)
  ultimately show ?thesis
    by (simp add: NewDec)
qed

lemma double_amount:
  "0 \<le> n \<Longrightarrow> 2 * n < 2 ^ 255 \<Longrightarrow>
    bind_o (LegacyNewDecFromInt S (Some n)) (\<lambda>x. bind_o (Dec_Mul S x (LegacyNewDec S 2)) (Dec_TruncateInt S))
      = Ok (Some (2 * n))"
  using double_amount_abs [of n] by (simp add: NewDecFromInt)

lemma half_amount:
  assumes "0 \<le> n" "n < 2 ^ 255"
  shows "bind_o (LegacyNewDecFromInt S (Some n)) (\<lambda>x. bind_o (Dec_Quo S x (LegacyNewDec S 2)) (Dec_TruncateInt S))
    = Ok (Some (n div 2))"
proof -
  let ?h = "n * 500000000000000000"
  have e: "n * dec_one * dec_one = ?h * (2 * dec_one)" by (simp add: dec_one_def)
  have "2 * dec_one dvd n * dec_one * dec_one" "n * dec_one * dec_one div (2 * dec_one) = ?h"
    unfolding e by (simp_all add: dec_one_def)
  moreover have "\<bar>?h\<bar> < 2 ^ 315"
    using assms by simp
  ultimately have "Dec_Quo S (n * dec_one) (2 * dec_one) = Ok ?h"
    using Dec_Quo [of "2 * dec_one" "n * dec_one"] by (simp add: dec_one_def)
  moreover have h: "?h div dec_one = n div 2"
    by (simp add: dec_one_def)
  then have "Dec_TruncateInt S ?h = Ok (Some (n div 2))"
    using Dec_TruncateInt [of ?h] assms by (simp add: h pos_imp_zdiv_nonneg_iff)
  ultimately show ?thesis
    by (simp add: NewDecFromInt NewDec)
qed

end

section \<open>The binary codec\<close>

record codec =
  Marshal_Params :: "params \<Rightarrow> bytes outcome"
  MustUnmarshal_Params :: "bytes \<Rightarrow> params outcome"
  MustMarshal_Ticket :: "ticket \<Rightarrow> bytes outcome"
  MustMarshal_RedeemRequest :: "redeem_request \<Rightarrow> bytes outcome"
  Unmarshal_RedeemRequest :: "bytes \<Rightarrow> redeem_request outcome"

text \<open>The codec calls the generated methods of the message, on a message that is reset before it
  is decoded; the \<open>Must\<close> variants panic where the others return an error.\<close>

locale codec_laws =
  fixes X :: wire_ext and C :: codec
  assumes Marshal_Params: "Marshal_Params C p = Params_Marshal X p"
    and MustUnmarshal_Params: "MustUnmarshal_Params C bz = must (Params_Unmarshal X Params_Reset bz)"
    and MustMarshal_Ticket: "MustMarshal_Ticket C t = must (Ticket_Marshal t)"
    and MustMarshal_RedeemRequest: "MustMarshal_RedeemRequest C r = must (RedeemRequest_Marshal X r)"
    and Unmarshal_RedeemRequest:
      "Unmarshal_RedeemRequest C bz = RedeemRequest_Unmarshal X RedeemRequest_Reset bz"

section \<open>The key-value store\<close>

text \<open>The store of the module, its \<open>KVStoreAdapter\<close> of the runtime package, and the prefix stores
  over the adapter.\<close>

record 's kvstore =
  kv_Set :: "bytes \<Rightarrow> bytes \<Rightarrow> ('s, unit) act"
  kv_Delete :: "bytes \<Rightarrow> ('s, unit) act"
  kv_Iterator :: "bytes option \<Rightarrow> bytes option \<Rightarrow> 's \<Rightarrow> (bytes \<times> bytes) list outcome"
  adapter_Get :: "bytes \<Rightarrow> 's \<Rightarrow> bytes option outcome"
  adapter_Set :: "bytes \<Rightarrow> bytes \<Rightarrow> ('s, unit) act"
  prefix_Get :: "bytes \<Rightarrow> bytes \<Rightarrow> 's \<Rightarrow> bytes option outcome"
  prefix_Set :: "bytes \<Rightarrow> bytes \<Rightarrow> bytes \<Rightarrow> ('s, unit) act"

text \<open>Keys have between 1 and \<open>2 ^ 17 - 1\<close> bytes, values fewer than \<open>2 ^ 31\<close>.\<close>

definition valid_key :: "bytes \<Rightarrow> bool" where
  "valid_key k \<longleftrightarrow> k \<noteq> [] \<and> length k < 2 ^ 17"

definition valid_value :: "bytes \<Rightarrow> bool" where
  "valid_value v \<longleftrightarrow> length v < 2 ^ 31"

text \<open>The store behaves as a map, \<open>kv_map\<close>, and an iterator without bounds lists it in the order of
  the keys.\<close>

locale kv_laws =
  fixes K :: "'s kvstore" and kv_map :: "'s \<Rightarrow> bytes \<Rightarrow> bytes option"
  assumes kv_Set_ok: "valid_key k \<Longrightarrow> valid_value v \<Longrightarrow> fst (kv_Set K k v s) = Ok ()"
    and kv_map_Set: "valid_key k \<Longrightarrow> valid_value v \<Longrightarrow>
      kv_map (snd (kv_Set K k v s)) = (kv_map s)(k \<mapsto> v)"
    and kv_Delete_ok: "valid_key k \<Longrightarrow> fst (kv_Delete K k s) = Ok ()"
    and kv_map_Delete: "valid_key k \<Longrightarrow> kv_map (snd (kv_Delete K k s)) = (kv_map s)(k := None)"
    and kv_Iterator_all: "\<exists>l. kv_Iterator K None None s = Ok l \<and>
      sorted_wrt (<) (map fst l) \<and> map_of l = kv_map s"
    and adapter_Get: "valid_key k \<Longrightarrow> adapter_Get K k s = Ok (kv_map s k)"
    and adapter_Set: "valid_key k \<Longrightarrow> valid_value v \<Longrightarrow> adapter_Set K k v s = kv_Set K k v s"
    and prefix_Get: "valid_key (p @ k) \<Longrightarrow> prefix_Get K p k s = Ok (kv_map s (p @ k))"
    and prefix_Set: "valid_key (p @ k) \<Longrightarrow> valid_value v \<Longrightarrow> prefix_Set K p k v s = kv_Set K (p @ k) v s"

section \<open>The keepers of x/auth and x/bank\<close>

record account_keeper =
  GetModuleAddress :: "string \<Rightarrow> acc_address"

record 'b bank_keeper =
  GetBalance :: "acc_address \<Rightarrow> string \<Rightarrow> 'b \<Rightarrow> coin outcome"
  HasBalance :: "acc_address \<Rightarrow> coin \<Rightarrow> 'b \<Rightarrow> bool outcome"
  SendCoinsFromAccountToModule :: "acc_address \<Rightarrow> string \<Rightarrow> coin list \<Rightarrow> ('b, unit) act"
  SendCoinsFromModuleToAccount :: "string \<Rightarrow> acc_address \<Rightarrow> coin list \<Rightarrow> ('b, unit) act"
  SendCoinsFromModuleToModule :: "string \<Rightarrow> string \<Rightarrow> coin list \<Rightarrow> ('b, unit) act"
  MintCoins :: "string \<Rightarrow> coin list \<Rightarrow> ('b, unit) act"
  BurnCoins :: "string \<Rightarrow> coin list \<Rightarrow> ('b, unit) act"
  GetSupply :: "string \<Rightarrow> 'b \<Rightarrow> coin outcome"
  HasSupply :: "string \<Rightarrow> 'b \<Rightarrow> bool outcome"

text \<open>The amount of a denomination in a list of coins, and the coin lists the module passes: at
  most one coin, of a positive amount.\<close>

definition coins_amt :: "coin list \<Rightarrow> string \<Rightarrow> int" where
  "coins_amt cs d = (\<Sum>c\<leftarrow>cs. if coin_Denom c = d then the (coin_Amount c) else 0)"

definition coins_ok :: "(string \<Rightarrow> bool) \<Rightarrow> coin list \<Rightarrow> bool" where
  "coins_ok denom_ok cs \<longleftrightarrow> length cs \<le> 1 \<and> (\<forall>c\<in>set cs. denom_ok (coin_Denom c) \<and>
     (case coin_Amount c of None \<Rightarrow> False | Some n \<Rightarrow> 0 < n \<and> n < 2 ^ 256))"

definition covered :: "(string \<Rightarrow> int) \<Rightarrow> coin list \<Rightarrow> bool" where
  "covered funds cs \<longleftrightarrow> (\<forall>c\<in>set cs. the (coin_Amount c) \<le> funds (coin_Denom c))"

lemma one_coin_simps [simp]:
  "coins_amt (one_coin d n) d' = (if d' = d then n else 0)"
  "0 \<le> n \<Longrightarrow> coins_ok V (one_coin d n) \<longleftrightarrow> n = 0 \<or> V d \<and> n < 2 ^ 256"
  "covered f (one_coin d n) \<longleftrightarrow> n = 0 \<or> n \<le> f d"
  by (auto simp: one_coin_def coins_amt_def coins_ok_def covered_def)

text \<open>Balances after a transfer.\<close>

definition moved ::
    "(acc_address \<Rightarrow> string \<Rightarrow> int) \<Rightarrow> acc_address \<Rightarrow> acc_address \<Rightarrow> coin list \<Rightarrow> acc_address \<Rightarrow> string \<Rightarrow> int" where
  "moved f x y cs a d = f a d - (if a = x then coins_amt cs d else 0) + (if a = y then coins_amt cs d else 0)"

definition has_perm :: "(string \<times> string list) list \<Rightarrow> string \<Rightarrow> string \<Rightarrow> bool" where
  "has_perm perms m p \<longleftrightarrow> (case map_of perms m of None \<Rightarrow> False | Some ps \<Rightarrow> p \<in> set ps)"

text \<open>
  The bank keeps a balance per account and denomination, and the supply of a denomination is at
  least the sum of balances. \<open>perms\<close> is the list of module accounts of the application with
  their permissions, \<open>minter\<close> and \<open>burner\<close> the permissions that minting and burning need,
  \<open>locked\<close> the part of a balance that is vesting, \<open>blocked\<close> the addresses that may not receive
  from a module. A transfer of one coin either moves it or returns an error and
  changes nothing; a transfer to or from a module that has no account panics.
\<close>

locale bank_laws =
  fixes B :: "'b bank_keeper" and A :: account_keeper and perms :: "(string \<times> string list) list"
    and minter :: string and burner :: string and denom_ok :: "string \<Rightarrow> bool"
    and bal :: "'b \<Rightarrow> acc_address \<Rightarrow> string \<Rightarrow> int" and total :: "'b \<Rightarrow> string \<Rightarrow> int"
    and locked :: "acc_address \<Rightarrow> string \<Rightarrow> int" and blocked :: "acc_address \<Rightarrow> bool"
  assumes bal_nonneg: "0 \<le> bal b a d"
    and holders: "finite P \<Longrightarrow> (\<Sum>a\<in>P. bal b a d) \<le> total b d"
    and locked_nonneg: "0 \<le> locked a d"
    and locked_module: "m \<in> fst ` set perms \<Longrightarrow> locked (GetModuleAddress A m) d = 0"
    and module_inj: "inj_on (GetModuleAddress A) (fst ` set perms)"
    and GetBalance: "GetBalance B a d b = Ok \<lparr>coin_Denom = d, coin_Amount = Some (bal b a d)\<rparr>"
    and HasBalance: "coin_Amount c = Some n \<Longrightarrow> HasBalance B a c b = Ok (n \<le> bal b a (coin_Denom c))"
    and GetSupply: "GetSupply B d b = Ok \<lparr>coin_Denom = d, coin_Amount = Some (total b d)\<rparr>"
    and HasSupply: "HasSupply B d b = Ok (0 < total b d)"
    and account_to_module_unknown:
      "m \<notin> fst ` set perms \<Longrightarrow> \<exists>s. SendCoinsFromAccountToModule B a m cs b = (Panic s, b)"
    and account_to_module:
      "m \<in> fst ` set perms \<Longrightarrow> coins_ok denom_ok cs \<Longrightarrow> covered (\<lambda>d. bal b a d - locked a d) cs \<Longrightarrow>
        \<exists>b'. SendCoinsFromAccountToModule B a m cs b = (Ok (), b') \<and>
          bal b' = moved (bal b) a (GetModuleAddress A m) cs \<and> total b' = total b"
    and account_to_module_short:
      "m \<in> fst ` set perms \<Longrightarrow> coins_ok denom_ok cs \<Longrightarrow> \<not> covered (\<lambda>d. bal b a d - locked a d) cs \<Longrightarrow>
        \<exists>e. SendCoinsFromAccountToModule B a m cs b = (Err e, b)"
    and module_to_account:
      "m \<in> fst ` set perms \<Longrightarrow> coins_ok denom_ok cs \<Longrightarrow> \<not> blocked a \<Longrightarrow>
        covered (bal b (GetModuleAddress A m)) cs \<Longrightarrow>
        \<exists>b'. SendCoinsFromModuleToAccount B m a cs b = (Ok (), b') \<and>
          bal b' = moved (bal b) (GetModuleAddress A m) a cs \<and> total b' = total b"
    and module_to_account_fail:
      "m \<in> fst ` set perms \<Longrightarrow> coins_ok denom_ok cs \<Longrightarrow>
        blocked a \<or> \<not> covered (bal b (GetModuleAddress A m)) cs \<Longrightarrow>
        \<exists>e. SendCoinsFromModuleToAccount B m a cs b = (Err e, b)"
    and module_to_module:
      "m \<in> fst ` set perms \<Longrightarrow> m' \<in> fst ` set perms \<Longrightarrow> coins_ok denom_ok cs \<Longrightarrow>
        covered (bal b (GetModuleAddress A m)) cs \<Longrightarrow>
        \<exists>b'. SendCoinsFromModuleToModule B m m' cs b = (Ok (), b') \<and>
          bal b' = moved (bal b) (GetModuleAddress A m) (GetModuleAddress A m') cs \<and> total b' = total b"
    and module_to_module_short:
      "m \<in> fst ` set perms \<Longrightarrow> m' \<in> fst ` set perms \<Longrightarrow> coins_ok denom_ok cs \<Longrightarrow>
        \<not> covered (bal b (GetModuleAddress A m)) cs \<Longrightarrow>
        \<exists>e. SendCoinsFromModuleToModule B m m' cs b = (Err e, b)"
    and mint:
      "has_perm perms m minter \<Longrightarrow> coins_ok denom_ok cs \<Longrightarrow>
        (\<forall>c\<in>set cs. total b (coin_Denom c) + the (coin_Amount c) < 2 ^ 256) \<Longrightarrow>
        \<exists>b'. MintCoins B m cs b = (Ok (), b') \<and>
          bal b' = (bal b)(GetModuleAddress A m := (\<lambda>d. bal b (GetModuleAddress A m) d + coins_amt cs d)) \<and>
          total b' = (\<lambda>d. total b d + coins_amt cs d)"
    and burn:
      "has_perm perms m burner \<Longrightarrow> coins_ok denom_ok cs \<Longrightarrow>
        covered (bal b (GetModuleAddress A m)) cs \<Longrightarrow>
        \<exists>b'. BurnCoins B m cs b = (Ok (), b') \<and>
          bal b' = (bal b)(GetModuleAddress A m := (\<lambda>d. bal b (GetModuleAddress A m) d - coins_amt cs d)) \<and>
          total b' = (\<lambda>d. total b d - coins_amt cs d)"
    and burn_short:
      "has_perm perms m burner \<Longrightarrow> coins_ok denom_ok cs \<Longrightarrow>
        \<not> covered (bal b (GetModuleAddress A m)) cs \<Longrightarrow> \<exists>e. BurnCoins B m cs b = (Err e, b)"

end
