(* ===== verification/Tx_Pb.thy ===== *)
theory Tx_Pb
  imports Params_Pb
begin

text \<open>
  \<open>x/hal/types/tx.pb.go\<close>: the requests and responses of the \<open>Msg\<close> service with their generated
  methods. Each message is an instance of the message contract.
\<close>

section \<open>Helpers of the file\<close>

section \<open>MsgUpdateParams\<close>

record msg_update_params =
  up_Authority :: string
  up_Params :: params

definition MsgUpdateParams_Reset :: msg_update_params where
  "MsgUpdateParams_Reset = \<lparr>up_Authority = [], up_Params = Params_Reset\<rparr>"

definition MsgUpdateParams_GetAuthority :: "msg_update_params option \<Rightarrow> string" where
  "MsgUpdateParams_GetAuthority m = (case m of Some x \<Rightarrow> up_Authority x | None \<Rightarrow> [])"

definition MsgUpdateParams_GetParams :: "msg_update_params option \<Rightarrow> params" where
  "MsgUpdateParams_GetParams m = (case m of Some x \<Rightarrow> up_Params x | None \<Rightarrow> Params_Reset)"

definition MsgUpdateParams_Size :: "wire_ext \<Rightarrow> msg_update_params \<Rightarrow> int" where
  "MsgUpdateParams_Size X m =
     (let l = int (length (up_Authority m)) in
        if l > 0 then 1 + l + sov (word_of_nat (length (up_Authority m))) else 0)
   + (let l = Params_Size X (up_Params m) in 1 + l + sov (word_of_int l))"

definition MsgUpdateParams_body :: "wire_ext \<Rightarrow> msg_update_params \<Rightarrow> wr" where
  "MsgUpdateParams_body X m =
     then_w (put_message_field 0x12 (Params_MarshalToSizedBuffer X (up_Params m)))
    (put_string_field 0x0a (up_Authority m))"

definition MsgUpdateParams_MarshalToSizedBuffer :: "wire_ext \<Rightarrow> msg_update_params \<Rightarrow> bytes \<Rightarrow> (bytes \<times> int) outcome" where
  "MsgUpdateParams_MarshalToSizedBuffer X m = to_sized_buffer (MsgUpdateParams_body X m)"

definition MsgUpdateParams_Marshal :: "wire_ext \<Rightarrow> msg_update_params \<Rightarrow> bytes outcome" where
  "MsgUpdateParams_Marshal X m = marshal (MsgUpdateParams_Size X m) (MsgUpdateParams_MarshalToSizedBuffer X m)"

definition MsgUpdateParams_MarshalTo :: "wire_ext \<Rightarrow> msg_update_params \<Rightarrow> bytes \<Rightarrow> (bytes \<times> int) outcome" where
  "MsgUpdateParams_MarshalTo X m = marshalTo (MsgUpdateParams_Size X m) (MsgUpdateParams_MarshalToSizedBuffer X m)"

definition MsgUpdateParams_fields :: "wire_ext \<Rightarrow> msg_update_params fields" where
  "MsgUpdateParams_fields X n =
     (if n = 1 then Some (string_case ''Authority'' (\<lambda>s m. m\<lparr>up_Authority := s\<rparr>))
      else if n = 2 then Some (message_case ''Params'' up_Params (\<lambda>p m. m\<lparr>up_Params := p\<rparr>)
          (Params_Unmarshal X))
      else None)"

definition MsgUpdateParams_Unmarshal :: "wire_ext \<Rightarrow> msg_update_params \<Rightarrow> bytes \<Rightarrow> msg_update_params outcome" where
  "MsgUpdateParams_Unmarshal X m dAtA = unmarshal PbTx ''MsgUpdateParams'' (MsgUpdateParams_fields X) m dAtA"

definition MsgUpdateParams_enc :: "wire_ext \<Rightarrow> msg_update_params \<Rightarrow> bytes" where
  "MsgUpdateParams_enc X m =
     enc_string_field 0x0a (up_Authority m)
   @ enc_len 0x12 (Params_enc X (up_Params m))"

definition MsgUpdateParams_wf :: "wire_ext \<Rightarrow> msg_update_params \<Rightarrow> bool" where
  "MsgUpdateParams_wf X m \<longleftrightarrow> MsgUpdateParams_Size X m < 2 ^ 63"

lemma MsgUpdateParams_fields_simps [simp]:
  "MsgUpdateParams_fields X 1 = Some (string_case ''Authority'' (\<lambda>s m. m\<lparr>up_Authority := s\<rparr>))"
  "MsgUpdateParams_fields X 2 = Some (message_case ''Params'' up_Params (\<lambda>p m. m\<lparr>up_Params := p\<rparr>)
          (Params_Unmarshal X))"
  by (simp_all add: MsgUpdateParams_fields_def)

context wire_ext_laws
begin

lemma MsgUpdateParams_size_enc: "MsgUpdateParams_Size X m = int (length (MsgUpdateParams_enc X m))"
  unfolding MsgUpdateParams_Size_def MsgUpdateParams_enc_def Params_size_enc Let_def length_append of_nat_add
    length_enc_len length_enc_string_field of_int_of_nat_eq by (simp only: add.assoc)

lemma MsgUpdateParams_Params_length:
  assumes "MsgUpdateParams_wf X m"
  shows "length (Params_enc X (up_Params m)) < 2 ^ 63"
proof -
  have "length (Params_enc X (up_Params m)) \<le> length (MsgUpdateParams_enc X m)"
    by (simp add: MsgUpdateParams_enc_def enc_len_def)
  then show ?thesis
    using assms MsgUpdateParams_size_enc [of m] by (simp add: MsgUpdateParams_wf_def)
qed

lemma MsgUpdateParams_writes:
  assumes "MsgUpdateParams_wf X m"
  shows "writes (MsgUpdateParams_body X m) (MsgUpdateParams_enc X m)"
proof -
  have p: "Params_wf X (up_Params m)"
    using MsgUpdateParams_Params_length [OF assms] by (simp add: Params_wf_def Params_size_enc)
  have "writes (MsgUpdateParams_body X m)
      (enc_string_field 0x0a (up_Authority m)
        @ enc_len 0x12 (Params_enc X (up_Params m)))"
    unfolding MsgUpdateParams_body_def by (intro writes_intro Params_fills p)
  then show ?thesis by (simp add: MsgUpdateParams_enc_def)
qed

lemma MsgUpdateParams_decodes:
  assumes "MsgUpdateParams_wf X m"
  shows "decodes PbTx ''MsgUpdateParams'' (MsgUpdateParams_fields X) (MsgUpdateParams_enc X m) MsgUpdateParams_Reset m"
proof -
  let ?m1 = "if up_Authority m = [] then MsgUpdateParams_Reset else MsgUpdateParams_Reset\<lparr>up_Authority := up_Authority m\<rparr>"
  let ?m2 = "?m1\<lparr>up_Params := up_Params m\<rparr>"
  have z2: "up_Params (?m1) = Params_Reset"
    by (simp add: MsgUpdateParams_Reset_def)
  have h2: "Params_Unmarshal X (up_Params (?m1)) (Params_enc X (up_Params m)) = Ok (up_Params m)"
    unfolding z2 using MsgUpdateParams_Params_length [OF assms]
    by (intro Params_Unmarshal_enc) (simp add: Params_wf_def Params_size_enc)
  let ?d = "decodes PbTx ''MsgUpdateParams'' (MsgUpdateParams_fields X)"
  have "?d (enc_string_field 0x0a (up_Authority m)) (MsgUpdateParams_Reset) ?m1"
    by (rule decodes_string [where n = 1], rule MsgUpdateParams_fields_simps, rule tags, rule refl)
  moreover have "?d (enc_len 0x12 (Params_enc X (up_Params m))) (?m1) ?m2"
    by (rule decodes_message [where n = 2], rule MsgUpdateParams_fields_simps, rule tags, rule h2, rule refl)
  ultimately have "?d (MsgUpdateParams_enc X m) MsgUpdateParams_Reset ?m2"
    unfolding MsgUpdateParams_enc_def by (intro decodes_append)
  moreover have "?m2 = m"
    by (cases m) (simp add: MsgUpdateParams_Reset_def)
  ultimately show ?thesis by simp
qed

lemma MsgUpdateParams_safe: "safe_fields (MsgUpdateParams_fields X)"
  by (rule safe_fieldsI)
    (auto simp: MsgUpdateParams_fields_def Params_Unmarshal_no_panic split: if_splits
      intro!: safe_message_case safe_std_case)

end

sublocale wire_ext_laws \<subseteq> MsgUpdateParams: message PbTx "''MsgUpdateParams''" "MsgUpdateParams_fields X" "MsgUpdateParams_Size X"
    "MsgUpdateParams_body X" "MsgUpdateParams_enc X" MsgUpdateParams_Reset "MsgUpdateParams_wf X"
  by unfold_locales
    (auto simp: MsgUpdateParams_writes MsgUpdateParams_size_enc MsgUpdateParams_decodes MsgUpdateParams_safe)

context wire_ext_laws
begin

lemma MsgUpdateParams_marshal_unmarshal:
  "MsgUpdateParams_wf X m \<Longrightarrow> bind_o (MsgUpdateParams_Marshal X m) (MsgUpdateParams_Unmarshal X MsgUpdateParams_Reset) = Ok m"
  using MsgUpdateParams.marshal_enc [of m] MsgUpdateParams.unmarshal_enc [of m]
  by (simp add: MsgUpdateParams_Marshal_def MsgUpdateParams_MarshalToSizedBuffer_def MsgUpdateParams_Unmarshal_def MsgUpdateParams_wf_def)

lemma MsgUpdateParams_unmarshal_no_panic:
  "length dAtA < 2 ^ 63 \<Longrightarrow> \<not> is_Panic (MsgUpdateParams_Unmarshal X m dAtA)"
  using MsgUpdateParams.no_panic [of dAtA m] by (simp add: MsgUpdateParams_Unmarshal_def)

lemma MsgUpdateParams_marshal_enc: "MsgUpdateParams_wf X m \<Longrightarrow> MsgUpdateParams_Marshal X m = Ok (MsgUpdateParams_enc X m)"
  using MsgUpdateParams.marshal_enc [of m] by (simp add: MsgUpdateParams_Marshal_def MsgUpdateParams_MarshalToSizedBuffer_def)

end

section \<open>MsgUpdateParamsResponse\<close>

datatype msg_update_params_response = MsgUpdateParamsResponse_Reset

definition MsgUpdateParamsResponse_Size :: "msg_update_params_response \<Rightarrow> int" where
  "MsgUpdateParamsResponse_Size m =
     0"

definition MsgUpdateParamsResponse_body :: "msg_update_params_response \<Rightarrow> wr" where
  "MsgUpdateParamsResponse_body m =
     skip_w"

definition MsgUpdateParamsResponse_MarshalToSizedBuffer :: "msg_update_params_response \<Rightarrow> bytes \<Rightarrow> (bytes \<times> int) outcome" where
  "MsgUpdateParamsResponse_MarshalToSizedBuffer m = to_sized_buffer (MsgUpdateParamsResponse_body m)"

definition MsgUpdateParamsResponse_Marshal :: "msg_update_params_response \<Rightarrow> bytes outcome" where
  "MsgUpdateParamsResponse_Marshal m = marshal (MsgUpdateParamsResponse_Size m) (MsgUpdateParamsResponse_MarshalToSizedBuffer m)"

definition MsgUpdateParamsResponse_MarshalTo :: "msg_update_params_response \<Rightarrow> bytes \<Rightarrow> (bytes \<times> int) outcome" where
  "MsgUpdateParamsResponse_MarshalTo m = marshalTo (MsgUpdateParamsResponse_Size m) (MsgUpdateParamsResponse_MarshalToSizedBuffer m)"

definition MsgUpdateParamsResponse_fields :: "msg_update_params_response fields" where
  "MsgUpdateParamsResponse_fields n =
     None"

definition MsgUpdateParamsResponse_Unmarshal :: "msg_update_params_response \<Rightarrow> bytes \<Rightarrow> msg_update_params_response outcome" where
  "MsgUpdateParamsResponse_Unmarshal m dAtA = unmarshal PbTx ''MsgUpdateParamsResponse'' (MsgUpdateParamsResponse_fields) m dAtA"

definition MsgUpdateParamsResponse_enc :: "msg_update_params_response \<Rightarrow> bytes" where
  "MsgUpdateParamsResponse_enc m =
     []"

lemma MsgUpdateParamsResponse_writes: "writes (MsgUpdateParamsResponse_body m) (MsgUpdateParamsResponse_enc m)"
  by (simp add: MsgUpdateParamsResponse_body_def MsgUpdateParamsResponse_enc_def writes_skip)

lemma MsgUpdateParamsResponse_size_enc: "MsgUpdateParamsResponse_Size m = int (length (MsgUpdateParamsResponse_enc m))"
  by (simp add: MsgUpdateParamsResponse_Size_def MsgUpdateParamsResponse_enc_def)

lemma MsgUpdateParamsResponse_decodes: "decodes PbTx ''MsgUpdateParamsResponse'' MsgUpdateParamsResponse_fields (MsgUpdateParamsResponse_enc m) MsgUpdateParamsResponse_Reset m"
  by (cases m) (simp add: MsgUpdateParamsResponse_enc_def decodes_Nil)

lemma MsgUpdateParamsResponse_safe: "safe_fields MsgUpdateParamsResponse_fields"
  by (rule safe_fieldsI) (auto simp: MsgUpdateParamsResponse_fields_def split: if_splits)

interpretation MsgUpdateParamsResponse: message PbTx "''MsgUpdateParamsResponse''" MsgUpdateParamsResponse_fields MsgUpdateParamsResponse_Size MsgUpdateParamsResponse_body MsgUpdateParamsResponse_enc
    MsgUpdateParamsResponse_Reset "\<lambda>_. True"
  by unfold_locales (simp_all add: MsgUpdateParamsResponse_writes MsgUpdateParamsResponse_size_enc MsgUpdateParamsResponse_decodes MsgUpdateParamsResponse_safe)

lemma MsgUpdateParamsResponse_marshal_unmarshal:
  "MsgUpdateParamsResponse_Size m < 2 ^ 63 \<Longrightarrow> bind_o (MsgUpdateParamsResponse_Marshal m) (MsgUpdateParamsResponse_Unmarshal MsgUpdateParamsResponse_Reset) = Ok m"
  using MsgUpdateParamsResponse.marshal_enc [of m] MsgUpdateParamsResponse.unmarshal_enc [of m]
  by (simp add: MsgUpdateParamsResponse_Marshal_def MsgUpdateParamsResponse_MarshalToSizedBuffer_def MsgUpdateParamsResponse_Unmarshal_def)

lemma MsgUpdateParamsResponse_unmarshal_no_panic:
  "length dAtA < 2 ^ 63 \<Longrightarrow> \<not> is_Panic (MsgUpdateParamsResponse_Unmarshal m dAtA)"
  using MsgUpdateParamsResponse.no_panic [of dAtA m] by (simp add: MsgUpdateParamsResponse_Unmarshal_def)

lemma MsgUpdateParamsResponse_marshal_enc: "MsgUpdateParamsResponse_Marshal m = Ok (MsgUpdateParamsResponse_enc m)"
  using MsgUpdateParamsResponse.marshal_enc [of m] by (simp add: MsgUpdateParamsResponse_Marshal_def MsgUpdateParamsResponse_MarshalToSizedBuffer_def)

section \<open>MsgMintHal\<close>

record msg_mint_hal =
  mh_Creator :: string
  mh_CollateralAmount :: coin

definition MsgMintHal_Reset :: msg_mint_hal where
  "MsgMintHal_Reset = \<lparr>mh_Creator = [], mh_CollateralAmount = coin_zero\<rparr>"

definition MsgMintHal_GetCreator :: "msg_mint_hal option \<Rightarrow> string" where
  "MsgMintHal_GetCreator m = (case m of Some x \<Rightarrow> mh_Creator x | None \<Rightarrow> [])"

definition MsgMintHal_GetCollateralAmount :: "msg_mint_hal option \<Rightarrow> coin" where
  "MsgMintHal_GetCollateralAmount m = (case m of Some x \<Rightarrow> mh_CollateralAmount x | None \<Rightarrow> coin_zero)"

definition MsgMintHal_Size :: "wire_ext \<Rightarrow> msg_mint_hal \<Rightarrow> int" where
  "MsgMintHal_Size X m =
     (let l = int (length (mh_Creator m)) in
        if l > 0 then 1 + l + sov (word_of_nat (length (mh_Creator m))) else 0)
   + (let l = CoinSize X (mh_CollateralAmount m) in 1 + l + sov (word_of_int l))"

definition MsgMintHal_body :: "wire_ext \<Rightarrow> msg_mint_hal \<Rightarrow> wr" where
  "MsgMintHal_body X m =
     then_w (put_message_field 0x12 (CoinMarshalToSizedBuffer X (mh_CollateralAmount m)))
    (put_string_field 0x0a (mh_Creator m))"

definition MsgMintHal_MarshalToSizedBuffer :: "wire_ext \<Rightarrow> msg_mint_hal \<Rightarrow> bytes \<Rightarrow> (bytes \<times> int) outcome" where
  "MsgMintHal_MarshalToSizedBuffer X m = to_sized_buffer (MsgMintHal_body X m)"

definition MsgMintHal_Marshal :: "wire_ext \<Rightarrow> msg_mint_hal \<Rightarrow> bytes outcome" where
  "MsgMintHal_Marshal X m = marshal (MsgMintHal_Size X m) (MsgMintHal_MarshalToSizedBuffer X m)"

definition MsgMintHal_MarshalTo :: "wire_ext \<Rightarrow> msg_mint_hal \<Rightarrow> bytes \<Rightarrow> (bytes \<times> int) outcome" where
  "MsgMintHal_MarshalTo X m = marshalTo (MsgMintHal_Size X m) (MsgMintHal_MarshalToSizedBuffer X m)"

definition MsgMintHal_fields :: "wire_ext \<Rightarrow> msg_mint_hal fields" where
  "MsgMintHal_fields X n =
     (if n = 1 then Some (string_case ''Creator'' (\<lambda>s m. m\<lparr>mh_Creator := s\<rparr>))
      else if n = 2 then Some (message_case ''CollateralAmount'' mh_CollateralAmount (\<lambda>c m. m\<lparr>mh_CollateralAmount := c\<rparr>)
          (CoinUnmarshal X))
      else None)"

definition MsgMintHal_Unmarshal :: "wire_ext \<Rightarrow> msg_mint_hal \<Rightarrow> bytes \<Rightarrow> msg_mint_hal outcome" where
  "MsgMintHal_Unmarshal X m dAtA = unmarshal PbTx ''MsgMintHal'' (MsgMintHal_fields X) m dAtA"

definition MsgMintHal_enc :: "wire_ext \<Rightarrow> msg_mint_hal \<Rightarrow> bytes" where
  "MsgMintHal_enc X m =
     enc_string_field 0x0a (mh_Creator m)
   @ enc_len 0x12 (enc_coin X (mh_CollateralAmount m))"

definition MsgMintHal_wf :: "wire_ext \<Rightarrow> msg_mint_hal \<Rightarrow> bool" where
  "MsgMintHal_wf X m \<longleftrightarrow> coin_ok (mh_CollateralAmount m) \<and> MsgMintHal_Size X m < 2 ^ 63"

lemma MsgMintHal_fields_simps [simp]:
  "MsgMintHal_fields X 1 = Some (string_case ''Creator'' (\<lambda>s m. m\<lparr>mh_Creator := s\<rparr>))"
  "MsgMintHal_fields X 2 = Some (message_case ''CollateralAmount'' mh_CollateralAmount (\<lambda>c m. m\<lparr>mh_CollateralAmount := c\<rparr>)
          (CoinUnmarshal X))"
  by (simp_all add: MsgMintHal_fields_def)

context wire_ext_laws
begin

lemma MsgMintHal_size_enc: "MsgMintHal_Size X m = int (length (MsgMintHal_enc X m))"
  by (simp add: MsgMintHal_Size_def MsgMintHal_enc_def size_simps coin_size)

lemma MsgMintHal_CollateralAmount_length:
  assumes "MsgMintHal_wf X m"
  shows "length (enc_coin X (mh_CollateralAmount m)) < 2 ^ 63"
proof -
  have "length (enc_coin X (mh_CollateralAmount m)) \<le> length (MsgMintHal_enc X m)"
    by (simp add: MsgMintHal_enc_def enc_len_def)
  then show ?thesis
    using assms MsgMintHal_size_enc [of m] by (simp add: MsgMintHal_wf_def)
qed

lemma MsgMintHal_writes:
  assumes "MsgMintHal_wf X m"
  shows "writes (MsgMintHal_body X m) (MsgMintHal_enc X m)"
proof -
  have "writes (MsgMintHal_body X m)
      (enc_string_field 0x0a (mh_Creator m)
        @ enc_len 0x12 (enc_coin X (mh_CollateralAmount m)))"
    unfolding MsgMintHal_body_def by (intro writes_intro coin_fills)
  then show ?thesis by (simp add: MsgMintHal_enc_def)
qed

lemma MsgMintHal_decodes:
  assumes "MsgMintHal_wf X m"
  shows "decodes PbTx ''MsgMintHal'' (MsgMintHal_fields X) (MsgMintHal_enc X m) MsgMintHal_Reset m"
proof -
  let ?m1 = "if mh_Creator m = [] then MsgMintHal_Reset else MsgMintHal_Reset\<lparr>mh_Creator := mh_Creator m\<rparr>"
  let ?m2 = "?m1\<lparr>mh_CollateralAmount := mh_CollateralAmount m\<rparr>"
  have z2: "mh_CollateralAmount (?m1) = coin_zero"
    by (simp add: MsgMintHal_Reset_def)
  have h2: "CoinUnmarshal X (mh_CollateralAmount (?m1)) (enc_coin X (mh_CollateralAmount m)) = Ok (mh_CollateralAmount m)"
    unfolding z2 using assms MsgMintHal_CollateralAmount_length [OF assms] by (intro coin_roundtrip) (simp_all add: MsgMintHal_wf_def)
  let ?d = "decodes PbTx ''MsgMintHal'' (MsgMintHal_fields X)"
  have "?d (enc_string_field 0x0a (mh_Creator m)) (MsgMintHal_Reset) ?m1"
    by (rule decodes_string [where n = 1], rule MsgMintHal_fields_simps, rule tags, rule refl)
  moreover have "?d (enc_len 0x12 (enc_coin X (mh_CollateralAmount m))) (?m1) ?m2"
    by (rule decodes_message [where n = 2], rule MsgMintHal_fields_simps, rule tags, rule h2, rule refl)
  ultimately have "?d (MsgMintHal_enc X m) MsgMintHal_Reset ?m2"
    unfolding MsgMintHal_enc_def by (intro decodes_append)
  moreover have "?m2 = m"
    by (cases m) (simp add: MsgMintHal_Reset_def)
  ultimately show ?thesis by simp
qed

lemma MsgMintHal_safe: "safe_fields (MsgMintHal_fields X)"
  by (rule safe_fieldsI)
    (auto simp: MsgMintHal_fields_def coin_no_panic split: if_splits
      intro!: safe_message_case safe_std_case)

end

sublocale wire_ext_laws \<subseteq> MsgMintHal: message PbTx "''MsgMintHal''" "MsgMintHal_fields X" "MsgMintHal_Size X"
    "MsgMintHal_body X" "MsgMintHal_enc X" MsgMintHal_Reset "MsgMintHal_wf X"
  by unfold_locales
    (auto simp: MsgMintHal_writes MsgMintHal_size_enc MsgMintHal_decodes MsgMintHal_safe)

context wire_ext_laws
begin

lemma MsgMintHal_marshal_unmarshal:
  "MsgMintHal_wf X m \<Longrightarrow> bind_o (MsgMintHal_Marshal X m) (MsgMintHal_Unmarshal X MsgMintHal_Reset) = Ok m"
  using MsgMintHal.marshal_enc [of m] MsgMintHal.unmarshal_enc [of m]
  by (simp add: MsgMintHal_Marshal_def MsgMintHal_MarshalToSizedBuffer_def MsgMintHal_Unmarshal_def MsgMintHal_wf_def)

lemma MsgMintHal_unmarshal_no_panic:
  "length dAtA < 2 ^ 63 \<Longrightarrow> \<not> is_Panic (MsgMintHal_Unmarshal X m dAtA)"
  using MsgMintHal.no_panic [of dAtA m] by (simp add: MsgMintHal_Unmarshal_def)

lemma MsgMintHal_marshal_enc: "MsgMintHal_wf X m \<Longrightarrow> MsgMintHal_Marshal X m = Ok (MsgMintHal_enc X m)"
  using MsgMintHal.marshal_enc [of m] by (simp add: MsgMintHal_Marshal_def MsgMintHal_MarshalToSizedBuffer_def)

end

section \<open>MsgMintHalResponse\<close>

record msg_mint_hal_response =
  mhr_MintedAmount :: coin

definition MsgMintHalResponse_Reset :: msg_mint_hal_response where
  "MsgMintHalResponse_Reset = \<lparr>mhr_MintedAmount = coin_zero\<rparr>"

definition MsgMintHalResponse_GetMintedAmount :: "msg_mint_hal_response option \<Rightarrow> coin" where
  "MsgMintHalResponse_GetMintedAmount m = (case m of Some x \<Rightarrow> mhr_MintedAmount x | None \<Rightarrow> coin_zero)"

definition MsgMintHalResponse_Size :: "wire_ext \<Rightarrow> msg_mint_hal_response \<Rightarrow> int" where
  "MsgMintHalResponse_Size X m =
     (let l = CoinSize X (mhr_MintedAmount m) in 1 + l + sov (word_of_int l))"

definition MsgMintHalResponse_body :: "wire_ext \<Rightarrow> msg_mint_hal_response \<Rightarrow> wr" where
  "MsgMintHalResponse_body X m =
     put_message_field 0x0a (CoinMarshalToSizedBuffer X (mhr_MintedAmount m))"

definition MsgMintHalResponse_MarshalToSizedBuffer :: "wire_ext \<Rightarrow> msg_mint_hal_response \<Rightarrow> bytes \<Rightarrow> (bytes \<times> int) outcome" where
  "MsgMintHalResponse_MarshalToSizedBuffer X m = to_sized_buffer (MsgMintHalResponse_body X m)"

definition MsgMintHalResponse_Marshal :: "wire_ext \<Rightarrow> msg_mint_hal_response \<Rightarrow> bytes outcome" where
  "MsgMintHalResponse_Marshal X m = marshal (MsgMintHalResponse_Size X m) (MsgMintHalResponse_MarshalToSizedBuffer X m)"

definition MsgMintHalResponse_MarshalTo :: "wire_ext \<Rightarrow> msg_mint_hal_response \<Rightarrow> bytes \<Rightarrow> (bytes \<times> int) outcome" where
  "MsgMintHalResponse_MarshalTo X m = marshalTo (MsgMintHalResponse_Size X m) (MsgMintHalResponse_MarshalToSizedBuffer X m)"

definition MsgMintHalResponse_fields :: "wire_ext \<Rightarrow> msg_mint_hal_response fields" where
  "MsgMintHalResponse_fields X n =
     (if n = 1 then Some (message_case ''MintedAmount'' mhr_MintedAmount (\<lambda>c m. m\<lparr>mhr_MintedAmount := c\<rparr>)
          (CoinUnmarshal X))
      else None)"

definition MsgMintHalResponse_Unmarshal :: "wire_ext \<Rightarrow> msg_mint_hal_response \<Rightarrow> bytes \<Rightarrow> msg_mint_hal_response outcome" where
  "MsgMintHalResponse_Unmarshal X m dAtA = unmarshal PbTx ''MsgMintHalResponse'' (MsgMintHalResponse_fields X) m dAtA"

definition MsgMintHalResponse_enc :: "wire_ext \<Rightarrow> msg_mint_hal_response \<Rightarrow> bytes" where
  "MsgMintHalResponse_enc X m =
     enc_len 0x0a (enc_coin X (mhr_MintedAmount m))"

definition MsgMintHalResponse_wf :: "wire_ext \<Rightarrow> msg_mint_hal_response \<Rightarrow> bool" where
  "MsgMintHalResponse_wf X m \<longleftrightarrow> coin_ok (mhr_MintedAmount m) \<and> MsgMintHalResponse_Size X m < 2 ^ 63"

lemma MsgMintHalResponse_fields_simps [simp]:
  "MsgMintHalResponse_fields X 1 = Some (message_case ''MintedAmount'' mhr_MintedAmount (\<lambda>c m. m\<lparr>mhr_MintedAmount := c\<rparr>)
          (CoinUnmarshal X))"
  by (simp_all add: MsgMintHalResponse_fields_def)

context wire_ext_laws
begin

lemma MsgMintHalResponse_size_enc: "MsgMintHalResponse_Size X m = int (length (MsgMintHalResponse_enc X m))"
  by (simp add: MsgMintHalResponse_Size_def MsgMintHalResponse_enc_def size_simps coin_size)

lemma MsgMintHalResponse_MintedAmount_length:
  assumes "MsgMintHalResponse_wf X m"
  shows "length (enc_coin X (mhr_MintedAmount m)) < 2 ^ 63"
proof -
  have "length (enc_coin X (mhr_MintedAmount m)) \<le> length (MsgMintHalResponse_enc X m)"
    by (simp add: MsgMintHalResponse_enc_def enc_len_def)
  then show ?thesis
    using assms MsgMintHalResponse_size_enc [of m] by (simp add: MsgMintHalResponse_wf_def)
qed

lemma MsgMintHalResponse_writes:
  assumes "MsgMintHalResponse_wf X m"
  shows "writes (MsgMintHalResponse_body X m) (MsgMintHalResponse_enc X m)"
proof -
  have "writes (MsgMintHalResponse_body X m)
      (enc_len 0x0a (enc_coin X (mhr_MintedAmount m)))"
    unfolding MsgMintHalResponse_body_def by (intro writes_intro coin_fills)
  then show ?thesis by (simp add: MsgMintHalResponse_enc_def)
qed

lemma MsgMintHalResponse_decodes:
  assumes "MsgMintHalResponse_wf X m"
  shows "decodes PbTx ''MsgMintHalResponse'' (MsgMintHalResponse_fields X) (MsgMintHalResponse_enc X m) MsgMintHalResponse_Reset m"
proof -
  let ?m1 = "MsgMintHalResponse_Reset\<lparr>mhr_MintedAmount := mhr_MintedAmount m\<rparr>"
  have z1: "mhr_MintedAmount (MsgMintHalResponse_Reset) = coin_zero"
    by (simp add: MsgMintHalResponse_Reset_def)
  have h1: "CoinUnmarshal X (mhr_MintedAmount (MsgMintHalResponse_Reset)) (enc_coin X (mhr_MintedAmount m)) = Ok (mhr_MintedAmount m)"
    unfolding z1 using assms MsgMintHalResponse_MintedAmount_length [OF assms] by (intro coin_roundtrip) (simp_all add: MsgMintHalResponse_wf_def)
  let ?d = "decodes PbTx ''MsgMintHalResponse'' (MsgMintHalResponse_fields X)"
  have "?d (enc_len 0x0a (enc_coin X (mhr_MintedAmount m))) (MsgMintHalResponse_Reset) ?m1"
    by (rule decodes_message [where n = 1], rule MsgMintHalResponse_fields_simps, rule tags, rule h1, rule refl)
  then have "?d (MsgMintHalResponse_enc X m) MsgMintHalResponse_Reset ?m1"
    unfolding MsgMintHalResponse_enc_def .
  moreover have "?m1 = m"
    by (cases m) (simp add: MsgMintHalResponse_Reset_def)
  ultimately show ?thesis by simp
qed

lemma MsgMintHalResponse_safe: "safe_fields (MsgMintHalResponse_fields X)"
  by (rule safe_fieldsI)
    (auto simp: MsgMintHalResponse_fields_def coin_no_panic split: if_splits
      intro!: safe_message_case safe_std_case)

end

sublocale wire_ext_laws \<subseteq> MsgMintHalResponse: message PbTx "''MsgMintHalResponse''" "MsgMintHalResponse_fields X" "MsgMintHalResponse_Size X"
    "MsgMintHalResponse_body X" "MsgMintHalResponse_enc X" MsgMintHalResponse_Reset "MsgMintHalResponse_wf X"
  by unfold_locales
    (auto simp: MsgMintHalResponse_writes MsgMintHalResponse_size_enc MsgMintHalResponse_decodes MsgMintHalResponse_safe)

context wire_ext_laws
begin

lemma MsgMintHalResponse_marshal_unmarshal:
  "MsgMintHalResponse_wf X m \<Longrightarrow> bind_o (MsgMintHalResponse_Marshal X m) (MsgMintHalResponse_Unmarshal X MsgMintHalResponse_Reset) = Ok m"
  using MsgMintHalResponse.marshal_enc [of m] MsgMintHalResponse.unmarshal_enc [of m]
  by (simp add: MsgMintHalResponse_Marshal_def MsgMintHalResponse_MarshalToSizedBuffer_def MsgMintHalResponse_Unmarshal_def MsgMintHalResponse_wf_def)

lemma MsgMintHalResponse_unmarshal_no_panic:
  "length dAtA < 2 ^ 63 \<Longrightarrow> \<not> is_Panic (MsgMintHalResponse_Unmarshal X m dAtA)"
  using MsgMintHalResponse.no_panic [of dAtA m] by (simp add: MsgMintHalResponse_Unmarshal_def)

lemma MsgMintHalResponse_marshal_enc: "MsgMintHalResponse_wf X m \<Longrightarrow> MsgMintHalResponse_Marshal X m = Ok (MsgMintHalResponse_enc X m)"
  using MsgMintHalResponse.marshal_enc [of m] by (simp add: MsgMintHalResponse_Marshal_def MsgMintHalResponse_MarshalToSizedBuffer_def)

end

section \<open>MsgRedeemCollateral\<close>

record msg_redeem_collateral =
  rc_Creator :: string
  rc_HalAmount :: coin

definition MsgRedeemCollateral_Reset :: msg_redeem_collateral where
  "MsgRedeemCollateral_Reset = \<lparr>rc_Creator = [], rc_HalAmount = coin_zero\<rparr>"

definition MsgRedeemCollateral_GetCreator :: "msg_redeem_collateral option \<Rightarrow> string" where
  "MsgRedeemCollateral_GetCreator m = (case m of Some x \<Rightarrow> rc_Creator x | None \<Rightarrow> [])"

definition MsgRedeemCollateral_GetHalAmount :: "msg_redeem_collateral option \<Rightarrow> coin" where
  "MsgRedeemCollateral_GetHalAmount m = (case m of Some x \<Rightarrow> rc_HalAmount x | None \<Rightarrow> coin_zero)"

definition MsgRedeemCollateral_Size :: "wire_ext \<Rightarrow> msg_redeem_collateral \<Rightarrow> int" where
  "MsgRedeemCollateral_Size X m =
     (let l = int (length (rc_Creator m)) in
        if l > 0 then 1 + l + sov (word_of_nat (length (rc_Creator m))) else 0)
   + (let l = CoinSize X (rc_HalAmount m) in 1 + l + sov (word_of_int l))"

definition MsgRedeemCollateral_body :: "wire_ext \<Rightarrow> msg_redeem_collateral \<Rightarrow> wr" where
  "MsgRedeemCollateral_body X m =
     then_w (put_message_field 0x12 (CoinMarshalToSizedBuffer X (rc_HalAmount m)))
    (put_string_field 0x0a (rc_Creator m))"

definition MsgRedeemCollateral_MarshalToSizedBuffer :: "wire_ext \<Rightarrow> msg_redeem_collateral \<Rightarrow> bytes \<Rightarrow> (bytes \<times> int) outcome" where
  "MsgRedeemCollateral_MarshalToSizedBuffer X m = to_sized_buffer (MsgRedeemCollateral_body X m)"

definition MsgRedeemCollateral_Marshal :: "wire_ext \<Rightarrow> msg_redeem_collateral \<Rightarrow> bytes outcome" where
  "MsgRedeemCollateral_Marshal X m = marshal (MsgRedeemCollateral_Size X m) (MsgRedeemCollateral_MarshalToSizedBuffer X m)"

definition MsgRedeemCollateral_MarshalTo :: "wire_ext \<Rightarrow> msg_redeem_collateral \<Rightarrow> bytes \<Rightarrow> (bytes \<times> int) outcome" where
  "MsgRedeemCollateral_MarshalTo X m = marshalTo (MsgRedeemCollateral_Size X m) (MsgRedeemCollateral_MarshalToSizedBuffer X m)"

definition MsgRedeemCollateral_fields :: "wire_ext \<Rightarrow> msg_redeem_collateral fields" where
  "MsgRedeemCollateral_fields X n =
     (if n = 1 then Some (string_case ''Creator'' (\<lambda>s m. m\<lparr>rc_Creator := s\<rparr>))
      else if n = 2 then Some (message_case ''HalAmount'' rc_HalAmount (\<lambda>c m. m\<lparr>rc_HalAmount := c\<rparr>)
          (CoinUnmarshal X))
      else None)"

definition MsgRedeemCollateral_Unmarshal :: "wire_ext \<Rightarrow> msg_redeem_collateral \<Rightarrow> bytes \<Rightarrow> msg_redeem_collateral outcome" where
  "MsgRedeemCollateral_Unmarshal X m dAtA = unmarshal PbTx ''MsgRedeemCollateral'' (MsgRedeemCollateral_fields X) m dAtA"

definition MsgRedeemCollateral_enc :: "wire_ext \<Rightarrow> msg_redeem_collateral \<Rightarrow> bytes" where
  "MsgRedeemCollateral_enc X m =
     enc_string_field 0x0a (rc_Creator m)
   @ enc_len 0x12 (enc_coin X (rc_HalAmount m))"

definition MsgRedeemCollateral_wf :: "wire_ext \<Rightarrow> msg_redeem_collateral \<Rightarrow> bool" where
  "MsgRedeemCollateral_wf X m \<longleftrightarrow> coin_ok (rc_HalAmount m) \<and> MsgRedeemCollateral_Size X m < 2 ^ 63"

lemma MsgRedeemCollateral_fields_simps [simp]:
  "MsgRedeemCollateral_fields X 1 = Some (string_case ''Creator'' (\<lambda>s m. m\<lparr>rc_Creator := s\<rparr>))"
  "MsgRedeemCollateral_fields X 2 = Some (message_case ''HalAmount'' rc_HalAmount (\<lambda>c m. m\<lparr>rc_HalAmount := c\<rparr>)
          (CoinUnmarshal X))"
  by (simp_all add: MsgRedeemCollateral_fields_def)

context wire_ext_laws
begin

lemma MsgRedeemCollateral_size_enc: "MsgRedeemCollateral_Size X m = int (length (MsgRedeemCollateral_enc X m))"
  by (simp add: MsgRedeemCollateral_Size_def MsgRedeemCollateral_enc_def size_simps coin_size)

lemma MsgRedeemCollateral_HalAmount_length:
  assumes "MsgRedeemCollateral_wf X m"
  shows "length (enc_coin X (rc_HalAmount m)) < 2 ^ 63"
proof -
  have "length (enc_coin X (rc_HalAmount m)) \<le> length (MsgRedeemCollateral_enc X m)"
    by (simp add: MsgRedeemCollateral_enc_def enc_len_def)
  then show ?thesis
    using assms MsgRedeemCollateral_size_enc [of m] by (simp add: MsgRedeemCollateral_wf_def)
qed

lemma MsgRedeemCollateral_writes:
  assumes "MsgRedeemCollateral_wf X m"
  shows "writes (MsgRedeemCollateral_body X m) (MsgRedeemCollateral_enc X m)"
proof -
  have "writes (MsgRedeemCollateral_body X m)
      (enc_string_field 0x0a (rc_Creator m)
        @ enc_len 0x12 (enc_coin X (rc_HalAmount m)))"
    unfolding MsgRedeemCollateral_body_def by (intro writes_intro coin_fills)
  then show ?thesis by (simp add: MsgRedeemCollateral_enc_def)
qed

lemma MsgRedeemCollateral_decodes:
  assumes "MsgRedeemCollateral_wf X m"
  shows "decodes PbTx ''MsgRedeemCollateral'' (MsgRedeemCollateral_fields X) (MsgRedeemCollateral_enc X m) MsgRedeemCollateral_Reset m"
proof -
  let ?m1 = "if rc_Creator m = [] then MsgRedeemCollateral_Reset else MsgRedeemCollateral_Reset\<lparr>rc_Creator := rc_Creator m\<rparr>"
  let ?m2 = "?m1\<lparr>rc_HalAmount := rc_HalAmount m\<rparr>"
  have z2: "rc_HalAmount (?m1) = coin_zero"
    by (simp add: MsgRedeemCollateral_Reset_def)
  have h2: "CoinUnmarshal X (rc_HalAmount (?m1)) (enc_coin X (rc_HalAmount m)) = Ok (rc_HalAmount m)"
    unfolding z2 using assms MsgRedeemCollateral_HalAmount_length [OF assms] by (intro coin_roundtrip) (simp_all add: MsgRedeemCollateral_wf_def)
  let ?d = "decodes PbTx ''MsgRedeemCollateral'' (MsgRedeemCollateral_fields X)"
  have "?d (enc_string_field 0x0a (rc_Creator m)) (MsgRedeemCollateral_Reset) ?m1"
    by (rule decodes_string [where n = 1], rule MsgRedeemCollateral_fields_simps, rule tags, rule refl)
  moreover have "?d (enc_len 0x12 (enc_coin X (rc_HalAmount m))) (?m1) ?m2"
    by (rule decodes_message [where n = 2], rule MsgRedeemCollateral_fields_simps, rule tags, rule h2, rule refl)
  ultimately have "?d (MsgRedeemCollateral_enc X m) MsgRedeemCollateral_Reset ?m2"
    unfolding MsgRedeemCollateral_enc_def by (intro decodes_append)
  moreover have "?m2 = m"
    by (cases m) (simp add: MsgRedeemCollateral_Reset_def)
  ultimately show ?thesis by simp
qed

lemma MsgRedeemCollateral_safe: "safe_fields (MsgRedeemCollateral_fields X)"
  by (rule safe_fieldsI)
    (auto simp: MsgRedeemCollateral_fields_def coin_no_panic split: if_splits
      intro!: safe_message_case safe_std_case)

end

sublocale wire_ext_laws \<subseteq> MsgRedeemCollateral: message PbTx "''MsgRedeemCollateral''" "MsgRedeemCollateral_fields X" "MsgRedeemCollateral_Size X"
    "MsgRedeemCollateral_body X" "MsgRedeemCollateral_enc X" MsgRedeemCollateral_Reset "MsgRedeemCollateral_wf X"
  by unfold_locales
    (auto simp: MsgRedeemCollateral_writes MsgRedeemCollateral_size_enc MsgRedeemCollateral_decodes MsgRedeemCollateral_safe)

context wire_ext_laws
begin

lemma MsgRedeemCollateral_marshal_unmarshal:
  "MsgRedeemCollateral_wf X m \<Longrightarrow> bind_o (MsgRedeemCollateral_Marshal X m) (MsgRedeemCollateral_Unmarshal X MsgRedeemCollateral_Reset) = Ok m"
  using MsgRedeemCollateral.marshal_enc [of m] MsgRedeemCollateral.unmarshal_enc [of m]
  by (simp add: MsgRedeemCollateral_Marshal_def MsgRedeemCollateral_MarshalToSizedBuffer_def MsgRedeemCollateral_Unmarshal_def MsgRedeemCollateral_wf_def)

lemma MsgRedeemCollateral_unmarshal_no_panic:
  "length dAtA < 2 ^ 63 \<Longrightarrow> \<not> is_Panic (MsgRedeemCollateral_Unmarshal X m dAtA)"
  using MsgRedeemCollateral.no_panic [of dAtA m] by (simp add: MsgRedeemCollateral_Unmarshal_def)

lemma MsgRedeemCollateral_marshal_enc: "MsgRedeemCollateral_wf X m \<Longrightarrow> MsgRedeemCollateral_Marshal X m = Ok (MsgRedeemCollateral_enc X m)"
  using MsgRedeemCollateral.marshal_enc [of m] by (simp add: MsgRedeemCollateral_Marshal_def MsgRedeemCollateral_MarshalToSizedBuffer_def)

end

section \<open>MsgRedeemCollateralResponse\<close>

record msg_redeem_collateral_response =
  rcr_BurnedAmount :: coin
  rcr_CompletionTime :: gtime

definition MsgRedeemCollateralResponse_Reset :: msg_redeem_collateral_response where
  "MsgRedeemCollateralResponse_Reset = \<lparr>rcr_BurnedAmount = coin_zero, rcr_CompletionTime = time_zero\<rparr>"

definition MsgRedeemCollateralResponse_GetBurnedAmount :: "msg_redeem_collateral_response option \<Rightarrow> coin" where
  "MsgRedeemCollateralResponse_GetBurnedAmount m = (case m of Some x \<Rightarrow> rcr_BurnedAmount x | None \<Rightarrow> coin_zero)"

definition MsgRedeemCollateralResponse_GetCompletionTime :: "msg_redeem_collateral_response option \<Rightarrow> gtime" where
  "MsgRedeemCollateralResponse_GetCompletionTime m = (case m of Some x \<Rightarrow> rcr_CompletionTime x | None \<Rightarrow> time_zero)"

definition MsgRedeemCollateralResponse_Size :: "wire_ext \<Rightarrow> msg_redeem_collateral_response \<Rightarrow> int" where
  "MsgRedeemCollateralResponse_Size X m =
     (let l = CoinSize X (rcr_BurnedAmount m) in 1 + l + sov (word_of_int l))
   + (let l = SizeOfStdTime X (rcr_CompletionTime m) in 1 + l + sov (word_of_int l))"

definition MsgRedeemCollateralResponse_body :: "wire_ext \<Rightarrow> msg_redeem_collateral_response \<Rightarrow> wr" where
  "MsgRedeemCollateralResponse_body X m =
     then_w (put_std_field 0x12 (SizeOfStdTime X (rcr_CompletionTime m))
              (StdTimeMarshalTo X (rcr_CompletionTime m)))
    (put_message_field 0x0a (CoinMarshalToSizedBuffer X (rcr_BurnedAmount m)))"

definition MsgRedeemCollateralResponse_MarshalToSizedBuffer :: "wire_ext \<Rightarrow> msg_redeem_collateral_response \<Rightarrow> bytes \<Rightarrow> (bytes \<times> int) outcome" where
  "MsgRedeemCollateralResponse_MarshalToSizedBuffer X m = to_sized_buffer (MsgRedeemCollateralResponse_body X m)"

definition MsgRedeemCollateralResponse_Marshal :: "wire_ext \<Rightarrow> msg_redeem_collateral_response \<Rightarrow> bytes outcome" where
  "MsgRedeemCollateralResponse_Marshal X m = marshal (MsgRedeemCollateralResponse_Size X m) (MsgRedeemCollateralResponse_MarshalToSizedBuffer X m)"

definition MsgRedeemCollateralResponse_MarshalTo :: "wire_ext \<Rightarrow> msg_redeem_collateral_response \<Rightarrow> bytes \<Rightarrow> (bytes \<times> int) outcome" where
  "MsgRedeemCollateralResponse_MarshalTo X m = marshalTo (MsgRedeemCollateralResponse_Size X m) (MsgRedeemCollateralResponse_MarshalToSizedBuffer X m)"

definition MsgRedeemCollateralResponse_fields :: "wire_ext \<Rightarrow> msg_redeem_collateral_response fields" where
  "MsgRedeemCollateralResponse_fields X n =
     (if n = 1 then Some (message_case ''BurnedAmount'' rcr_BurnedAmount (\<lambda>c m. m\<lparr>rcr_BurnedAmount := c\<rparr>)
          (CoinUnmarshal X))
      else if n = 2 then Some (std_case ''CompletionTime'' (\<lambda>t m. m\<lparr>rcr_CompletionTime := t\<rparr>)
          (StdTimeUnmarshal X))
      else None)"

definition MsgRedeemCollateralResponse_Unmarshal :: "wire_ext \<Rightarrow> msg_redeem_collateral_response \<Rightarrow> bytes \<Rightarrow> msg_redeem_collateral_response outcome" where
  "MsgRedeemCollateralResponse_Unmarshal X m dAtA = unmarshal PbTx ''MsgRedeemCollateralResponse'' (MsgRedeemCollateralResponse_fields X) m dAtA"

definition MsgRedeemCollateralResponse_enc :: "wire_ext \<Rightarrow> msg_redeem_collateral_response \<Rightarrow> bytes" where
  "MsgRedeemCollateralResponse_enc X m =
     enc_len 0x0a (enc_coin X (rcr_BurnedAmount m))
   @ enc_len 0x12 (enc_time X (rcr_CompletionTime m))"

definition MsgRedeemCollateralResponse_wf :: "wire_ext \<Rightarrow> msg_redeem_collateral_response \<Rightarrow> bool" where
  "MsgRedeemCollateralResponse_wf X m \<longleftrightarrow> coin_ok (rcr_BurnedAmount m) \<and> timestamp_ok (rcr_CompletionTime m) \<and> MsgRedeemCollateralResponse_Size X m < 2 ^ 63"

lemma MsgRedeemCollateralResponse_fields_simps [simp]:
  "MsgRedeemCollateralResponse_fields X 1 = Some (message_case ''BurnedAmount'' rcr_BurnedAmount (\<lambda>c m. m\<lparr>rcr_BurnedAmount := c\<rparr>)
          (CoinUnmarshal X))"
  "MsgRedeemCollateralResponse_fields X 2 = Some (std_case ''CompletionTime'' (\<lambda>t m. m\<lparr>rcr_CompletionTime := t\<rparr>)
          (StdTimeUnmarshal X))"
  by (simp_all add: MsgRedeemCollateralResponse_fields_def)

lemma MsgRedeemCollateralResponse_wf_time: "MsgRedeemCollateralResponse_wf X m \<Longrightarrow> timestamp_ok (rcr_CompletionTime m)"
  by (simp add: MsgRedeemCollateralResponse_wf_def)

context wire_ext_laws
begin

lemma MsgRedeemCollateralResponse_size_enc: "timestamp_ok (rcr_CompletionTime m) \<Longrightarrow> MsgRedeemCollateralResponse_Size X m = int (length (MsgRedeemCollateralResponse_enc X m))"
  by (simp add: MsgRedeemCollateralResponse_Size_def MsgRedeemCollateralResponse_enc_def size_simps coin_size time_size)

lemma MsgRedeemCollateralResponse_BurnedAmount_length:
  assumes "MsgRedeemCollateralResponse_wf X m"
  shows "length (enc_coin X (rcr_BurnedAmount m)) < 2 ^ 63"
proof -
  have "length (enc_coin X (rcr_BurnedAmount m)) \<le> length (MsgRedeemCollateralResponse_enc X m)"
    by (simp add: MsgRedeemCollateralResponse_enc_def enc_len_def)
  then show ?thesis
    using assms MsgRedeemCollateralResponse_size_enc [of m] by (simp add: MsgRedeemCollateralResponse_wf_def)
qed

lemma MsgRedeemCollateralResponse_writes:
  assumes "MsgRedeemCollateralResponse_wf X m"
  shows "writes (MsgRedeemCollateralResponse_body X m) (MsgRedeemCollateralResponse_enc X m)"
proof -
  have "writes (MsgRedeemCollateralResponse_body X m)
      (enc_len 0x0a (enc_coin X (rcr_BurnedAmount m))
        @ enc_len 0x12 (enc_time X (rcr_CompletionTime m)))"
    unfolding MsgRedeemCollateralResponse_body_def by (intro writes_intro coin_fills time_fills time_size MsgRedeemCollateralResponse_wf_time [OF assms])
  then show ?thesis by (simp add: MsgRedeemCollateralResponse_enc_def)
qed

lemma MsgRedeemCollateralResponse_decodes:
  assumes "MsgRedeemCollateralResponse_wf X m"
  shows "decodes PbTx ''MsgRedeemCollateralResponse'' (MsgRedeemCollateralResponse_fields X) (MsgRedeemCollateralResponse_enc X m) MsgRedeemCollateralResponse_Reset m"
proof -
  let ?m1 = "MsgRedeemCollateralResponse_Reset\<lparr>rcr_BurnedAmount := rcr_BurnedAmount m\<rparr>"
  let ?m2 = "?m1\<lparr>rcr_CompletionTime := rcr_CompletionTime m\<rparr>"
  have z1: "rcr_BurnedAmount (MsgRedeemCollateralResponse_Reset) = coin_zero"
    by (simp add: MsgRedeemCollateralResponse_Reset_def)
  have h1: "CoinUnmarshal X (rcr_BurnedAmount (MsgRedeemCollateralResponse_Reset)) (enc_coin X (rcr_BurnedAmount m)) = Ok (rcr_BurnedAmount m)"
    unfolding z1 using assms MsgRedeemCollateralResponse_BurnedAmount_length [OF assms] by (intro coin_roundtrip) (simp_all add: MsgRedeemCollateralResponse_wf_def)
  have h2: "StdTimeUnmarshal X (enc_time X (rcr_CompletionTime m)) = Ok (rcr_CompletionTime m)"
    using assms by (intro time_roundtrip MsgRedeemCollateralResponse_wf_time)
  let ?d = "decodes PbTx ''MsgRedeemCollateralResponse'' (MsgRedeemCollateralResponse_fields X)"
  have "?d (enc_len 0x0a (enc_coin X (rcr_BurnedAmount m))) (MsgRedeemCollateralResponse_Reset) ?m1"
    by (rule decodes_message [where n = 1], rule MsgRedeemCollateralResponse_fields_simps, rule tags, rule h1, rule refl)
  moreover have "?d (enc_len 0x12 (enc_time X (rcr_CompletionTime m))) (?m1) ?m2"
    by (rule decodes_std [where n = 2], rule MsgRedeemCollateralResponse_fields_simps, rule tags, rule h2, rule refl)
  ultimately have "?d (MsgRedeemCollateralResponse_enc X m) MsgRedeemCollateralResponse_Reset ?m2"
    unfolding MsgRedeemCollateralResponse_enc_def by (intro decodes_append)
  moreover have "?m2 = m"
    by (cases m) (simp add: MsgRedeemCollateralResponse_Reset_def)
  ultimately show ?thesis by simp
qed

lemma MsgRedeemCollateralResponse_safe: "safe_fields (MsgRedeemCollateralResponse_fields X)"
  by (rule safe_fieldsI)
    (auto simp: MsgRedeemCollateralResponse_fields_def coin_no_panic time_no_panic split: if_splits
      intro!: safe_message_case safe_std_case)

end

sublocale wire_ext_laws \<subseteq> MsgRedeemCollateralResponse: message PbTx "''MsgRedeemCollateralResponse''" "MsgRedeemCollateralResponse_fields X" "MsgRedeemCollateralResponse_Size X"
    "MsgRedeemCollateralResponse_body X" "MsgRedeemCollateralResponse_enc X" MsgRedeemCollateralResponse_Reset "MsgRedeemCollateralResponse_wf X"
  by unfold_locales
    (auto simp: MsgRedeemCollateralResponse_writes MsgRedeemCollateralResponse_size_enc MsgRedeemCollateralResponse_decodes MsgRedeemCollateralResponse_safe dest: MsgRedeemCollateralResponse_wf_time)

context wire_ext_laws
begin

lemma MsgRedeemCollateralResponse_marshal_unmarshal:
  "MsgRedeemCollateralResponse_wf X m \<Longrightarrow> bind_o (MsgRedeemCollateralResponse_Marshal X m) (MsgRedeemCollateralResponse_Unmarshal X MsgRedeemCollateralResponse_Reset) = Ok m"
  using MsgRedeemCollateralResponse.marshal_enc [of m] MsgRedeemCollateralResponse.unmarshal_enc [of m]
  by (simp add: MsgRedeemCollateralResponse_Marshal_def MsgRedeemCollateralResponse_MarshalToSizedBuffer_def MsgRedeemCollateralResponse_Unmarshal_def MsgRedeemCollateralResponse_wf_def)

lemma MsgRedeemCollateralResponse_unmarshal_no_panic:
  "length dAtA < 2 ^ 63 \<Longrightarrow> \<not> is_Panic (MsgRedeemCollateralResponse_Unmarshal X m dAtA)"
  using MsgRedeemCollateralResponse.no_panic [of dAtA m] by (simp add: MsgRedeemCollateralResponse_Unmarshal_def)

lemma MsgRedeemCollateralResponse_marshal_enc: "MsgRedeemCollateralResponse_wf X m \<Longrightarrow> MsgRedeemCollateralResponse_Marshal X m = Ok (MsgRedeemCollateralResponse_enc X m)"
  using MsgRedeemCollateralResponse.marshal_enc [of m] by (simp add: MsgRedeemCollateralResponse_Marshal_def MsgRedeemCollateralResponse_MarshalToSizedBuffer_def)

end

section \<open>MsgCreateTicket\<close>

record msg_create_ticket =
  ct_Creator :: string
  ct_Author :: string
  ct_Issue :: string

definition MsgCreateTicket_Reset :: msg_create_ticket where
  "MsgCreateTicket_Reset = \<lparr>ct_Creator = [], ct_Author = [], ct_Issue = []\<rparr>"

definition MsgCreateTicket_GetCreator :: "msg_create_ticket option \<Rightarrow> string" where
  "MsgCreateTicket_GetCreator m = (case m of Some x \<Rightarrow> ct_Creator x | None \<Rightarrow> [])"

definition MsgCreateTicket_GetAuthor :: "msg_create_ticket option \<Rightarrow> string" where
  "MsgCreateTicket_GetAuthor m = (case m of Some x \<Rightarrow> ct_Author x | None \<Rightarrow> [])"

definition MsgCreateTicket_GetIssue :: "msg_create_ticket option \<Rightarrow> string" where
  "MsgCreateTicket_GetIssue m = (case m of Some x \<Rightarrow> ct_Issue x | None \<Rightarrow> [])"

definition MsgCreateTicket_Size :: "msg_create_ticket \<Rightarrow> int" where
  "MsgCreateTicket_Size m =
     (let l = int (length (ct_Creator m)) in
        if l > 0 then 1 + l + sov (word_of_nat (length (ct_Creator m))) else 0)
   + (let l = int (length (ct_Author m)) in
        if l > 0 then 1 + l + sov (word_of_nat (length (ct_Author m))) else 0)
   + (let l = int (length (ct_Issue m)) in
        if l > 0 then 1 + l + sov (word_of_nat (length (ct_Issue m))) else 0)"

definition MsgCreateTicket_body :: "msg_create_ticket \<Rightarrow> wr" where
  "MsgCreateTicket_body m =
     then_w (put_string_field 0x1a (ct_Issue m))
    (then_w (put_string_field 0x12 (ct_Author m))
    (put_string_field 0x0a (ct_Creator m)))"

definition MsgCreateTicket_MarshalToSizedBuffer :: "msg_create_ticket \<Rightarrow> bytes \<Rightarrow> (bytes \<times> int) outcome" where
  "MsgCreateTicket_MarshalToSizedBuffer m = to_sized_buffer (MsgCreateTicket_body m)"

definition MsgCreateTicket_Marshal :: "msg_create_ticket \<Rightarrow> bytes outcome" where
  "MsgCreateTicket_Marshal m = marshal (MsgCreateTicket_Size m) (MsgCreateTicket_MarshalToSizedBuffer m)"

definition MsgCreateTicket_MarshalTo :: "msg_create_ticket \<Rightarrow> bytes \<Rightarrow> (bytes \<times> int) outcome" where
  "MsgCreateTicket_MarshalTo m = marshalTo (MsgCreateTicket_Size m) (MsgCreateTicket_MarshalToSizedBuffer m)"

definition MsgCreateTicket_fields :: "msg_create_ticket fields" where
  "MsgCreateTicket_fields n =
     (if n = 1 then Some (string_case ''Creator'' (\<lambda>s m. m\<lparr>ct_Creator := s\<rparr>))
      else if n = 2 then Some (string_case ''Author'' (\<lambda>s m. m\<lparr>ct_Author := s\<rparr>))
      else if n = 3 then Some (string_case ''Issue'' (\<lambda>s m. m\<lparr>ct_Issue := s\<rparr>))
      else None)"

definition MsgCreateTicket_Unmarshal :: "msg_create_ticket \<Rightarrow> bytes \<Rightarrow> msg_create_ticket outcome" where
  "MsgCreateTicket_Unmarshal m dAtA = unmarshal PbTx ''MsgCreateTicket'' (MsgCreateTicket_fields) m dAtA"

definition MsgCreateTicket_enc :: "msg_create_ticket \<Rightarrow> bytes" where
  "MsgCreateTicket_enc m =
     enc_string_field 0x0a (ct_Creator m)
   @ enc_string_field 0x12 (ct_Author m)
   @ enc_string_field 0x1a (ct_Issue m)"

lemma MsgCreateTicket_fields_simps [simp]:
  "MsgCreateTicket_fields 1 = Some (string_case ''Creator'' (\<lambda>s m. m\<lparr>ct_Creator := s\<rparr>))"
  "MsgCreateTicket_fields 2 = Some (string_case ''Author'' (\<lambda>s m. m\<lparr>ct_Author := s\<rparr>))"
  "MsgCreateTicket_fields 3 = Some (string_case ''Issue'' (\<lambda>s m. m\<lparr>ct_Issue := s\<rparr>))"
  by (simp_all add: MsgCreateTicket_fields_def)

lemma MsgCreateTicket_writes: "writes (MsgCreateTicket_body m) (MsgCreateTicket_enc m)"
proof -
  have "writes (MsgCreateTicket_body m)
      ((enc_string_field 0x0a (ct_Creator m)
        @ enc_string_field 0x12 (ct_Author m))
        @ enc_string_field 0x1a (ct_Issue m))"
    unfolding MsgCreateTicket_body_def by (intro writes_intro)
  then show ?thesis by (simp add: MsgCreateTicket_enc_def)
qed

lemma MsgCreateTicket_size_enc: "MsgCreateTicket_Size m = int (length (MsgCreateTicket_enc m))"
  by (simp add: MsgCreateTicket_Size_def MsgCreateTicket_enc_def size_simps Let_def)

lemma MsgCreateTicket_decodes: "decodes PbTx ''MsgCreateTicket'' (MsgCreateTicket_fields) (MsgCreateTicket_enc m) MsgCreateTicket_Reset m"
proof -
  let ?m1 = "if ct_Creator m = [] then MsgCreateTicket_Reset else MsgCreateTicket_Reset\<lparr>ct_Creator := ct_Creator m\<rparr>"
  let ?m2 = "if ct_Author m = [] then ?m1 else ?m1\<lparr>ct_Author := ct_Author m\<rparr>"
  let ?m3 = "if ct_Issue m = [] then ?m2 else ?m2\<lparr>ct_Issue := ct_Issue m\<rparr>"
  let ?d = "decodes PbTx ''MsgCreateTicket'' (MsgCreateTicket_fields)"
  have "?d (enc_string_field 0x0a (ct_Creator m)) (MsgCreateTicket_Reset) ?m1"
    by (rule decodes_string [where n = 1], rule MsgCreateTicket_fields_simps, rule tags, rule refl)
  moreover have "?d (enc_string_field 0x12 (ct_Author m)) (?m1) ?m2"
    by (rule decodes_string [where n = 2], rule MsgCreateTicket_fields_simps, rule tags, rule refl)
  moreover have "?d (enc_string_field 0x1a (ct_Issue m)) (?m2) ?m3"
    by (rule decodes_string [where n = 3], rule MsgCreateTicket_fields_simps, rule tags, rule refl)
  ultimately have "?d (MsgCreateTicket_enc m) MsgCreateTicket_Reset ?m3"
    unfolding MsgCreateTicket_enc_def by (intro decodes_append)
  moreover have "?m3 = m"
    by (cases m) (simp add: MsgCreateTicket_Reset_def)
  ultimately show ?thesis by simp
qed

lemma MsgCreateTicket_safe: "safe_fields MsgCreateTicket_fields"
  by (rule safe_fieldsI) (auto simp: MsgCreateTicket_fields_def split: if_splits)

interpretation MsgCreateTicket: message PbTx "''MsgCreateTicket''" MsgCreateTicket_fields MsgCreateTicket_Size MsgCreateTicket_body MsgCreateTicket_enc
    MsgCreateTicket_Reset "\<lambda>_. True"
  by unfold_locales (simp_all add: MsgCreateTicket_writes MsgCreateTicket_size_enc MsgCreateTicket_decodes MsgCreateTicket_safe)

lemma MsgCreateTicket_marshal_unmarshal:
  "MsgCreateTicket_Size m < 2 ^ 63 \<Longrightarrow> bind_o (MsgCreateTicket_Marshal m) (MsgCreateTicket_Unmarshal MsgCreateTicket_Reset) = Ok m"
  using MsgCreateTicket.marshal_enc [of m] MsgCreateTicket.unmarshal_enc [of m]
  by (simp add: MsgCreateTicket_Marshal_def MsgCreateTicket_MarshalToSizedBuffer_def MsgCreateTicket_Unmarshal_def)

lemma MsgCreateTicket_unmarshal_no_panic:
  "length dAtA < 2 ^ 63 \<Longrightarrow> \<not> is_Panic (MsgCreateTicket_Unmarshal m dAtA)"
  using MsgCreateTicket.no_panic [of dAtA m] by (simp add: MsgCreateTicket_Unmarshal_def)

lemma MsgCreateTicket_marshal_enc: "MsgCreateTicket_Marshal m = Ok (MsgCreateTicket_enc m)"
  using MsgCreateTicket.marshal_enc [of m] by (simp add: MsgCreateTicket_Marshal_def MsgCreateTicket_MarshalToSizedBuffer_def)

section \<open>MsgCreateTicketResponse\<close>

record msg_create_ticket_response =
  ctr_Id :: "64 word"

definition MsgCreateTicketResponse_Reset :: msg_create_ticket_response where
  "MsgCreateTicketResponse_Reset = \<lparr>ctr_Id = 0\<rparr>"

definition MsgCreateTicketResponse_GetId :: "msg_create_ticket_response option \<Rightarrow> 64 word" where
  "MsgCreateTicketResponse_GetId m = (case m of Some x \<Rightarrow> ctr_Id x | None \<Rightarrow> 0)"

definition MsgCreateTicketResponse_Size :: "msg_create_ticket_response \<Rightarrow> int" where
  "MsgCreateTicketResponse_Size m =
     (if ctr_Id m \<noteq> 0 then 1 + sov (ctr_Id m) else 0)"

definition MsgCreateTicketResponse_body :: "msg_create_ticket_response \<Rightarrow> wr" where
  "MsgCreateTicketResponse_body m =
     put_varint_field 0x08 (ctr_Id m)"

definition MsgCreateTicketResponse_MarshalToSizedBuffer :: "msg_create_ticket_response \<Rightarrow> bytes \<Rightarrow> (bytes \<times> int) outcome" where
  "MsgCreateTicketResponse_MarshalToSizedBuffer m = to_sized_buffer (MsgCreateTicketResponse_body m)"

definition MsgCreateTicketResponse_Marshal :: "msg_create_ticket_response \<Rightarrow> bytes outcome" where
  "MsgCreateTicketResponse_Marshal m = marshal (MsgCreateTicketResponse_Size m) (MsgCreateTicketResponse_MarshalToSizedBuffer m)"

definition MsgCreateTicketResponse_MarshalTo :: "msg_create_ticket_response \<Rightarrow> bytes \<Rightarrow> (bytes \<times> int) outcome" where
  "MsgCreateTicketResponse_MarshalTo m = marshalTo (MsgCreateTicketResponse_Size m) (MsgCreateTicketResponse_MarshalToSizedBuffer m)"

definition MsgCreateTicketResponse_fields :: "msg_create_ticket_response fields" where
  "MsgCreateTicketResponse_fields n =
     (if n = 1 then Some (Varint ''Id'' (\<lambda>v m. m\<lparr>ctr_Id := v\<rparr>))
      else None)"

definition MsgCreateTicketResponse_Unmarshal :: "msg_create_ticket_response \<Rightarrow> bytes \<Rightarrow> msg_create_ticket_response outcome" where
  "MsgCreateTicketResponse_Unmarshal m dAtA = unmarshal PbTx ''MsgCreateTicketResponse'' (MsgCreateTicketResponse_fields) m dAtA"

definition MsgCreateTicketResponse_enc :: "msg_create_ticket_response \<Rightarrow> bytes" where
  "MsgCreateTicketResponse_enc m =
     enc_varint_field 0x08 (ctr_Id m)"

lemma MsgCreateTicketResponse_fields_simps [simp]:
  "MsgCreateTicketResponse_fields 1 = Some (Varint ''Id'' (\<lambda>v m. m\<lparr>ctr_Id := v\<rparr>))"
  by (simp_all add: MsgCreateTicketResponse_fields_def)

lemma MsgCreateTicketResponse_writes: "writes (MsgCreateTicketResponse_body m) (MsgCreateTicketResponse_enc m)"
proof -
  have "writes (MsgCreateTicketResponse_body m)
      (enc_varint_field 0x08 (ctr_Id m))"
    unfolding MsgCreateTicketResponse_body_def by (intro writes_intro)
  then show ?thesis by (simp add: MsgCreateTicketResponse_enc_def)
qed

lemma MsgCreateTicketResponse_size_enc: "MsgCreateTicketResponse_Size m = int (length (MsgCreateTicketResponse_enc m))"
  by (simp add: MsgCreateTicketResponse_Size_def MsgCreateTicketResponse_enc_def size_simps Let_def)

lemma MsgCreateTicketResponse_decodes: "decodes PbTx ''MsgCreateTicketResponse'' (MsgCreateTicketResponse_fields) (MsgCreateTicketResponse_enc m) MsgCreateTicketResponse_Reset m"
proof -
  let ?m1 = "if ctr_Id m = 0 then MsgCreateTicketResponse_Reset else MsgCreateTicketResponse_Reset\<lparr>ctr_Id := ctr_Id m\<rparr>"
  let ?d = "decodes PbTx ''MsgCreateTicketResponse'' (MsgCreateTicketResponse_fields)"
  have "?d (enc_varint_field 0x08 (ctr_Id m)) (MsgCreateTicketResponse_Reset) ?m1"
    by (rule decodes_varint [where n = 1], rule MsgCreateTicketResponse_fields_simps, rule tags, rule refl)
  then have "?d (MsgCreateTicketResponse_enc m) MsgCreateTicketResponse_Reset ?m1"
    unfolding MsgCreateTicketResponse_enc_def .
  moreover have "?m1 = m"
    by (cases m) (simp add: MsgCreateTicketResponse_Reset_def)
  ultimately show ?thesis by simp
qed

lemma MsgCreateTicketResponse_safe: "safe_fields MsgCreateTicketResponse_fields"
  by (rule safe_fieldsI) (auto simp: MsgCreateTicketResponse_fields_def split: if_splits)

interpretation MsgCreateTicketResponse: message PbTx "''MsgCreateTicketResponse''" MsgCreateTicketResponse_fields MsgCreateTicketResponse_Size MsgCreateTicketResponse_body MsgCreateTicketResponse_enc
    MsgCreateTicketResponse_Reset "\<lambda>_. True"
  by unfold_locales (simp_all add: MsgCreateTicketResponse_writes MsgCreateTicketResponse_size_enc MsgCreateTicketResponse_decodes MsgCreateTicketResponse_safe)

lemma MsgCreateTicketResponse_marshal_unmarshal:
  "MsgCreateTicketResponse_Size m < 2 ^ 63 \<Longrightarrow> bind_o (MsgCreateTicketResponse_Marshal m) (MsgCreateTicketResponse_Unmarshal MsgCreateTicketResponse_Reset) = Ok m"
  using MsgCreateTicketResponse.marshal_enc [of m] MsgCreateTicketResponse.unmarshal_enc [of m]
  by (simp add: MsgCreateTicketResponse_Marshal_def MsgCreateTicketResponse_MarshalToSizedBuffer_def MsgCreateTicketResponse_Unmarshal_def)

lemma MsgCreateTicketResponse_unmarshal_no_panic:
  "length dAtA < 2 ^ 63 \<Longrightarrow> \<not> is_Panic (MsgCreateTicketResponse_Unmarshal m dAtA)"
  using MsgCreateTicketResponse.no_panic [of dAtA m] by (simp add: MsgCreateTicketResponse_Unmarshal_def)

lemma MsgCreateTicketResponse_marshal_enc: "MsgCreateTicketResponse_Marshal m = Ok (MsgCreateTicketResponse_enc m)"
  using MsgCreateTicketResponse.marshal_enc [of m] by (simp add: MsgCreateTicketResponse_Marshal_def MsgCreateTicketResponse_MarshalToSizedBuffer_def)

end
