(* ===== verification/Genesis_Query_Pb.thy ===== *)
theory Genesis_Query_Pb
  imports Params_Pb
begin

text \<open>
  \<open>x/hal/types/genesis.pb.go\<close> and \<open>x/hal/types/query.pb.go\<close>: the genesis state of the module and
  the messages of the \<open>Query\<close> service, with their generated methods.
\<close>

section \<open>Helpers of the files\<close>

section \<open>GenesisState\<close>

record genesis_state =
  gs_Params :: params

definition GenesisState_Reset :: genesis_state where
  "GenesisState_Reset = \<lparr>gs_Params = Params_Reset\<rparr>"

definition GenesisState_GetParams :: "genesis_state option \<Rightarrow> params" where
  "GenesisState_GetParams m = (case m of Some x \<Rightarrow> gs_Params x | None \<Rightarrow> Params_Reset)"

definition GenesisState_Size :: "wire_ext \<Rightarrow> genesis_state \<Rightarrow> int" where
  "GenesisState_Size X m =
     (let l = Params_Size X (gs_Params m) in 1 + l + sov (word_of_int l))"

definition GenesisState_body :: "wire_ext \<Rightarrow> genesis_state \<Rightarrow> wr" where
  "GenesisState_body X m =
     put_message_field 0x0a (Params_MarshalToSizedBuffer X (gs_Params m))"

definition GenesisState_MarshalToSizedBuffer :: "wire_ext \<Rightarrow> genesis_state \<Rightarrow> bytes \<Rightarrow> (bytes \<times> int) outcome" where
  "GenesisState_MarshalToSizedBuffer X m = to_sized_buffer (GenesisState_body X m)"

definition GenesisState_Marshal :: "wire_ext \<Rightarrow> genesis_state \<Rightarrow> bytes outcome" where
  "GenesisState_Marshal X m = marshal (GenesisState_Size X m) (GenesisState_MarshalToSizedBuffer X m)"

definition GenesisState_MarshalTo :: "wire_ext \<Rightarrow> genesis_state \<Rightarrow> bytes \<Rightarrow> (bytes \<times> int) outcome" where
  "GenesisState_MarshalTo X m = marshalTo (GenesisState_Size X m) (GenesisState_MarshalToSizedBuffer X m)"

definition GenesisState_fields :: "wire_ext \<Rightarrow> genesis_state fields" where
  "GenesisState_fields X n =
     (if n = 1 then Some (message_case ''Params'' gs_Params (\<lambda>p m. m\<lparr>gs_Params := p\<rparr>)
          (Params_Unmarshal X))
      else None)"

definition GenesisState_Unmarshal :: "wire_ext \<Rightarrow> genesis_state \<Rightarrow> bytes \<Rightarrow> genesis_state outcome" where
  "GenesisState_Unmarshal X m dAtA = unmarshal PbGenesis ''GenesisState'' (GenesisState_fields X) m dAtA"

definition GenesisState_enc :: "wire_ext \<Rightarrow> genesis_state \<Rightarrow> bytes" where
  "GenesisState_enc X m =
     enc_len 0x0a (Params_enc X (gs_Params m))"

definition GenesisState_wf :: "wire_ext \<Rightarrow> genesis_state \<Rightarrow> bool" where
  "GenesisState_wf X m \<longleftrightarrow> GenesisState_Size X m < 2 ^ 63"

lemma GenesisState_fields_simps [simp]:
  "GenesisState_fields X 1 = Some (message_case ''Params'' gs_Params (\<lambda>p m. m\<lparr>gs_Params := p\<rparr>)
          (Params_Unmarshal X))"
  by (simp_all add: GenesisState_fields_def)

context wire_ext_laws
begin

lemma GenesisState_size_enc: "GenesisState_Size X m = int (length (GenesisState_enc X m))"
  unfolding GenesisState_Size_def GenesisState_enc_def Params_size_enc Let_def length_append of_nat_add
    length_enc_len length_enc_string_field of_int_of_nat_eq by (simp only: add.assoc)

lemma GenesisState_Params_length:
  assumes "GenesisState_wf X m"
  shows "length (Params_enc X (gs_Params m)) < 2 ^ 63"
proof -
  have "length (Params_enc X (gs_Params m)) \<le> length (GenesisState_enc X m)"
    by (simp add: GenesisState_enc_def enc_len_def)
  then show ?thesis
    using assms GenesisState_size_enc [of m] by (simp add: GenesisState_wf_def)
qed

lemma GenesisState_writes:
  assumes "GenesisState_wf X m"
  shows "writes (GenesisState_body X m) (GenesisState_enc X m)"
proof -
  have p: "Params_wf X (gs_Params m)"
    using GenesisState_Params_length [OF assms] by (simp add: Params_wf_def Params_size_enc)
  have "writes (GenesisState_body X m)
      (enc_len 0x0a (Params_enc X (gs_Params m)))"
    unfolding GenesisState_body_def by (intro writes_intro Params_fills p)
  then show ?thesis by (simp add: GenesisState_enc_def)
qed

lemma GenesisState_decodes:
  assumes "GenesisState_wf X m"
  shows "decodes PbGenesis ''GenesisState'' (GenesisState_fields X) (GenesisState_enc X m) GenesisState_Reset m"
proof -
  let ?m1 = "GenesisState_Reset\<lparr>gs_Params := gs_Params m\<rparr>"
  have z1: "gs_Params (GenesisState_Reset) = Params_Reset"
    by (simp add: GenesisState_Reset_def)
  have h1: "Params_Unmarshal X (gs_Params (GenesisState_Reset)) (Params_enc X (gs_Params m)) = Ok (gs_Params m)"
    unfolding z1 using GenesisState_Params_length [OF assms]
    by (intro Params_Unmarshal_enc) (simp add: Params_wf_def Params_size_enc)
  let ?d = "decodes PbGenesis ''GenesisState'' (GenesisState_fields X)"
  have "?d (enc_len 0x0a (Params_enc X (gs_Params m))) (GenesisState_Reset) ?m1"
    by (rule decodes_message [where n = 1], rule GenesisState_fields_simps, rule tags, rule h1, rule refl)
  then have "?d (GenesisState_enc X m) GenesisState_Reset ?m1"
    unfolding GenesisState_enc_def .
  moreover have "?m1 = m"
    by (cases m) (simp add: GenesisState_Reset_def)
  ultimately show ?thesis by simp
qed

lemma GenesisState_safe: "safe_fields (GenesisState_fields X)"
  by (rule safe_fieldsI)
    (auto simp: GenesisState_fields_def Params_Unmarshal_no_panic split: if_splits
      intro!: safe_message_case safe_std_case)

end

sublocale wire_ext_laws \<subseteq> GenesisState: message PbGenesis "''GenesisState''" "GenesisState_fields X" "GenesisState_Size X"
    "GenesisState_body X" "GenesisState_enc X" GenesisState_Reset "GenesisState_wf X"
  by unfold_locales
    (auto simp: GenesisState_writes GenesisState_size_enc GenesisState_decodes GenesisState_safe)

context wire_ext_laws
begin

lemma GenesisState_marshal_unmarshal:
  "GenesisState_wf X m \<Longrightarrow> bind_o (GenesisState_Marshal X m) (GenesisState_Unmarshal X GenesisState_Reset) = Ok m"
  using GenesisState.marshal_enc [of m] GenesisState.unmarshal_enc [of m]
  by (simp add: GenesisState_Marshal_def GenesisState_MarshalToSizedBuffer_def GenesisState_Unmarshal_def GenesisState_wf_def)

lemma GenesisState_unmarshal_no_panic:
  "length dAtA < 2 ^ 63 \<Longrightarrow> \<not> is_Panic (GenesisState_Unmarshal X m dAtA)"
  using GenesisState.no_panic [of dAtA m] by (simp add: GenesisState_Unmarshal_def)

lemma GenesisState_marshal_enc: "GenesisState_wf X m \<Longrightarrow> GenesisState_Marshal X m = Ok (GenesisState_enc X m)"
  using GenesisState.marshal_enc [of m] by (simp add: GenesisState_Marshal_def GenesisState_MarshalToSizedBuffer_def)

end

section \<open>QueryParamsRequest\<close>

datatype query_params_request = QueryParamsRequest_Reset

definition QueryParamsRequest_Size :: "query_params_request \<Rightarrow> int" where
  "QueryParamsRequest_Size m =
     0"

definition QueryParamsRequest_body :: "query_params_request \<Rightarrow> wr" where
  "QueryParamsRequest_body m =
     skip_w"

definition QueryParamsRequest_MarshalToSizedBuffer :: "query_params_request \<Rightarrow> bytes \<Rightarrow> (bytes \<times> int) outcome" where
  "QueryParamsRequest_MarshalToSizedBuffer m = to_sized_buffer (QueryParamsRequest_body m)"

definition QueryParamsRequest_Marshal :: "query_params_request \<Rightarrow> bytes outcome" where
  "QueryParamsRequest_Marshal m = marshal (QueryParamsRequest_Size m) (QueryParamsRequest_MarshalToSizedBuffer m)"

definition QueryParamsRequest_MarshalTo :: "query_params_request \<Rightarrow> bytes \<Rightarrow> (bytes \<times> int) outcome" where
  "QueryParamsRequest_MarshalTo m = marshalTo (QueryParamsRequest_Size m) (QueryParamsRequest_MarshalToSizedBuffer m)"

definition QueryParamsRequest_fields :: "query_params_request fields" where
  "QueryParamsRequest_fields n =
     None"

definition QueryParamsRequest_Unmarshal :: "query_params_request \<Rightarrow> bytes \<Rightarrow> query_params_request outcome" where
  "QueryParamsRequest_Unmarshal m dAtA = unmarshal PbQuery ''QueryParamsRequest'' (QueryParamsRequest_fields) m dAtA"

definition QueryParamsRequest_enc :: "query_params_request \<Rightarrow> bytes" where
  "QueryParamsRequest_enc m =
     []"

lemma QueryParamsRequest_writes: "writes (QueryParamsRequest_body m) (QueryParamsRequest_enc m)"
  by (simp add: QueryParamsRequest_body_def QueryParamsRequest_enc_def writes_skip)

lemma QueryParamsRequest_size_enc: "QueryParamsRequest_Size m = int (length (QueryParamsRequest_enc m))"
  by (simp add: QueryParamsRequest_Size_def QueryParamsRequest_enc_def)

lemma QueryParamsRequest_decodes: "decodes PbQuery ''QueryParamsRequest'' QueryParamsRequest_fields (QueryParamsRequest_enc m) QueryParamsRequest_Reset m"
  by (cases m) (simp add: QueryParamsRequest_enc_def decodes_Nil)

lemma QueryParamsRequest_safe: "safe_fields QueryParamsRequest_fields"
  by (rule safe_fieldsI) (auto simp: QueryParamsRequest_fields_def split: if_splits)

interpretation QueryParamsRequest: message PbQuery "''QueryParamsRequest''" QueryParamsRequest_fields QueryParamsRequest_Size QueryParamsRequest_body QueryParamsRequest_enc
    QueryParamsRequest_Reset "\<lambda>_. True"
  by unfold_locales (simp_all add: QueryParamsRequest_writes QueryParamsRequest_size_enc QueryParamsRequest_decodes QueryParamsRequest_safe)

lemma QueryParamsRequest_marshal_unmarshal:
  "QueryParamsRequest_Size m < 2 ^ 63 \<Longrightarrow> bind_o (QueryParamsRequest_Marshal m) (QueryParamsRequest_Unmarshal QueryParamsRequest_Reset) = Ok m"
  using QueryParamsRequest.marshal_enc [of m] QueryParamsRequest.unmarshal_enc [of m]
  by (simp add: QueryParamsRequest_Marshal_def QueryParamsRequest_MarshalToSizedBuffer_def QueryParamsRequest_Unmarshal_def)

lemma QueryParamsRequest_unmarshal_no_panic:
  "length dAtA < 2 ^ 63 \<Longrightarrow> \<not> is_Panic (QueryParamsRequest_Unmarshal m dAtA)"
  using QueryParamsRequest.no_panic [of dAtA m] by (simp add: QueryParamsRequest_Unmarshal_def)

lemma QueryParamsRequest_marshal_enc: "QueryParamsRequest_Marshal m = Ok (QueryParamsRequest_enc m)"
  using QueryParamsRequest.marshal_enc [of m] by (simp add: QueryParamsRequest_Marshal_def QueryParamsRequest_MarshalToSizedBuffer_def)

section \<open>QueryParamsResponse\<close>

record query_params_response =
  qp_Params :: params

definition QueryParamsResponse_Reset :: query_params_response where
  "QueryParamsResponse_Reset = \<lparr>qp_Params = Params_Reset\<rparr>"

definition QueryParamsResponse_GetParams :: "query_params_response option \<Rightarrow> params" where
  "QueryParamsResponse_GetParams m = (case m of Some x \<Rightarrow> qp_Params x | None \<Rightarrow> Params_Reset)"

definition QueryParamsResponse_Size :: "wire_ext \<Rightarrow> query_params_response \<Rightarrow> int" where
  "QueryParamsResponse_Size X m =
     (let l = Params_Size X (qp_Params m) in 1 + l + sov (word_of_int l))"

definition QueryParamsResponse_body :: "wire_ext \<Rightarrow> query_params_response \<Rightarrow> wr" where
  "QueryParamsResponse_body X m =
     put_message_field 0x0a (Params_MarshalToSizedBuffer X (qp_Params m))"

definition QueryParamsResponse_MarshalToSizedBuffer :: "wire_ext \<Rightarrow> query_params_response \<Rightarrow> bytes \<Rightarrow> (bytes \<times> int) outcome" where
  "QueryParamsResponse_MarshalToSizedBuffer X m = to_sized_buffer (QueryParamsResponse_body X m)"

definition QueryParamsResponse_Marshal :: "wire_ext \<Rightarrow> query_params_response \<Rightarrow> bytes outcome" where
  "QueryParamsResponse_Marshal X m = marshal (QueryParamsResponse_Size X m) (QueryParamsResponse_MarshalToSizedBuffer X m)"

definition QueryParamsResponse_MarshalTo :: "wire_ext \<Rightarrow> query_params_response \<Rightarrow> bytes \<Rightarrow> (bytes \<times> int) outcome" where
  "QueryParamsResponse_MarshalTo X m = marshalTo (QueryParamsResponse_Size X m) (QueryParamsResponse_MarshalToSizedBuffer X m)"

definition QueryParamsResponse_fields :: "wire_ext \<Rightarrow> query_params_response fields" where
  "QueryParamsResponse_fields X n =
     (if n = 1 then Some (message_case ''Params'' qp_Params (\<lambda>p m. m\<lparr>qp_Params := p\<rparr>)
          (Params_Unmarshal X))
      else None)"

definition QueryParamsResponse_Unmarshal :: "wire_ext \<Rightarrow> query_params_response \<Rightarrow> bytes \<Rightarrow> query_params_response outcome" where
  "QueryParamsResponse_Unmarshal X m dAtA = unmarshal PbQuery ''QueryParamsResponse'' (QueryParamsResponse_fields X) m dAtA"

definition QueryParamsResponse_enc :: "wire_ext \<Rightarrow> query_params_response \<Rightarrow> bytes" where
  "QueryParamsResponse_enc X m =
     enc_len 0x0a (Params_enc X (qp_Params m))"

definition QueryParamsResponse_wf :: "wire_ext \<Rightarrow> query_params_response \<Rightarrow> bool" where
  "QueryParamsResponse_wf X m \<longleftrightarrow> QueryParamsResponse_Size X m < 2 ^ 63"

lemma QueryParamsResponse_fields_simps [simp]:
  "QueryParamsResponse_fields X 1 = Some (message_case ''Params'' qp_Params (\<lambda>p m. m\<lparr>qp_Params := p\<rparr>)
          (Params_Unmarshal X))"
  by (simp_all add: QueryParamsResponse_fields_def)

context wire_ext_laws
begin

lemma QueryParamsResponse_size_enc: "QueryParamsResponse_Size X m = int (length (QueryParamsResponse_enc X m))"
  unfolding QueryParamsResponse_Size_def QueryParamsResponse_enc_def Params_size_enc Let_def length_append of_nat_add
    length_enc_len length_enc_string_field of_int_of_nat_eq by (simp only: add.assoc)

lemma QueryParamsResponse_Params_length:
  assumes "QueryParamsResponse_wf X m"
  shows "length (Params_enc X (qp_Params m)) < 2 ^ 63"
proof -
  have "length (Params_enc X (qp_Params m)) \<le> length (QueryParamsResponse_enc X m)"
    by (simp add: QueryParamsResponse_enc_def enc_len_def)
  then show ?thesis
    using assms QueryParamsResponse_size_enc [of m] by (simp add: QueryParamsResponse_wf_def)
qed

lemma QueryParamsResponse_writes:
  assumes "QueryParamsResponse_wf X m"
  shows "writes (QueryParamsResponse_body X m) (QueryParamsResponse_enc X m)"
proof -
  have p: "Params_wf X (qp_Params m)"
    using QueryParamsResponse_Params_length [OF assms] by (simp add: Params_wf_def Params_size_enc)
  have "writes (QueryParamsResponse_body X m)
      (enc_len 0x0a (Params_enc X (qp_Params m)))"
    unfolding QueryParamsResponse_body_def by (intro writes_intro Params_fills p)
  then show ?thesis by (simp add: QueryParamsResponse_enc_def)
qed

lemma QueryParamsResponse_decodes:
  assumes "QueryParamsResponse_wf X m"
  shows "decodes PbQuery ''QueryParamsResponse'' (QueryParamsResponse_fields X) (QueryParamsResponse_enc X m) QueryParamsResponse_Reset m"
proof -
  let ?m1 = "QueryParamsResponse_Reset\<lparr>qp_Params := qp_Params m\<rparr>"
  have z1: "qp_Params (QueryParamsResponse_Reset) = Params_Reset"
    by (simp add: QueryParamsResponse_Reset_def)
  have h1: "Params_Unmarshal X (qp_Params (QueryParamsResponse_Reset)) (Params_enc X (qp_Params m)) = Ok (qp_Params m)"
    unfolding z1 using QueryParamsResponse_Params_length [OF assms]
    by (intro Params_Unmarshal_enc) (simp add: Params_wf_def Params_size_enc)
  let ?d = "decodes PbQuery ''QueryParamsResponse'' (QueryParamsResponse_fields X)"
  have "?d (enc_len 0x0a (Params_enc X (qp_Params m))) (QueryParamsResponse_Reset) ?m1"
    by (rule decodes_message [where n = 1], rule QueryParamsResponse_fields_simps, rule tags, rule h1, rule refl)
  then have "?d (QueryParamsResponse_enc X m) QueryParamsResponse_Reset ?m1"
    unfolding QueryParamsResponse_enc_def .
  moreover have "?m1 = m"
    by (cases m) (simp add: QueryParamsResponse_Reset_def)
  ultimately show ?thesis by simp
qed

lemma QueryParamsResponse_safe: "safe_fields (QueryParamsResponse_fields X)"
  by (rule safe_fieldsI)
    (auto simp: QueryParamsResponse_fields_def Params_Unmarshal_no_panic split: if_splits
      intro!: safe_message_case safe_std_case)

end

sublocale wire_ext_laws \<subseteq> QueryParamsResponse: message PbQuery "''QueryParamsResponse''" "QueryParamsResponse_fields X" "QueryParamsResponse_Size X"
    "QueryParamsResponse_body X" "QueryParamsResponse_enc X" QueryParamsResponse_Reset "QueryParamsResponse_wf X"
  by unfold_locales
    (auto simp: QueryParamsResponse_writes QueryParamsResponse_size_enc QueryParamsResponse_decodes QueryParamsResponse_safe)

context wire_ext_laws
begin

lemma QueryParamsResponse_marshal_unmarshal:
  "QueryParamsResponse_wf X m \<Longrightarrow> bind_o (QueryParamsResponse_Marshal X m) (QueryParamsResponse_Unmarshal X QueryParamsResponse_Reset) = Ok m"
  using QueryParamsResponse.marshal_enc [of m] QueryParamsResponse.unmarshal_enc [of m]
  by (simp add: QueryParamsResponse_Marshal_def QueryParamsResponse_MarshalToSizedBuffer_def QueryParamsResponse_Unmarshal_def QueryParamsResponse_wf_def)

lemma QueryParamsResponse_unmarshal_no_panic:
  "length dAtA < 2 ^ 63 \<Longrightarrow> \<not> is_Panic (QueryParamsResponse_Unmarshal X m dAtA)"
  using QueryParamsResponse.no_panic [of dAtA m] by (simp add: QueryParamsResponse_Unmarshal_def)

lemma QueryParamsResponse_marshal_enc: "QueryParamsResponse_wf X m \<Longrightarrow> QueryParamsResponse_Marshal X m = Ok (QueryParamsResponse_enc X m)"
  using QueryParamsResponse.marshal_enc [of m] by (simp add: QueryParamsResponse_Marshal_def QueryParamsResponse_MarshalToSizedBuffer_def)

end

end
