(* ===== verification/Hal_Types.thy ===== *)
theory Hal_Types
  imports Sdk_Interface Tx_Pb Genesis_Query_Pb
begin

text \<open>
  The hand-written part of \<open>x/hal/types\<close>: store keys and module names, the parameters with their
  defaults and validation, the genesis state, and the stateless checks of the messages.
\<close>

section \<open>Keys\<close>

definition ModuleName :: string where "ModuleName = ''hal''"

definition StoreKey :: string where "StoreKey = ModuleName"

definition MemStoreKey :: string where "MemStoreKey = ''mem_hal''"

definition CollateralPoolName :: string where "CollateralPoolName = ''halborn_collateral_pool''"

definition RedeemPoolName :: string where "RedeemPoolName = ''halborn_redeem_pool''"

definition TicketKey :: string where "TicketKey = ''ticket_key''"

definition TicketKeyCounter :: string where "TicketKeyCounter = ''ticket_key_counter''"

definition TreasuryKey :: string where "TreasuryKey = ''treasury_key''"

definition RedeemRequestKeyPrefix :: string where "RedeemRequestKeyPrefix = ''RedeemRequest-''"

definition ParamsKey :: bytes where "ParamsKey = bytes_of ''p_hal''"

definition KeyPrefix :: "string \<Rightarrow> bytes" where
  "KeyPrefix p = bytes_of p"

section \<open>Parameters\<close>

text \<open>\<open>time.Hour\<close> in nanoseconds.\<close>

definition hour :: duration where
  "hour = 3600 * 10 ^ 9"

definition DefaultRedeemDur :: duration where
  "DefaultRedeemDur = 2 * 7 * 24 * hour"

definition DefaultMaxRedeemEntries :: "32 word" where
  "DefaultMaxRedeemEntries = 5"

definition DefaultHalMeta :: token_meta where
  "DefaultHalMeta = \<lparr>tm_Denom = ''HAL'', tm_Decimals = 18, tm_Description = ''Halborn token''\<rparr>"

definition DefaultCollateralMetas :: token_meta where
  "DefaultCollateralMetas = \<lparr>tm_Denom = ''Stake'', tm_Decimals = 18, tm_Description = ''Stake token''\<rparr>"

definition NewParams :: "duration \<Rightarrow> 32 word \<Rightarrow> token_meta \<Rightarrow> token_meta \<Rightarrow> params" where
  "NewParams redeemDur maxRedeemEntries collateralMetas halMeta =
     \<lparr>pa_RedeemDur = redeemDur, pa_MaxRedeemEntries = maxRedeemEntries,
      pa_CollateralMetas = collateralMetas, pa_HalMeta = halMeta\<rparr>"

definition DefaultParams :: params where
  "DefaultParams =
     NewParams DefaultRedeemDur DefaultMaxRedeemEntries DefaultCollateralMetas DefaultHalMeta"

text \<open>The values the validation functions receive as \<open>interface{}\<close>; \<open>OtherI\<close> carries the name of any
  other dynamic type.\<close>

datatype iface = DurationI duration | Int32I "32 word" | TokenMetaI token_meta | OtherI string

fun type_name :: "iface \<Rightarrow> string" where
  "type_name (DurationI _) = ''time.Duration''"
| "type_name (Int32I _) = ''int32''"
| "type_name (TokenMetaI _) = ''types.TokenMeta''"
| "type_name (OtherI s) = s"

definition invalid_type :: "iface \<Rightarrow> go_error" where
  "invalid_type v = Errorf (''invalid parameter type: '' @ type_name v)"

definition validateRedeemDur :: "iface \<Rightarrow> unit outcome" where
  "validateRedeemDur v = (case v of
      DurationI redeemDur \<Rightarrow>
        if sint redeemDur \<le> 0 \<or> sint redeemDur > sint (4 * 7 * 24 * hour)
        then Err (Errorf ''redeem duration must be positive'') else Ok ()
    | _ \<Rightarrow> Err (invalid_type v))"

definition validateMaxRedeemEntries :: "iface \<Rightarrow> unit outcome" where
  "validateMaxRedeemEntries v = (case v of
      Int32I maxRedeemEntries \<Rightarrow>
        if sint maxRedeemEntries < 0
        then Err (Errorf ''max redeem entries must be non-negative'') else Ok ()
    | _ \<Rightarrow> Err (invalid_type v))"

definition validateTokenMeta :: "iface \<Rightarrow> unit outcome" where
  "validateTokenMeta v = (case v of TokenMetaI _ \<Rightarrow> Ok () | _ \<Rightarrow> Err (invalid_type v))"

definition Params_Validate :: "params \<Rightarrow> unit outcome" where
  "Params_Validate p =
     bind_o (validateRedeemDur (DurationI (pa_RedeemDur p))) (\<lambda>_.
     bind_o (validateMaxRedeemEntries (Int32I (pa_MaxRedeemEntries p))) (\<lambda>_.
     bind_o (validateTokenMeta (TokenMetaI (pa_CollateralMetas p))) (\<lambda>_.
     bind_o (validateTokenMeta (TokenMetaI (pa_HalMeta p))) (\<lambda>_. Ok ()))))"

definition KeyRedeemDur :: bytes where "KeyRedeemDur = bytes_of ''RedeemDur''"

definition KeyMaxRedeemEntries :: bytes where "KeyMaxRedeemEntries = bytes_of ''MaxRedeemEntries''"

definition KeyCollateralMetas :: bytes where "KeyCollateralMetas = bytes_of ''CollateralMetas''"

definition KeyHalMeta :: bytes where "KeyHalMeta = bytes_of ''HalMeta''"

text \<open>The pairs point to the fields of the parameters; here they hold the values of the fields.\<close>

definition ParamSetPairs :: "params \<Rightarrow> (bytes \<times> iface \<times> (iface \<Rightarrow> unit outcome)) list" where
  "ParamSetPairs p =
     [(KeyRedeemDur, DurationI (pa_RedeemDur p), validateRedeemDur),
      (KeyMaxRedeemEntries, Int32I (pa_MaxRedeemEntries p), validateMaxRedeemEntries),
      (KeyCollateralMetas, TokenMetaI (pa_CollateralMetas p), validateTokenMeta),
      (KeyHalMeta, TokenMetaI (pa_HalMeta p), validateTokenMeta)]"

section \<open>Genesis state\<close>

definition DefaultIndex :: "64 word" where "DefaultIndex = 1"

definition DefaultGenesis :: genesis_state where
  "DefaultGenesis = \<lparr>gs_Params = DefaultParams\<rparr>"

definition GenesisState_Validate :: "genesis_state \<Rightarrow> unit outcome" where
  "GenesisState_Validate gs = Params_Validate (gs_Params gs)"

section \<open>Messages\<close>

definition NewMsgMintHal :: "string \<Rightarrow> coin \<Rightarrow> msg_mint_hal" where
  "NewMsgMintHal creator collateralAmount =
     \<lparr>mh_Creator = creator, mh_CollateralAmount = collateralAmount\<rparr>"

definition NewMsgRedeemCollateral :: "string \<Rightarrow> coin \<Rightarrow> msg_redeem_collateral" where
  "NewMsgRedeemCollateral creator halAmount = \<lparr>rc_Creator = creator, rc_HalAmount = halAmount\<rparr>"

definition NewMsgCreateTicket :: "string \<Rightarrow> string \<Rightarrow> string \<Rightarrow> msg_create_ticket" where
  "NewMsgCreateTicket creator author issue =
     \<lparr>ct_Creator = creator, ct_Author = author, ct_Issue = issue\<rparr>"

text \<open>\<open>errorsmod.Wrapf(sdkerrors.ErrInvalidAddress, "invalid creator address (%s)", err)\<close>\<close>

definition invalid_creator :: "sdk_lib \<Rightarrow> go_error \<Rightarrow> go_error" where
  "invalid_creator S err =
     Wrapped SdkErrInvalidAddress (''invalid creator address ('' @ err_Error S err @ '')'')"

definition creator_address :: "sdk_lib \<Rightarrow> string \<Rightarrow> acc_address outcome" where
  "creator_address S creator = (case AccAddressFromBech32 S creator of
      Err err \<Rightarrow> Err (invalid_creator S err) | r \<Rightarrow> r)"

definition MsgMintHal_ValidateBasic :: "sdk_lib \<Rightarrow> msg_mint_hal \<Rightarrow> unit outcome" where
  "MsgMintHal_ValidateBasic S msg = bind_o (creator_address S (mh_Creator msg)) (\<lambda>_. Ok ())"

definition MsgRedeemCollateral_ValidateBasic :: "sdk_lib \<Rightarrow> msg_redeem_collateral \<Rightarrow> unit outcome" where
  "MsgRedeemCollateral_ValidateBasic S msg = bind_o (creator_address S (rc_Creator msg)) (\<lambda>_. Ok ())"

definition MsgCreateTicket_ValidateBasic :: "sdk_lib \<Rightarrow> msg_create_ticket \<Rightarrow> unit outcome" where
  "MsgCreateTicket_ValidateBasic S msg = bind_o (creator_address S (ct_Creator msg)) (\<lambda>_. Ok ())"

text \<open>The error of the address is wrapped with a text of its own.\<close>

definition MsgUpdateParams_ValidateBasic :: "sdk_lib \<Rightarrow> msg_update_params \<Rightarrow> unit outcome" where
  "MsgUpdateParams_ValidateBasic S m =
     (case AccAddressFromBech32 S (up_Authority m) of
        Err err \<Rightarrow> Err (ExternalError (''invalid authority address: '' @ err_Error S err))
      | Panic s \<Rightarrow> Panic s
      | Ok _ \<Rightarrow> bind_o (Params_Validate (up_Params m)) (\<lambda>_. Ok ()))"

end
