(* ===== verification/Go_Std.thy ===== *)
theory Go_Std
  imports Sdk_Wire
begin

text \<open>
  The functions of Go's standard library that the module uses: decimal text of integers, the text
  of a time, and big-endian integers.
\<close>

section \<open>Decimal text of integers\<close>

definition digit_char :: "nat \<Rightarrow> char" where
  "digit_char n = char_of (48 + n)"

fun nat_text :: "nat \<Rightarrow> string" where
  "nat_text n = (if n < 10 then [digit_char n] else nat_text (n div 10) @ [digit_char (n mod 10)])"

declare nat_text.simps [simp del]

definition int_text :: "int \<Rightarrow> string" where
  "int_text i = (if i < 0 then CHR ''-'' # nat_text (nat (- i)) else nat_text (nat i))"

definition is_digit :: "char \<Rightarrow> bool" where
  "is_digit c \<longleftrightarrow> 48 \<le> (of_char c :: nat) \<and> (of_char c :: nat) < 58"

definition parse_nat :: "string \<Rightarrow> nat option" where
  "parse_nat s = (if s \<noteq> [] \<and> list_all is_digit s
     then Some (foldl (\<lambda>n c. 10 * n + (of_char c - 48)) 0 s) else None)"

definition parse_int :: "string \<Rightarrow> int option" where
  "parse_int s =
     (if s \<noteq> [] \<and> hd s = CHR ''-'' then map_option (\<lambda>n. - int n) (parse_nat (tl s))
      else map_option int (parse_nat s))"

lemma of_digit_char: "n < 10 \<Longrightarrow> of_char (digit_char n) = (48 + n :: nat)"
  by (simp add: digit_char_def)

lemma is_digit_char: "n < 10 \<Longrightarrow> is_digit (digit_char n)"
  by (simp add: is_digit_def of_digit_char)

lemma nat_text_not_Nil: "nat_text n \<noteq> []"
  by (subst nat_text.simps) simp

lemma nat_text_digits: "list_all is_digit (nat_text n)"
  by (induction n rule: nat_text.induct) (subst nat_text.simps, simp add: is_digit_char)

lemma nat_text_value: "foldl (\<lambda>n c. 10 * n + (of_char c - 48)) 0 (nat_text n) = n"
  by (induction n rule: nat_text.induct) (subst nat_text.simps, simp add: of_digit_char)

lemma parse_nat_text: "parse_nat (nat_text n) = Some n"
  by (simp add: parse_nat_def nat_text_not_Nil nat_text_digits nat_text_value)

lemma nat_text_head: "\<exists>c s. nat_text n = c # s \<and> c \<noteq> CHR ''-''"
proof -
  obtain c s where t: "nat_text n = c # s"
    using nat_text_not_Nil [of n] by (cases "nat_text n") auto
  with nat_text_digits [of n] have "is_digit c" by simp
  then have "c \<noteq> CHR ''-''" by (auto simp: is_digit_def)
  with t show ?thesis by blast
qed

lemma parse_int_text: "parse_int (int_text i) = Some i"
proof (cases "i < 0")
  case True
  then show ?thesis by (simp add: int_text_def parse_int_def parse_nat_text)
next
  case False
  obtain c s where t: "nat_text (nat i) = c # s" "c \<noteq> CHR ''-''"
    using nat_text_head by blast
  then have "parse_int (c # s) = map_option int (parse_nat (c # s))"
    by (simp add: parse_int_def)
  with False t parse_nat_text [of "nat i"] show ?thesis
    by (simp add: int_text_def)
qed

lemma int_text_not_Nil: "int_text i \<noteq> []"
  by (simp add: int_text_def nat_text_not_Nil)

section \<open>time.Time.String\<close>

text \<open>Year, month and day of a number of days from the Unix epoch, in the Gregorian calendar.\<close>

definition civil :: "int \<Rightarrow> int \<times> int \<times> int" where
  "civil days =
     (let z = days + 719468;
          era = z div 146097;
          doe = z mod 146097;
          yoe = (doe - doe div 1460 + doe div 36524 - doe div 146096) div 365;
          doy = doe - (365 * yoe + yoe div 4 - yoe div 100);
          mp = (5 * doy + 2) div 153;
          d = doy - (153 * mp + 2) div 5 + 1;
          m = (if mp < 10 then mp + 3 else mp - 9);
          y = yoe + era * 400
      in (if m \<le> 2 then y + 1 else y, m, d))"

definition pad :: "nat \<Rightarrow> int \<Rightarrow> string" where
  "pad w i = (let t = nat_text (nat \<bar>i\<bar>)
     in (if i < 0 then ''-'' else []) @ replicate (w - length t) CHR ''0'' @ t)"

text \<open>The fraction of a second without trailing zeros, or nothing.\<close>

definition fraction :: "int \<Rightarrow> string" where
  "fraction nanos =
     (if nanos = 0 then []
      else CHR ''.'' # rev (dropWhile (\<lambda>c. c = CHR ''0'') (rev (pad 9 nanos))))"

text \<open>The layout \<open>2006-01-02 15:04:05.999999999 -0700 MST\<close> for a time in UTC.\<close>

definition time_String :: "gtime \<Rightarrow> string" where
  "time_String t =
     (let secs = t div second; sod = secs mod 86400; (y, m, d) = civil (secs div 86400)
      in pad 4 y @ ''-'' @ pad 2 m @ ''-'' @ pad 2 d @ '' '' @
         pad 2 (sod div 3600) @ '':'' @ pad 2 (sod div 60 mod 60) @ '':'' @ pad 2 (sod mod 60) @
         fraction (t mod second) @ '' +0000 UTC'')"

section \<open>encoding/binary.BigEndian\<close>

definition PutUint64 :: "64 word \<Rightarrow> bytes" where
  "PutUint64 v =
     [ucast (drop_bit 56 v), ucast (drop_bit 48 v), ucast (drop_bit 40 v), ucast (drop_bit 32 v),
      ucast (drop_bit 24 v), ucast (drop_bit 16 v), ucast (drop_bit 8 v), ucast v]"

definition Uint64 :: "bytes \<Rightarrow> 64 word outcome" where
  "Uint64 b = (if length b < 8 then Panic ''index out of range'' else Ok
     (((((((ucast (b ! 7) OR push_bit 8 (ucast (b ! 6))) OR push_bit 16 (ucast (b ! 5)))
       OR push_bit 24 (ucast (b ! 4))) OR push_bit 32 (ucast (b ! 3))) OR push_bit 40 (ucast (b ! 2)))
       OR push_bit 48 (ucast (b ! 1))) OR push_bit 56 (ucast (b ! 0))))"

lemma ucast_byte: "ucast (ucast v :: byte) = (take_bit 8 v :: 64 word)"
  by (rule bit_eqI) (auto simp: bit_simps)

lemma take_bit_or:
  "take_bit s v OR push_bit s (take_bit 8 (drop_bit s v)) = take_bit (s + 8) (v :: 64 word)"
proof (rule bit_eqI)
  fix n
  show "bit (take_bit s v OR push_bit s (take_bit 8 (drop_bit s v))) n = bit (take_bit (s + 8) v) n"
    using bit_imp_le_length [of v n] by (cases "n < s") (auto simp: bit_simps)
qed

lemma length_PutUint64 [simp]: "length (PutUint64 v) = 8"
  by (simp add: PutUint64_def)

lemma Uint64_PutUint64 [simp]: "Uint64 (PutUint64 v) = Ok v"
proof -
  have "take_bit 64 v = v"
    by (rule bit_eqI) (auto simp: bit_simps)
  then show ?thesis
    using take_bit_or [of 8 v] take_bit_or [of 16 v] take_bit_or [of 24 v] take_bit_or [of 32 v]
      take_bit_or [of 40 v] take_bit_or [of 48 v] take_bit_or [of 56 v]
    by (simp add: Uint64_def PutUint64_def ucast_byte)
qed

lemma PutUint64_inject [simp]: "PutUint64 u = PutUint64 v \<longleftrightarrow> u = v"
  by (metis Uint64_PutUint64 outcome.inject(1))

end
