(* ===== verification/Reference_Wire.thy ===== *)
theory Reference_Wire
  imports Go_Std
begin

text \<open>
  A concrete encoding of the embedded values, in the protobuf format those packages document: a
  coin is its denomination and the decimal text of its amount, a time and a duration are
  seconds and nanoseconds. It shows that the laws of \<open>wire_ext_laws\<close> can hold, and gives the
  concrete inputs of the witnesses.
\<close>

section \<open>Writers\<close>

text \<open>Copying bytes to the start of a buffer.\<close>

definition copy_front :: "bytes \<Rightarrow> bytes \<Rightarrow> (bytes \<times> int) outcome" where
  "copy_front bs buf =
     (if length bs \<le> length buf then Ok (bs @ drop (length bs) buf, int (length bs))
      else Panic ''index out of range'')"

lemma copy_front_fills: "fills_front (copy_front bs) bs"
  by (simp add: fills_front_def copy_front_def)

lemma written_fills: "fills f xs \<Longrightarrow> written f (int (length xs)) = xs"
  by (simp add: written_def fillsD)

lemma written_fills_front: "fills_front f xs \<Longrightarrow> written f (int (length xs)) = xs"
  using fills_front_def [of f xs, THEN iffD1, rule_format, of "replicate (length xs) 0" "[]"]
  by (simp add: written_def)

section \<open>Coins\<close>

definition amount_text :: "int option \<Rightarrow> string" where
  "amount_text a = int_text (case a of None \<Rightarrow> 0 | Some n \<Rightarrow> n)"

definition ref_enc_coin :: "coin \<Rightarrow> bytes" where
  "ref_enc_coin c =
     enc_string_field 0x0a (coin_Denom c) @ enc_len 0x12 (bytes_of (amount_text (coin_Amount c)))"

definition ref_coin_body :: "coin \<Rightarrow> wr" where
  "ref_coin_body c =
     then_w (put_std_field 0x12 (int (length (amount_text (coin_Amount c))))
              (copy_front (bytes_of (amount_text (coin_Amount c)))))
            (put_string_field 0x0a (coin_Denom c))"

definition ref_amount_unmarshal :: "bytes \<Rightarrow> coin \<Rightarrow> coin outcome" where
  "ref_amount_unmarshal bs c =
     (if bs = [] then Ok c
      else case parse_int (string_of bs) of
        None \<Rightarrow> Err (ExternalError ''invalid integer'')
      | Some n \<Rightarrow> if \<bar>n\<bar> < 2 ^ 256 then Ok (c\<lparr>coin_Amount := Some n\<rparr>)
                  else Err (ExternalError ''integer out of range''))"

definition ref_coin_fields :: "coin fields" where
  "ref_coin_fields n =
     (if n = 1 then Some (string_case ''Denom'' (\<lambda>s c. c\<lparr>coin_Denom := s\<rparr>))
      else if n = 2 then Some (LenDelim ''Amount'' ref_amount_unmarshal)
      else None)"

definition ref_coin_unmarshal :: "coin \<Rightarrow> bytes \<Rightarrow> coin outcome" where
  "ref_coin_unmarshal c bs = unmarshal PbTx ''Coin'' ref_coin_fields c bs"

lemma ref_coin_fields_simps:
  "ref_coin_fields 1 = Some (string_case ''Denom'' (\<lambda>s c. c\<lparr>coin_Denom := s\<rparr>))"
  "ref_coin_fields 2 = Some (LenDelim ''Amount'' ref_amount_unmarshal)"
  by (simp_all add: ref_coin_fields_def)

lemma ref_coin_fills: "fills (to_sized_buffer (ref_coin_body c)) (ref_enc_coin c)"
  unfolding ref_coin_body_def ref_enc_coin_def
  by (intro fills_to_sized_buffer writes_intro copy_front_fills) simp

lemma ref_amount_roundtrip:
  "\<bar>n\<bar> < 2 ^ 256 \<Longrightarrow>
     ref_amount_unmarshal (bytes_of (amount_text (Some n))) c = Ok (c\<lparr>coin_Amount := Some n\<rparr>)"
  by (simp add: ref_amount_unmarshal_def amount_text_def int_text_not_Nil parse_int_text)

lemma ref_coin_decodes:
  assumes "coin_ok c"
  shows "decodes PbTx ''Coin'' ref_coin_fields (ref_enc_coin c) coin_zero c"
proof -
  from assms obtain n where n: "coin_Amount c = Some n" "\<bar>n\<bar> < 2 ^ 256"
    by (auto simp: coin_ok_def split: option.splits)
  let ?c1 = "if coin_Denom c = [] then coin_zero else coin_zero\<lparr>coin_Denom := coin_Denom c\<rparr>"
  let ?c2 = "?c1\<lparr>coin_Amount := Some n\<rparr>"
  have "decodes PbTx ''Coin'' ref_coin_fields (enc_string_field 0x0a (coin_Denom c)) coin_zero ?c1"
    by (rule decodes_string [where n = 1], rule ref_coin_fields_simps, rule tags, rule refl)
  moreover have "decodes PbTx ''Coin'' ref_coin_fields
      (enc_len 0x12 (bytes_of (amount_text (coin_Amount c)))) ?c1 ?c2"
    by (rule decodes_len [where n = 2], rule ref_coin_fields_simps, rule tags)
      (simp only: n(1) ref_amount_roundtrip [OF n(2)])
  ultimately have "decodes PbTx ''Coin'' ref_coin_fields (ref_enc_coin c) coin_zero ?c2"
    unfolding ref_enc_coin_def by (rule decodes_append)
  moreover have "?c2 = c"
    using n by (cases c) (simp add: coin_zero_def)
  ultimately show ?thesis by simp
qed

lemma ref_coin_safe: "safe_fields ref_coin_fields"
  by (rule safe_fieldsI)
    (auto simp: ref_coin_fields_def ref_amount_unmarshal_def split: if_splits option.splits)

section \<open>Seconds and nanoseconds\<close>

text \<open>The message of a timestamp and of a duration: an \<open>int64\<close> and an \<open>int32\<close>.\<close>

type_synonym secs_nanos = "64 word \<times> 32 word"

definition sn_fields :: "secs_nanos fields" where
  "sn_fields n =
     (if n = 1 then Some (Varint ''Seconds'' (\<lambda>v (s, k). (v, k)))
      else if n = 2 then Some (Varint ''Nanos'' (\<lambda>v (s, k). (s, ucast v)))
      else None)"

definition sn_enc :: "int \<Rightarrow> int \<Rightarrow> bytes" where
  "sn_enc s k = enc_varint_field 0x08 (word_of_int s) @ enc_varint_field 0x10 (word_of_int k)"

definition sn_unmarshal :: "bytes \<Rightarrow> (int \<times> int) outcome" where
  "sn_unmarshal bs = bind_o (unmarshal PbTx ''Timestamp'' sn_fields (0, 0) bs)
     (\<lambda>(s, k). Ok (sint s, sint k))"

lemma sn_fields_simps:
  "sn_fields 1 = Some (Varint ''Seconds'' (\<lambda>v (s, k). (v, k)))"
  "sn_fields 2 = Some (Varint ''Nanos'' (\<lambda>v (s, k). (s, ucast v)))"
  by (simp_all add: sn_fields_def)

lemma sn_safe: "safe_fields sn_fields"
  by (rule safe_fieldsI) (auto simp: sn_fields_def split: if_splits)

lemma sn_no_panic: "length bs < 2 ^ 63 \<Longrightarrow> \<not> is_Panic (sn_unmarshal bs)"
  using unmarshal_no_panic [OF sn_safe] by (auto simp: sn_unmarshal_def is_Panic_bind_o)

lemma sov_le_10: "sov v \<le> 10"
proof -
  have "unat v < 2 ^ LENGTH(64)" by (rule unsigned_less)
  then have "unat v div 2 < 2 ^ 63" by simp
  then have "bit_len (unat v div 2) \<le> 63" by (rule bit_len_less_power)
  then show ?thesis by (simp add: sov_def Len64_or_1)
qed

lemma sn_enc_length: "length (sn_enc s k) \<le> 22"
  using sov_le_10 [of "word_of_int s"] sov_le_10 [of "word_of_int k"]
    length_enc_varint_field [of "0x08" "word_of_int s"]
    length_enc_varint_field [of "0x10" "word_of_int k"]
  by (simp add: sn_enc_def split: if_splits)

lemma sint_word_of_int_64: "- (2 ^ 63) \<le> s \<Longrightarrow> s < 2 ^ 63 \<Longrightarrow> sint (word_of_int s :: 64 word) = s"
  by (simp add: sint_sbintrunc' signed_take_bit_int_eq_self)

lemma sint_ucast_32:
  "- (2 ^ 31) \<le> k \<Longrightarrow> k < 2 ^ 31 \<Longrightarrow> sint (ucast (word_of_int k :: 64 word) :: 32 word) = k"
  by (simp add: unsigned_of_int signed_of_int signed_take_bit_take_bit signed_take_bit_int_eq_self)

lemma sn_roundtrip:
  assumes s: "- (2 ^ 63) \<le> s" "s < 2 ^ 63" and k: "- (2 ^ 31) \<le> k" "k < 2 ^ 31"
  shows "sn_unmarshal (sn_enc s k) = Ok (s, k)"
proof -
  let ?s = "word_of_int s :: 64 word" and ?k = "word_of_int k :: 64 word"
  let ?d = "decodes PbTx ''Timestamp'' sn_fields"
  have "?d (enc_varint_field 0x08 ?s) (0, 0) (?s, 0)"
    by (rule decodes_varint [where n = 1], rule sn_fields_simps, rule tags) simp
  moreover have "?d (enc_varint_field 0x10 ?k) (?s, 0) (?s, ucast ?k)"
    by (rule decodes_varint [where n = 2], rule sn_fields_simps, rule tags) simp
  ultimately have "?d (sn_enc s k) (0, 0) (?s, ucast ?k)"
    unfolding sn_enc_def by (rule decodes_append)
  then have "unmarshal PbTx ''Timestamp'' sn_fields (0, 0) (sn_enc s k) = Ok (?s, ucast ?k)"
    using sn_enc_length [of s k] by (intro decodes_unmarshal) simp_all
  then show ?thesis
    by (simp add: sn_unmarshal_def sint_word_of_int_64 [OF s] sint_ucast_32 [OF k])
qed

section \<open>Times and durations\<close>

definition ref_enc_time :: "gtime \<Rightarrow> bytes" where
  "ref_enc_time t = sn_enc (t div second) (t mod second)"

definition ref_time_marshal :: "gtime \<Rightarrow> bytes \<Rightarrow> (bytes \<times> int) outcome" where
  "ref_time_marshal t =
     (if timestamp_ok t then copy_front (ref_enc_time t)
      else (\<lambda>_. Err (ExternalError ''timestamp out of range'')))"

definition ref_time_unmarshal :: "bytes \<Rightarrow> gtime outcome" where
  "ref_time_unmarshal bs = bind_o (sn_unmarshal bs) (\<lambda>(s, k).
     let t = s * second + k
     in if 0 \<le> k \<and> k < second \<and> timestamp_ok t then Ok t
        else Err (ExternalError ''timestamp out of range''))"

definition ref_enc_duration :: "duration \<Rightarrow> bytes" where
  "ref_enc_duration d =
     (let n = sint d; s = (if n < 0 then - (- n div second) else n div second)
      in sn_enc s (n - s * second))"

definition ref_duration_unmarshal :: "bytes \<Rightarrow> duration outcome" where
  "ref_duration_unmarshal bs = bind_o (sn_unmarshal bs) (\<lambda>(s, k).
     let n = s * second + k
     in if \<bar>k\<bar> < second \<and> \<not> (s < 0 \<and> 0 < k) \<and> \<not> (0 < s \<and> k < 0) \<and> - (2 ^ 63) \<le> n \<and> n < 2 ^ 63
        then Ok (word_of_int n) else Err (ExternalError ''duration out of range''))"

definition ref_ext :: wire_ext where
  "ref_ext = \<lparr>
     CoinSize = (\<lambda>c. int (length (ref_enc_coin c))),
     CoinMarshalToSizedBuffer = (\<lambda>c. to_sized_buffer (ref_coin_body c)),
     CoinUnmarshal = ref_coin_unmarshal,
     SizeOfStdTime = (\<lambda>t. int (length (ref_enc_time t))),
     StdTimeMarshalTo = ref_time_marshal,
     StdTimeUnmarshal = ref_time_unmarshal,
     SizeOfStdDuration = (\<lambda>d. int (length (ref_enc_duration d))),
     StdDurationMarshalTo = (\<lambda>d. copy_front (ref_enc_duration d)),
     StdDurationUnmarshal = ref_duration_unmarshal\<rparr>"

lemma ref_time_roundtrip: "timestamp_ok t \<Longrightarrow> ref_time_unmarshal (ref_enc_time t) = Ok t"
proof -
  assume t: "timestamp_ok t"
  then have s: "- (2 ^ 63) \<le> t div second" "t div second < 2 ^ 63"
    by (auto simp: timestamp_ok_def time_zero_def second_def)
  have k: "0 \<le> t mod second" "t mod second < second"
    by (simp_all add: second_def)
  then have "- (2 ^ 31) \<le> t mod second" "t mod second < 2 ^ 31"
    by (simp_all add: second_def)
  with s have "sn_unmarshal (ref_enc_time t) = Ok (t div second, t mod second)"
    unfolding ref_enc_time_def by (rule sn_roundtrip)
  then show ?thesis
    using t k by (simp add: ref_time_unmarshal_def)
qed

lemma div_trunc:
  assumes "s = (if n < 0 then - (- n div second) else n div second)"
  shows "\<bar>n - s * second\<bar> < second" "\<not> (s < 0 \<and> 0 < n - s * second)" "\<not> (0 < s \<and> n - s * second < 0)"
    "\<bar>s\<bar> \<le> \<bar>n\<bar>"
proof -
  have p: "0 < second" by (simp add: second_def)
  have "\<bar>n - s * second\<bar> < second \<and> \<not> (s < 0 \<and> 0 < n - s * second) \<and> \<not> (0 < s \<and> n - s * second < 0)
      \<and> \<bar>s\<bar> \<le> \<bar>n\<bar>"
  proof (cases "n < 0")
    case True
    then have "n - s * second = - (- n mod second)"
      by (simp add: assms minus_mult_div_eq_mod [symmetric] mult.commute)
    moreover have "0 \<le> - n div second" "- n div second \<le> - n"
      using True p zdiv_mono2 [of "- n" 1 second] by (simp_all add: pos_imp_zdiv_nonneg_iff)
    moreover note pos_mod_bound [OF p, of "- n"] pos_mod_sign [OF p, of "- n"]
    ultimately show ?thesis using True assms by auto
  next
    case False
    then have "n - s * second = n mod second"
      by (simp add: assms minus_mult_div_eq_mod [symmetric] mult.commute)
    moreover have "0 \<le> n div second" "n div second \<le> n"
      using False p zdiv_mono2 [of n 1 second] by (simp_all add: pos_imp_zdiv_nonneg_iff)
    moreover note pos_mod_bound [OF p, of n] pos_mod_sign [OF p, of n]
    ultimately show ?thesis using False assms by auto
  qed
  then show "\<bar>n - s * second\<bar> < second" "\<not> (s < 0 \<and> 0 < n - s * second)"
    "\<not> (0 < s \<and> n - s * second < 0)" "\<bar>s\<bar> \<le> \<bar>n\<bar>"
    by blast+
qed

lemma ref_duration_roundtrip: "ref_duration_unmarshal (ref_enc_duration d) = Ok d"
proof -
  define n where "n = sint d"
  define s where "s = (if n < 0 then - (- n div second) else n div second)"
  define k where "k = n - s * second"
  have n: "- (2 ^ 63) \<le> n" "n < 2 ^ 63"
    using sint_ge [of d] sint_less [of d] by (simp_all add: n_def)
  note k = div_trunc(1-3) [OF s_def, folded k_def]
  have s: "- (2 ^ 63) \<le> s" "s < 2 ^ 63"
    using div_trunc(1,4) [OF s_def] n by (auto simp: s_def second_def split: if_splits)
  have k': "- (2 ^ 31) \<le> k" "k < 2 ^ 31"
    using k(1) by (auto simp: second_def)
  have e: "ref_enc_duration d = sn_enc s k"
    by (simp add: ref_enc_duration_def Let_def k_def s_def n_def)
  have t: "s * second + k = n"
    by (simp add: k_def)
  from n k sn_roundtrip [OF s k'] show ?thesis
    by (simp add: ref_duration_unmarshal_def e Let_def t) (simp add: n_def)
qed

lemma ref_enc_simps:
  "enc_coin ref_ext c = ref_enc_coin c"
  "timestamp_ok t \<Longrightarrow> enc_time ref_ext t = ref_enc_time t"
  "enc_duration ref_ext d = ref_enc_duration d"
  by (simp_all add: enc_coin_def enc_time_def enc_duration_def ref_ext_def ref_time_marshal_def
      written_fills ref_coin_fills written_fills_front copy_front_fills)

interpretation ref_wire: wire_ext_laws ref_ext
proof
  show "fills (CoinMarshalToSizedBuffer ref_ext c) (enc_coin ref_ext c)" for c
    unfolding ref_enc_simps by (simp add: ref_ext_def ref_coin_fills)
  show "CoinSize ref_ext c = int (length (enc_coin ref_ext c))" for c
    unfolding ref_enc_simps by (simp add: ref_ext_def)
  show "CoinUnmarshal ref_ext coin_zero (enc_coin ref_ext c) = Ok c"
    if "coin_ok c" "length (enc_coin ref_ext c) < 2 ^ 63" for c
    using that decodes_unmarshal [OF ref_coin_decodes] unfolding ref_enc_simps
    by (simp add: ref_ext_def ref_coin_unmarshal_def)
  show "\<not> is_Panic (CoinUnmarshal ref_ext c bs)" if "length bs < 2 ^ 63" for bs c
    using unmarshal_no_panic [OF ref_coin_safe that] by (simp add: ref_ext_def ref_coin_unmarshal_def)
  show "fills_front (StdTimeMarshalTo ref_ext t) (enc_time ref_ext t)" if "timestamp_ok t" for t
    unfolding ref_enc_simps(2) [OF that] using that
    by (simp add: ref_ext_def ref_time_marshal_def copy_front_fills)
  show "SizeOfStdTime ref_ext t = int (length (enc_time ref_ext t))" if "timestamp_ok t" for t
    unfolding ref_enc_simps(2) [OF that] by (simp add: ref_ext_def)
  show "StdTimeUnmarshal ref_ext (enc_time ref_ext t) = Ok t" if "timestamp_ok t" for t
    unfolding ref_enc_simps(2) [OF that] using that by (simp add: ref_ext_def ref_time_roundtrip)
  show "\<not> is_Panic (StdTimeUnmarshal ref_ext bs)" if "length bs < 2 ^ 63" for bs
    using sn_no_panic [OF that]
    by (auto simp: ref_ext_def ref_time_unmarshal_def is_Panic_bind_o Let_def)
  show "fills_front (StdDurationMarshalTo ref_ext d) (enc_duration ref_ext d)" for d
    unfolding ref_enc_simps by (simp add: ref_ext_def copy_front_fills)
  show "SizeOfStdDuration ref_ext d = int (length (enc_duration ref_ext d))" for d
    unfolding ref_enc_simps by (simp add: ref_ext_def)
  show "StdDurationUnmarshal ref_ext (enc_duration ref_ext d) = Ok d" for d
    unfolding ref_enc_simps by (simp add: ref_ext_def ref_duration_roundtrip)
  show "\<not> is_Panic (StdDurationUnmarshal ref_ext bs)" if "length bs < 2 ^ 63" for bs
    using sn_no_panic [OF that]
    by (auto simp: ref_ext_def ref_duration_unmarshal_def is_Panic_bind_o Let_def)
qed

end
