(* ===== verification/Codec_Properties.thy ===== *)
theory Codec_Properties
  imports Hal_Types Reference_Wire
begin

text \<open>
  The properties of the generated encoding in \<open>x/hal/types\<close>: round trips, totality of the decoders, varints and
  equality.
\<close>

section \<open>Round trips\<close>

text \<open>C25: A redeem request that is stored with \<open>Marshal\<close> is read back unchanged by \<open>Unmarshal\<close>, for every
  request whose amount is present, whose completion time a timestamp can hold and whose size is
  an \<open>int\<close>.\<close>

theorem RedeemRequest_roundtrip:
  assumes "wire_ext_laws X" "RedeemRequest_wf X m"
  shows "bind_o (RedeemRequest_Marshal X m) (RedeemRequest_Unmarshal X RedeemRequest_Reset) = Ok m"
  using wire_ext_laws.RedeemRequest_Marshal_enc [OF assms] wire_ext_laws.RedeemRequest_Unmarshal_enc [OF assms]
  by simp

definition sample_request :: redeem_request where
  "sample_request = \<lparr>rr_Account = ''hal1alice'',
     rr_Collateral = \<lparr>coin_Denom = ''Stake'', coin_Amount = Some 50\<rparr>, rr_Completiontime = 1700000000 * second + 5\<rparr>"

lemma sample_request_wf: "RedeemRequest_wf ref_ext sample_request"
  by code_simp

theorem RedeemRequest_roundtrip_witness:
  "bind_o (RedeemRequest_Marshal ref_ext sample_request) (RedeemRequest_Unmarshal ref_ext RedeemRequest_Reset)
     = Ok sample_request"
  by (rule RedeemRequest_roundtrip [OF ref_wire.wire_ext_laws_axioms sample_request_wf])

text \<open>C26: The parameters that \<open>SetParams\<close> marshals decode to the same parameters.\<close>

theorem Params_roundtrip:
  assumes "wire_ext_laws X" "Params_Size X p < 2 ^ 63"
  shows "bind_o (Params_Marshal X p) (Params_Unmarshal X Params_Reset) = Ok p"
proof -
  have "Params_wf X p" using assms(2) by (simp add: Params_wf_def)
  then show ?thesis
    using wire_ext_laws.Params_Marshal_enc [OF assms(1)] wire_ext_laws.Params_Unmarshal_enc [OF assms(1)]
    by simp
qed

lemma DefaultParams_size: "Params_Size ref_ext DefaultParams < 2 ^ 31"
  by code_simp

theorem Params_roundtrip_witness:
  "bind_o (Params_Marshal ref_ext DefaultParams) (Params_Unmarshal ref_ext Params_Reset) = Ok DefaultParams"
  using Params_roundtrip [OF ref_wire.wire_ext_laws_axioms, of DefaultParams] DefaultParams_size by simp










section \<open>Decoders\<close>

text \<open>C28: No decoder of a message panics, whatever bytes it is given: indexing and slicing stay in
  range, and lengths that overflow an \<open>int\<close> are rejected.\<close>

theorem Unmarshal_never_panics:
  assumes "wire_ext_laws X" "length dAtA < 2 ^ 63"
  shows "\<not> is_Panic (Ticket_Unmarshal t dAtA) \<and> \<not> is_Panic (RedeemRequest_Unmarshal X r dAtA) \<and>
    \<not> is_Panic (Params_Unmarshal X p dAtA) \<and> \<not> is_Panic (TokenMeta_Unmarshal tm dAtA) \<and>
    \<not> is_Panic (MsgUpdateParams_Unmarshal X m1 dAtA) \<and> \<not> is_Panic (MsgUpdateParamsResponse_Unmarshal m2 dAtA) \<and>
    \<not> is_Panic (MsgMintHal_Unmarshal X m3 dAtA) \<and> \<not> is_Panic (MsgMintHalResponse_Unmarshal X m4 dAtA) \<and>
    \<not> is_Panic (MsgRedeemCollateral_Unmarshal X m5 dAtA) \<and>
    \<not> is_Panic (MsgRedeemCollateralResponse_Unmarshal X m6 dAtA) \<and>
    \<not> is_Panic (MsgCreateTicket_Unmarshal m7 dAtA) \<and> \<not> is_Panic (MsgCreateTicketResponse_Unmarshal m8 dAtA) \<and>
    \<not> is_Panic (GenesisState_Unmarshal X m9 dAtA) \<and> \<not> is_Panic (QueryParamsRequest_Unmarshal m10 dAtA) \<and>
    \<not> is_Panic (QueryParamsResponse_Unmarshal X m11 dAtA)"
proof -
  note l = assms(2) and X = assms(1)
  have "\<not> is_Panic (Ticket_Unmarshal t dAtA)" "\<not> is_Panic (TokenMeta_Unmarshal tm dAtA)"
    using Ticket.no_panic [OF l] TokenMeta.no_panic [OF l]
    by (simp_all add: Ticket_Unmarshal_def TokenMeta_Unmarshal_def)
  then show ?thesis
    by (simp add: wire_ext_laws.RedeemRequest_Unmarshal_no_panic [OF X l]
        wire_ext_laws.Params_Unmarshal_no_panic [OF X l]
        wire_ext_laws.MsgUpdateParams_unmarshal_no_panic [OF X l] MsgUpdateParamsResponse_unmarshal_no_panic [OF l]
        wire_ext_laws.MsgMintHal_unmarshal_no_panic [OF X l]
        wire_ext_laws.MsgMintHalResponse_unmarshal_no_panic [OF X l]
        wire_ext_laws.MsgRedeemCollateral_unmarshal_no_panic [OF X l]
        wire_ext_laws.MsgRedeemCollateralResponse_unmarshal_no_panic [OF X l]
        MsgCreateTicket_unmarshal_no_panic [OF l] MsgCreateTicketResponse_unmarshal_no_panic [OF l]
        wire_ext_laws.GenesisState_unmarshal_no_panic [OF X l] QueryParamsRequest_unmarshal_no_panic [OF l]
        wire_ext_laws.QueryParamsResponse_unmarshal_no_panic [OF X l])
qed

theorem Unmarshal_never_panics_witness:
  "\<not> is_Panic (RedeemRequest_Unmarshal ref_ext RedeemRequest_Reset [0x0a, 0xff, 0xff, 0xff, 0xff, 0x0f, 0x01])"
  using Unmarshal_never_panics [OF ref_wire.wire_ext_laws_axioms,
      of "[0x0a, 0xff, 0xff, 0xff, 0xff, 0x0f, 0x01]" _ RedeemRequest_Reset]
  by simp

section \<open>Integers and equality\<close>

text \<open>C39: Varints: \<open>sov\<close> is the number of bytes \<open>encodeVarint\<close> writes, between 1 and 10; it writes them
  just before the offset and nothing else, and the decoding loop reads the value back.\<close>

theorem varint_exact:
  assumes "length gap = nat (sov v)" "length (pre @ gap @ post) < 2 ^ 63"
  shows "\<exists>bs. encodeVarint (pre @ gap @ post) (int (length (pre @ gap))) v = Ok (pre @ bs @ post, int (length pre)) \<and>
    int (length bs) = sov v \<and> 1 \<le> sov v \<and> sov v \<le> 10 \<and>
    decode_varint PbTx (pre @ bs @ post) (int (length pre)) 0 0 = Ok (v, int (length (pre @ bs)))"
proof -
  have l: "int (length (enc_varint v)) = sov v"
    by (simp add: length_enc_varint)
  then have g: "length gap = length (enc_varint v)" using assms(1) by simp
  have "encodeVarint (pre @ gap @ post) (int (length (pre @ gap))) v
      = Ok (pre @ enc_varint v @ post, int (length pre))"
    by (rule encodeVarint_writes [OF g]) simp
  moreover have "decode_varint PbTx (pre @ enc_varint v @ post) (int (length pre)) 0 0
      = Ok (v, int (length (pre @ enc_varint v)))"
    using assms(2) g by (intro decode_varint_enc) simp
  moreover have "1 \<le> sov v" "sov v \<le> 10"
    using sov_pos [of v] sov_le_10 [of v] by simp_all
  ultimately show ?thesis using l by blast
qed

theorem varint_exact_witness:
  "\<exists>bs. encodeVarint ([9] @ [0, 0] @ [9]) 3 300 = Ok ([9] @ bs @ [9], 1) \<and> length bs = 2"
proof -
  have s: "sov 300 = 2" by code_simp
  from varint_exact [of "[0, 0]" 300 "[9]" "[9]"] s show ?thesis by auto
qed

text \<open>The generated \<open>Equal\<close> methods of the parameters decide equality of the values they point to.\<close>

lemma Params_Equal_correct:
  "Params_Equal (Some p) (PtrAny (Some q)) = (p = q) \<and> Params_Equal (Some p) (ValAny q) = (p = q) \<and>
   TokenMeta_Equal (Some t) (PtrAny (Some u)) = (t = u) \<and> Params_Equal None NilAny \<and>
   \<not> Params_Equal (Some p) NilAny \<and> \<not> Params_Equal (Some p) OtherAny"
  by (simp add: Params_Equal_iff TokenMeta_Equal_iff Params_Equal_nil)

end
