(* ===== verification/App_Config.thy ===== *)
theory App_Config
  imports Hal_Types
begin

text \<open>
  The lists of \<open>app/app_config.go\<close> that decide how the module is run: the module accounts and their
  permissions, the accounts that may not receive funds, and the order of the modules in a
  block. The names of the other modules are constants of their packages and a parameter here.
\<close>

record ext_names =
  FeeCollectorName :: string
  BondedPoolName :: string
  NotBondedPoolName :: string
  Minter :: string
  Burner :: string
  Staking :: string
  auth_ModuleName :: string
  bank_ModuleName :: string
  distr_ModuleName :: string
  staking_ModuleName :: string
  slashing_ModuleName :: string
  gov_ModuleName :: string
  mint_ModuleName :: string
  crisis_ModuleName :: string
  ibcexported_ModuleName :: string
  genutil_ModuleName :: string
  evidence_ModuleName :: string
  authz_ModuleName :: string
  ibctransfer_ModuleName :: string
  ica_ModuleName :: string
  ibcfee_ModuleName :: string
  feegrant_ModuleName :: string
  params_ModuleName :: string
  upgrade_ModuleName :: string
  vesting_ModuleName :: string
  nft_ModuleName :: string
  group_ModuleName :: string
  consensus_ModuleName :: string
  circuit_ModuleName :: string
  capability_ModuleName :: string

definition genesisModuleOrder :: "ext_names \<Rightarrow> string list" where
  "genesisModuleOrder N =
     [capability_ModuleName N, auth_ModuleName N, bank_ModuleName N, distr_ModuleName N,
      staking_ModuleName N, slashing_ModuleName N, gov_ModuleName N, mint_ModuleName N,
      crisis_ModuleName N, ibcexported_ModuleName N, genutil_ModuleName N, evidence_ModuleName N,
      authz_ModuleName N, ibctransfer_ModuleName N, ica_ModuleName N, ibcfee_ModuleName N,
      feegrant_ModuleName N, params_ModuleName N, upgrade_ModuleName N, vesting_ModuleName N,
      nft_ModuleName N, group_ModuleName N, consensus_ModuleName N, circuit_ModuleName N,
      ModuleName]"

definition beginBlockers :: "ext_names \<Rightarrow> string list" where
  "beginBlockers N =
     [mint_ModuleName N, distr_ModuleName N, slashing_ModuleName N, evidence_ModuleName N,
      staking_ModuleName N, authz_ModuleName N, genutil_ModuleName N, capability_ModuleName N,
      ibcexported_ModuleName N, ibctransfer_ModuleName N, ica_ModuleName N, ibcfee_ModuleName N,
      ModuleName]"

definition endBlockers :: "ext_names \<Rightarrow> string list" where
  "endBlockers N =
     [crisis_ModuleName N, gov_ModuleName N, staking_ModuleName N, feegrant_ModuleName N,
      group_ModuleName N, genutil_ModuleName N, ibcexported_ModuleName N, ibctransfer_ModuleName N,
      capability_ModuleName N, ica_ModuleName N, ibcfee_ModuleName N, ModuleName]"

definition preBlockers :: "ext_names \<Rightarrow> string list" where
  "preBlockers N = [upgrade_ModuleName N]"

definition moduleAccPerms :: "ext_names \<Rightarrow> (string \<times> string list) list" where
  "moduleAccPerms N =
     [(FeeCollectorName N, []),
      (distr_ModuleName N, []),
      (mint_ModuleName N, [Minter N]),
      (BondedPoolName N, [Burner N, staking_ModuleName N]),
      (NotBondedPoolName N, [Burner N, staking_ModuleName N]),
      (gov_ModuleName N, [Burner N]),
      (nft_ModuleName N, []),
      (ibctransfer_ModuleName N, [Minter N, Burner N]),
      (ibcfee_ModuleName N, []),
      (ica_ModuleName N, []),
      (ModuleName, [Minter N, Burner N, Staking N]),
      (CollateralPoolName, [Minter N, Burner N]),
      (RedeemPoolName, [Minter N, Burner N])]"

definition blockAccAddrs :: "ext_names \<Rightarrow> string list" where
  "blockAccAddrs N =
     [FeeCollectorName N, distr_ModuleName N, mint_ModuleName N, BondedPoolName N,
      NotBondedPoolName N, nft_ModuleName N]"

text \<open>The bank blocks the addresses of these accounts.\<close>

definition blocked_addr :: "ext_names \<Rightarrow> account_keeper \<Rightarrow> acc_address \<Rightarrow> bool" where
  "blocked_addr N A a \<longleftrightarrow> a \<in> GetModuleAddress A ` set (blockAccAddrs N)"

section \<open>The module's accounts\<close>

text \<open>No other package uses the module's account names.\<close>

locale app_names =
  fixes N :: ext_names
  assumes hal_names: "{ModuleName, CollateralPoolName, RedeemPoolName, TreasuryKey} \<inter>
    {FeeCollectorName N, BondedPoolName N, NotBondedPoolName N, distr_ModuleName N, mint_ModuleName N,
     gov_ModuleName N, nft_ModuleName N, ibctransfer_ModuleName N, ibcfee_ModuleName N,
     ica_ModuleName N} = {}"
begin

lemma names_distinct:
  "n \<in> {ModuleName, CollateralPoolName, RedeemPoolName, TreasuryKey} \<Longrightarrow>
     n \<noteq> FeeCollectorName N \<and> n \<noteq> BondedPoolName N \<and> n \<noteq> NotBondedPoolName N \<and> n \<noteq> distr_ModuleName N \<and>
     n \<noteq> mint_ModuleName N \<and> n \<noteq> gov_ModuleName N \<and> n \<noteq> nft_ModuleName N \<and>
     n \<noteq> ibctransfer_ModuleName N \<and> n \<noteq> ibcfee_ModuleName N \<and> n \<noteq> ica_ModuleName N"
  using hal_names by blast

lemma pools_registered [simp]:
  "CollateralPoolName \<in> fst ` set (moduleAccPerms N)" "RedeemPoolName \<in> fst ` set (moduleAccPerms N)"
  by (simp_all add: moduleAccPerms_def)

lemma treasury_not_registered [simp]: "TreasuryKey \<notin> fst ` set (moduleAccPerms N)"
  using names_distinct [of TreasuryKey]
  by (simp add: moduleAccPerms_def TreasuryKey_def ModuleName_def CollateralPoolName_def RedeemPoolName_def)

lemma pool_perms [simp]:
  "has_perm (moduleAccPerms N) CollateralPoolName (Minter N)"
  "has_perm (moduleAccPerms N) CollateralPoolName (Burner N)"
  using names_distinct [of CollateralPoolName]
  by (simp_all add: has_perm_def moduleAccPerms_def ModuleName_def CollateralPoolName_def)

lemma blocked_registered: "set (blockAccAddrs N) \<subseteq> fst ` set (moduleAccPerms N)"
  by (auto simp: blockAccAddrs_def moduleAccPerms_def)

lemma pools_not_blocked:
  "CollateralPoolName \<notin> set (blockAccAddrs N)" "RedeemPoolName \<notin> set (blockAccAddrs N)"
  using names_distinct [of CollateralPoolName] names_distinct [of RedeemPoolName]
  by (simp_all add: blockAccAddrs_def)

end

end
