(* ===== verification/Keeper_Params.thy ===== *)
theory Keeper_Params
  imports App_Config
begin

text \<open>
  The keeper of the module (\<open>x/hal/keeper\<close>): its fields, the state it works on, and the parameters
  it stores (\<open>params.go\<close>, \<open>query_params.go\<close>). The locale \<open>keeper_env\<close> collects what the module
  assumes of the packages a keeper is built from.
\<close>

section \<open>State and keeper\<close>

text \<open>The state a call works on: the store of the module and the state of the bank.\<close>

record ('s, 'b) world =
  w_kv :: 's
  w_bank :: 'b

definition on_kv :: "('s, 'a) act \<Rightarrow> (('s, 'b) world, 'a) act" where
  "on_kv m = (\<lambda>w. case m (w_kv w) of (r, s) \<Rightarrow> (r, w\<lparr>w_kv := s\<rparr>))"

definition on_bank :: "('b, 'a) act \<Rightarrow> (('s, 'b) world, 'a) act" where
  "on_bank m = (\<lambda>w. case m (w_bank w) of (r, b) \<Rightarrow> (r, w\<lparr>w_bank := b\<rparr>))"

text \<open>The parts of an \<open>sdk.Context\<close> that the module reads. Block times are in UTC.\<close>

record sdk_context =
  ctx_BlockTime :: gtime
  ctx_ChainID :: string

text \<open>The logger field of the keeper is left out: no result depends on what is logged.\<close>

record ('s, 'b) keeper =
  k_cdc :: codec
  k_store :: "'s kvstore"
  k_authority :: string
  k_accountKeeper :: account_keeper
  k_bankKeeper :: "'b bank_keeper"

definition NewKeeper :: "sdk_lib \<Rightarrow> codec \<Rightarrow> 's kvstore \<Rightarrow> string \<Rightarrow> account_keeper \<Rightarrow> 'b bank_keeper \<Rightarrow>
    ('s, 'b) keeper outcome" where
  "NewKeeper S cdc storeService authority accountKeeper bankKeeper =
     (case AccAddressFromBech32 S authority of
        Err _ \<Rightarrow> Panic (''invalid authority address: '' @ authority)
      | Panic s \<Rightarrow> Panic s
      | Ok _ \<Rightarrow> Ok \<lparr>k_cdc = cdc, k_store = storeService, k_authority = authority,
                  k_accountKeeper = accountKeeper, k_bankKeeper = bankKeeper\<rparr>)"

definition GetAuthority :: "('s, 'b) keeper \<Rightarrow> string" where
  "GetAuthority k = k_authority k"

section \<open>Parameters\<close>

definition GetParams :: "('s, 'b) keeper \<Rightarrow> ('s, 'b) world \<Rightarrow> params outcome" where
  "GetParams k w =
     bind_o (adapter_Get (k_store k) ParamsKey (w_kv w)) (\<lambda>bz.
       case bz of None \<Rightarrow> Ok Params_Reset | Some v \<Rightarrow> MustUnmarshal_Params (k_cdc k) v)"

definition SetParams :: "('s, 'b) keeper \<Rightarrow> params \<Rightarrow> (('s, 'b) world, unit) act" where
  "SetParams k params =
     bind_a (lift_a (Marshal_Params (k_cdc k) params)) (\<lambda>bz.
     bind_a (on_kv (adapter_Set (k_store k) ParamsKey bz)) (\<lambda>_. ret_a ()))"

text \<open>The handler of the \<open>Params\<close> query; a nil request is \<open>None\<close>.\<close>

definition Params_query ::
    "('s, 'b) keeper \<Rightarrow> query_params_request option \<Rightarrow> ('s, 'b) world \<Rightarrow> query_params_response outcome" where
  "Params_query k req w =
     (if req = None then Err (Wrapped StatusInvalidArgument ''invalid request'')
      else bind_o (GetParams k w) (\<lambda>params. Ok \<lparr>qp_Params = params\<rparr>))"

section \<open>What a keeper relies on\<close>

locale keeper_env =
  wire_ext_laws X + codec_laws X "k_cdc k" + kv_laws "k_store k" kv_map + sdk_laws S + app_names N +
  bank_laws "k_bankKeeper k" "k_accountKeeper k" "moduleAccPerms N" "Minter N" "Burner N"
    "ValidateDenom S" bal total locked "blocked_addr N (k_accountKeeper k)"
  for X :: wire_ext and k :: "('s, 'b) keeper" and kv_map :: "'s \<Rightarrow> bytes \<Rightarrow> bytes option"
    and S :: sdk_lib and N :: ext_names
    and bal :: "'b \<Rightarrow> acc_address \<Rightarrow> string \<Rightarrow> int" and total :: "'b \<Rightarrow> string \<Rightarrow> int"
    and locked :: "acc_address \<Rightarrow> string \<Rightarrow> int"

lemma act_lift_simps [act_simps]:
  "on_kv m w = (fst (m (w_kv w)), w\<lparr>w_kv := snd (m (w_kv w))\<rparr>)"
  "on_bank m' w = (fst (m' (w_bank w)), w\<lparr>w_bank := snd (m' (w_bank w))\<rparr>)"
  by (simp_all add: on_kv_def on_bank_def split_beta)

lemma valid_ParamsKey [simp]: "valid_key ParamsKey"
  by (simp add: valid_key_def ParamsKey_def)

definition params_ok :: "wire_ext \<Rightarrow> params \<Rightarrow> bool" where
  "params_ok X p \<longleftrightarrow> Params_Size X p < 2 ^ 31"

context wire_ext_laws
begin

lemma params_ok_wf: "params_ok X p \<Longrightarrow> Params_wf X p"
  by (simp add: params_ok_def Params_wf_def)

lemma params_ok_value: "params_ok X p \<Longrightarrow> valid_value (Params_enc X p)"
  by (simp add: params_ok_def valid_value_def Params_size_enc)

end

context keeper_env
begin

text \<open>The state after writing a key.\<close>

lemma kv_Set_cases:
  assumes "valid_key key" "valid_value v"
  obtains s' where "kv_Set (k_store k) key v s = (Ok (), s')" "kv_map s' = (kv_map s)(key \<mapsto> v)"
  using kv_Set_ok [OF assms, of s] kv_map_Set [OF assms, of s]
  by (metis prod.collapse)

lemma kv_Delete_cases:
  assumes "valid_key key"
  obtains s' where "kv_Delete (k_store k) key s = (Ok (), s')" "kv_map s' = (kv_map s)(key := None)"
  using kv_Delete_ok [OF assms, of s] kv_map_Delete [OF assms, of s]
  by (metis prod.collapse)

lemma SetParams_effect:
  assumes "params_ok X p"
  shows "\<exists>s'. SetParams k p w = (Ok (), w\<lparr>w_kv := s'\<rparr>) \<and>
    kv_map s' = (kv_map (w_kv w))(ParamsKey \<mapsto> Params_enc X p)"
proof -
  note v = params_ok_value [OF assms]
  obtain s' where "kv_Set (k_store k) ParamsKey (Params_enc X p) (w_kv w) = (Ok (), s')"
      "kv_map s' = (kv_map (w_kv w))(ParamsKey \<mapsto> Params_enc X p)"
    by (rule kv_Set_cases [OF valid_ParamsKey v])
  then show ?thesis
    by (intro exI [of _ s']) (simp add: SetParams_def Marshal_Params Params_Marshal_enc params_ok_wf
        assms bind_a_apply act_simps adapter_Set v)
qed

lemma GetParams_eq:
  "GetParams k w = (case kv_map (w_kv w) ParamsKey of None \<Rightarrow> Ok Params_Reset
     | Some bz \<Rightarrow> must (Params_Unmarshal X Params_Reset bz))"
  by (simp add: GetParams_def adapter_Get MustUnmarshal_Params split: option.splits)

lemma GetParams_stored:
  "params_ok X p \<Longrightarrow> kv_map (w_kv w) ParamsKey = Some (Params_enc X p) \<Longrightarrow> GetParams k w = Ok p"
  by (simp add: GetParams_eq Params_Unmarshal_enc params_ok_wf)

end

end
