(* ===== verification/Keeper_Ticket.thy ===== *)
theory Keeper_Ticket
  imports Keeper_Params Go_Std
begin

text \<open>
  \<open>x/hal/keeper/ticket.go\<close>: tickets are stored under a counter. The loop over the metadata visits a
  Go map, whose iteration order is not specified: \<open>ord\<close> is the order of a particular run, a
  function that permutes the entries.
\<close>

section \<open>Operations\<close>

definition GetTicketCount :: "('s, 'b) keeper \<Rightarrow> ('s, 'b) world \<Rightarrow> 64 word outcome" where
  "GetTicketCount k w =
     bind_o (prefix_Get (k_store k) [] (KeyPrefix TicketKeyCounter) (w_kv w)) (\<lambda>bz.
       case bz of None \<Rightarrow> Ok 0 | Some b \<Rightarrow> Uint64 b)"

definition SetTicketCounter :: "('s, 'b) keeper \<Rightarrow> 64 word \<Rightarrow> (('s, 'b) world, unit) act" where
  "SetTicketCounter k count =
     on_kv (prefix_Set (k_store k) [] (KeyPrefix TicketKeyCounter) (PutUint64 count))"

definition ticket_metadata :: "sdk_context \<Rightarrow> (string \<times> string) list" where
  "ticket_metadata ctx =
     [(''status'', ''Creater''),
      (''timestamp'', time_String (ctx_BlockTime ctx)),
      (''chain ID'', ctx_ChainID ctx)]"

type_synonym map_order = "(string \<times> string) list \<Rightarrow> (string \<times> string) list"

text \<open>\<open>for info, value := range metadata { post.AdditionalInfo += "\n" + info + ": " + value }\<close>\<close>

definition add_infos :: "(string \<times> string) list \<Rightarrow> string \<Rightarrow> string" where
  "add_infos metadata info0 =
     foldl (\<lambda>acc (info, value). acc @ [CHR 0x0A] @ info @ '': '' @ value) info0 metadata"

definition AppendTicket ::
    "('s, 'b) keeper \<Rightarrow> sdk_context \<Rightarrow> map_order \<Rightarrow> ticket \<Rightarrow> (('s, 'b) world, 64 word) act" where
  "AppendTicket k ctx ord post0 =
     bind_a (read_a (GetTicketCount k)) (\<lambda>count.
     let post1 = post0\<lparr>tk_Id := count\<rparr>;
         post = post1\<lparr>tk_AdditionalInfo := add_infos (ord (ticket_metadata ctx)) (tk_AdditionalInfo post1)\<rparr>
     in bind_a (lift_a (MustMarshal_Ticket (k_cdc k) post)) (\<lambda>appendedValue.
        let bz = PutUint64 (tk_Id post)
        in bind_a (on_kv (prefix_Set (k_store k) (KeyPrefix TicketKey) bz appendedValue)) (\<lambda>_.
           bind_a (SetTicketCounter k (count + 1)) (\<lambda>_. ret_a count))))"

section \<open>Keys\<close>

definition ticket_store_key :: "64 word \<Rightarrow> bytes" where
  "ticket_store_key i = KeyPrefix TicketKey @ PutUint64 i"

definition counter_key :: bytes where
  "counter_key = KeyPrefix TicketKeyCounter"

lemma valid_ticket_keys [simp]: "valid_key (ticket_store_key i)" "valid_key counter_key"
  by (simp_all add: valid_key_def ticket_store_key_def counter_key_def KeyPrefix_def TicketKey_def
      TicketKeyCounter_def)

lemma ticket_store_key_inject [simp]: "ticket_store_key i = ticket_store_key j \<longleftrightarrow> i = j"
  by (simp add: ticket_store_key_def)

text \<open>The counter has a ticket's key for the id that spells \<open>_counter\<close>.\<close>

definition counter_clash :: "64 word" where
  "counter_clash = 0x5F636F756E746572"

lemma counter_key_eq: "counter_key = ticket_store_key counter_clash"
  by (simp add: counter_key_def ticket_store_key_def counter_clash_def KeyPrefix_def TicketKeyCounter_def
      TicketKey_def PutUint64_def bytes_of_def)

lemma ticket_key_eq_counter: "ticket_store_key i = counter_key \<longleftrightarrow> i = counter_clash"
  by (simp add: counter_key_eq)

section \<open>What an append does\<close>

text \<open>The ticket that is stored.\<close>

definition stored_ticket :: "sdk_context \<Rightarrow> map_order \<Rightarrow> ticket \<Rightarrow> 64 word \<Rightarrow> ticket" where
  "stored_ticket ctx ord post i = post\<lparr>tk_Id := i,
     tk_AdditionalInfo := add_infos (ord (ticket_metadata ctx)) (tk_AdditionalInfo post)\<rparr>"

definition ticket_ok :: "ticket \<Rightarrow> bool" where
  "ticket_ok t \<longleftrightarrow> Ticket_Size t < 2 ^ 31"

lemma ticket_ok_value: "ticket_ok t \<Longrightarrow> valid_value (Ticket_enc t)"
  by (simp add: ticket_ok_def valid_value_def Ticket.size_enc)

text \<open>The count a store holds.\<close>

definition count_of :: "(bytes \<Rightarrow> bytes option) \<Rightarrow> 64 word outcome" where
  "count_of m = (case m counter_key of None \<Rightarrow> Ok 0 | Some b \<Rightarrow> Uint64 b)"

context keeper_env
begin

lemma GetTicketCount_eq: "GetTicketCount k w = count_of (kv_map (w_kv w))"
  by (simp add: GetTicketCount_def prefix_Get count_of_def counter_key_def [symmetric])

lemma SetTicketCounter_effect:
  "\<exists>s'. SetTicketCounter k c w = (Ok (), w\<lparr>w_kv := s'\<rparr>) \<and>
     kv_map s' = (kv_map (w_kv w))(counter_key \<mapsto> PutUint64 c)"
proof -
  have v: "valid_value (PutUint64 c)"
    by (simp add: valid_value_def)
  obtain s' where "kv_Set (k_store k) counter_key (PutUint64 c) (w_kv w) = (Ok (), s')"
      "kv_map s' = (kv_map (w_kv w))(counter_key \<mapsto> PutUint64 c)"
    by (rule kv_Set_cases [OF valid_ticket_keys(2) v])
  then show ?thesis
    by (intro exI [of _ s']) (simp add: SetTicketCounter_def counter_key_def [symmetric] act_simps
        prefix_Set v)
qed

lemma AppendTicket_effect:
  assumes c: "count_of (kv_map (w_kv w)) = Ok c" and t: "ticket_ok (stored_ticket ctx ord post c)"
  shows "\<exists>s'. AppendTicket k ctx ord post w = (Ok c, w\<lparr>w_kv := s'\<rparr>) \<and>
    kv_map s' = (kv_map (w_kv w))(ticket_store_key c \<mapsto> Ticket_enc (stored_ticket ctx ord post c),
      counter_key \<mapsto> PutUint64 (c + 1))"
proof -
  let ?t = "stored_ticket ctx ord post c"
  obtain s1 where s1: "kv_Set (k_store k) (ticket_store_key c) (Ticket_enc ?t) (w_kv w) = (Ok (), s1)"
      "kv_map s1 = (kv_map (w_kv w))(ticket_store_key c \<mapsto> Ticket_enc ?t)"
    by (rule kv_Set_cases [OF valid_ticket_keys(1) ticket_ok_value [OF t]])
  obtain s2 where s2: "SetTicketCounter k (c + 1) (w\<lparr>w_kv := s1\<rparr>) = (Ok (), w\<lparr>w_kv := s2\<rparr>)"
      "kv_map s2 = (kv_map s1)(counter_key \<mapsto> PutUint64 (c + 1))"
    using SetTicketCounter_effect [of "c + 1" "w\<lparr>w_kv := s1\<rparr>"] by auto
  have st: "post\<lparr>tk_Id := c, tk_AdditionalInfo := add_infos (ord (ticket_metadata ctx)) (tk_AdditionalInfo post)\<rparr> = ?t"
    "tk_Id ?t = c"
    by (simp_all add: stored_ticket_def)
  have "AppendTicket k ctx ord post w = (Ok c, w\<lparr>w_kv := s2\<rparr>)"
    using s1(1) s2(1)
    by (simp add: AppendTicket_def bind_a_read GetTicketCount_eq c Let_def st MustMarshal_Ticket
        Ticket_Marshal_enc prefix_Set ticket_store_key_def [symmetric] ticket_ok_value [OF t]
        act_simps bind_a_apply)
  with s1(2) s2(2) show ?thesis by auto
qed

end

end
