(* ===== verification/Keeper_Redeem.thy ===== *)
theory Keeper_Redeem
  imports Keeper_Params "HOL-Library.Char_ord"
begin

text \<open>
  \<open>x/hal/keeper/keeper.go\<close> and \<open>abci.go\<close>: the store of redeem requests, the payout of matured
  requests at the end of a block, and the check of the HAL supply at its beginning.
\<close>

section \<open>Operations\<close>

definition SetRedeemRequest :: "('s, 'b) keeper \<Rightarrow> redeem_request \<Rightarrow> (('s, 'b) world, unit) act" where
  "SetRedeemRequest k request =
     (let key = bytes_of (RedeemRequestKeyPrefix @ rr_Account request)
      in bind_a (lift_a (MustMarshal_RedeemRequest (k_cdc k) request)) (\<lambda>bz.
           discard_a (on_kv (kv_Set (k_store k) key bz))))"

text \<open>The loop over the iterator: a value that does not decode is skipped.\<close>

fun collect_requests :: "('s, 'b) keeper \<Rightarrow> (bytes \<times> bytes) list \<Rightarrow> redeem_request list outcome" where
  "collect_requests k [] = Ok []"
| "collect_requests k ((key, rawValue) # rest) =
     (case Unmarshal_RedeemRequest (k_cdc k) rawValue of
        Err _ \<Rightarrow> collect_requests k rest
      | Panic s \<Rightarrow> Panic s
      | Ok request \<Rightarrow> bind_o (collect_requests k rest) (\<lambda>requests. Ok (request # requests)))"

definition GetAllRedeemRequests ::
    "sdk_lib \<Rightarrow> ('s, 'b) keeper \<Rightarrow> ('s, 'b) world \<Rightarrow> redeem_request list outcome" where
  "GetAllRedeemRequests S k w =
     (case kv_Iterator (k_store k) None None (w_kv w) of
        Err err \<Rightarrow> Panic (''failed to create iterator: '' @ err_Error S err)
      | Panic s \<Rightarrow> Panic s
      | Ok entries \<Rightarrow> collect_requests k entries)"

definition DeleteRedeemRequest :: "('s, 'b) keeper \<Rightarrow> string \<Rightarrow> (('s, 'b) world, unit) act" where
  "DeleteRedeemRequest k account =
     discard_a (on_kv (kv_Delete (k_store k) (bytes_of (RedeemRequestKeyPrefix @ account))))"

text \<open>The body of the loop of \<open>EndRedeeming\<close>; \<open>ret_a ()\<close> is its \<open>continue\<close>.\<close>

definition end_redeem ::
    "sdk_lib \<Rightarrow> ('s, 'b) keeper \<Rightarrow> sdk_context \<Rightarrow> redeem_request \<Rightarrow> (('s, 'b) world, unit) act" where
  "end_redeem S k ctx req =
     (if time_After (ctx_BlockTime ctx) (rr_Completiontime req) then
        try_a (lift_a (AccAddressFromBech32 S (rr_Account req))) (\<lambda>_. ret_a ()) (\<lambda>accAddr.
        bind_a (read_a (\<lambda>w. GetBalance (k_bankKeeper k) accAddr (coin_Denom (rr_Collateral req)) (w_bank w)))
          (\<lambda>balanceBefore.
        bind_a (lift_a (NewCoins S [rr_Collateral req])) (\<lambda>coins.
        try_a (on_bank (SendCoinsFromModuleToAccount (k_bankKeeper k) RedeemPoolName accAddr coins))
          (\<lambda>_. ret_a ()) (\<lambda>_.
        bind_a (read_a (\<lambda>w. GetBalance (k_bankKeeper k) accAddr (coin_Denom (rr_Collateral req)) (w_bank w)))
          (\<lambda>balanceAfter.
        bind_a (lift_a (Int_GT S (coin_Amount balanceAfter) (coin_Amount balanceBefore))) (\<lambda>gt.
          if \<not> gt then
            panic_a (''User balance did not increase after the transfer. Balance before: '' @
              Int_String S (coin_Amount balanceBefore) @ '', Balance after: '' @
              Int_String S (coin_Amount balanceAfter))
          else DeleteRedeemRequest k (rr_Account req)))))))
      else ret_a ())"

fun end_redeem_all ::
    "sdk_lib \<Rightarrow> ('s, 'b) keeper \<Rightarrow> sdk_context \<Rightarrow> redeem_request list \<Rightarrow> (('s, 'b) world, unit) act" where
  "end_redeem_all S k ctx [] = ret_a ()"
| "end_redeem_all S k ctx (req # rest) =
     bind_a (end_redeem S k ctx req) (\<lambda>_. end_redeem_all S k ctx rest)"

definition EndRedeeming ::
    "sdk_lib \<Rightarrow> ('s, 'b) keeper \<Rightarrow> sdk_context \<Rightarrow> (('s, 'b) world, unit) act" where
  "EndRedeeming S k ctx =
     bind_a (read_a (GetAllRedeemRequests S k)) (\<lambda>redeemRequests.
       end_redeem_all S k ctx redeemRequests)"

definition InvariantCheck :: "sdk_lib \<Rightarrow> ('s, 'b) keeper \<Rightarrow> (('s, 'b) world, unit) act" where
  "InvariantCheck S k =
     bind_a (read_a (GetParams k)) (\<lambda>params.
     let collateralDenom = tm_Denom (pa_CollateralMetas params);
         halDenom = tm_Denom (pa_HalMeta params)
     in bind_a (read_a (\<lambda>w. HasSupply (k_bankKeeper k) halDenom (w_bank w))) (\<lambda>has.
        if \<not> has then ret_a ()
        else
          bind_a (read_a (\<lambda>w. GetBalance (k_bankKeeper k)
            (GetModuleAddress (k_accountKeeper k) CollateralPoolName) collateralDenom (w_bank w)))
            (\<lambda>collateralPoolBalance.
          bind_a (read_a (\<lambda>w. GetBalance (k_bankKeeper k)
            (GetModuleAddress (k_accountKeeper k) RedeemPoolName) collateralDenom (w_bank w)))
            (\<lambda>redeemPoolBalance.
          bind_a (lift_a (Coin_Add S collateralPoolBalance redeemPoolBalance)) (\<lambda>poolBalance.
          bind_a (lift_a (LegacyNewDecFromInt S (coin_Amount poolBalance))) (\<lambda>collateralAmountDec.
          let exchangeRate = LegacyNewDec S 2
          in bind_a (lift_a (Dec_Mul S collateralAmountDec exchangeRate)) (\<lambda>mintableHalAmountDec.
             bind_a (read_a (\<lambda>w. GetSupply (k_bankKeeper k) halDenom (w_bank w))) (\<lambda>halSupply.
             bind_a (lift_a (Dec_TruncateInt S mintableHalAmountDec)) (\<lambda>mintable.
             bind_a (lift_a (Int_Sub S (coin_Amount halSupply) mintable)) (\<lambda>result.
             bind_a (lift_a (Int_IsNegative S result)) (\<lambda>negative.
               if negative then panic_a ''invariant check failed: total HAL supply is less than the calculated amount from collateral''
               else ret_a ())))))))))))"

text \<open>\<open>abci.go\<close>: the results of the two functions are ignored, a panic is not.\<close>

definition EndBlocker :: "sdk_lib \<Rightarrow> ('s, 'b) keeper \<Rightarrow> sdk_context \<Rightarrow> (('s, 'b) world, unit) act" where
  "EndBlocker S k ctx = bind_a (EndRedeeming S k ctx) (\<lambda>_. ret_a ())"

definition BeginBlocker :: "sdk_lib \<Rightarrow> ('s, 'b) keeper \<Rightarrow> (('s, 'b) world, unit) act" where
  "BeginBlocker S k = bind_a (discard_a (InvariantCheck S k)) (\<lambda>_. ret_a ())"

section \<open>The stored requests\<close>

definition request_key :: "string \<Rightarrow> bytes" where
  "request_key account = bytes_of (RedeemRequestKeyPrefix @ account)"

lemma request_key_inject [simp]: "request_key a = request_key b \<longleftrightarrow> a = b"
  by (simp add: request_key_def)

lemma request_key_not_params [simp]: "request_key a \<noteq> ParamsKey" "ParamsKey \<noteq> request_key a"
  by (auto simp: request_key_def RedeemRequestKeyPrefix_def ParamsKey_def)

lemma valid_request_key: "length a \<le> 1023 \<Longrightarrow> valid_key (request_key a)"
  by (simp add: valid_key_def request_key_def RedeemRequestKeyPrefix_def)

text \<open>A value of the store read as a request.\<close>

definition as_request :: "wire_ext \<Rightarrow> bytes \<Rightarrow> redeem_request option" where
  "as_request X v =
     (case RedeemRequest_Unmarshal X RedeemRequest_Reset v of Ok r \<Rightarrow> Some r | _ \<Rightarrow> None)"

definition is_request :: "wire_ext \<Rightarrow> (bytes \<Rightarrow> bytes option) \<Rightarrow> redeem_request \<Rightarrow> bool" where
  "is_request X m r \<longleftrightarrow> RedeemRequest_wf X r \<and> m (request_key (rr_Account r)) = Some (RedeemRequest_enc X r)"

fun requests_in :: "wire_ext \<Rightarrow> (bytes \<times> bytes) list \<Rightarrow> redeem_request list" where
  "requests_in X [] = []"
| "requests_in X ((key, v) # l) =
     (case as_request X v of None \<Rightarrow> requests_in X l | Some r \<Rightarrow> r # requests_in X l)"

lemma in_requests_in: "r \<in> set (requests_in X l) \<longleftrightarrow> (\<exists>key v. (key, v) \<in> set l \<and> as_request X v = Some r)"
  by (induction X l rule: requests_in.induct) (auto split: option.splits)

text \<open>The invariant of the store: every value that decodes as a request is a request, stored under
  the key of its account.\<close>

definition requests_ok :: "wire_ext \<Rightarrow> (bytes \<Rightarrow> bytes option) \<Rightarrow> bool" where
  "requests_ok X m \<longleftrightarrow> (\<forall>key v. m key = Some v \<longrightarrow> length v < 2 ^ 63 \<and>
     (\<forall>r. as_request X v = Some r \<longrightarrow>
        RedeemRequest_wf X r \<and> key = request_key (rr_Account r) \<and> v = RedeemRequest_enc X r))"

context wire_ext_laws
begin

lemma as_request_enc: "RedeemRequest_wf X r \<Longrightarrow> as_request X (RedeemRequest_enc X r) = Some r"
  by (simp add: as_request_def RedeemRequest_Unmarshal_enc)

lemma is_request_unique:
  "is_request X m r \<Longrightarrow> is_request X m r' \<Longrightarrow> rr_Account r = rr_Account r' \<Longrightarrow> r = r'"
  using as_request_enc by (metis is_request_def option.inject)

lemma requests_ok_update:
  assumes "requests_ok X m" "length v < 2 ^ 63"
    and "\<And>r. as_request X v = Some r \<Longrightarrow>
      RedeemRequest_wf X r \<and> key = request_key (rr_Account r) \<and> v = RedeemRequest_enc X r"
  shows "requests_ok X (m(key \<mapsto> v))"
proof -
  have "length v' < 2 ^ 63 \<and> (\<forall>r. as_request X v' = Some r \<longrightarrow>
      RedeemRequest_wf X r \<and> key' = request_key (rr_Account r) \<and> v' = RedeemRequest_enc X r)"
    if "(m(key \<mapsto> v)) key' = Some v'" for key' v'
  proof (cases "key' = key")
    case True
    with that have "v' = v" by simp
    with True assms(2,3) show ?thesis by simp
  next
    case False
    with that have "m key' = Some v'" by simp
    with assms(1) show ?thesis unfolding requests_ok_def by blast
  qed
  then show ?thesis unfolding requests_ok_def by blast
qed

lemma requests_ok_set:
  assumes "requests_ok X m" "RedeemRequest_wf X r" "length (RedeemRequest_enc X r) < 2 ^ 63"
  shows "requests_ok X (m(request_key (rr_Account r) \<mapsto> RedeemRequest_enc X r))"
  using assms(2) by (intro requests_ok_update assms) (simp add: as_request_enc)

lemma requests_ok_delete: "requests_ok X m \<Longrightarrow> requests_ok X (m(key := None))"
  by (auto simp: requests_ok_def)

end

context keeper_env
begin

lemma collect_requests_eq:
  "(\<forall>(key, v)\<in>set l. length v < 2 ^ 63) \<Longrightarrow> collect_requests k l = Ok (requests_in X l)"
proof (induction l)
  case (Cons p l)
  obtain key v where p: "p = (key, v)" by (cases p)
  have "\<not> is_Panic (RedeemRequest_Unmarshal X RedeemRequest_Reset v)"
    using Cons.prems p by (intro RedeemRequest_Unmarshal_no_panic) simp
  then show ?case
    using Cons p
    by (cases "RedeemRequest_Unmarshal X RedeemRequest_Reset v")
      (simp_all add: Unmarshal_RedeemRequest as_request_def)
qed simp

lemma requests_in_stored:
  assumes "requests_ok X m" "\<And>key v. (key, v) \<in> set l \<Longrightarrow> m key = Some v" "r \<in> set (requests_in X l)"
  shows "is_request X m r \<and> request_key (rr_Account r) \<in> fst ` set l"
proof -
  from assms(3) obtain key v where kv: "(key, v) \<in> set l" "as_request X v = Some r"
    by (auto simp: in_requests_in)
  then have "RedeemRequest_wf X r \<and> key = request_key (rr_Account r) \<and> v = RedeemRequest_enc X r"
    using assms(1,2) unfolding requests_ok_def by blast
  with kv assms(2) show ?thesis
    by (force simp: is_request_def)
qed

lemma requests_in_sorted:
  assumes "requests_ok X m" "\<And>key v. (key, v) \<in> set l \<Longrightarrow> m key = Some v" "sorted_wrt (<) (map fst l)"
  shows "sorted_wrt (<) (map (\<lambda>r. request_key (rr_Account r)) (requests_in X l))"
  using assms(2,3)
proof (induction l)
  case (Cons p l)
  obtain key v where p: "p = (key, v)" by (cases p)
  have IH: "sorted_wrt (<) (map (\<lambda>r. request_key (rr_Account r)) (requests_in X l))"
    using Cons by simp
  show ?case
  proof (cases "as_request X v")
    case None
    with IH p show ?thesis by simp
  next
    case (Some r)
    then have "key = request_key (rr_Account r)"
      using assms(1) Cons.prems(1) p unfolding requests_ok_def by (metis list.set_intros(1))
    moreover have "key < request_key (rr_Account r')" if "r' \<in> set (requests_in X l)" for r'
    proof -
      have "request_key (rr_Account r') \<in> fst ` set l"
        using requests_in_stored [OF assms(1) _ that] Cons.prems(1) by simp
      then show ?thesis using Cons.prems(2) p by auto
    qed
    ultimately show ?thesis
      using IH p Some by simp
  qed
qed simp

text \<open>The list of requests is exactly the set of stored requests, in the order of the keys.\<close>

lemma GetAllRedeemRequests_eq:
  assumes "requests_ok X (kv_map (w_kv w))"
  shows "\<exists>rs. GetAllRedeemRequests S k w = Ok rs \<and> set rs = {r. is_request X (kv_map (w_kv w)) r} \<and>
    sorted_wrt (<) (map (\<lambda>r. request_key (rr_Account r)) rs)"
proof -
  let ?m = "kv_map (w_kv w)"
  obtain l where l: "kv_Iterator (k_store k) None None (w_kv w) = Ok l" "sorted_wrt (<) (map fst l)"
      "map_of l = ?m"
    using kv_Iterator_all by blast
  then have d: "distinct (map fst l)" by (simp add: strict_sorted_iff)
  then have mem: "(key, v) \<in> set l \<longleftrightarrow> ?m key = Some v" for key v
    using l(3) by (metis map_of_eq_Some_iff)
  let ?rs = "requests_in X l"
  have "GetAllRedeemRequests S k w = Ok ?rs"
    using assms mem by (simp add: GetAllRedeemRequests_def l(1))
      (intro collect_requests_eq, auto simp: requests_ok_def)
  moreover have "r \<in> set ?rs" if "is_request X ?m r" for r
    using that mem as_request_enc [of r] by (auto simp: in_requests_in is_request_def)
  moreover have "is_request X ?m r" if "r \<in> set ?rs" for r
    using requests_in_stored [OF assms _ that] mem by blast
  moreover have "sorted_wrt (<) (map (\<lambda>r. request_key (rr_Account r)) ?rs)"
    using requests_in_sorted [OF assms _ l(2)] mem by blast
  ultimately show ?thesis by (intro exI [of _ ?rs]) blast
qed

lemma DeleteRedeemRequest_effect:
  assumes "length a \<le> 1023"
  shows "\<exists>s'. DeleteRedeemRequest k a w = (Ok (), w\<lparr>w_kv := s'\<rparr>) \<and>
    kv_map s' = (kv_map (w_kv w))(request_key a := None)"
proof -
  obtain s' where "kv_Delete (k_store k) (request_key a) (w_kv w) = (Ok (), s')"
      "kv_map s' = (kv_map (w_kv w))(request_key a := None)"
    by (rule kv_Delete_cases [OF valid_request_key [OF assms]])
  then show ?thesis
    unfolding DeleteRedeemRequest_def request_key_def [symmetric]
    by (intro exI [of _ s']) (simp add: discard_a_apply act_simps)
qed

lemma SetRedeemRequest_effect:
  assumes "RedeemRequest_wf X r" "RedeemRequest_Size X r < 2 ^ 31" "length (rr_Account r) \<le> 1023"
  shows "\<exists>s'. SetRedeemRequest k r w = (Ok (), w\<lparr>w_kv := s'\<rparr>) \<and>
    kv_map s' = (kv_map (w_kv w))(request_key (rr_Account r) \<mapsto> RedeemRequest_enc X r)"
proof -
  have v: "valid_value (RedeemRequest_enc X r)"
    using assms RedeemRequest_size_enc [OF RedeemRequest_wf_time [OF assms(1)]]
    by (simp add: valid_value_def)
  obtain s' where "kv_Set (k_store k) (request_key (rr_Account r)) (RedeemRequest_enc X r) (w_kv w) = (Ok (), s')"
      "kv_map s' = (kv_map (w_kv w))(request_key (rr_Account r) \<mapsto> RedeemRequest_enc X r)"
    by (rule kv_Set_cases [OF valid_request_key [OF assms(3)] v])
  then show ?thesis
    unfolding SetRedeemRequest_def request_key_def [symmetric]
    by (intro exI [of _ s']) (simp add: Let_def MustMarshal_RedeemRequest RedeemRequest_Marshal_enc
        assms(1) discard_a_apply act_simps)
qed

end

end
