(* ===== verification/Ledger.thy ===== *)
theory Ledger
  imports Keeper_Params Reference_Wire "HOL-Library.RBT" "HOL-Library.Multiset" "HOL-Library.Char_ord"
begin

text \<open>
  Concrete implementations of the interfaces: a store on a red-black tree, a bank that is the
  multiset of all coins with their owners, the library functions on integers, and a keeper
  built from them. The interpretations show that all laws of \<open>keeper_env\<close> hold together; the
  witnesses of the properties run on this keeper.
\<close>

section \<open>Library functions\<close>

definition ref_letter :: "char \<Rightarrow> bool" where
  "ref_letter c \<longleftrightarrow> (let n = of_char c :: nat in 65 \<le> n \<and> n \<le> 90 \<or> 97 \<le> n \<and> n \<le> 122)"

text \<open>The pattern of denominations is a letter followed by 2 to 127 letters, digits or separators.\<close>

definition ref_ValidateDenom :: "string \<Rightarrow> bool" where
  "ref_ValidateDenom d \<longleftrightarrow> 3 \<le> length d \<and> length d \<le> 128 \<and> ref_letter (hd d) \<and>
     list_all (\<lambda>c. ref_letter c \<or> is_digit c \<or> c \<in> set ''/:._-'') d"

definition in_256 :: "int \<Rightarrow> int option outcome" where
  "in_256 n = (if \<bar>n\<bar> < 2 ^ 256 then Ok (Some n) else Panic ''Int overflow'')"

definition in_315 :: "int \<Rightarrow> dec outcome" where
  "in_315 n = (if \<bar>n\<bar> < 2 ^ 315 then Ok n else Panic ''Int overflow'')"

text \<open>Division that rounds half to even.\<close>

definition round_div :: "int \<Rightarrow> int \<Rightarrow> int" where
  "round_div x y = (let q = x div y; r = x mod y
     in if 2 * r < y \<or> 2 * r = y \<and> even q then q else q + 1)"

definition nil_panic :: "int option \<Rightarrow> (int \<Rightarrow> 'a outcome) \<Rightarrow> 'a outcome" where
  "nil_panic a f = (case a of None \<Rightarrow> Panic ''nil pointer dereference'' | Some n \<Rightarrow> f n)"

definition ref_address_prefix :: string where
  "ref_address_prefix = ''hal1''"

definition ref_AccAddressFromBech32 :: "string \<Rightarrow> acc_address outcome" where
  "ref_AccAddressFromBech32 s =
     (if take 4 s = ref_address_prefix \<and> 4 < length s \<and> length s \<le> 1023 then Ok (bytes_of (drop 4 s))
      else Err (ExternalError ''decoding bech32 failed''))"

definition ref_NewCoin :: "string \<Rightarrow> int option \<Rightarrow> coin outcome" where
  "ref_NewCoin d a = nil_panic a (\<lambda>n. if ref_ValidateDenom d \<and> 0 \<le> n
     then Ok \<lparr>coin_Denom = d, coin_Amount = Some n\<rparr> else Panic ''invalid coin'')"

definition ref_NewCoins :: "coin list \<Rightarrow> coin list outcome" where
  "ref_NewCoins cs =
     (if \<exists>c\<in>set cs. coin_Amount c = None then Panic ''nil pointer dereference''
      else let cs' = sort_key coin_Denom (filter (\<lambda>c. coin_Amount c \<noteq> Some 0) cs)
        in if distinct (map coin_Denom cs') \<and>
              (\<forall>c\<in>set cs'. ref_ValidateDenom (coin_Denom c) \<and> 0 < the (coin_Amount c))
           then Ok cs' else Panic ''invalid coins'')"

definition ref_sdk :: sdk_lib where
  "ref_sdk = \<lparr>
     AccAddressFromBech32 = ref_AccAddressFromBech32,
     AccAddress_String = (\<lambda>a. ref_address_prefix @ string_of a),
     err_Error = (\<lambda>e. case e of ExternalError s \<Rightarrow> s | Errorf s \<Rightarrow> s | Wrapped _ s \<Rightarrow> s | _ \<Rightarrow> ''error''),
     ValidateDenom = ref_ValidateDenom,
     NewCoin = ref_NewCoin,
     NewCoins = ref_NewCoins,
     Coin_IsValid = (\<lambda>c. Ok (ref_ValidateDenom (coin_Denom c) \<and>
       (case coin_Amount c of None \<Rightarrow> False | Some n \<Rightarrow> 0 \<le> n))),
     Coin_IsZero = (\<lambda>c. nil_panic (coin_Amount c) (\<lambda>n. Ok (n = 0))),
     Coin_Add = (\<lambda>c c'. if coin_Denom c \<noteq> coin_Denom c' then Panic ''invalid coin denominations''
       else nil_panic (coin_Amount c) (\<lambda>n. nil_panic (coin_Amount c') (\<lambda>n'.
         bind_o (in_256 (n + n')) (\<lambda>a. Ok \<lparr>coin_Denom = coin_Denom c, coin_Amount = a\<rparr>)))),
     NewUint = (\<lambda>u. Some (uint u)),
     Int_Sub = (\<lambda>a b. nil_panic a (\<lambda>x. nil_panic b (\<lambda>y. in_256 (x - y)))),
     Int_GT = (\<lambda>a b. nil_panic a (\<lambda>x. nil_panic b (\<lambda>y. Ok (y < x)))),
     Int_IsNegative = (\<lambda>a. nil_panic a (\<lambda>x. Ok (x < 0))),
     Int_String = amount_text,
     LegacyNewDec = (\<lambda>i. sint i * dec_one),
     LegacyNewDecFromInt = (\<lambda>a. nil_panic a (\<lambda>n. Ok (n * dec_one))),
     Dec_Mul = (\<lambda>x y. in_315 (round_div (x * y) dec_one)),
     Dec_Quo = (\<lambda>x y. if y = 0 then Panic ''division by zero'' else in_315 (round_div (x * dec_one) y)),
     Dec_TruncateInt = (\<lambda>x. in_256 (if x < 0 then - (- x div dec_one) else x div dec_one))\<rparr>"

lemma round_div_exact: "0 < y \<Longrightarrow> y dvd x \<Longrightarrow> round_div x y = x div y"
  by (simp add: round_div_def Let_def mod_eq_0_iff_dvd [THEN iffD2])

lemma dec_one_pos: "0 < dec_one"
  by (simp add: dec_one_def)

interpretation ref_sdk: sdk_laws ref_sdk
proof
  show "\<not> is_Panic (AccAddressFromBech32 ref_sdk s)" for s
    by (simp add: ref_sdk_def ref_AccAddressFromBech32_def)
  show "AccAddressFromBech32 ref_sdk (AccAddress_String ref_sdk a) = Ok a"
    if "AccAddressFromBech32 ref_sdk s = Ok a" for s a
    using that by (auto simp: ref_sdk_def ref_AccAddressFromBech32_def ref_address_prefix_def
        split: if_splits)
  show "length (AccAddress_String ref_sdk a) \<le> 1023"
    if "AccAddressFromBech32 ref_sdk s = Ok a" for s a
    using that by (auto simp: ref_sdk_def ref_AccAddressFromBech32_def ref_address_prefix_def
        split: if_splits)
  show "length s \<le> 1023" if "AccAddressFromBech32 ref_sdk s = Ok a" for s a
    using that by (auto simp: ref_sdk_def ref_AccAddressFromBech32_def split: if_splits)
  show "Dec_Mul ref_sdk x y = Ok (x * y div dec_one)"
    if "dec_one dvd x * y" "\<bar>x * y div dec_one\<bar> < 2 ^ 315" for x y
    using that by (simp add: ref_sdk_def in_315_def round_div_exact dec_one_pos)
  show "Dec_Quo ref_sdk x y = Ok (x * dec_one div y)"
    if "0 < y" "y dvd x * dec_one" "\<bar>x * dec_one div y\<bar> < 2 ^ 315" for x y
    using that by (simp add: ref_sdk_def in_315_def round_div_exact)
  show "Dec_TruncateInt ref_sdk x = Ok (Some (x div dec_one))"
    if "0 \<le> x \<or> dec_one dvd x" "\<bar>x div dec_one\<bar> < 2 ^ 256" for x
    using that by (auto simp: ref_sdk_def in_256_def dec_one_pos dvd_neg_div)
qed (auto simp: ref_sdk_def ref_NewCoin_def ref_NewCoins_def nil_panic_def in_256_def Let_def
    split: if_splits option.splits)

section \<open>Codec\<close>

definition ref_codec :: codec where
  "ref_codec = \<lparr>
     Marshal_Params = Params_Marshal ref_ext,
     MustUnmarshal_Params = (\<lambda>bz. must (Params_Unmarshal ref_ext Params_Reset bz)),
     MustMarshal_Ticket = (\<lambda>t. must (Ticket_Marshal t)),
     MustMarshal_RedeemRequest = (\<lambda>r. must (RedeemRequest_Marshal ref_ext r)),
     Unmarshal_RedeemRequest = RedeemRequest_Unmarshal ref_ext RedeemRequest_Reset\<rparr>"

interpretation ref_cdc: codec_laws ref_ext ref_codec
  by unfold_locales (simp_all add: ref_codec_def)

section \<open>Store\<close>

type_synonym ref_store = "(bytes, bytes) rbt"

definition ref_kv_Set :: "bytes \<Rightarrow> bytes \<Rightarrow> (ref_store, unit) act" where
  "ref_kv_Set key v s =
     (if valid_key key \<and> valid_value v then (Ok (), RBT.insert key v s) else (Panic ''invalid key'', s))"

definition ref_kv_Get :: "bytes \<Rightarrow> ref_store \<Rightarrow> bytes option outcome" where
  "ref_kv_Get key s = (if valid_key key then Ok (RBT.lookup s key) else Panic ''invalid key'')"

definition ref_kv :: "ref_store kvstore" where
  "ref_kv = \<lparr>
     kv_Set = ref_kv_Set,
     kv_Delete = (\<lambda>key s. if valid_key key then (Ok (), RBT.delete key s) else (Panic ''invalid key'', s)),
     kv_Iterator = (\<lambda>lo hi s. Ok (filter (\<lambda>(key, _).
       (case lo of None \<Rightarrow> True | Some l \<Rightarrow> l \<le> key) \<and> (case hi of None \<Rightarrow> True | Some h \<Rightarrow> key < h))
       (RBT.entries s))),
     adapter_Get = ref_kv_Get,
     adapter_Set = ref_kv_Set,
     prefix_Get = (\<lambda>p key. ref_kv_Get (p @ key)),
     prefix_Set = (\<lambda>p key. ref_kv_Set (p @ key))\<rparr>"

lemma ref_kv_iterator:
  "\<exists>l. kv_Iterator ref_kv None None s = Ok l \<and> sorted_wrt (<) (map fst l) \<and> map_of l = RBT.lookup s"
  by (simp add: ref_kv_def RBT.map_of_entries strict_sorted_iff RBT.sorted_entries RBT.distinct_entries)

interpretation ref_store: kv_laws ref_kv RBT.lookup
  by unfold_locales
    (use ref_kv_iterator in \<open>auto simp: ref_kv_def ref_kv_Set_def ref_kv_Get_def\<close>)

section \<open>Accounts and bank\<close>

definition ref_names :: ext_names where
  "ref_names = \<lparr>
     FeeCollectorName = ''fee_collector'', BondedPoolName = ''bonded_tokens_pool'',
     NotBondedPoolName = ''not_bonded_tokens_pool'', Minter = ''minter'', Burner = ''burner'',
     Staking = ''staking'', auth_ModuleName = ''auth'', bank_ModuleName = ''bank'',
     distr_ModuleName = ''distribution'', staking_ModuleName = ''staking'',
     slashing_ModuleName = ''slashing'', gov_ModuleName = ''gov'', mint_ModuleName = ''mint'',
     crisis_ModuleName = ''crisis'', ibcexported_ModuleName = ''ibc'', genutil_ModuleName = ''genutil'',
     evidence_ModuleName = ''evidence'', authz_ModuleName = ''authz'',
     ibctransfer_ModuleName = ''transfer'', ica_ModuleName = ''interchainaccounts'',
     ibcfee_ModuleName = ''feeibc'', feegrant_ModuleName = ''feegrant'', params_ModuleName = ''params'',
     upgrade_ModuleName = ''upgrade'', vesting_ModuleName = ''vesting'', nft_ModuleName = ''nft'',
     group_ModuleName = ''group'', consensus_ModuleName = ''consensus'',
     circuit_ModuleName = ''circuit'', capability_ModuleName = ''capability''\<rparr>"

interpretation ref_app: app_names ref_names
  by unfold_locales (simp add: ref_names_def ModuleName_def CollateralPoolName_def RedeemPoolName_def
      TreasuryKey_def)

definition ref_registered :: "string \<Rightarrow> bool" where
  "ref_registered m \<longleftrightarrow> m \<in> fst ` set (moduleAccPerms ref_names)"

definition ref_accounts :: account_keeper where
  "ref_accounts = \<lparr>GetModuleAddress = (\<lambda>m. if ref_registered m then bytes_of m else [])\<rparr>"

text \<open>The bank is the multiset of all coins, one element per unit with its owner.\<close>

type_synonym ledger = "(acc_address \<times> string) multiset"

definition ledger_bal :: "ledger \<Rightarrow> acc_address \<Rightarrow> string \<Rightarrow> int" where
  "ledger_bal b a d = int (count b (a, d))"

definition ledger_total :: "ledger \<Rightarrow> string \<Rightarrow> int" where
  "ledger_total b d = int (size (filter_mset (\<lambda>p. snd p = d) b))"

definition owned :: "acc_address \<Rightarrow> coin list \<Rightarrow> ledger" where
  "owned a cs = sum_list (map (\<lambda>c. replicate_mset (nat (the (coin_Amount c))) (a, coin_Denom c)) cs)"

definition ledger_send :: "acc_address \<Rightarrow> acc_address \<Rightarrow> coin list \<Rightarrow> (ledger, unit) act" where
  "ledger_send x y cs b =
     (if \<not> coins_ok ref_ValidateDenom cs then (Err (ExternalError ''invalid coins''), b)
      else if \<not> covered (ledger_bal b x) cs then (Err (ExternalError ''insufficient funds''), b)
      else (Ok (), b - owned x cs + owned y cs))"

definition ref_address :: "string \<Rightarrow> acc_address" where
  "ref_address m = GetModuleAddress ref_accounts m"

definition ref_blocked :: "acc_address \<Rightarrow> bool" where
  "ref_blocked a = blocked_addr ref_names ref_accounts a"

definition need_module :: "string \<Rightarrow> (ledger, unit) act \<Rightarrow> (ledger, unit) act" where
  "need_module m act = (if ref_registered m then act else panic_a ''module account does not exist'')"

definition ledger_mint :: "string \<Rightarrow> coin list \<Rightarrow> (ledger, unit) act" where
  "ledger_mint m cs b =
     (if \<not> has_perm (moduleAccPerms ref_names) m (Minter ref_names)
      then (Panic ''module account does not have permissions to mint tokens'', b)
      else if \<not> coins_ok ref_ValidateDenom cs then (Err (ExternalError ''invalid coins''), b)
      else if \<exists>c\<in>set cs. ledger_total b (coin_Denom c) + the (coin_Amount c) \<ge> 2 ^ 256
      then (Panic ''Int overflow'', b)
      else (Ok (), b + owned (ref_address m) cs))"

definition ledger_burn :: "string \<Rightarrow> coin list \<Rightarrow> (ledger, unit) act" where
  "ledger_burn m cs b =
     (if \<not> has_perm (moduleAccPerms ref_names) m (Burner ref_names)
      then (Panic ''module account does not have permissions to burn tokens'', b)
      else if \<not> coins_ok ref_ValidateDenom cs then (Err (ExternalError ''invalid coins''), b)
      else if \<not> covered (ledger_bal b (ref_address m)) cs then (Err (ExternalError ''insufficient funds''), b)
      else (Ok (), b - owned (ref_address m) cs))"

definition ref_bank :: "ledger bank_keeper" where
  "ref_bank = \<lparr>
     GetBalance = (\<lambda>a d b. Ok \<lparr>coin_Denom = d, coin_Amount = Some (ledger_bal b a d)\<rparr>),
     HasBalance = (\<lambda>a c b. nil_panic (coin_Amount c) (\<lambda>n. Ok (n \<le> ledger_bal b a (coin_Denom c)))),
     SendCoinsFromAccountToModule = (\<lambda>a m cs. need_module m (ledger_send a (ref_address m) cs)),
     SendCoinsFromModuleToAccount = (\<lambda>m a cs. need_module m
       (if ref_blocked a then fail_a (ExternalError ''unauthorized'') else ledger_send (ref_address m) a cs)),
     SendCoinsFromModuleToModule = (\<lambda>m m' cs. need_module m (need_module m'
       (ledger_send (ref_address m) (ref_address m') cs))),
     MintCoins = ledger_mint,
     BurnCoins = ledger_burn,
     GetSupply = (\<lambda>d b. Ok \<lparr>coin_Denom = d, coin_Amount = Some (ledger_total b d)\<rparr>),
     HasSupply = (\<lambda>d b. Ok (0 < ledger_total b d))\<rparr>"

lemma coins_ok_cases:
  assumes "coins_ok V cs"
  obtains "cs = []" | c n where "cs = [c]" "coin_Amount c = Some n" "0 < n"
proof (cases cs)
  case Nil
  then show ?thesis by (rule that(1))
next
  case (Cons c cs')
  then show ?thesis
    using assms that(2) by (auto simp: coins_ok_def split: option.splits)
qed

lemma count_owned:
  assumes "coins_ok V cs"
  shows "int (count (owned x cs) (a, d)) = (if a = x then coins_amt cs d else 0)"
  using assms by (cases rule: coins_ok_cases) (auto simp: owned_def coins_amt_def)

lemma filter_replicate: "filter_mset P (replicate_mset n x) = (if P x then replicate_mset n x else {#})"
  by (induction n) auto

lemma size_owned:
  assumes "coins_ok V cs"
  shows "int (size (filter_mset (\<lambda>p. snd p = d) (owned x cs))) = coins_amt cs d"
  using assms
  by (cases rule: coins_ok_cases) (auto simp: owned_def coins_amt_def filter_replicate)

lemma owned_subset:
  assumes "coins_ok V cs" "covered (ledger_bal b x) cs"
  shows "owned x cs \<subseteq># b"
  using assms(1)
proof (cases rule: coins_ok_cases)
  case 1
  then show ?thesis by (simp add: owned_def)
next
  case (2 c n)
  with assms(2) show ?thesis
    by (simp add: owned_def covered_def ledger_bal_def count_le_replicate_mset_subset_eq [symmetric])
qed

lemma ledger_nonneg: "0 \<le> ledger_bal b a d"
  by (simp add: ledger_bal_def)

lemma ledger_bal_plus: "ledger_bal (b + c) a d = ledger_bal b a d + ledger_bal c a d"
  by (simp add: ledger_bal_def)

lemma ledger_bal_minus: "c \<subseteq># b \<Longrightarrow> ledger_bal (b - c) a d = ledger_bal b a d - ledger_bal c a d"
  by (simp add: ledger_bal_def mset_subset_eq_count of_nat_diff)

lemma ledger_total_plus: "ledger_total (b + c) d = ledger_total b d + ledger_total c d"
  by (simp add: ledger_total_def)

lemma ledger_total_minus: "c \<subseteq># b \<Longrightarrow> ledger_total (b - c) d = ledger_total b d - ledger_total c d"
  by (simp add: ledger_total_def size_Diff_submset multiset_filter_mono size_mset_mono of_nat_diff)

lemmas ledger_simps = ledger_bal_plus ledger_bal_minus ledger_total_plus ledger_total_minus

lemma ledger_owned:
  assumes "coins_ok V cs"
  shows "ledger_bal (owned x cs) a d = (if a = x then coins_amt cs d else 0)"
    "ledger_total (owned x cs) d = coins_amt cs d"
  using count_owned [OF assms] size_owned [OF assms] by (simp_all add: ledger_bal_def ledger_total_def)

lemma ledger_holders: "finite P \<Longrightarrow> (\<Sum>a\<in>P. ledger_bal b a d) \<le> ledger_total b d"
proof -
  assume P: "finite P"
  let ?M = "filter_mset (\<lambda>p. snd p = d) b"
  have "(\<Sum>a\<in>P. count b (a, d)) = (\<Sum>x\<in>(\<lambda>a. (a, d)) ` P. count ?M x)"
    by (subst sum.reindex) (auto simp: inj_on_def)
  also have "\<dots> \<le> (\<Sum>x\<in>(\<lambda>a. (a, d)) ` P \<union> set_mset ?M. count ?M x)"
    using P by (intro sum_mono2) auto
  also have "\<dots> = (\<Sum>x\<in>set_mset ?M. count ?M x)"
    using P by (intro sum.mono_neutral_right) (auto simp: not_in_iff)
  also have "\<dots> = size ?M"
    by (simp only: size_multiset_overloaded_eq)
  finally have "int (\<Sum>a\<in>P. count b (a, d)) \<le> int (size ?M)"
    by (simp only: of_nat_le_iff)
  then show ?thesis
    by (simp only: ledger_bal_def ledger_total_def of_nat_sum [symmetric])
qed

lemma ledger_send_ok:
  assumes "coins_ok ref_ValidateDenom cs" "covered (ledger_bal b x) cs"
  shows "\<exists>b'. ledger_send x y cs b = (Ok (), b') \<and>
    ledger_bal b' = moved (ledger_bal b) x y cs \<and> ledger_total b' = ledger_total b"
proof (intro exI conjI ext)
  let ?b = "b - owned x cs + owned y cs"
  note facts = ledger_simps(1,3) ledger_simps(2,4) [OF owned_subset [OF assms]] ledger_owned [OF assms(1)]
  show "ledger_send x y cs b = (Ok (), ?b)"
    by (simp add: ledger_send_def assms)
  show "ledger_bal ?b a d = moved (ledger_bal b) x y cs a d" for a d
    by (simp only: facts moved_def)
  show "ledger_total ?b d = ledger_total b d" for d
    by (simp only: facts)
qed

lemma ledger_send_short:
  "coins_ok ref_ValidateDenom cs \<Longrightarrow> \<not> covered (ledger_bal b x) cs \<Longrightarrow>
     ledger_send x y cs b = (Err (ExternalError ''insufficient funds''), b)"
  by (simp add: ledger_send_def)

lemma ledger_mint_ok:
  assumes "has_perm (moduleAccPerms ref_names) m (Minter ref_names)" "coins_ok ref_ValidateDenom cs"
    "\<forall>c\<in>set cs. ledger_total b (coin_Denom c) + the (coin_Amount c) < 2 ^ 256"
  shows "\<exists>b'. ledger_mint m cs b = (Ok (), b') \<and>
    ledger_bal b' = (ledger_bal b)(ref_address m := (\<lambda>d. ledger_bal b (ref_address m) d + coins_amt cs d)) \<and>
    ledger_total b' = (\<lambda>d. ledger_total b d + coins_amt cs d)"
proof (intro exI conjI)
  let ?b = "b + owned (ref_address m) cs"
  show "ledger_mint m cs b = (Ok (), ?b)"
    using assms by (simp add: ledger_mint_def linorder_not_le [symmetric] del: power_numeral)
  show "ledger_bal ?b =
      (ledger_bal b)(ref_address m := (\<lambda>d. ledger_bal b (ref_address m) d + coins_amt cs d))"
    by (intro ext) (simp add: ledger_simps(1) ledger_owned [OF assms(2)])
  show "ledger_total ?b = (\<lambda>d. ledger_total b d + coins_amt cs d)"
    by (intro ext) (simp add: ledger_simps(3) ledger_owned [OF assms(2)])
qed

lemma ledger_burn_ok:
  assumes "has_perm (moduleAccPerms ref_names) m (Burner ref_names)" "coins_ok ref_ValidateDenom cs"
    "covered (ledger_bal b (ref_address m)) cs"
  shows "\<exists>b'. ledger_burn m cs b = (Ok (), b') \<and>
    ledger_bal b' = (ledger_bal b)(ref_address m := (\<lambda>d. ledger_bal b (ref_address m) d - coins_amt cs d)) \<and>
    ledger_total b' = (\<lambda>d. ledger_total b d - coins_amt cs d)"
proof (intro exI conjI)
  let ?b = "b - owned (ref_address m) cs"
  note facts = ledger_simps(2,4) [OF owned_subset [OF assms(2,3)]] ledger_owned [OF assms(2)]
  show "ledger_burn m cs b = (Ok (), ?b)"
    using assms by (simp add: ledger_burn_def)
  show "ledger_bal ?b =
      (ledger_bal b)(ref_address m := (\<lambda>d. ledger_bal b (ref_address m) d - coins_amt cs d))"
    by (intro ext) (simp add: facts)
  show "ledger_total ?b = (\<lambda>d. ledger_total b d - coins_amt cs d)"
    by (intro ext) (simp add: facts)
qed

lemma ref_address_registered: "ref_registered m \<Longrightarrow> ref_address m = bytes_of m"
  by (simp add: ref_address_def ref_accounts_def)

lemmas ref_bank_simps = ref_registered_def [symmetric] ref_address_def [symmetric]
  ref_blocked_def [symmetric]

interpretation ref_bank: bank_laws ref_bank ref_accounts "moduleAccPerms ref_names" "Minter ref_names"
    "Burner ref_names" ref_ValidateDenom ledger_bal ledger_total "\<lambda>_ _. 0"
    "blocked_addr ref_names ref_accounts"
proof
  fix b :: ledger and m m' :: string and a :: acc_address and cs :: "coin list"
  show "inj_on (GetModuleAddress ref_accounts) (fst ` set (moduleAccPerms ref_names))"
    by (intro inj_onI) (simp add: ref_bank_simps ref_address_registered)
  show "(\<Sum>a\<in>P. ledger_bal b a d) \<le> ledger_total b d" if "finite P" for P d
    using that by (rule ledger_holders)
  show "\<exists>s. SendCoinsFromAccountToModule ref_bank a m cs b = (Panic s, b)"
    if "m \<notin> fst ` set (moduleAccPerms ref_names)"
    using that by (simp add: ref_bank_simps ref_bank_def need_module_def)
  assume cs: "coins_ok ref_ValidateDenom cs"
  show "\<exists>b'. MintCoins ref_bank m cs b = (Ok (), b') \<and>
      ledger_bal b' = (ledger_bal b)(GetModuleAddress ref_accounts m :=
        (\<lambda>d. ledger_bal b (GetModuleAddress ref_accounts m) d + coins_amt cs d)) \<and>
      ledger_total b' = (\<lambda>d. ledger_total b d + coins_amt cs d)"
    if "has_perm (moduleAccPerms ref_names) m (Minter ref_names)"
      "\<forall>c\<in>set cs. ledger_total b (coin_Denom c) + the (coin_Amount c) < 2 ^ 256"
    using ledger_mint_ok [OF that(1) cs that(2)] by (simp add: ref_bank_def ref_address_def)
  show "\<exists>b'. BurnCoins ref_bank m cs b = (Ok (), b') \<and>
      ledger_bal b' = (ledger_bal b)(GetModuleAddress ref_accounts m :=
        (\<lambda>d. ledger_bal b (GetModuleAddress ref_accounts m) d - coins_amt cs d)) \<and>
      ledger_total b' = (\<lambda>d. ledger_total b d - coins_amt cs d)"
    if "has_perm (moduleAccPerms ref_names) m (Burner ref_names)"
      "covered (ledger_bal b (GetModuleAddress ref_accounts m)) cs"
    using ledger_burn_ok [OF that(1) cs] that(2) by (simp add: ref_bank_def ref_address_def)
  show "\<exists>e. BurnCoins ref_bank m cs b = (Err e, b)"
    if "has_perm (moduleAccPerms ref_names) m (Burner ref_names)"
      "\<not> covered (ledger_bal b (GetModuleAddress ref_accounts m)) cs"
    using that cs by (simp add: ref_bank_def ref_address_def ledger_burn_def)
qed (auto simp: ref_bank_def ref_bank_simps need_module_def ledger_nonneg nil_panic_def
    ledger_send_ok ledger_send_short)

section \<open>A keeper\<close>

definition ref_authority :: string where
  "ref_authority = ''hal1gov''"

definition ref_keeper :: "(ref_store, ledger) keeper" where
  "ref_keeper = \<lparr>k_cdc = ref_codec, k_store = ref_kv, k_authority = ref_authority,
     k_accountKeeper = ref_accounts, k_bankKeeper = ref_bank\<rparr>"

type_synonym ref_world = "(ref_store, ledger) world"

lemma ref_keeper_simps [simp]:
  "k_cdc ref_keeper = ref_codec" "k_store ref_keeper = ref_kv" "k_authority ref_keeper = ref_authority"
  "k_accountKeeper ref_keeper = ref_accounts" "k_bankKeeper ref_keeper = ref_bank"
  by (simp_all add: ref_keeper_def)

lemma ref_ValidateDenom [simp]: "ValidateDenom ref_sdk = ref_ValidateDenom"
  by (simp add: ref_sdk_def)

interpretation ref_env: keeper_env ref_ext ref_keeper RBT.lookup ref_sdk ref_names ledger_bal
    ledger_total "\<lambda>_ _. 0"
  unfolding keeper_env_def ref_keeper_simps ref_ValidateDenom
  by (intro conjI ref_wire.wire_ext_laws_axioms ref_cdc.codec_laws_axioms ref_store.kv_laws_axioms
      ref_sdk.sdk_laws_axioms ref_app.app_names_axioms ref_bank.bank_laws_axioms)

end
