(* ===== verification/Types_Properties.thy ===== *)
theory Types_Properties
  imports Keeper_Ticket Keeper_Redeem Ledger
begin

text \<open>
  Properties of the hand-written types: validation of parameters, genesis and messages, and the
  store keys.
\<close>

lemma max_redeem_dur: "sint (672 * hour :: duration) = 2419200 * second"
  by code_simp

text \<open>\<open>Params.Validate\<close> accepts exactly the parameters whose redeem duration is positive and at most
  four weeks and whose number of entries is not negative; the duration is checked first, and
  token metadata is never rejected.\<close>

lemma Params_Validate_exact:
  "Params_Validate p =
     (if sint (pa_RedeemDur p) \<le> 0 \<or> sint (pa_RedeemDur p) > 2419200 * second
      then Err (Errorf ''redeem duration must be positive'')
      else if sint (pa_MaxRedeemEntries p) < 0
      then Err (Errorf ''max redeem entries must be non-negative'')
      else Ok ())"
  by (simp add: Params_Validate_def validateRedeemDur_def validateMaxRedeemEntries_def
      validateTokenMeta_def max_redeem_dur)

text \<open>Validation agrees with the legacy parameter table: \<open>Validate\<close> succeeds exactly when the
  validation function of every pair of \<open>ParamSetPairs\<close> accepts its value, and the pairs have
  different keys.\<close>

lemma Validate_agrees_with_pairs:
  "(Params_Validate p = Ok ()) = list_all (\<lambda>(key, v, f). f v = Ok ()) (ParamSetPairs p) \<and>
   distinct (map fst (ParamSetPairs p))"
proof
  show "(Params_Validate p = Ok ()) = list_all (\<lambda>(key, v, f). f v = Ok ()) (ParamSetPairs p)"
    by (auto simp: Params_Validate_def ParamSetPairs_def bind_o_eq_Ok)
  show "distinct (map fst (ParamSetPairs p))"
    by (simp add: ParamSetPairs_def KeyRedeemDur_def KeyMaxRedeemEntries_def KeyCollateralMetas_def
        KeyHalMeta_def)
qed

text \<open>The default genesis state is valid, and the empty genesis state is not: its redeem duration is
  zero.\<close>

lemma genesis_validation:
  "GenesisState_Validate DefaultGenesis = Ok () \<and>
   GenesisState_Validate GenesisState_Reset = Err (Errorf ''redeem duration must be positive'')"
  by code_simp

text \<open>\<open>MsgUpdateParams.ValidateBasic\<close> accepts a message exactly when its authority is an address and its
  parameters are valid, and it does not panic.\<close>

lemma UpdateParams_ValidateBasic:
  assumes "sdk_laws S"
  shows "(MsgUpdateParams_ValidateBasic S m = Ok ()) =
      (is_Ok (AccAddressFromBech32 S (up_Authority m)) \<and> Params_Validate (up_Params m) = Ok ()) \<and>
    \<not> is_Panic (MsgUpdateParams_ValidateBasic S m)"
proof -
  have "\<not> is_Panic (AccAddressFromBech32 S (up_Authority m))"
    by (rule sdk_laws.address_no_panic [OF assms])
  moreover have "\<not> is_Panic (Params_Validate p)" for p
    by (simp add: Params_Validate_def validateRedeemDur_def validateMaxRedeemEntries_def
        validateTokenMeta_def)
  ultimately show ?thesis
    by (cases "AccAddressFromBech32 S (up_Authority m)")
      (auto simp: MsgUpdateParams_ValidateBasic_def bind_o_eq_Ok is_Panic_bind_o)
qed

lemma UpdateParams_ValidateBasic_example:
  "MsgUpdateParams_ValidateBasic ref_sdk \<lparr>up_Authority = ''hal1gov'', up_Params = DefaultParams\<rparr> = Ok ()"
proof -
  have "AccAddressFromBech32 ref_sdk ''hal1gov'' = Ok (bytes_of ''gov'')"
    by (simp add: ref_sdk_def ref_AccAddressFromBech32_def ref_address_prefix_def)
  moreover have "Params_Validate DefaultParams = Ok ()" by code_simp
  ultimately show ?thesis
    using UpdateParams_ValidateBasic [OF ref_sdk.sdk_laws_axioms,
        of "\<lparr>up_Authority = ''hal1gov'', up_Params = DefaultParams\<rparr>"]
    by simp
qed

text \<open>C40: Store keys: the keys of parameters, tickets, the ticket counter and redeem requests never
  coincide, and requests and tickets of different owners and ids have different keys; the one
  exception is the ticket whose id spells \<open>_counter\<close> in bytes, which shares the counter's key.\<close>

theorem store_keys_disjoint:
  "request_key a \<noteq> ParamsKey \<and> request_key a \<noteq> counter_key \<and> request_key a \<noteq> ticket_store_key i \<and>
   ParamsKey \<noteq> counter_key \<and> ParamsKey \<noteq> ticket_store_key i \<and>
   (request_key a = request_key b) = (a = b) \<and> (ticket_store_key i = ticket_store_key j) = (i = j) \<and>
   (ticket_store_key i = counter_key) = (i = 0x5F636F756E746572)"
proof (intro conjI)
  have r: "hd (request_key x) = 82" for x
    by (simp add: request_key_def RedeemRequestKeyPrefix_def bytes_of_def)
  have t: "hd (ticket_store_key x) = 116" "hd counter_key = 116" for x
    by (simp_all add: ticket_store_key_def counter_key_def KeyPrefix_def TicketKey_def TicketKeyCounter_def
        bytes_of_def)
  have p: "hd ParamsKey = 112"
    by (simp add: ParamsKey_def bytes_of_def)
  have "(82 :: byte) \<noteq> 112 \<and> (82 :: byte) \<noteq> 116 \<and> (112 :: byte) \<noteq> 116"
    by code_simp
  with r t p show "request_key a \<noteq> ParamsKey" "request_key a \<noteq> counter_key" "request_key a \<noteq> ticket_store_key i"
    "ParamsKey \<noteq> counter_key" "ParamsKey \<noteq> ticket_store_key i"
    by metis+
  show "(request_key a = request_key b) = (a = b)" "(ticket_store_key i = ticket_store_key j) = (i = j)"
    by simp_all
  show "(ticket_store_key i = counter_key) = (i = 0x5F636F756E746572)"
    by (simp add: ticket_key_eq_counter counter_clash_def)
qed

text \<open>The module accounts of the application: the two pools may mint and burn and may receive funds, the
  treasury that \<open>CreateTicket\<close> pays is not a module account, and the module runs last at the
  beginning and the end of a block.\<close>

lemma module_accounts:
  assumes "app_names N"
  shows "has_perm (moduleAccPerms N) CollateralPoolName (Minter N) \<and>
    has_perm (moduleAccPerms N) CollateralPoolName (Burner N) \<and>
    CollateralPoolName \<notin> set (blockAccAddrs N) \<and> RedeemPoolName \<notin> set (blockAccAddrs N) \<and>
    TreasuryKey \<notin> fst ` set (moduleAccPerms N) \<and>
    last (beginBlockers N) = ModuleName \<and> last (endBlockers N) = ModuleName \<and> last (genesisModuleOrder N) = ModuleName"
  by (simp add: app_names.pool_perms [OF assms] app_names.pools_not_blocked [OF assms]
      app_names.treasury_not_registered [OF assms] beginBlockers_def endBlockers_def genesisModuleOrder_def)

lemma module_accounts_example: "TreasuryKey \<notin> fst ` set (moduleAccPerms ref_names)"
  using module_accounts [OF ref_app.app_names_axioms] by blast

end
