(* ===== verification/Payout.thy ===== *)
theory Payout
  imports Keeper_Redeem
begin

text \<open>
  What the end and the beginning of a block do: every matured request is paid from the redeem pool
  and deleted, and the supply check passes exactly when the supply covers the pools.
\<close>

section \<open>One request\<close>

definition matured :: "sdk_context \<Rightarrow> redeem_request \<Rightarrow> bool" where
  "matured ctx r \<longleftrightarrow> time_After (ctx_BlockTime ctx) (rr_Completiontime r)"

definition rr_denom :: "redeem_request \<Rightarrow> string" where
  "rr_denom r = coin_Denom (rr_Collateral r)"

definition rr_amount :: "redeem_request \<Rightarrow> int" where
  "rr_amount r = the (coin_Amount (rr_Collateral r))"

text \<open>Requests that can be paid: a valid address that may receive funds, other than the pool's
  own, and a positive amount.\<close>

definition payable :: "sdk_lib \<Rightarrow> ext_names \<Rightarrow> account_keeper \<Rightarrow> redeem_request \<Rightarrow> bool" where
  "payable S N A r \<longleftrightarrow>
     (case AccAddressFromBech32 S (rr_Account r) of
        Ok a \<Rightarrow> \<not> blocked_addr N A a \<and> a \<noteq> GetModuleAddress A RedeemPoolName
      | _ \<Rightarrow> False) \<and>
     length (rr_Account r) \<le> 1023 \<and> ValidateDenom S (rr_denom r) \<and>
     coin_Amount (rr_Collateral r) \<noteq> None \<and> 0 < rr_amount r \<and> rr_amount r < 2 ^ 256"

definition rr_addr :: "sdk_lib \<Rightarrow> redeem_request \<Rightarrow> acc_address" where
  "rr_addr S r = (case AccAddressFromBech32 S (rr_Account r) of Ok a \<Rightarrow> a | _ \<Rightarrow> [])"

lemma payableD:
  assumes "payable S N A r"
  shows "AccAddressFromBech32 S (rr_Account r) = Ok (rr_addr S r)"
    "\<not> blocked_addr N A (rr_addr S r)" "rr_addr S r \<noteq> GetModuleAddress A RedeemPoolName"
    "length (rr_Account r) \<le> 1023" "ValidateDenom S (rr_denom r)"
    "rr_Collateral r = \<lparr>coin_Denom = rr_denom r, coin_Amount = Some (rr_amount r)\<rparr>"
    "0 < rr_amount r" "rr_amount r < 2 ^ 256"
  using assms
  by (auto simp: payable_def rr_addr_def rr_denom_def rr_amount_def split: outcome.splits)

context keeper_env
begin

abbreviation "pool_addr \<equiv> GetModuleAddress (k_accountKeeper k) RedeemPoolName"

lemma end_redeem_not_matured: "\<not> matured ctx r \<Longrightarrow> end_redeem S k ctx r w = (Ok (), w)"
  by (simp add: end_redeem_def matured_def)

lemma end_redeem_paid:
  assumes m: "matured ctx r" and p: "payable S N (k_accountKeeper k) r"
    and funds: "rr_amount r \<le> bal (w_bank w) pool_addr (rr_denom r)"
  shows "\<exists>s' b'. end_redeem S k ctx r w = (Ok (), w\<lparr>w_bank := b', w_kv := s'\<rparr>) \<and>
    kv_map s' = (kv_map (w_kv w))(request_key (rr_Account r) := None) \<and>
    bal b' = moved (bal (w_bank w)) pool_addr (rr_addr S r) (one_coin (rr_denom r) (rr_amount r)) \<and>
    total b' = total (w_bank w)"
proof -
  let ?cs = "one_coin (rr_denom r) (rr_amount r)"
  note pd = payableD [OF p]
  have ok: "coins_ok (ValidateDenom S) ?cs" "covered (bal (w_bank w) pool_addr) ?cs"
    using pd funds by simp_all
  obtain b' where b': "SendCoinsFromModuleToAccount (k_bankKeeper k) RedeemPoolName (rr_addr S r) ?cs (w_bank w) = (Ok (), b')"
      "bal b' = moved (bal (w_bank w)) pool_addr (rr_addr S r) ?cs" "total b' = total (w_bank w)"
    using module_to_account [OF pools_registered(2) ok(1) pd(2) ok(2)] by blast
  obtain s' where s': "DeleteRedeemRequest k (rr_Account r) (w\<lparr>w_bank := b'\<rparr>) = (Ok (), w\<lparr>w_bank := b', w_kv := s'\<rparr>)"
      "kv_map s' = (kv_map (w_kv w))(request_key (rr_Account r) := None)"
    using DeleteRedeemRequest_effect [OF pd(4), of "w\<lparr>w_bank := b'\<rparr>"] by auto
  have gt: "bal (w_bank w) (rr_addr S r) (rr_denom r) < bal b' (rr_addr S r) (rr_denom r)"
    using pd by (simp add: b'(2) moved_def)
  have "end_redeem S k ctx r w = (Ok (), w\<lparr>w_bank := b', w_kv := s'\<rparr>)"
    using m pd b'(1) s'(1) gt NewCoins_one [of "rr_denom r" "rr_amount r"]
    by (simp add: end_redeem_def matured_def try_a_apply bind_a_read GetBalance Int_GT act_simps)
  with s'(2) b' show ?thesis by blast
qed

text \<open>The cases in which the end of a block panics: a matured request without an amount to pay, or
  to the pool itself.\<close>

lemma end_redeem_zero:
  assumes "matured ctx r" "AccAddressFromBech32 S (rr_Account r) = Ok a"
    "\<not> blocked_addr N (k_accountKeeper k) a" "coin_Amount (rr_Collateral r) = Some 0"
  shows "\<exists>s b'. end_redeem S k ctx r w = (Panic s, w\<lparr>w_bank := b'\<rparr>)"
proof -
  have "coins_ok (ValidateDenom S) []" "covered f []" for f
    by (simp_all add: coins_ok_def covered_def)
  then obtain b' where b': "SendCoinsFromModuleToAccount (k_bankKeeper k) RedeemPoolName a [] (w_bank w) = (Ok (), b')"
      "bal b' = moved (bal (w_bank w)) pool_addr a []"
    using module_to_account [OF pools_registered(2) _ assms(3), of "[]"] by blast
  have "bal b' x d = bal (w_bank w) x d" for x d
    by (simp add: b'(2) moved_def coins_amt_def)
  then show ?thesis
    using assms b'(1)
    by (simp add: end_redeem_def matured_def try_a_apply bind_a_read GetBalance Int_GT act_simps
        NewCoins_zero) blast
qed

end

text \<open>Paying a stored request ends normally or panics, and an end of block with a matured request of
  nothing panics.\<close>

context keeper_env
begin

lemma NewCoins_cases:
  assumes "coin_ok c"
  obtains s where "NewCoins S [c] = Panic s"
  | cs where "NewCoins S [c] = Ok cs" "coins_ok (ValidateDenom S) cs"
proof -
  obtain n where n: "coin_Amount c = Some n" "\<bar>n\<bar> < 2 ^ 256"
    using assms by (auto simp: coin_ok_def split: option.splits)
  consider "n = 0" | "0 < n" "ValidateDenom S (coin_Denom c)" | "n < 0 \<or> n \<noteq> 0 \<and> \<not> ValidateDenom S (coin_Denom c)"
    by linarith
  then show ?thesis
  proof cases
    case 1
    then show ?thesis
      using that(2) [of "[]"] NewCoins_zero n by (simp add: coins_ok_def)
  next
    case 2
    then show ?thesis
      using that(2) [of "[c]"] NewCoins_pos [OF 2(2) n(1) 2(1)] n by (simp add: coins_ok_def)
  next
    case 3
    with NewCoins_panic [OF n(1)] show ?thesis
      by (auto elim: is_PanicE intro: that(1))
  qed
qed

lemma module_to_account_cases:
  assumes "coins_ok (ValidateDenom S) cs"
  obtains b' where "SendCoinsFromModuleToAccount (k_bankKeeper k) RedeemPoolName a cs b = (Ok (), b')"
  | e where "SendCoinsFromModuleToAccount (k_bankKeeper k) RedeemPoolName a cs b = (Err e, b)"
  using module_to_account [OF pools_registered(2) assms, of a b]
    module_to_account_fail [OF pools_registered(2) assms, of a b] by blast

lemma end_redeem_no_error:
  assumes "coin_ok (rr_Collateral r)"
  shows "\<exists>w'. end_redeem S k ctx r w = (Ok (), w') \<or> (\<exists>s. end_redeem S k ctx r w = (Panic s, w'))"
proof (cases "matured ctx r")
  case False
  then show ?thesis using end_redeem_not_matured by blast
next
  case m: True
  show ?thesis
  proof (cases "AccAddressFromBech32 S (rr_Account r)")
    case (Err e)
    with m show ?thesis by (simp add: end_redeem_def matured_def try_a_apply)
  next
    case (Panic s)
    with address_no_panic [of "rr_Account r"] show ?thesis by simp
  next
    case (Ok a)
    note del = DeleteRedeemRequest_effect [OF address_input [OF Ok]]
    from assms show ?thesis
    proof (cases rule: NewCoins_cases)
      case (1 s)
      with m Ok show ?thesis
        by (simp add: end_redeem_def matured_def try_a_apply bind_a_read GetBalance)
    next
      case (2 cs)
      from 2(2) show ?thesis
      proof (cases rule: module_to_account_cases [where a = a and b = "w_bank w"])
        case (1 b')
        obtain s' where "DeleteRedeemRequest k (rr_Account r) (w\<lparr>w_bank := b'\<rparr>) = (Ok (), w\<lparr>w_bank := b', w_kv := s'\<rparr>)"
          using del [of "w\<lparr>w_bank := b'\<rparr>"] by auto
        with m Ok 2 1 show ?thesis
          by (auto simp: end_redeem_def matured_def try_a_apply bind_a_read GetBalance Int_GT act_simps)
      next
        case e: (2 e)
        with m Ok 2 show ?thesis
          by (simp add: end_redeem_def matured_def try_a_apply bind_a_read GetBalance act_simps)
      qed
    qed
  qed
qed

lemma end_redeem_all_zero:
  assumes "\<forall>r\<in>set rs. coin_ok (rr_Collateral r)"
    and r: "r \<in> set rs" "matured ctx r" "AccAddressFromBech32 S (rr_Account r) = Ok a"
      "\<not> blocked_addr N (k_accountKeeper k) a" "coin_Amount (rr_Collateral r) = Some 0"
  shows "\<exists>s w'. end_redeem_all S k ctx rs w = (Panic s, w')"
  using assms(1) r(1)
proof (induction rs arbitrary: w)
  case (Cons q qs)
  show ?case
  proof (cases "q = r")
    case True
    obtain s b' where "end_redeem S k ctx q w = (Panic s, w\<lparr>w_bank := b'\<rparr>)"
      using end_redeem_zero [OF r(2-5)] True by blast
    then show ?thesis by (simp add: bind_a_apply)
  next
    case False
    then have q: "coin_ok (rr_Collateral q)" "r \<in> set qs" "\<forall>r\<in>set qs. coin_ok (rr_Collateral r)"
      using Cons.prems by auto
    from end_redeem_no_error [OF q(1), of ctx w] obtain w' where
      "end_redeem S k ctx q w = (Ok (), w') \<or> (\<exists>s. end_redeem S k ctx q w = (Panic s, w'))" by blast
    with Cons.IH [OF q(3,2), of w'] show ?thesis
      by (auto simp: bind_a_apply)
  qed
qed simp

end

section \<open>All requests\<close>

text \<open>What the matured requests of a list pay to an address, and what they take from the pool.\<close>

definition paid_to :: "sdk_lib \<Rightarrow> sdk_context \<Rightarrow> redeem_request list \<Rightarrow> acc_address \<Rightarrow> string \<Rightarrow> int" where
  "paid_to S ctx rs a d =
     (\<Sum>r\<leftarrow>rs. if matured ctx r \<and> rr_addr S r = a \<and> rr_denom r = d then rr_amount r else 0)"

definition paid_out :: "sdk_context \<Rightarrow> redeem_request list \<Rightarrow> string \<Rightarrow> int" where
  "paid_out ctx rs d = (\<Sum>r\<leftarrow>rs. if matured ctx r \<and> rr_denom r = d then rr_amount r else 0)"

definition deleted :: "sdk_context \<Rightarrow> redeem_request list \<Rightarrow> (bytes \<Rightarrow> bytes option) \<Rightarrow> bytes \<Rightarrow> bytes option" where
  "deleted ctx rs m key =
     (if \<exists>r\<in>set rs. matured ctx r \<and> key = request_key (rr_Account r) then None else m key)"

lemma paid_simps [simp]:
  "paid_to S ctx [] a d = 0" "paid_out ctx [] d = 0" "deleted ctx [] m = m"
  "paid_to S ctx (r # rs) a d =
     (if matured ctx r \<and> rr_addr S r = a \<and> rr_denom r = d then rr_amount r else 0) + paid_to S ctx rs a d"
  "paid_out ctx (r # rs) d = (if matured ctx r \<and> rr_denom r = d then rr_amount r else 0) + paid_out ctx rs d"
  by (auto simp: paid_to_def paid_out_def deleted_def)

lemma paid_out_nonneg:
  "(\<forall>r\<in>set rs. matured ctx r \<longrightarrow> 0 < rr_amount r) \<Longrightarrow> 0 \<le> paid_out ctx rs d"
  by (induction rs) auto

context keeper_env
begin

lemma end_redeem_all_paid:
  assumes "\<forall>r\<in>set rs. matured ctx r \<longrightarrow> payable S N (k_accountKeeper k) r"
    and "\<forall>d. paid_out ctx rs d \<le> bal (w_bank w) pool_addr d"
  shows "\<exists>s' b'. end_redeem_all S k ctx rs w = (Ok (), w\<lparr>w_bank := b', w_kv := s'\<rparr>) \<and>
    kv_map s' = deleted ctx rs (kv_map (w_kv w)) \<and> total b' = total (w_bank w) \<and>
    (\<forall>a d. bal b' a d = bal (w_bank w) a d + paid_to S ctx rs a d
      - (if a = pool_addr then paid_out ctx rs d else 0))"
  using assms
proof (induction rs arbitrary: w)
  case Nil
  then show ?case
    by (intro exI [of _ "w_kv w"] exI [of _ "w_bank w"]) simp
next
  case (Cons r rs)
  have pos: "\<forall>r\<in>set rs. matured ctx r \<longrightarrow> 0 < rr_amount r"
    using Cons.prems(1) payableD(7) by auto
  show ?case
  proof (cases "matured ctx r")
    case False
    then have "deleted ctx (r # rs) m = deleted ctx rs m" for m
      by (auto simp: deleted_def fun_eq_iff)
    moreover have "end_redeem_all S k ctx (r # rs) w = end_redeem_all S k ctx rs w"
      using False by (simp add: bind_a_apply end_redeem_not_matured)
    moreover have "paid_to S ctx (r # rs) a d = paid_to S ctx rs a d"
      "paid_out ctx (r # rs) d = paid_out ctx rs d" for a d
      using False by simp_all
    moreover have "\<forall>r\<in>set rs. matured ctx r \<longrightarrow> payable S N (k_accountKeeper k) r"
      using Cons.prems(1) by simp
    ultimately show ?thesis
      using Cons.IH [of w] Cons.prems(2) by (simp only: simp_thms)
  next
    case True
    with Cons.prems have p: "payable S N (k_accountKeeper k) r" by simp
    have funds: "rr_amount r \<le> bal (w_bank w) pool_addr (rr_denom r)"
      using Cons.prems(2) [rule_format, of "rr_denom r"] paid_out_nonneg [OF pos, of "rr_denom r"] True
      by simp
    from end_redeem_paid [OF True p funds] obtain s1 b1 where
      1: "end_redeem S k ctx r w = (Ok (), w\<lparr>w_bank := b1, w_kv := s1\<rparr>)"
        "kv_map s1 = (kv_map (w_kv w))(request_key (rr_Account r) := None)" "total b1 = total (w_bank w)"
        "bal b1 = moved (bal (w_bank w)) pool_addr (rr_addr S r) (one_coin (rr_denom r) (rr_amount r))"
      by blast
    let ?w = "w\<lparr>w_bank := b1, w_kv := s1\<rparr>"
    have b1: "bal b1 a d = bal (w_bank w) a d
        - (if a = pool_addr \<and> d = rr_denom r then rr_amount r else 0)
        + (if a = rr_addr S r \<and> d = rr_denom r then rr_amount r else 0)" for a d
      by (simp add: 1(4) moved_def)
    have "paid_out ctx rs d \<le> bal (w_bank ?w) pool_addr d" for d
      using Cons.prems(2) [rule_format, of d] True payableD(3) [OF p] by (auto simp: b1 split: if_splits)
    with Cons.IH [of ?w] Cons.prems(1) obtain s2 b2 where
      2: "end_redeem_all S k ctx rs ?w = (Ok (), ?w\<lparr>w_bank := b2, w_kv := s2\<rparr>)"
        "kv_map s2 = deleted ctx rs (kv_map s1)" "total b2 = total b1"
        "\<forall>a d. bal b2 a d = bal b1 a d + paid_to S ctx rs a d
          - (if a = pool_addr then paid_out ctx rs d else 0)"
      by auto
    have "kv_map s2 = deleted ctx (r # rs) (kv_map (w_kv w))"
      unfolding 2(2) using True by (auto simp: deleted_def 1(2) fun_eq_iff)
    moreover have "total b2 = total (w_bank w)"
      using 2(3) 1(3) by simp
    moreover have "end_redeem_all S k ctx (r # rs) w = (Ok (), w\<lparr>w_bank := b2, w_kv := s2\<rparr>)"
      using 2(1) by (simp add: bind_a_apply 1(1))
    moreover have "bal b2 a d = bal (w_bank w) a d + paid_to S ctx (r # rs) a d
        - (if a = pool_addr then paid_out ctx (r # rs) d else 0)" for a d
      using True by (auto simp: 2(4) b1)
    ultimately show ?thesis by blast
  qed
qed

text \<open>The requests that stay are exactly those that are not matured.\<close>

lemma deleted_requests:
  assumes "set rs = {r. is_request X m r}"
  shows "is_request X (deleted ctx rs m) r \<longleftrightarrow> is_request X m r \<and> \<not> matured ctx r"
proof
  assume "is_request X (deleted ctx rs m) r"
  then show "is_request X m r \<and> \<not> matured ctx r"
    using assms by (fastforce simp: is_request_def deleted_def split: if_splits)
next
  assume r: "is_request X m r \<and> \<not> matured ctx r"
  then have "\<not> (\<exists>r'\<in>set rs. matured ctx r' \<and> request_key (rr_Account r) = request_key (rr_Account r'))"
    using assms is_request_unique by fastforce
  with r show "is_request X (deleted ctx rs m) r"
    by (simp add: is_request_def deleted_def)
qed

end

section \<open>The supply check\<close>

definition pools :: "('b \<Rightarrow> acc_address \<Rightarrow> string \<Rightarrow> int) \<Rightarrow> account_keeper \<Rightarrow> 'b \<Rightarrow> string \<Rightarrow> int" where
  "pools bal A b d = bal b (GetModuleAddress A CollateralPoolName) d + bal b (GetModuleAddress A RedeemPoolName) d"

text \<open>The condition the check tests.\<close>

definition supply_ok :: "('b \<Rightarrow> acc_address \<Rightarrow> string \<Rightarrow> int) \<Rightarrow> ('b \<Rightarrow> string \<Rightarrow> int) \<Rightarrow> account_keeper \<Rightarrow>
    params \<Rightarrow> 'b \<Rightarrow> bool" where
  "supply_ok bal tot A p b \<longleftrightarrow> tot b (tm_Denom (pa_HalMeta p)) = 0 \<or>
     2 * pools bal A b (tm_Denom (pa_CollateralMetas p)) \<le> tot b (tm_Denom (pa_HalMeta p))"

context keeper_env
begin

lemma total_nonneg: "0 \<le> total b d"
  using holders [of "{}" b d] by simp

lemma InvariantCheck_eq:
  assumes "GetParams k w = Ok p"
    and "2 * pools bal (k_accountKeeper k) (w_bank w) (tm_Denom (pa_CollateralMetas p)) < 2 ^ 255"
    and "total (w_bank w) (tm_Denom (pa_HalMeta p)) < 2 ^ 255"
  shows "InvariantCheck S k w =
    (if supply_ok bal total (k_accountKeeper k) p (w_bank w) then Ok ()
     else Panic ''invariant check failed: total HAL supply is less than the calculated amount from collateral'', w)"
proof -
  let ?c = "tm_Denom (pa_CollateralMetas p)" and ?h = "tm_Denom (pa_HalMeta p)"
  let ?n = "bal (w_bank w) (GetModuleAddress (k_accountKeeper k) CollateralPoolName) ?c"
  let ?n' = "bal (w_bank w) pool_addr ?c"
  have nn: "0 \<le> ?n" "0 \<le> ?n'" "0 \<le> total (w_bank w) ?h"
    by (simp_all add: bal_nonneg total_nonneg)
  define q q2 where "q = ?n + ?n'" and "q2 = 2 * q"
  have q: "0 \<le> q" "q2 < 2 ^ 255"
    using nn assms(2) by (simp_all add: q_def q2_def pools_def)
  have add: "Coin_Add S \<lparr>coin_Denom = ?c, coin_Amount = Some ?n\<rparr> \<lparr>coin_Denom = ?c, coin_Amount = Some ?n'\<rparr>
      = Ok \<lparr>coin_Denom = ?c, coin_Amount = Some q\<rparr>"
    using q nn by (subst Coin_Add) (auto simp: q_def q2_def)
  have dbl: "bind_o (Dec_Mul S (q * dec_one) (LegacyNewDec S 2)) (Dec_TruncateInt S) = Ok (Some q2)"
    using double_amount [of q] q by (simp add: NewDecFromInt q2_def)
  then obtain m where m: "Dec_Mul S (q * dec_one) (LegacyNewDec S 2) = Ok m"
      "Dec_TruncateInt S m = Ok (Some q2)"
    by (auto simp: bind_o_eq_Ok)
  have sub: "Int_Sub S (Some (total (w_bank w) ?h)) (Some q2) = Ok (Some (total (w_bank w) ?h - q2))"
    using assms(3) q nn by (intro Int_Sub) (auto simp: q2_def)
  have p2: "2 * (?n + ?n') = q2"
    by (simp add: q_def q2_def)
  have z: "total (w_bank w) ?h = 0 \<longleftrightarrow> \<not> 0 < total (w_bank w) ?h"
    using nn(3) by auto
  show ?thesis
    unfolding supply_ok_def pools_def z p2
    by (simp add: InvariantCheck_def bind_a_read assms(1) Let_def HasSupply GetBalance GetSupply add
        NewDecFromInt m sub Int_IsNegative)
qed

end

end
