(* ===== verification/Msg_Server.thy ===== *)
theory Msg_Server
  imports Keeper_Ticket Payout
begin

text \<open>
  The handlers of the \<open>Msg\<close> service (\<open>x/hal/keeper/msg_server*.go\<close>, \<open>msg_update_params.go\<close>). A handler
  that returns an error leaves the writes it has made: undoing them is the caller's part.
\<close>

section \<open>Handlers\<close>

text \<open>The message server is the keeper.\<close>

definition NewMsgServerImpl :: "('s, 'b) keeper \<Rightarrow> ('s, 'b) keeper" where
  "NewMsgServerImpl keeper = keeper"

definition UpdateParams ::
    "('s, 'b) keeper \<Rightarrow> msg_update_params \<Rightarrow> (('s, 'b) world, msg_update_params_response) act" where
  "UpdateParams k req =
     (if GetAuthority k \<noteq> up_Authority req then
        fail_a (Wrapped ErrInvalidSigner (''invalid authority; expected '' @ GetAuthority k @ '', got '' @
          up_Authority req))
      else bind_a (SetParams k (up_Params req)) (\<lambda>_. ret_a MsgUpdateParamsResponse_Reset))"

definition CreateTicket :: "sdk_lib \<Rightarrow> ('s, 'b) keeper \<Rightarrow> sdk_context \<Rightarrow> map_order \<Rightarrow> msg_create_ticket \<Rightarrow>
    (('s, 'b) world, msg_create_ticket_response) act" where
  "CreateTicket S k ctx ord msg =
     bind_a (lift_a (creator_address S (ct_Creator msg))) (\<lambda>accAddr.
     let issueLength = length (ct_Issue msg);
         halCost = NewUint S (word_of_nat issueLength)
     in bind_a (read_a (GetParams k)) (\<lambda>params.
        let halDenom = tm_Denom (pa_HalMeta params)
        in bind_a (lift_a (NewCoin S halDenom halCost)) (\<lambda>halCoin.
           bind_a (read_a (\<lambda>w. HasBalance (k_bankKeeper k) accAddr halCoin (w_bank w))) (\<lambda>has.
           if \<not> has then fail_a (Wrapped SdkErrInsufficientFunds ''insufficient HAL tokens'')
           else
             bind_a (lift_a (NewCoins S [halCoin])) (\<lambda>coins.
             bind_a (wrap_a (Wrapped SdkErrInsufficientFunds ''failed to deduct HAL tokens'')
               (on_bank (SendCoinsFromAccountToModule (k_bankKeeper k) accAddr TreasuryKey coins))) (\<lambda>_.
             let ticket = Ticket_Reset\<lparr>tk_Author := ct_Author msg, tk_Issue := ct_Issue msg\<rparr>
             in bind_a (AppendTicket k ctx ord ticket) (\<lambda>id.
                ret_a \<lparr>ctr_Id = id\<rparr>)))))))"

definition MintHal ::
    "sdk_lib \<Rightarrow> ('s, 'b) keeper \<Rightarrow> msg_mint_hal \<Rightarrow> (('s, 'b) world, msg_mint_hal_response) act" where
  "MintHal S k msg =
     bind_a (lift_a (creator_address S (mh_Creator msg))) (\<lambda>accAddr.
     bind_a (lift_a (Coin_IsValid S (mh_CollateralAmount msg))) (\<lambda>valid.
     bind_a (if \<not> valid then lift_a (Coin_IsZero S (mh_CollateralAmount msg)) else ret_a False) (\<lambda>reject.
     if reject then fail_a (Wrapped SdkErrInvalidRequest ''collateral amount is invalid or zero'')
     else bind_a (read_a (GetParams k)) (\<lambda>params.
       let collateralDenom = tm_Denom (pa_CollateralMetas params)
       in if coin_Denom (mh_CollateralAmount msg) \<noteq> collateralDenom then
            fail_a (Wrapped SdkErrInvalidRequest (''collateral denom mismatch: expected '' @ collateralDenom @
              '', got '' @ coin_Denom (mh_CollateralAmount msg)))
          else
            let exchangeRate = LegacyNewDec S 2
            in bind_a (lift_a (LegacyNewDecFromInt S (coin_Amount (mh_CollateralAmount msg)))) (\<lambda>collateralAmount.
               bind_a (lift_a (bind_o (Dec_Mul S collateralAmount exchangeRate) (Dec_TruncateInt S)))
                 (\<lambda>mintedHalAmount.
               let halDenom = tm_Denom (pa_HalMeta params)
               in bind_a (lift_a (NewCoin S halDenom mintedHalAmount)) (\<lambda>mintedHalCoin.
                  bind_a (lift_a (NewCoins S [mintedHalCoin])) (\<lambda>minted.
                  bind_a (wrap_a (Wrapped SdkErrInsufficientFunds ''failed to mint HAL coins'')
                    (on_bank (MintCoins (k_bankKeeper k) CollateralPoolName minted))) (\<lambda>_.
                  bind_a (lift_a (NewCoins S [mintedHalCoin])) (\<lambda>sent.
                  bind_a (wrap_a (Wrapped SdkErrInsufficientFunds ''failed to send minted HAL coins to creator'')
                    (on_bank (SendCoinsFromModuleToAccount (k_bankKeeper k) CollateralPoolName accAddr sent))) (\<lambda>_.
                  bind_a (lift_a (NewCoins S [mh_CollateralAmount msg])) (\<lambda>paid.
                  bind_a (discard_a (on_bank
                    (SendCoinsFromAccountToModule (k_bankKeeper k) accAddr CollateralPoolName paid))) (\<lambda>_.
                  ret_a \<lparr>mhr_MintedAmount = mintedHalCoin\<rparr>)))))))))))))"

text \<open>\<open>now\<close> is the result of \<open>time.Now()\<close> on the node that runs the handler.\<close>

definition RedeemCollateral :: "sdk_lib \<Rightarrow> ('s, 'b) keeper \<Rightarrow> gtime \<Rightarrow> msg_redeem_collateral \<Rightarrow>
    (('s, 'b) world, msg_redeem_collateral_response) act" where
  "RedeemCollateral S k now msg =
     bind_a (lift_a (creator_address S (rc_Creator msg))) (\<lambda>accAddr.
     bind_a (lift_a (Coin_IsValid S (rc_HalAmount msg))) (\<lambda>valid.
     if \<not> valid then fail_a (Wrapped SdkErrInvalidRequest ''HAL amount is invalid'')
     else bind_a (read_a (GetParams k)) (\<lambda>params.
       let halDenom = tm_Denom (pa_HalMeta params)
       in bind_a (lift_a (NewCoin S halDenom (coin_Amount (rc_HalAmount msg)))) (\<lambda>halCoin.
          bind_a (lift_a (NewCoins S [halCoin])) (\<lambda>paid.
          bind_a (discard_a (on_bank
            (SendCoinsFromAccountToModule (k_bankKeeper k) accAddr CollateralPoolName paid))) (\<lambda>_.
          bind_a (lift_a (NewCoins S [halCoin])) (\<lambda>burned.
          bind_a (wrap_a (Wrapped SdkErrUnauthorized ''failed to burn HAL coins'')
            (on_bank (BurnCoins (k_bankKeeper k) CollateralPoolName burned))) (\<lambda>_.
          let exchangeRate = LegacyNewDec S 2
          in bind_a (lift_a (LegacyNewDecFromInt S (coin_Amount (rc_HalAmount msg)))) (\<lambda>halAmount.
             bind_a (lift_a (bind_o (Dec_Quo S halAmount exchangeRate) (Dec_TruncateInt S)))
               (\<lambda>redeemedCollateralAmount.
             let collateralDenom = tm_Denom (pa_CollateralMetas params)
             in bind_a (lift_a (NewCoin S collateralDenom redeemedCollateralAmount)) (\<lambda>redeemedCollateralCoin.
                bind_a (lift_a (NewCoins S [redeemedCollateralCoin])) (\<lambda>moved.
                bind_a (wrap_a (Wrapped SdkErrInsufficientFunds
                    ''failed to transfer collateral tokens to redeem pool'')
                  (on_bank (SendCoinsFromModuleToModule (k_bankKeeper k) CollateralPoolName RedeemPoolName moved)))
                  (\<lambda>_.
                bind_a (read_a (GetParams k)) (\<lambda>params'.
                let redeemDur = pa_RedeemDur params';
                    completionTime = time_Add now redeemDur;
                    redeemRequest = \<lparr>rr_Account = AccAddress_String S accAddr,
                      rr_Collateral = redeemedCollateralCoin, rr_Completiontime = completionTime\<rparr>
                in bind_a (SetRedeemRequest k redeemRequest) (\<lambda>_.
                   ret_a \<lparr>rcr_BurnedAmount = halCoin, rcr_CompletionTime = completionTime\<rparr>)))))))))))))))"

section \<open>What the handlers do\<close>

lemma creator_address_simps [simp]:
  "AccAddressFromBech32 S c = Ok a \<Longrightarrow> creator_address S c = Ok a"
  "AccAddressFromBech32 S c = Err e \<Longrightarrow> creator_address S c = Err (invalid_creator S e)"
  by (simp_all add: creator_address_def)

abbreviation hal_denom :: "params \<Rightarrow> string" where
  "hal_denom p \<equiv> tm_Denom (pa_HalMeta p)"

abbreviation collateral_denom :: "params \<Rightarrow> string" where
  "collateral_denom p \<equiv> tm_Denom (pa_CollateralMetas p)"

text \<open>The request that a redemption stores.\<close>

definition redeemed_request :: "sdk_lib \<Rightarrow> params \<Rightarrow> gtime \<Rightarrow> acc_address \<Rightarrow> int \<Rightarrow> redeem_request" where
  "redeemed_request S p now a h =
     \<lparr>rr_Account = AccAddress_String S a,
      rr_Collateral = \<lparr>coin_Denom = collateral_denom p, coin_Amount = Some (h div 2)\<rparr>,
      rr_Completiontime = time_Add now (pa_RedeemDur p)\<rparr>"

definition storable :: "wire_ext \<Rightarrow> redeem_request \<Rightarrow> bool" where
  "storable X r \<longleftrightarrow> timestamp_ok (rr_Completiontime r) \<and> RedeemRequest_Size X r < 2 ^ 31"

lemma redeemed_request_simps [simp]:
  "rr_Account (redeemed_request S p now a h) = AccAddress_String S a"
  "rr_Collateral (redeemed_request S p now a h) = \<lparr>coin_Denom = collateral_denom p, coin_Amount = Some (h div 2)\<rparr>"
  "rr_Completiontime (redeemed_request S p now a h) = time_Add now (pa_RedeemDur p)"
  by (simp_all add: redeemed_request_def)

text \<open>Whether an account can pay an amount.\<close>

definition can_pay :: "('b \<Rightarrow> acc_address \<Rightarrow> string \<Rightarrow> int) \<Rightarrow> (acc_address \<Rightarrow> string \<Rightarrow> int) \<Rightarrow> 'b \<Rightarrow>
    acc_address \<Rightarrow> string \<Rightarrow> int \<Rightarrow> bool" where
  "can_pay bal locked b a d n \<longleftrightarrow> n = 0 \<or> n \<le> bal b a d - locked a d"

context keeper_env
begin

abbreviation "coll_addr \<equiv> GetModuleAddress (k_accountKeeper k) CollateralPoolName"

lemma pools_differ: "coll_addr \<noteq> pool_addr"
  using inj_onD [OF module_inj _ pools_registered] by (auto simp: CollateralPoolName_def RedeemPoolName_def)

lemma one_coin_ok: "ValidateDenom S d \<Longrightarrow> 0 \<le> n \<Longrightarrow> n < 2 ^ 256 \<Longrightarrow> coins_ok (ValidateDenom S) (one_coin d n)"
  by simp

text \<open>A payment to the collateral pool whose error is ignored.\<close>

lemma ignored_payment:
  assumes "ValidateDenom S d" "0 \<le> n" "n < 2 ^ 256"
  shows "\<exists>b'. discard_a (on_bank (SendCoinsFromAccountToModule (k_bankKeeper k) a CollateralPoolName (one_coin d n))) w
      = (Ok (), w\<lparr>w_bank := b'\<rparr>) \<and> total b' = total (w_bank w) \<and>
    bal b' = (if can_pay bal locked (w_bank w) a d n
      then moved (bal (w_bank w)) a coll_addr (one_coin d n) else bal (w_bank w))"
proof (cases "can_pay bal locked (w_bank w) a d n")
  case True
  then have "covered (\<lambda>d. bal (w_bank w) a d - locked a d) (one_coin d n)"
    by (simp add: can_pay_def)
  with account_to_module [OF pools_registered(1) one_coin_ok [OF assms]] True show ?thesis
    by (fastforce simp: discard_a_apply act_simps)
next
  case False
  then have "\<not> covered (\<lambda>d. bal (w_bank w) a d - locked a d) (one_coin d n)"
    by (simp add: can_pay_def)
  then obtain e where "SendCoinsFromAccountToModule (k_bankKeeper k) a CollateralPoolName (one_coin d n) (w_bank w)
      = (Err e, w_bank w)"
    using account_to_module_short [OF pools_registered(1) one_coin_ok [OF assms]] by blast
  with False show ?thesis
    by (intro exI [of _ "w_bank w"]) (simp add: discard_a_apply act_simps)
qed

lemma mint_coin:
  assumes "ValidateDenom S d" "0 \<le> n" "total b d + n < 2 ^ 256"
  shows "\<exists>b'. MintCoins (k_bankKeeper k) CollateralPoolName (one_coin d n) b = (Ok (), b') \<and>
    bal b' = (bal b)(coll_addr := (bal b coll_addr)(d := bal b coll_addr d + n)) \<and>
    total b' = (total b)(d := total b d + n)"
proof -
  have "n < 2 ^ 256" using assms(3) total_nonneg [of b d] by simp
  moreover have "\<forall>c\<in>set (one_coin d n). total b (coin_Denom c) + the (coin_Amount c) < 2 ^ 256"
    using assms(3) by (simp add: one_coin_def)
  ultimately obtain b' where "MintCoins (k_bankKeeper k) CollateralPoolName (one_coin d n) b = (Ok (), b')"
      "bal b' = (bal b)(coll_addr := (\<lambda>d'. bal b coll_addr d' + (if d' = d then n else 0)))"
      "total b' = (\<lambda>d'. total b d' + (if d' = d then n else 0))"
    using mint [OF pool_perms(1) one_coin_ok [OF assms(1,2)], of b] by auto
  then show ?thesis
    by (intro exI [of _ b']) (auto simp: fun_eq_iff)
qed

lemma burn_coin:
  assumes "ValidateDenom S d" "0 \<le> n" "n < 2 ^ 256" "n \<le> bal b coll_addr d"
  shows "\<exists>b'. BurnCoins (k_bankKeeper k) CollateralPoolName (one_coin d n) b = (Ok (), b') \<and>
    bal b' = (bal b)(coll_addr := (bal b coll_addr)(d := bal b coll_addr d - n)) \<and>
    total b' = (total b)(d := total b d - n)"
proof -
  from burn [OF pool_perms(2) one_coin_ok [OF assms(1-3)], of b] assms(4)
  obtain b' where "BurnCoins (k_bankKeeper k) CollateralPoolName (one_coin d n) b = (Ok (), b')"
      "bal b' = (bal b)(coll_addr := (\<lambda>d'. bal b coll_addr d' - (if d' = d then n else 0)))"
      "total b' = (\<lambda>d'. total b d' - (if d' = d then n else 0))"
    by auto
  then show ?thesis
    by (intro exI [of _ b']) (auto simp: fun_eq_iff)
qed

lemma MintHal_effect:
  assumes a: "AccAddressFromBech32 S (mh_Creator msg) = Ok a" "\<not> blocked_addr N (k_accountKeeper k) a"
    and p: "GetParams k w = Ok p" "ValidateDenom S (hal_denom p)" "ValidateDenom S (collateral_denom p)"
      "hal_denom p \<noteq> collateral_denom p"
    and c: "mh_CollateralAmount msg = \<lparr>coin_Denom = collateral_denom p, coin_Amount = Some n\<rparr>"
    and n: "0 \<le> n" "2 * n < 2 ^ 255" "total (w_bank w) (hal_denom p) + 2 * n < 2 ^ 256"
  shows "\<exists>b'. MintHal S k msg w =
      (Ok \<lparr>mhr_MintedAmount = \<lparr>coin_Denom = hal_denom p, coin_Amount = Some (2 * n)\<rparr>\<rparr>, w\<lparr>w_bank := b'\<rparr>) \<and>
    total b' = (total (w_bank w))(hal_denom p := total (w_bank w) (hal_denom p) + 2 * n) \<and>
    (\<forall>x d. bal b' x d = bal (w_bank w) x d + (if x = a \<and> d = hal_denom p then 2 * n else 0)
      + (if can_pay bal locked (w_bank w) a (collateral_denom p) n \<and> d = collateral_denom p
         then (if x = coll_addr then n else 0) - (if x = a then n else 0) else 0))"
proof -
  let ?h = "hal_denom p" and ?c = "collateral_denom p"
  let ?hc = "\<lparr>coin_Denom = ?h, coin_Amount = Some (2 * n)\<rparr>"
  have n2: "0 \<le> 2 * n" "2 * n < 2 ^ 256" "n < 2 ^ 256" using n by simp_all
  obtain b1 where b1: "MintCoins (k_bankKeeper k) CollateralPoolName (one_coin ?h (2 * n)) (w_bank w) = (Ok (), b1)"
      "bal b1 = (bal (w_bank w))(coll_addr := (bal (w_bank w) coll_addr)(?h := bal (w_bank w) coll_addr ?h + 2 * n))"
      "total b1 = (total (w_bank w))(?h := total (w_bank w) ?h + 2 * n)"
    using mint_coin [OF p(2) n2(1) n(3)] by blast
  have "covered (bal b1 coll_addr) (one_coin ?h (2 * n))"
    using bal_nonneg [of "w_bank w" coll_addr ?h] by (simp add: b1(2))
  then obtain b2 where b2: "SendCoinsFromModuleToAccount (k_bankKeeper k) CollateralPoolName a (one_coin ?h (2 * n)) b1 = (Ok (), b2)"
      "bal b2 = moved (bal b1) coll_addr a (one_coin ?h (2 * n))" "total b2 = total b1"
    using module_to_account [OF pools_registered(1) one_coin_ok [OF p(2) n2(1,2)] a(2)] by blast
  let ?w = "w\<lparr>w_bank := b2\<rparr>"
  obtain b3 where b3: "discard_a (on_bank (SendCoinsFromAccountToModule (k_bankKeeper k) a CollateralPoolName (one_coin ?c n))) ?w
      = (Ok (), ?w\<lparr>w_bank := b3\<rparr>)" "total b3 = total b2"
      "bal b3 = (if can_pay bal locked b2 a ?c n then moved (bal b2) a coll_addr (one_coin ?c n) else bal b2)"
    using ignored_payment [OF p(3) n(1) n2(3), of a ?w] by auto
  have pay: "can_pay bal locked b2 a ?c n = can_pay bal locked (w_bank w) a ?c n"
    using p(4) by (simp add: can_pay_def b2(2) b1(2) moved_def)
  have dbl: "bind_o (Dec_Mul S (n * dec_one) (LegacyNewDec S 2)) (Dec_TruncateInt S) = Ok (Some (2 * n))"
    using double_amount [OF n(1,2)] by (simp add: NewDecFromInt)
  have "MintHal S k msg w = (Ok \<lparr>mhr_MintedAmount = ?hc\<rparr>, w\<lparr>w_bank := b3\<rparr>)"
    using b1(1) b2(1) b3(1)
    by (simp add: MintHal_def a(1) c p Coin_IsValid n(1) n2 bind_a_read Let_def NewDecFromInt dbl NewCoin_ok
        NewCoins_one bind_a_apply wrap_a_apply act_simps)
  moreover have "total b3 = (total (w_bank w))(?h := total (w_bank w) ?h + 2 * n)"
    using b3(2) b2(3) b1(3) by simp
  moreover have "bal b3 x d = bal (w_bank w) x d + (if x = a \<and> d = ?h then 2 * n else 0)
      + (if can_pay bal locked (w_bank w) a ?c n \<and> d = ?c
         then (if x = coll_addr then n else 0) - (if x = a then n else 0) else 0)" for x d
    using p(4) by (simp add: b3(3) pay b2(2) b1(2) moved_def)
  ultimately show ?thesis by blast
qed

text \<open>Who pays the HAL of a redemption: the creator, or the pool itself when the creator's payment
  fails.\<close>

lemma RedeemCollateral_effect:
  assumes a: "AccAddressFromBech32 S (rc_Creator msg) = Ok a"
    and p: "GetParams k w = Ok p" "ValidateDenom S (hal_denom p)" "ValidateDenom S (collateral_denom p)"
      "hal_denom p \<noteq> collateral_denom p"
    and c: "rc_HalAmount msg = \<lparr>coin_Denom = d', coin_Amount = Some h\<rparr>" "ValidateDenom S d'"
      "0 \<le> h" "h < 2 ^ 255"
    and funds: "can_pay bal locked (w_bank w) a (hal_denom p) h \<or> h \<le> bal (w_bank w) coll_addr (hal_denom p)"
      "h div 2 \<le> bal (w_bank w) coll_addr (collateral_denom p)"
    and st: "storable X (redeemed_request S p now a h)"
  shows "\<exists>s' b'. RedeemCollateral S k now msg w =
      (Ok \<lparr>rcr_BurnedAmount = \<lparr>coin_Denom = hal_denom p, coin_Amount = Some h\<rparr>,
           rcr_CompletionTime = time_Add now (pa_RedeemDur p)\<rparr>, w\<lparr>w_bank := b', w_kv := s'\<rparr>) \<and>
    kv_map s' = (kv_map (w_kv w))(request_key (AccAddress_String S a) \<mapsto>
      RedeemRequest_enc X (redeemed_request S p now a h)) \<and>
    total b' = (total (w_bank w))(hal_denom p := total (w_bank w) (hal_denom p) - h) \<and>
    (\<forall>x d. bal b' x d = bal (w_bank w) x d
      - (if d = hal_denom p \<and>
           x = (if can_pay bal locked (w_bank w) a (hal_denom p) h then a else coll_addr) then h else 0)
      + (if d = collateral_denom p
         then (if x = pool_addr then h div 2 else 0) - (if x = coll_addr then h div 2 else 0) else 0))"
proof -
  define r where "r = redeemed_request S p now a h"
  then have r: "r = \<lparr>rr_Account = AccAddress_String S a,
        rr_Collateral = \<lparr>coin_Denom = collateral_denom p, coin_Amount = Some (h div 2)\<rparr>,
        rr_Completiontime = time_Add now (pa_RedeemDur p)\<rparr>"
      "timestamp_ok (time_Add now (pa_RedeemDur p))" "RedeemRequest_Size X r < 2 ^ 31"
    using st by (simp_all add: redeemed_request_def storable_def)
  let ?h = "hal_denom p" and ?c = "collateral_denom p" and ?q = "h div 2"
  have hq: "h < 2 ^ 256" "0 \<le> ?q" "?q < 2 ^ 256" using c by simp_all
  obtain b1 where b1: "discard_a (on_bank (SendCoinsFromAccountToModule (k_bankKeeper k) a CollateralPoolName (one_coin ?h h))) w
      = (Ok (), w\<lparr>w_bank := b1\<rparr>)" "total b1 = total (w_bank w)"
      "bal b1 = (if can_pay bal locked (w_bank w) a ?h h then moved (bal (w_bank w)) a coll_addr (one_coin ?h h)
        else bal (w_bank w))"
    using ignored_payment [OF p(2) c(3) hq(1), of a w] by blast
  have "h \<le> bal b1 coll_addr ?h"
    using funds(1) bal_nonneg [of "w_bank w" coll_addr ?h] locked_nonneg [of a ?h]
    by (auto simp: b1(3) moved_def can_pay_def)
  then obtain b2 where b2: "BurnCoins (k_bankKeeper k) CollateralPoolName (one_coin ?h h) b1 = (Ok (), b2)"
      "bal b2 = (bal b1)(coll_addr := (bal b1 coll_addr)(?h := bal b1 coll_addr ?h - h))"
      "total b2 = (total b1)(?h := total b1 ?h - h)"
    using burn_coin [OF p(2) c(3) hq(1)] by blast
  have "covered (bal b2 coll_addr) (one_coin ?c ?q)"
    using funds(2) p(4) by (auto simp: b2(2) b1(3) moved_def)
  then obtain b3 where b3: "SendCoinsFromModuleToModule (k_bankKeeper k) CollateralPoolName RedeemPoolName (one_coin ?c ?q) b2 = (Ok (), b3)"
      "bal b3 = moved (bal b2) coll_addr pool_addr (one_coin ?c ?q)" "total b3 = total b2"
    using module_to_module [OF pools_registered one_coin_ok [OF p(3) hq(2,3)]] by blast
  let ?w = "w\<lparr>w_bank := b3\<rparr>"
  have acc: "rr_Account r = AccAddress_String S a" by (simp add: r(1))
  have "RedeemRequest_wf X r"
    using r hq by (simp add: RedeemRequest_wf_def coin_ok_def)
  then obtain s' where s': "SetRedeemRequest k r ?w = (Ok (), ?w\<lparr>w_kv := s'\<rparr>)"
      "kv_map s' = (kv_map (w_kv w))(request_key (AccAddress_String S a) \<mapsto> RedeemRequest_enc X r)"
    using SetRedeemRequest_effect [OF _ r(3), of ?w] address_length [OF a] by (auto simp: acc)
  have half: "bind_o (Dec_Quo S (h * dec_one) (LegacyNewDec S 2)) (Dec_TruncateInt S) = Ok (Some ?q)"
    using half_amount [OF c(3,4)] by (simp add: NewDecFromInt)
  have p': "GetParams k ?w = Ok p" using p(1) by (simp add: GetParams_eq)
  have "RedeemCollateral S k now msg w =
      (Ok \<lparr>rcr_BurnedAmount = \<lparr>coin_Denom = ?h, coin_Amount = Some h\<rparr>,
           rcr_CompletionTime = time_Add now (pa_RedeemDur p)\<rparr>, w\<lparr>w_bank := b3, w_kv := s'\<rparr>)"
    using b1(1) b2(1) b3(1) s'(1) p'
    by (simp add: RedeemCollateral_def a c p Coin_IsValid hq bind_a_read Let_def NewDecFromInt half NewCoin_ok
        NewCoins_one bind_a_apply wrap_a_apply act_simps r(1) [symmetric])
  moreover have "total b3 = (total (w_bank w))(?h := total (w_bank w) ?h - h)"
    using b3(3) b2(3) b1(2) by simp
  moreover have "bal b3 x d = bal (w_bank w) x d
      - (if d = ?h \<and> x = (if can_pay bal locked (w_bank w) a ?h h then a else coll_addr) then h else 0)
      + (if d = ?c then (if x = pool_addr then ?q else 0) - (if x = coll_addr then ?q else 0) else 0)" for x d
    using p(4) pools_differ by (auto simp: b3(2) b2(2) b1(3) moved_def)
  ultimately show ?thesis
    using s'(2) unfolding r_def by blast
qed

text \<open>Guards.\<close>

lemma MintHal_denied:
  "AccAddressFromBech32 S (mh_Creator msg) = Err e \<Longrightarrow> MintHal S k msg w = (Err (invalid_creator S e), w)"
  by (simp add: MintHal_def)

lemma MintHal_mismatch:
  assumes "AccAddressFromBech32 S (mh_Creator msg) = Ok a" "GetParams k w = Ok p"
    "coin_Amount (mh_CollateralAmount msg) = Some n" "coin_Denom (mh_CollateralAmount msg) \<noteq> collateral_denom p"
  shows "\<exists>s. MintHal S k msg w = (Err (Wrapped SdkErrInvalidRequest s), w)"
  using assms
  by (cases "ValidateDenom S (coin_Denom (mh_CollateralAmount msg)) \<and> 0 \<le> n")
    (auto simp: MintHal_def Coin_IsValid Coin_IsZero bind_a_read Let_def)

lemma RedeemCollateral_denied:
  "AccAddressFromBech32 S (rc_Creator msg) = Err e \<Longrightarrow>
     RedeemCollateral S k now msg w = (Err (invalid_creator S e), w)"
  by (simp add: RedeemCollateral_def)

text \<open>A creator who cannot pay the HAL gets an error, as long as the pool holds no HAL itself.\<close>

lemma RedeemCollateral_unpaid:
  assumes a: "AccAddressFromBech32 S (rc_Creator msg) = Ok a"
    and p: "GetParams k w = Ok p" "ValidateDenom S (hal_denom p)"
    and c: "rc_HalAmount msg = \<lparr>coin_Denom = d', coin_Amount = Some h\<rparr>" "ValidateDenom S d'"
      "0 \<le> h" "h < 2 ^ 255"
    and no: "\<not> can_pay bal locked (w_bank w) a (hal_denom p) h" "bal (w_bank w) coll_addr (hal_denom p) < h"
  shows "\<exists>b'. RedeemCollateral S k now msg w
      = (Err (Wrapped SdkErrUnauthorized ''failed to burn HAL coins''), w\<lparr>w_bank := b'\<rparr>) \<and>
    bal b' = bal (w_bank w) \<and> total b' = total (w_bank w)"
proof -
  let ?h = "hal_denom p"
  have hq: "h < 2 ^ 256" using c by simp
  obtain b1 where b1: "discard_a (on_bank (SendCoinsFromAccountToModule (k_bankKeeper k) a CollateralPoolName (one_coin ?h h))) w
      = (Ok (), w\<lparr>w_bank := b1\<rparr>)" "total b1 = total (w_bank w)" "bal b1 = bal (w_bank w)"
    using ignored_payment [OF p(2) c(3) hq, of a w] no(1) by auto
  have "\<not> covered (bal b1 coll_addr) (one_coin ?h h)"
    using no(2) bal_nonneg [of "w_bank w" coll_addr ?h] by (simp add: b1(3))
  then obtain e where "BurnCoins (k_bankKeeper k) CollateralPoolName (one_coin ?h h) b1 = (Err e, b1)"
    using burn_short [OF pool_perms(2) one_coin_ok [OF p(2) c(3) hq]] by blast
  then show ?thesis
    using b1 by (intro exI [of _ b1]) (simp add: RedeemCollateral_def a c p Coin_IsValid bind_a_read
        Let_def NewCoin_ok NewCoins_one bind_a_apply wrap_a_apply act_simps)
qed

text \<open>A collateral pool that cannot pay the collateral makes the handler fail after the burn.\<close>

lemma RedeemCollateral_pool_short:
  assumes a: "AccAddressFromBech32 S (rc_Creator msg) = Ok a"
    and p: "GetParams k w = Ok p" "ValidateDenom S (hal_denom p)" "ValidateDenom S (collateral_denom p)"
      "hal_denom p \<noteq> collateral_denom p"
    and c: "rc_HalAmount msg = \<lparr>coin_Denom = d', coin_Amount = Some h\<rparr>" "ValidateDenom S d'"
      "0 \<le> h" "h < 2 ^ 255"
    and funds: "can_pay bal locked (w_bank w) a (hal_denom p) h \<or> h \<le> bal (w_bank w) coll_addr (hal_denom p)"
      "bal (w_bank w) coll_addr (collateral_denom p) < h div 2"
  shows "\<exists>b'. RedeemCollateral S k now msg w
      = (Err (Wrapped SdkErrInsufficientFunds ''failed to transfer collateral tokens to redeem pool''), w\<lparr>w_bank := b'\<rparr>)"
proof -
  let ?h = "hal_denom p" and ?c = "collateral_denom p" and ?q = "h div 2"
  have hq: "h < 2 ^ 256" "0 \<le> ?q" "?q < 2 ^ 256" using c by simp_all
  obtain b1 where b1: "discard_a (on_bank (SendCoinsFromAccountToModule (k_bankKeeper k) a CollateralPoolName (one_coin ?h h))) w
      = (Ok (), w\<lparr>w_bank := b1\<rparr>)"
      "bal b1 = (if can_pay bal locked (w_bank w) a ?h h then moved (bal (w_bank w)) a coll_addr (one_coin ?h h)
        else bal (w_bank w))"
    using ignored_payment [OF p(2) c(3) hq(1), of a w] by blast
  have "h \<le> bal b1 coll_addr ?h"
    using funds(1) bal_nonneg [of "w_bank w" coll_addr ?h] locked_nonneg [of a ?h]
    by (auto simp: b1(2) moved_def can_pay_def)
  then obtain b2 where b2: "BurnCoins (k_bankKeeper k) CollateralPoolName (one_coin ?h h) b1 = (Ok (), b2)"
      "bal b2 = (bal b1)(coll_addr := (bal b1 coll_addr)(?h := bal b1 coll_addr ?h - h))"
    using burn_coin [OF p(2) c(3) hq(1)] by blast
  have "\<not> covered (bal b2 coll_addr) (one_coin ?c ?q)"
    using funds(2) p(4) bal_nonneg [of "w_bank w" coll_addr ?c] by (auto simp: b2(2) b1(2) moved_def)
  then obtain e where "SendCoinsFromModuleToModule (k_bankKeeper k) CollateralPoolName RedeemPoolName (one_coin ?c ?q) b2
      = (Err e, b2)"
    using module_to_module_short [OF pools_registered one_coin_ok [OF p(3) hq(2,3)]] by blast
  moreover have "bind_o (Dec_Quo S (h * dec_one) (LegacyNewDec S 2)) (Dec_TruncateInt S) = Ok (Some ?q)"
    using half_amount [OF c(3,4)] by (simp add: NewDecFromInt)
  ultimately show ?thesis
    using b1(1) b2(1)
    by (intro exI [of _ b2]) (simp add: RedeemCollateral_def a c p Coin_IsValid hq bind_a_read Let_def
        NewDecFromInt NewCoin_ok NewCoins_one bind_a_apply wrap_a_apply act_simps)
qed

lemma RedeemCollateral_invalid:
  assumes "AccAddressFromBech32 S (rc_Creator msg) = Ok a" "Coin_IsValid S (rc_HalAmount msg) = Ok False"
  shows "RedeemCollateral S k now msg w = (Err (Wrapped SdkErrInvalidRequest ''HAL amount is invalid''), w)"
  using assms by (simp add: RedeemCollateral_def)

text \<open>A redemption that succeeds had a valid creator and amount, and the pools had the funds.\<close>

lemma RedeemCollateral_Ok_inv:
  assumes ok: "RedeemCollateral S k now msg w = (Ok resp, w')"
    and p: "GetParams k w = Ok p" "ValidateDenom S (hal_denom p)" "ValidateDenom S (collateral_denom p)"
      "hal_denom p \<noteq> collateral_denom p"
    and small: "\<forall>h. coin_Amount (rc_HalAmount msg) = Some h \<longrightarrow> h < 2 ^ 255"
  obtains a d' h where "AccAddressFromBech32 S (rc_Creator msg) = Ok a"
    "rc_HalAmount msg = \<lparr>coin_Denom = d', coin_Amount = Some h\<rparr>" "ValidateDenom S d'" "0 \<le> h" "h < 2 ^ 255"
    "can_pay bal locked (w_bank w) a (hal_denom p) h \<or> h \<le> bal (w_bank w) coll_addr (hal_denom p)"
    "h div 2 \<le> bal (w_bank w) coll_addr (collateral_denom p)"
proof -
  obtain a where a: "AccAddressFromBech32 S (rc_Creator msg) = Ok a"
    using ok RedeemCollateral_denied address_no_panic [of "rc_Creator msg"]
    by (cases "AccAddressFromBech32 S (rc_Creator msg)") auto
  have v: "Coin_IsValid S (rc_HalAmount msg) = Ok True"
    using ok RedeemCollateral_invalid [OF a] Coin_IsValid [of "rc_HalAmount msg"]
    by (cases "Coin_IsValid S (rc_HalAmount msg) = Ok False") auto
  then obtain d' h where c: "rc_HalAmount msg = \<lparr>coin_Denom = d', coin_Amount = Some h\<rparr>" "ValidateDenom S d'" "0 \<le> h"
    by (cases "rc_HalAmount msg") (auto simp: Coin_IsValid split: option.splits)
  with small have h: "h < 2 ^ 255" by simp
  have f1: "can_pay bal locked (w_bank w) a (hal_denom p) h \<or> h \<le> bal (w_bank w) coll_addr (hal_denom p)"
  proof (rule ccontr)
    assume "\<not> ?thesis"
    with RedeemCollateral_unpaid [OF a p(1,2) c h, of now] ok show False by auto
  qed
  have "h div 2 \<le> bal (w_bank w) coll_addr (collateral_denom p)"
  proof (rule ccontr)
    assume "\<not> ?thesis"
    with RedeemCollateral_pool_short [OF a p c h f1, of now] ok show False by auto
  qed
  with a c h f1 that show thesis by blast
qed

text \<open>The guard of \<open>MintHal\<close> lets negative amounts pass; the conversion to a coin panics.\<close>

lemma MintHal_negative:
  assumes a: "AccAddressFromBech32 S (mh_Creator msg) = Ok a"
    and p: "GetParams k w = Ok p"
    and c: "mh_CollateralAmount msg = \<lparr>coin_Denom = collateral_denom p, coin_Amount = Some n\<rparr>"
      "n < 0" "\<bar>2 * n\<bar> < 2 ^ 255"
  shows "\<exists>s. MintHal S k msg w = (Panic s, w)"
proof -
  obtain s where "NewCoin S (hal_denom p) (Some (2 * n)) = Panic s"
    using NewCoin_panic [of "hal_denom p" "2 * n"] c(2) by (cases "NewCoin S (hal_denom p) (Some (2 * n))") auto
  then show ?thesis
    using c(2) double_amount_abs [OF c(3)]
    by (intro exI [of _ s]) (simp add: MintHal_def a p c(1) Coin_IsValid Coin_IsZero bind_a_read Let_def
        NewDecFromInt)
qed

text \<open>A creator that may not receive from modules gets an error.\<close>

lemma MintHal_blocked:
  assumes a: "AccAddressFromBech32 S (mh_Creator msg) = Ok a" "blocked_addr N (k_accountKeeper k) a"
    and p: "GetParams k w = Ok p" "ValidateDenom S (hal_denom p)" "ValidateDenom S (collateral_denom p)"
    and c: "mh_CollateralAmount msg = \<lparr>coin_Denom = collateral_denom p, coin_Amount = Some n\<rparr>"
    and n: "0 \<le> n" "2 * n < 2 ^ 255" "total (w_bank w) (hal_denom p) + 2 * n < 2 ^ 256"
  shows "\<exists>w'. MintHal S k msg w =
    (Err (Wrapped SdkErrInsufficientFunds ''failed to send minted HAL coins to creator''), w')"
proof -
  let ?h = "hal_denom p"
  have n2: "0 \<le> 2 * n" "2 * n < 2 ^ 256" "\<bar>2 * n\<bar> < 2 ^ 255" using n by simp_all
  obtain b1 where b1: "MintCoins (k_bankKeeper k) CollateralPoolName (one_coin ?h (2 * n)) (w_bank w) = (Ok (), b1)"
    using mint_coin [OF p(2) n2(1) n(3)] by blast
  obtain e where e: "SendCoinsFromModuleToAccount (k_bankKeeper k) CollateralPoolName a (one_coin ?h (2 * n)) b1 = (Err e, b1)"
    using module_to_account_fail [OF pools_registered(1) one_coin_ok [OF p(2) n2(1,2)], of a b1] a(2) by blast
  show ?thesis
    using b1 e double_amount_abs [OF n2(3)]
    by (simp add: MintHal_def a(1) c p Coin_IsValid n(1) n2 bind_a_read Let_def NewDecFromInt
        NewCoin_ok NewCoins_one bind_a_apply wrap_a_apply act_simps)
qed

lemma MintHal_Ok_inv:
  assumes ok: "MintHal S k msg w = (Ok resp, w')"
    and p: "GetParams k w = Ok p" "ValidateDenom S (hal_denom p)" "ValidateDenom S (collateral_denom p)"
    and small: "\<forall>n. coin_Amount (mh_CollateralAmount msg) = Some n \<longrightarrow>
      \<bar>2 * n\<bar> < 2 ^ 255 \<and> total (w_bank w) (hal_denom p) + 2 * n < 2 ^ 256"
  obtains a n where "AccAddressFromBech32 S (mh_Creator msg) = Ok a" "\<not> blocked_addr N (k_accountKeeper k) a"
    "mh_CollateralAmount msg = \<lparr>coin_Denom = collateral_denom p, coin_Amount = Some n\<rparr>"
    "0 \<le> n" "2 * n < 2 ^ 255" "total (w_bank w) (hal_denom p) + 2 * n < 2 ^ 256"
proof -
  obtain a where a: "AccAddressFromBech32 S (mh_Creator msg) = Ok a"
    using ok MintHal_denied address_no_panic [of "mh_Creator msg"]
    by (cases "AccAddressFromBech32 S (mh_Creator msg)") auto
  obtain d m where m: "mh_CollateralAmount msg = \<lparr>coin_Denom = d, coin_Amount = m\<rparr>"
    by (cases "mh_CollateralAmount msg") simp
  obtain n where n: "m = Some n"
  proof (cases m)
    case None
    have "is_Panic (Coin_IsZero S (mh_CollateralAmount msg))"
      by (rule Coin_IsZero_nil) (simp add: m None)
    then obtain s where "Coin_IsZero S (mh_CollateralAmount msg) = Panic s"
      by (cases "Coin_IsZero S (mh_CollateralAmount msg)") auto
    with ok a None m show thesis by (simp add: MintHal_def Coin_IsValid)
  qed
  have d: "d = collateral_denom p"
    using MintHal_mismatch [OF a p(1), of n] ok m n by auto
  have c: "mh_CollateralAmount msg = \<lparr>coin_Denom = collateral_denom p, coin_Amount = Some n\<rparr>"
    by (simp add: m n d)
  have b: "\<bar>2 * n\<bar> < 2 ^ 255" "total (w_bank w) (hal_denom p) + 2 * n < 2 ^ 256"
    using small by (simp_all add: c)
  have n0: "0 \<le> n"
    using MintHal_negative [OF a p(1) c _ b(1)] ok by (cases "n < 0") auto
  have n2: "2 * n < 2 ^ 255" using b(1) by linarith
  have "\<not> blocked_addr N (k_accountKeeper k) a"
    using MintHal_blocked [OF a _ p c n0 n2 b(2)] ok by auto
  with a c n0 n2 b(2) that show thesis by blast
qed

text \<open>The handler of tickets pays into an account that does not exist.\<close>

lemma CreateTicket_paying_panics:
  assumes a: "AccAddressFromBech32 S (ct_Creator msg) = Ok a"
    and p: "GetParams k w = Ok p" "ValidateDenom S (hal_denom p)"
    and n: "length (ct_Issue msg) < 2 ^ 64" "int (length (ct_Issue msg)) \<le> bal (w_bank w) a (hal_denom p)"
  shows "\<exists>s. CreateTicket S k ctx ord msg w = (Panic s, w)"
proof -
  let ?n = "int (length (ct_Issue msg))"
  have u: "uint (word_of_nat (length (ct_Issue msg)) :: 64 word) = ?n"
    using n(1) by (simp add: unsigned_of_nat take_bit_nat_eq_self)
  obtain s where "SendCoinsFromAccountToModule (k_bankKeeper k) a TreasuryKey (one_coin (hal_denom p) ?n) (w_bank w)
      = (Panic s, w_bank w)"
    using account_to_module_unknown [OF treasury_not_registered] by blast
  then show ?thesis
    using n(2) by (intro exI [of _ s]) (simp add: CreateTicket_def a p bind_a_read Let_def NewUint u NewCoin_ok
        HasBalance NewCoins_one bind_a_apply wrap_a_apply act_simps)
qed

lemma CreateTicket_poor:
  assumes a: "AccAddressFromBech32 S (ct_Creator msg) = Ok a"
    and p: "GetParams k w = Ok p" "ValidateDenom S (hal_denom p)"
    and n: "length (ct_Issue msg) < 2 ^ 64" "bal (w_bank w) a (hal_denom p) < int (length (ct_Issue msg))"
  shows "CreateTicket S k ctx ord msg w
    = (Err (Wrapped SdkErrInsufficientFunds ''insufficient HAL tokens''), w)"
proof -
  have u: "uint (word_of_nat (length (ct_Issue msg)) :: 64 word) = int (length (ct_Issue msg))"
    using n(1) by (simp add: unsigned_of_nat take_bit_nat_eq_self)
  show ?thesis
    using n(2) by (simp add: CreateTicket_def a p bind_a_read Let_def NewUint u NewCoin_ok HasBalance)
qed

end

text \<open>Smaller cases.\<close>

context keeper_env
begin

lemma cannot_pay: "bal b a d < n \<Longrightarrow> 0 < n \<Longrightarrow> \<not> can_pay bal locked b a d n"
  using locked_nonneg [of a d] by (simp add: can_pay_def)

lemma valid_amount:
  "Coin_IsValid S c = Ok True \<Longrightarrow> coin_Amount c = Some h \<Longrightarrow>
     \<exists>d'. c = \<lparr>coin_Denom = d', coin_Amount = Some h\<rparr> \<and> ValidateDenom S d' \<and> 0 \<le> h"
  by (cases c) (simp add: Coin_IsValid)

lemma MintHal_zero_invalid:
  assumes "AccAddressFromBech32 S (mh_Creator msg) = Ok a"
    "mh_CollateralAmount msg = \<lparr>coin_Denom = d, coin_Amount = Some 0\<rparr>" "\<not> ValidateDenom S d"
  shows "MintHal S k msg w = (Err (Wrapped SdkErrInvalidRequest ''collateral amount is invalid or zero''), w)"
  using assms by (simp add: MintHal_def Coin_IsValid Coin_IsZero)

end

end
