(* ===== verification/Store_Invariant.thy ===== *)
theory Store_Invariant
  imports Msg_Server
begin

text \<open>
  \<open>GetAllRedeemRequests\<close> reads every value of the module's store as a redeem request. These lemmas
  tell which values of other kinds can be mistaken for one: parameters, counters and all
  tickets but the first cannot, the first ticket can.
\<close>

section \<open>Values that are not requests\<close>

lemma RedeemRequest_fields_len:
  "\<exists>st. RedeemRequest_fields X 2 = Some (LenDelim ''Collateral'' st)"
  "\<exists>st. RedeemRequest_fields X 3 = Some (LenDelim ''Completiontime'' st)"
  by (simp_all add: message_case_def std_case_def)

lemma as_request_rejects:
  "rejects PbRedeemRequest ''RedeemRequest'' (RedeemRequest_fields X) v RedeemRequest_Reset \<Longrightarrow>
     length v < 2 ^ 63 \<Longrightarrow> as_request X v = None"
  using rejects_unmarshal [of PbRedeemRequest "''RedeemRequest''" "RedeemRequest_fields X" v RedeemRequest_Reset]
  by (auto simp: as_request_def RedeemRequest_Unmarshal_def)

lemma counter_not_request: "unat c < 2 ^ 56 \<Longrightarrow> as_request X (PutUint64 c) = None"
proof (rule as_request_rejects)
  assume c: "unat c < 2 ^ 56"
  have "unat (drop_bit 56 c) = drop_bit 56 (unat c)"
    using unsigned_less [of c, where 'a = nat] by (simp add: unsigned_drop_bit_eq take_bit_nat_eq_self)
  then have "unat (drop_bit 56 c) = 0"
    using c by (simp only: drop_bit_eq_div) simp
  then have "drop_bit 56 c = 0"
    by (simp add: unsigned_eq_0_iff)
  then have "PutUint64 c = 0 # tl (PutUint64 c)"
    by (simp add: PutUint64_def)
  with rejects_zero [of PbRedeemRequest "''RedeemRequest''" "RedeemRequest_fields X" "tl (PutUint64 c)"]
  show "rejects PbRedeemRequest ''RedeemRequest'' (RedeemRequest_fields X) (PutUint64 c) RedeemRequest_Reset"
    by simp
qed simp

context wire_ext_laws
begin

lemma params_not_request:
  assumes "pa_MaxRedeemEntries p \<noteq> 0" "Params_wf X p"
  shows "as_request X (Params_enc X p) = None"
proof (rule as_request_rejects)
  let ?rej = "rejects PbRedeemRequest ''RedeemRequest'' (RedeemRequest_fields X)"
  have nz: "(scast (pa_MaxRedeemEntries p) :: 64 word) \<noteq> 0"
    using assms(1) scast_32_64_eq_0 by blast
  obtain st where st: "RedeemRequest_fields X 2 = Some (LenDelim ''Collateral'' st)"
    using RedeemRequest_fields_len(1) by blast
  have d: "decodes PbRedeemRequest ''RedeemRequest'' (RedeemRequest_fields X)
      (enc_len 0x0a (enc_duration X (pa_RedeemDur p))) RedeemRequest_Reset
      (RedeemRequest_Reset\<lparr>rr_Account := string_of (enc_duration X (pa_RedeemDur p))\<rparr>)"
    by (rule decodes_len [where n = 1], rule RedeemRequest_fields_simps(1) [unfolded string_case_def],
        rule tags) simp
  have r: "?rej ((0x10 # enc_varint (scast (pa_MaxRedeemEntries p))) @ rest) m" for rest m
    by (rule rejects_append, rule rejects_varint, rule st, rule tags)
  show "?rej (Params_enc X p) RedeemRequest_Reset"
    unfolding Params_enc_def enc_varint_field_def if_not_P [OF nz] by (rule decodes_rejects [OF d r])
  show "length (Params_enc X p) < 2 ^ 63"
    using assms(2) unfolding Params_wf_def Params_size_enc by simp
qed

lemma issue_decodes:
  assumes "length (bytes_of (tk_Issue t)) < 2 ^ 63" "rr_Collateral m = coin_zero"
  obtains m' where "decodes PbRedeemRequest ''RedeemRequest'' (RedeemRequest_fields X)
      (enc_string_field 0x12 (tk_Issue t)) m m'"
  | "rejects PbRedeemRequest ''RedeemRequest'' (RedeemRequest_fields X)
      (enc_string_field 0x12 (tk_Issue t)) m"
proof (cases "tk_Issue t = []")
  case True
  then have "decodes PbRedeemRequest ''RedeemRequest'' (RedeemRequest_fields X)
      (enc_string_field 0x12 (tk_Issue t)) m m"
    by (simp add: enc_string_field_def decodes_Nil)
  then show ?thesis by (rule that(1))
next
  case False
  then have e: "enc_string_field 0x12 (tk_Issue t) = enc_len 0x12 (bytes_of (tk_Issue t))"
    by (simp add: enc_string_field_def)
  show ?thesis
  proof (cases "CoinUnmarshal X (rr_Collateral m) (bytes_of (tk_Issue t))")
    case (Ok c)
    have "decodes PbRedeemRequest ''RedeemRequest'' (RedeemRequest_fields X)
        (enc_len 0x12 (bytes_of (tk_Issue t))) m (m\<lparr>rr_Collateral := c\<rparr>)"
      by (rule decodes_message [where n = 2], rule RedeemRequest_fields_simps, rule tags, rule Ok, rule refl)
    then show ?thesis unfolding e [symmetric] by (rule that(1))
  next
    case (Err er)
    have "rejects PbRedeemRequest ''RedeemRequest'' (RedeemRequest_fields X)
        (enc_len 0x12 (bytes_of (tk_Issue t))) m"
      by (rule rejects_len [where n = 2], rule RedeemRequest_fields_simps(2) [unfolded message_case_def],
          rule tags) (simp add: Err)
    then show ?thesis unfolding e [symmetric] by (rule that(2))
  next
    case (Panic s)
    with coin_no_panic [OF assms(1), of "rr_Collateral m"] show ?thesis by simp
  qed
qed

lemma author_decodes:
  "decodes PbRedeemRequest ''RedeemRequest'' (RedeemRequest_fields X) (enc_string_field 0x0a (tk_Author t))
     RedeemRequest_Reset (RedeemRequest_Reset\<lparr>rr_Account := tk_Author t\<rparr>)"
  by (rule decodes_string [where n = 1], rule RedeemRequest_fields_simps, rule tags)
    (simp add: RedeemRequest_Reset_def)

lemma ticket_not_request:
  assumes "tk_Id t \<noteq> 0" "ticket_ok t"
  shows "as_request X (Ticket_enc t) = None"
proof (rule as_request_rejects)
  let ?rej = "rejects PbRedeemRequest ''RedeemRequest'' (RedeemRequest_fields X)"
  let ?m = "RedeemRequest_Reset\<lparr>rr_Account := tk_Author t\<rparr>"
  have len: "length (Ticket_enc t) < 2 ^ 31"
    using assms(2) ticket_ok_value valid_value_def by blast
  then show "length (Ticket_enc t) < 2 ^ 63" by simp
  have "length (bytes_of (tk_Issue t)) \<le> length (Ticket_enc t)"
    by (simp add: Ticket_enc_def enc_string_field_def enc_len_def)
  then have il: "length (bytes_of (tk_Issue t)) < 2 ^ 63" using len by simp
  obtain st where st: "RedeemRequest_fields X 3 = Some (LenDelim ''Completiontime'' st)"
    using RedeemRequest_fields_len(2) by blast
  have id: "?rej (enc_varint_field 0x18 (tk_Id t)) m" for m
    unfolding enc_varint_field_def if_not_P [OF assms(1)]
    by (rule rejects_varint, rule st, rule tags)
  have "rr_Collateral ?m = coin_zero" by (simp add: RedeemRequest_Reset_def)
  with il have "?rej (enc_string_field 0x12 (tk_Issue t) @ enc_varint_field 0x18 (tk_Id t)) ?m"
    by (rule issue_decodes) (erule decodes_rejects, rule id, erule rejects_append)
  then have "?rej ((enc_string_field 0x12 (tk_Issue t) @ enc_varint_field 0x18 (tk_Id t))
      @ enc_string_field 0x22 (tk_AdditionalInfo t)) ?m"
    by (rule rejects_append)
  from decodes_rejects [OF author_decodes this] show "?rej (Ticket_enc t) RedeemRequest_Reset"
    by (simp add: Ticket_enc_def)
qed

text \<open>The first ticket reads as a request for its author if its issue reads as a coin.\<close>

lemma first_ticket_request:
  assumes "tk_Id t = 0" "ticket_ok t" "bytes_of (tk_Issue t) = enc_coin X c" "coin_ok c"
  shows "as_request X (Ticket_enc t) =
    Some \<lparr>rr_Account = tk_Author t, rr_Collateral = if tk_Issue t = [] then coin_zero else c,
      rr_Completiontime = time_zero\<rparr>"
proof -
  let ?d = "decodes PbRedeemRequest ''RedeemRequest'' (RedeemRequest_fields X)"
  let ?m = "RedeemRequest_Reset\<lparr>rr_Account := tk_Author t\<rparr>"
  let ?m' = "if tk_Issue t = [] then ?m else ?m\<lparr>rr_Collateral := c\<rparr>"
  have len: "length (Ticket_enc t) < 2 ^ 31"
    using assms(2) ticket_ok_value valid_value_def by blast
  have "length (enc_coin X c) \<le> length (Ticket_enc t)"
    by (simp add: Ticket_enc_def enc_string_field_def enc_len_def assms(3) [symmetric])
  then have cl: "length (enc_coin X c) < 2 ^ 63" using len by simp
  have coin: "CoinUnmarshal X (rr_Collateral ?m) (bytes_of (tk_Issue t)) = Ok c"
    using coin_roundtrip [OF assms(4) cl] by (simp add: assms(3) RedeemRequest_Reset_def)
  have "?d (enc_string_field 0x12 (tk_Issue t)) ?m ?m'"
  proof (cases "tk_Issue t = []")
    case True
    then show ?thesis by (simp add: enc_string_field_def decodes_Nil)
  next
    case False
    have "?d (enc_len 0x12 (bytes_of (tk_Issue t))) ?m (?m\<lparr>rr_Collateral := c\<rparr>)"
      by (rule decodes_message [where n = 2], rule RedeemRequest_fields_simps, rule tags, rule coin, rule refl)
    with False show ?thesis by (simp add: enc_string_field_def)
  qed
  moreover have "?d (enc_string_field 0x22 (tk_AdditionalInfo t)) ?m' ?m'"
  proof (cases "tk_AdditionalInfo t = []")
    case True
    then show ?thesis by (simp add: enc_string_field_def decodes_Nil)
  next
    case False
    have "?d (enc_len 0x22 (bytes_of (tk_AdditionalInfo t))) ?m' ?m'"
      by (rule decodes_skip [where n = 4], rule RedeemRequest_fields_simps, rule tags)
    with False show ?thesis by (simp add: enc_string_field_def)
  qed
  ultimately have "?d (Ticket_enc t) RedeemRequest_Reset ?m'"
    unfolding Ticket_enc_def using assms(1)
    by (intro decodes_append [OF author_decodes]) (simp add: enc_varint_field_def decodes_append)
  then have "RedeemRequest_Unmarshal X RedeemRequest_Reset (Ticket_enc t) = Ok ?m'"
    unfolding RedeemRequest_Unmarshal_def using len by (intro decodes_unmarshal) simp_all
  then show ?thesis
    by (simp add: as_request_def RedeemRequest_Reset_def)
qed

end

section \<open>The operations keep the invariant\<close>

context keeper_env
begin

lemma SetParams_requests_ok:
  assumes "requests_ok X (kv_map (w_kv w))" "params_ok X p" "pa_MaxRedeemEntries p \<noteq> 0"
    "SetParams k p w = (r, w')"
  shows "requests_ok X (kv_map (w_kv w'))"
proof -
  have "kv_map (w_kv w') = (kv_map (w_kv w))(ParamsKey \<mapsto> Params_enc X p)"
    using SetParams_effect [OF assms(2), of w] assms(4) by auto
  moreover have "length (Params_enc X p) < 2 ^ 63"
    using params_ok_value [OF assms(2)] by (simp add: valid_value_def)
  ultimately show ?thesis
    using assms(1) params_not_request [OF assms(3) params_ok_wf [OF assms(2)]]
    by (auto intro!: requests_ok_update)
qed

lemma AppendTicket_requests_ok:
  assumes "requests_ok X (kv_map (w_kv w))" "count_of (kv_map (w_kv w)) = Ok c" "c \<noteq> 0"
    "unat (c + 1) < 2 ^ 56" "ticket_ok (stored_ticket ctx ord post c)"
    "AppendTicket k ctx ord post w = (r, w')"
  shows "requests_ok X (kv_map (w_kv w'))"
proof -
  let ?t = "stored_ticket ctx ord post c"
  have m: "kv_map (w_kv w') = (kv_map (w_kv w))(ticket_store_key c \<mapsto> Ticket_enc ?t,
      counter_key \<mapsto> PutUint64 (c + 1))"
    using AppendTicket_effect [OF assms(2,5)] assms(6) by auto
  have "length (Ticket_enc ?t) < 2 ^ 63"
    using ticket_ok_value [OF assms(5)] by (simp add: valid_value_def)
  moreover have "as_request X (Ticket_enc ?t) = None"
    using assms(3) by (intro ticket_not_request assms(5)) (simp add: stored_ticket_def)
  moreover have "as_request X (PutUint64 (c + 1)) = None"
    by (rule counter_not_request [OF assms(4)])
  ultimately show ?thesis
    unfolding m using assms(1) by (intro requests_ok_update) simp_all
qed

lemma SetRedeemRequest_requests_ok:
  assumes "requests_ok X (kv_map (w_kv w))" "RedeemRequest_wf X r" "RedeemRequest_Size X r < 2 ^ 31"
    "length (rr_Account r) \<le> 1023" "SetRedeemRequest k r w = (res, w')"
  shows "requests_ok X (kv_map (w_kv w'))"
proof -
  have "kv_map (w_kv w') = (kv_map (w_kv w))(request_key (rr_Account r) \<mapsto> RedeemRequest_enc X r)"
    using SetRedeemRequest_effect [OF assms(2-4), of w] assms(5) by auto
  moreover have "length (RedeemRequest_enc X r) < 2 ^ 63"
    using assms(3) RedeemRequest_size_enc [OF RedeemRequest_wf_time [OF assms(2)]] by simp
  ultimately show ?thesis
    using requests_ok_set [OF assms(1,2)] by simp
qed

lemma deleted_requests_ok: "requests_ok X m \<Longrightarrow> requests_ok X (deleted ctx rs m)"
  by (auto simp: requests_ok_def deleted_def split: if_splits)

end

section \<open>The end of a block\<close>

context keeper_env
begin

text \<open>Laws of the interfaces, as facts about a keeper.\<close>

lemma bal_nonneg': "0 \<le> bal b a d"
  by (rule bal_nonneg)

lemma address_roundtrip':
  "AccAddressFromBech32 S s = Ok a \<Longrightarrow> AccAddressFromBech32 S (AccAddress_String S a) = Ok a"
  by (rule address_roundtrip)

lemma requests_ok_set':
  "requests_ok X m \<Longrightarrow> RedeemRequest_wf X r \<and> length (RedeemRequest_enc X r) < 2 ^ 63 \<Longrightarrow>
     requests_ok X (m(request_key (rr_Account r) \<mapsto> RedeemRequest_enc X r))"
  using requests_ok_set by blast

text \<open>Two lists of stored requests in the order of their keys are equal if their elements are.\<close>

lemma sorted_requests_eq:
  assumes "sorted_wrt (<) (map (\<lambda>r. request_key (rr_Account r)) rs)" "sorted_wrt (<) (map (\<lambda>r. request_key (rr_Account r)) rs')"
    and "set rs = set rs'" "\<forall>r\<in>set rs. is_request X m r"
  shows "rs = rs'"
proof -
  let ?f = "\<lambda>r. request_key (rr_Account r)"
  have "map ?f rs = map ?f rs'"
    using assms(1-3) by (intro strict_sorted_equal) simp_all
  moreover have "inj_on ?f (set rs \<union> set rs')"
    using assms(3,4) by (auto intro!: inj_onI is_request_unique [of m])
  ultimately show ?thesis by (rule map_inj_on)
qed

lemma EndBlocker_pays_lemma:
  assumes ok: "requests_ok X (kv_map (w_kv w))" and rs: "GetAllRedeemRequests S k w = Ok rs"
    and pay: "\<forall>r\<in>set rs. matured ctx r \<longrightarrow> payable S N (k_accountKeeper k) r"
    and funds: "\<forall>d. paid_out ctx rs d \<le> bal (w_bank w) pool_addr d"
  shows "\<exists>w'. EndBlocker S k ctx w = (Ok (), w') \<and> total (w_bank w') = total (w_bank w) \<and>
    kv_map (w_kv w') = deleted ctx rs (kv_map (w_kv w)) \<and>
    (\<forall>a d. bal (w_bank w') a d = bal (w_bank w) a d + paid_to S ctx rs a d
      - (if a = pool_addr then paid_out ctx rs d else 0)) \<and>
    GetAllRedeemRequests S k w' = Ok (filter (\<lambda>r. \<not> matured ctx r) rs)"
proof -
  let ?f = "\<lambda>r. request_key (rr_Account r)"
  have set: "set rs = {r. is_request X (kv_map (w_kv w)) r}" and sorted: "sorted_wrt (<) (map ?f rs)"
    using GetAllRedeemRequests_eq [OF ok] rs by auto
  obtain w' where w': "end_redeem_all S k ctx rs w = (Ok (), w')" "total (w_bank w') = total (w_bank w)"
      "kv_map (w_kv w') = deleted ctx rs (kv_map (w_kv w))"
      "\<forall>a d. bal (w_bank w') a d = bal (w_bank w) a d + paid_to S ctx rs a d
        - (if a = pool_addr then paid_out ctx rs d else 0)"
    using end_redeem_all_paid [OF pay funds] by auto
  have E: "EndBlocker S k ctx w = (Ok (), w')"
    using rs w'(1) by (simp add: EndBlocker_def EndRedeeming_def bind_a_read bind_a_apply)
  have ok': "requests_ok X (kv_map (w_kv w'))"
    unfolding w'(3) by (rule deleted_requests_ok [OF ok])
  obtain rs' where rs': "GetAllRedeemRequests S k w' = Ok rs'"
      "set rs' = {r. is_request X (kv_map (w_kv w')) r}" "sorted_wrt (<) (map ?f rs')"
    using GetAllRedeemRequests_eq [OF ok'] by blast
  have "rs' = filter (\<lambda>r. \<not> matured ctx r) rs"
  proof (rule sorted_requests_eq [where m = "kv_map (w_kv w')"])
    show "sorted_wrt (<) (map ?f (filter (\<lambda>r. \<not> matured ctx r) rs))"
      using sorted by (simp add: sorted_wrt_map sorted_wrt_filter)
    show "set rs' = set (filter (\<lambda>r. \<not> matured ctx r) rs)"
      using deleted_requests [OF set, of ctx] by (auto simp: rs'(2) w'(3) set)
  qed (use rs' in auto)
  with E w' rs'(1) show ?thesis by blast
qed

end

text \<open>A matured request of nothing makes the end of a block panic.\<close>

lemma EndBlocker_zero_panics:
  assumes env: "keeper_env X k kv_map S N bal tot locked" and ok: "requests_ok X (kv_map (w_kv w))"
    and r: "is_request X (kv_map (w_kv w)) r" "matured ctx r" "coin_Amount (rr_Collateral r) = Some 0"
    and a: "AccAddressFromBech32 S (rr_Account r) = Ok a" "\<not> blocked_addr N (k_accountKeeper k) a"
  shows "\<exists>s w'. EndBlocker S k ctx w = (Panic s, w')"
proof -
  obtain rs where rs: "GetAllRedeemRequests S k w = Ok rs" "set rs = {r. is_request X (kv_map (w_kv w)) r}"
    using keeper_env.GetAllRedeemRequests_eq [OF env ok] by blast
  have "\<forall>r\<in>set rs. coin_ok (rr_Collateral r)" by (auto simp: rs(2) is_request_def RedeemRequest_wf_def)
  from keeper_env.end_redeem_all_zero [OF env this _ r(2) a r(3)] r(1) rs(2) obtain s w' where
    "end_redeem_all S k ctx rs w = (Panic s, w')" by blast
  with rs(1) show ?thesis by (simp add: EndBlocker_def EndRedeeming_def bind_a_read bind_a_apply)
qed

context keeper_env
begin

lemma redeemed_wf:
  "storable X (redeemed_request S p now a h) \<Longrightarrow> 0 \<le> h \<Longrightarrow> h < 2 ^ 255 \<Longrightarrow>
     RedeemRequest_wf X (redeemed_request S p now a h) \<and>
     length (RedeemRequest_enc X (redeemed_request S p now a h)) < 2 ^ 63"
  using RedeemRequest_size_enc [of "redeemed_request S p now a h"]
  by (simp add: RedeemRequest_wf_def storable_def coin_ok_def)

end

section \<open>Values that stay\<close>

lemma request_key_not_ticket: "request_key a \<noteq> ticket_store_key i"
proof -
  have "hd (request_key a) \<noteq> hd (ticket_store_key i)"
    by (simp add: request_key_def RedeemRequestKeyPrefix_def ticket_store_key_def KeyPrefix_def TicketKey_def
        bytes_of_def)
  then show ?thesis by auto
qed

context keeper_env
begin

text \<open>The end of a block deletes nothing but requests, whatever it pays.\<close>

lemma end_redeem_keeps:
  assumes key: "\<And>a. key \<noteq> request_key a" and run: "end_redeem S k ctx r w = (res, w')"
  shows "kv_map (w_kv w') key = kv_map (w_kv w) key"
proof (cases "AccAddressFromBech32 S (rr_Account r)")
  case (Ok a)
  have del: "kv_map (w_kv (snd (DeleteRedeemRequest k (rr_Account r) u))) key = kv_map (w_kv u) key" for u
    using DeleteRedeemRequest_effect [OF address_input [OF Ok], of u] key by auto
  show ?thesis
  proof (cases "NewCoins S [rr_Collateral r]")
    case coins: (Ok cs)
    obtain x b' where "SendCoinsFromModuleToAccount (k_bankKeeper k) RedeemPoolName a cs (w_bank w) = (x, b')"
      by fastforce
    with run Ok coins del [of "w\<lparr>w_bank := b'\<rparr>"] show ?thesis
      by (cases x) (auto simp: end_redeem_def try_a_apply bind_a_read bind_a_apply GetBalance Int_GT act_simps
          split: if_splits)
  qed (use run Ok in \<open>auto simp: end_redeem_def try_a_apply bind_a_read bind_a_apply GetBalance act_simps split: if_splits\<close>)
qed (use run in \<open>auto simp: end_redeem_def try_a_apply act_simps split: if_splits\<close>)

lemma end_redeem_all_keeps:
  assumes key: "\<And>a. key \<noteq> request_key a"
  shows "end_redeem_all S k ctx rs w = (res, w') \<Longrightarrow> kv_map (w_kv w') key = kv_map (w_kv w) key"
proof (induction rs arbitrary: w)
  case (Cons r rs)
  obtain x u where u: "end_redeem S k ctx r w = (x, u)" by fastforce
  from Cons.prems Cons.IH [of u] end_redeem_keeps [OF key u] show ?case
    by (cases x) (auto simp: u bind_a_apply)
qed simp

lemma EndBlocker_keeps:
  assumes key: "\<And>a. key \<noteq> request_key a" and run: "EndBlocker S k ctx w = (res, w')"
  shows "kv_map (w_kv w') key = kv_map (w_kv w) key"
proof (cases "GetAllRedeemRequests S k w")
  case (Ok rs)
  obtain x u where u: "end_redeem_all S k ctx rs w = (x, u)" by fastforce
  from run end_redeem_all_keeps [OF key u] show ?thesis
    by (cases x) (auto simp: EndBlocker_def EndRedeeming_def bind_a_read Ok u bind_a_apply)
qed (use run in \<open>auto simp: EndBlocker_def EndRedeeming_def bind_a_read bind_a_apply\<close>)

lemma first_ticket_request':
  "tk_Id t = 0 \<Longrightarrow> ticket_ok t \<Longrightarrow> bytes_of (tk_Issue t) = enc_coin X c \<Longrightarrow> coin_ok c \<Longrightarrow>
     as_request X (Ticket_enc t) =
       Some \<lparr>rr_Account = tk_Author t, rr_Collateral = if tk_Issue t = [] then coin_zero else c,
         rr_Completiontime = time_zero\<rparr>"
  by (rule first_ticket_request)

text \<open>A value that decodes as a request is in the list of requests, whatever its key.\<close>

lemma GetAllRedeemRequests_any:
  assumes small: "\<And>key v. kv_map (w_kv w) key = Some v \<Longrightarrow> length v < 2 ^ 63"
    and v: "kv_map (w_kv w) key = Some v" "as_request X v = Some r"
  shows "\<exists>rs. GetAllRedeemRequests S k w = Ok rs \<and> r \<in> set rs"
proof -
  obtain l where l: "kv_Iterator (k_store k) None None (w_kv w) = Ok l" "sorted_wrt (<) (map fst l)"
      "map_of l = kv_map (w_kv w)"
    using kv_Iterator_all by blast
  then have "distinct (map fst l)" by (simp add: strict_sorted_iff)
  then have mem: "(key, v) \<in> set l \<longleftrightarrow> kv_map (w_kv w) key = Some v" for key v
    using l(3) by (metis map_of_eq_Some_iff)
  have "collect_requests k l = Ok (requests_in X l)"
    using small mem by (intro collect_requests_eq) auto
  moreover have "r \<in> set (requests_in X l)"
    using v mem by (auto simp: in_requests_in)
  ultimately show ?thesis by (simp add: GetAllRedeemRequests_def l(1))
qed

end

end
