(* ===== verification/Hal_Module.thy ===== *)
theory Hal_Module
  imports Msg_Server
begin

text \<open>
  \<open>x/hal/module\<close>: the genesis of the module and the hooks through which the application runs it.
  JSON encoding, module addresses and dependency injection are code of other packages; the
  first two are parameters here.
\<close>

section \<open>Genesis\<close>

definition InitGenesis :: "sdk_lib \<Rightarrow> ('s, 'b) keeper \<Rightarrow> genesis_state \<Rightarrow> (('s, 'b) world, unit) act" where
  "InitGenesis S k genState =
     (\<lambda>w. case SetParams k (gs_Params genState) w of
        (Err err, w') \<Rightarrow> (Panic (err_Error S err), w')
      | r \<Rightarrow> r)"

definition ExportGenesis :: "('s, 'b) keeper \<Rightarrow> ('s, 'b) world \<Rightarrow> genesis_state outcome" where
  "ExportGenesis k w =
     (let genesis = DefaultGenesis
      in bind_o (GetParams k w) (\<lambda>params. Ok (genesis\<lparr>gs_Params := params\<rparr>)))"

section \<open>The application module\<close>

text \<open>A raw JSON message is a string.\<close>

record json_codec =
  MustMarshalJSON :: "genesis_state \<Rightarrow> string outcome"
  UnmarshalJSON :: "string \<Rightarrow> genesis_state outcome"
  MustUnmarshalJSON :: "string \<Rightarrow> genesis_state outcome"

definition AppModuleBasic_DefaultGenesis :: "json_codec \<Rightarrow> string outcome" where
  "AppModuleBasic_DefaultGenesis cdc = MustMarshalJSON cdc DefaultGenesis"

definition AppModuleBasic_ValidateGenesis :: "sdk_lib \<Rightarrow> json_codec \<Rightarrow> string \<Rightarrow> unit outcome" where
  "AppModuleBasic_ValidateGenesis S cdc bz =
     (case UnmarshalJSON cdc bz of
        Err err \<Rightarrow> Err (Errorf (''failed to unmarshal '' @ ModuleName @ '' genesis state: '' @ err_Error S err))
      | Panic s \<Rightarrow> Panic s
      | Ok genState \<Rightarrow> GenesisState_Validate genState)"

record ('s, 'b) app_module =
  am_cdc :: codec
  am_keeper :: "('s, 'b) keeper"
  am_accountKeeper :: account_keeper
  am_bankKeeper :: "'b bank_keeper"

definition NewAppModule ::
    "codec \<Rightarrow> ('s, 'b) keeper \<Rightarrow> account_keeper \<Rightarrow> 'b bank_keeper \<Rightarrow> ('s, 'b) app_module" where
  "NewAppModule cdc keeper accountKeeper bankKeeper =
     \<lparr>am_cdc = cdc, am_keeper = keeper, am_accountKeeper = accountKeeper, am_bankKeeper = bankKeeper\<rparr>"

definition AppModule_InitGenesis ::
    "sdk_lib \<Rightarrow> ('s, 'b) app_module \<Rightarrow> json_codec \<Rightarrow> string \<Rightarrow> (('s, 'b) world, unit) act" where
  "AppModule_InitGenesis S am cdc gs =
     bind_a (lift_a (MustUnmarshalJSON cdc gs)) (\<lambda>genState. InitGenesis S (am_keeper am) genState)"

definition AppModule_ExportGenesis ::
    "('s, 'b) app_module \<Rightarrow> json_codec \<Rightarrow> ('s, 'b) world \<Rightarrow> string outcome" where
  "AppModule_ExportGenesis am cdc w =
     bind_o (ExportGenesis (am_keeper am) w) (\<lambda>genState. MustMarshalJSON cdc genState)"

definition AppModuleBasic_Name :: string where
  "AppModuleBasic_Name = ModuleName"

definition ConsensusVersion :: "64 word" where
  "ConsensusVersion = 1"

definition BeginBlock :: "sdk_lib \<Rightarrow> ('s, 'b) app_module \<Rightarrow> (('s, 'b) world, unit) act" where
  "BeginBlock S am = bind_a (BeginBlocker S (am_keeper am)) (\<lambda>_. ret_a ())"

definition EndBlock :: "sdk_lib \<Rightarrow> ('s, 'b) app_module \<Rightarrow> sdk_context \<Rightarrow> (('s, 'b) world, unit) act" where
  "EndBlock S am ctx = bind_a (EndBlocker S (am_keeper am) ctx) (\<lambda>_. ret_a ())"

text \<open>\<open>ProvideModule\<close>: the authority is the governance account unless the configuration names
  another.\<close>

record address_lib =
  NewModuleAddress :: "string \<Rightarrow> acc_address"
  NewModuleAddressOrBech32Address :: "string \<Rightarrow> acc_address"

record ('s, 'b) module_inputs =
  in_StoreService :: "'s kvstore"
  in_Cdc :: codec
  in_Authority :: string
  in_AccountKeeper :: account_keeper
  in_BankKeeper :: "'b bank_keeper"

definition ProvideModule :: "sdk_lib \<Rightarrow> address_lib \<Rightarrow> ext_names \<Rightarrow> ('s, 'b) module_inputs \<Rightarrow>
    (('s, 'b) keeper \<times> ('s, 'b) app_module) outcome" where
  "ProvideModule S L N inp =
     (let authority = (if in_Authority inp \<noteq> [] then NewModuleAddressOrBech32Address L (in_Authority inp)
                       else NewModuleAddress L (gov_ModuleName N))
      in bind_o (NewKeeper S (in_Cdc inp) (in_StoreService inp) (AccAddress_String S authority)
             (in_AccountKeeper inp) (in_BankKeeper inp)) (\<lambda>k.
           Ok (k, NewAppModule (in_Cdc inp) k (in_AccountKeeper inp) (in_BankKeeper inp))))"

end
