(* ===== verification/Fixtures.thy ===== *)
theory Fixtures
  imports Store_Invariant Hal_Module Ledger
begin

text \<open>
  Concrete states for the witnesses: a chain with the default parameters, and accounts that hold
  collateral and HAL on the reference ledger.
\<close>

definition alice :: string where "alice = ''hal1alice''"

definition alice_addr :: acc_address where "alice_addr = bytes_of ''alice''"

definition units :: "nat \<Rightarrow> acc_address \<Rightarrow> string \<Rightarrow> ledger" where
  "units n a d = replicate_mset n (a, d)"

definition coll_pool :: acc_address where "coll_pool = bytes_of CollateralPoolName"

definition redeem_pool :: acc_address where "redeem_pool = bytes_of RedeemPoolName"

definition fx_store :: ref_store where
  "fx_store = RBT.insert ParamsKey (Params_enc ref_ext DefaultParams) RBT.empty"

text \<open>Before minting: 100 collateral. After minting with 50 of it. After redeeming 100 HAL.\<close>

definition fx_start :: ref_world where
  "fx_start = \<lparr>w_kv = fx_store, w_bank = units 100 alice_addr ''Stake''\<rparr>"

definition fx_minted :: ref_world where
  "fx_minted = \<lparr>w_kv = fx_store,
     w_bank = units 50 alice_addr ''Stake'' + units 100 alice_addr ''HAL'' + units 50 coll_pool ''Stake''\<rparr>"

definition fx_ctx :: sdk_context where
  "fx_ctx = \<lparr>ctx_BlockTime = 1700000000 * second, ctx_ChainID = ''halborn''\<rparr>"

lemma ledger_units [simp]:
  "ledger_bal (units n a d) a' d' = (if a' = a \<and> d' = d then int n else 0)"
  "ledger_total (units n a d) d' = (if d' = d then int n else 0)"
  by (auto simp: units_def ledger_bal_def ledger_total_def filter_replicate)

lemma ref_address_pools [simp]:
  "GetModuleAddress ref_accounts CollateralPoolName = coll_pool"
  "GetModuleAddress ref_accounts RedeemPoolName = redeem_pool"
  using ref_app.pools_registered
  by (simp_all add: ref_accounts_def ref_registered_def coll_pool_def redeem_pool_def)

lemma fx_addresses [simp]:
  "coll_pool \<noteq> redeem_pool" "redeem_pool \<noteq> coll_pool" "alice_addr \<noteq> coll_pool" "coll_pool \<noteq> alice_addr"
  "alice_addr \<noteq> redeem_pool" "redeem_pool \<noteq> alice_addr"
  by (simp_all add: coll_pool_def redeem_pool_def alice_addr_def CollateralPoolName_def RedeemPoolName_def)

lemma alice_address [simp]: "AccAddressFromBech32 ref_sdk alice = Ok alice_addr"
  by (simp add: alice_def alice_addr_def ref_sdk_def ref_AccAddressFromBech32_def ref_address_prefix_def)

lemma alice_String [simp]: "AccAddress_String ref_sdk alice_addr = alice"
  by (simp add: alice_def alice_addr_def ref_sdk_def ref_address_prefix_def)

lemma alice_not_blocked [simp]: "\<not> blocked_addr ref_names ref_accounts alice_addr"
  by (auto simp: blocked_addr_def blockAccAddrs_def ref_accounts_def ref_names_def alice_addr_def)

lemma fx_denoms [simp]: "ref_ValidateDenom ''HAL''" "ref_ValidateDenom ''Stake''"
  by code_simp+

lemma DefaultParams_denoms [simp]:
  "hal_denom DefaultParams = ''HAL''" "collateral_denom DefaultParams = ''Stake''"
  by (simp_all add: DefaultParams_def NewParams_def DefaultHalMeta_def DefaultCollateralMetas_def)

lemma fx_params_ok: "params_ok ref_ext DefaultParams"
  unfolding params_ok_def by code_simp

lemma fx_store_params: "RBT.lookup fx_store ParamsKey = Some (Params_enc ref_ext DefaultParams)"
  by (simp add: fx_store_def)

lemma fx_GetParams: "w_kv w = fx_store \<Longrightarrow> GetParams ref_keeper w = Ok DefaultParams"
  using ref_env.GetParams_stored [OF fx_params_ok, of w] fx_store_params by simp

lemma fx_kv [simp]: "w_kv fx_start = fx_store" "w_kv fx_minted = fx_store"
  by (simp_all add: fx_start_def fx_minted_def)

lemmas fx_env = ref_env.keeper_env_axioms

lemmas fx_bank_simps = fx_start_def fx_minted_def ledger_simps(1,3)

end
