(* ===== verification/Keeper_Properties.thy ===== *)
theory Keeper_Properties
  imports Fixtures
begin

text \<open>
  Properties of the keeper: parameters and genesis, tickets, the store of redeem requests, and the
  hooks of a block. They hold for every keeper whose packages satisfy \<open>keeper_env\<close>; the
  witnesses apply them to the reference keeper.
\<close>

section \<open>Parameters and genesis\<close>

text \<open>C20: Parameters that are set are the parameters that \<open>GetParams\<close> and the \<open>Params\<close> query return
  afterwards; nothing else in the store changes, nor does the bank.\<close>

theorem SetParams_GetParams:
  assumes env: "keeper_env X k kv_map S N bal tot locked" and p: "params_ok X p"
  shows "\<exists>w'. SetParams k p w = (Ok (), w') \<and> GetParams k w' = Ok p \<and>
    Params_query k (Some q) w' = Ok \<lparr>qp_Params = p\<rparr> \<and> w_bank w' = w_bank w \<and>
    kv_map (w_kv w') = (kv_map (w_kv w))(ParamsKey \<mapsto> Params_enc X p)"
proof -
  obtain s' where s': "SetParams k p w = (Ok (), w\<lparr>w_kv := s'\<rparr>)"
      "kv_map s' = (kv_map (w_kv w))(ParamsKey \<mapsto> Params_enc X p)"
    using keeper_env.SetParams_effect [OF env p] by blast
  then have "GetParams k (w\<lparr>w_kv := s'\<rparr>) = Ok p"
    using keeper_env.GetParams_stored [OF env p, of "w\<lparr>w_kv := s'\<rparr>"] by simp
  with s' show ?thesis by (simp add: Params_query_def)
qed

theorem SetParams_GetParams_witness:
  "\<exists>w'. SetParams ref_keeper DefaultParams \<lparr>w_kv = RBT.empty, w_bank = {#}\<rparr> = (Ok (), w') \<and>
     GetParams ref_keeper w' = Ok DefaultParams"
  using SetParams_GetParams [OF fx_env fx_params_ok] by blast

text \<open>C21: A genesis state that is imported is the one that is exported.\<close>

theorem genesis_roundtrip:
  assumes env: "keeper_env X k kv_map S N bal tot locked" and p: "params_ok X (gs_Params g)"
  shows "\<exists>w'. InitGenesis S k g w = (Ok (), w') \<and> ExportGenesis k w' = Ok g"
proof -
  obtain s' where s': "SetParams k (gs_Params g) w = (Ok (), w\<lparr>w_kv := s'\<rparr>)"
      "kv_map s' = (kv_map (w_kv w))(ParamsKey \<mapsto> Params_enc X (gs_Params g))"
    using keeper_env.SetParams_effect [OF env p] by blast
  then have "GetParams k (w\<lparr>w_kv := s'\<rparr>) = Ok (gs_Params g)"
    using keeper_env.GetParams_stored [OF env p, of "w\<lparr>w_kv := s'\<rparr>"] by simp
  then have "ExportGenesis k (w\<lparr>w_kv := s'\<rparr>) = Ok g"
    by (cases g) (simp add: ExportGenesis_def Let_def)
  with s' show ?thesis by (simp add: InitGenesis_def)
qed

theorem genesis_roundtrip_witness:
  "\<exists>w'. InitGenesis ref_sdk ref_keeper DefaultGenesis \<lparr>w_kv = RBT.empty, w_bank = {#}\<rparr> = (Ok (), w') \<and>
     ExportGenesis ref_keeper w' = Ok DefaultGenesis"
proof -
  have "params_ok ref_ext (gs_Params DefaultGenesis)"
    using fx_params_ok by (simp add: DefaultGenesis_def)
  then show ?thesis by (rule genesis_roundtrip [OF fx_env])
qed

text \<open>C22: Only the authority changes the parameters: a message signed by anyone else is rejected with
  \<open>ErrInvalidSigner\<close> and changes nothing, a message of the authority sets the parameters it
  carries.\<close>

theorem UpdateParams_authority:
  assumes env: "keeper_env X k kv_map S N bal tot locked" and p: "params_ok X (up_Params req)"
  shows "if up_Authority req = k_authority k
    then \<exists>w'. UpdateParams k req w = (Ok MsgUpdateParamsResponse_Reset, w') \<and> GetParams k w' = Ok (up_Params req)
    else \<exists>s. UpdateParams k req w = (Err (Wrapped ErrInvalidSigner s), w)"
proof -
  obtain s' where s': "SetParams k (up_Params req) w = (Ok (), w\<lparr>w_kv := s'\<rparr>)"
      "kv_map s' = (kv_map (w_kv w))(ParamsKey \<mapsto> Params_enc X (up_Params req))"
    using keeper_env.SetParams_effect [OF env p] by blast
  then have "GetParams k (w\<lparr>w_kv := s'\<rparr>) = Ok (up_Params req)"
    using keeper_env.GetParams_stored [OF env p, of "w\<lparr>w_kv := s'\<rparr>"] by simp
  with s' show ?thesis by (auto simp: UpdateParams_def GetAuthority_def bind_a_apply)
qed

theorem UpdateParams_authority_witness:
  "\<exists>s. UpdateParams ref_keeper \<lparr>up_Authority = alice, up_Params = DefaultParams\<rparr> fx_start
     = (Err (Wrapped ErrInvalidSigner s), fx_start)"
  using UpdateParams_authority [OF fx_env, of "\<lparr>up_Authority = alice, up_Params = DefaultParams\<rparr>" fx_start]
    fx_params_ok
  by (simp add: ref_authority_def alice_def)

section \<open>Tickets\<close>

text \<open>C23: \<open>AppendTicket\<close> returns the counter, stores the ticket with that id under it, and advances the
  counter by one modulo \<open>2 ^ 64\<close>; every other entry of the store keeps its value.\<close>

theorem AppendTicket_stores:
  assumes env: "keeper_env X k kv_map S N bal tot locked"
    and c: "GetTicketCount k w = Ok c" "c \<noteq> counter_clash" "ticket_ok (stored_ticket ctx ord post c)"
  shows "\<exists>w'. AppendTicket k ctx ord post w = (Ok c, w') \<and> w_bank w' = w_bank w \<and>
    GetTicketCount k w' = Ok (c + 1) \<and>
    kv_map (w_kv w') (ticket_store_key c) = Some (Ticket_enc (stored_ticket ctx ord post c)) \<and>
    (\<forall>key. key \<notin> {ticket_store_key c, counter_key} \<longrightarrow> kv_map (w_kv w') key = kv_map (w_kv w) key)"
proof -
  have "count_of (kv_map (w_kv w)) = Ok c"
    using c(1) by (simp add: keeper_env.GetTicketCount_eq [OF env])
  then obtain s' where s': "AppendTicket k ctx ord post w = (Ok c, w\<lparr>w_kv := s'\<rparr>)"
      "kv_map s' = (kv_map (w_kv w))(ticket_store_key c \<mapsto> Ticket_enc (stored_ticket ctx ord post c),
        counter_key \<mapsto> PutUint64 (c + 1))"
    using keeper_env.AppendTicket_effect [OF env _ c(3)] by blast
  have "ticket_store_key c \<noteq> counter_key"
    using c(2) by (simp add: ticket_key_eq_counter)
  with s' show ?thesis
    by (intro exI [of _ "w\<lparr>w_kv := s'\<rparr>"])
      (simp add: keeper_env.GetTicketCount_eq [OF env] count_of_def)
qed

definition fx_ticket :: ticket where
  "fx_ticket = Ticket_Reset\<lparr>tk_Author := alice, tk_Issue := ''help''\<rparr>"

lemma fx_ticket_ok: "ticket_ok (stored_ticket fx_ctx id fx_ticket 0)" "ticket_ok (stored_ticket fx_ctx rev fx_ticket 0)"
  by code_simp+

lemma fx_store_lookup: "key \<noteq> ParamsKey \<Longrightarrow> RBT.lookup fx_store key = None"
  by (simp add: fx_store_def)

lemma counter_key_not_params: "counter_key \<noteq> ParamsKey"
  by (simp add: counter_key_def KeyPrefix_def TicketKeyCounter_def ParamsKey_def)

lemma fx_count: "count_of (RBT.lookup fx_store) = Ok 0"
  using fx_store_lookup [OF counter_key_not_params] by (simp add: count_of_def)

theorem AppendTicket_stores_witness:
  "\<exists>w'. AppendTicket ref_keeper fx_ctx id fx_ticket fx_start = (Ok 0, w') \<and> GetTicketCount ref_keeper w' = Ok 1"
proof -
  have "GetTicketCount ref_keeper fx_start = Ok 0"
    by (simp add: keeper_env.GetTicketCount_eq [OF fx_env] fx_count)
  moreover have "(0 :: 64 word) \<noteq> counter_clash" by (simp add: counter_clash_def)
  ultimately show ?thesis
    using AppendTicket_stores [OF fx_env _ _ fx_ticket_ok(1)] by fastforce
qed

text \<open>A series of appends, each in its own context.\<close>

fun append_tickets :: "('s, 'b) keeper \<Rightarrow> (sdk_context \<times> map_order \<times> ticket) list \<Rightarrow>
    (('s, 'b) world, 64 word list) act" where
  "append_tickets k [] = ret_a []"
| "append_tickets k ((ctx, ord, post) # rest) =
     bind_a (AppendTicket k ctx ord post) (\<lambda>i.
     bind_a (append_tickets k rest) (\<lambda>is. ret_a (i # is)))"

definition tickets_fit :: "(sdk_context \<times> map_order \<times> ticket) list \<Rightarrow> bool" where
  "tickets_fit ts \<longleftrightarrow> (\<forall>(ctx, ord, post)\<in>set ts. \<forall>i. ticket_ok (stored_ticket ctx ord post i))"

lemma append_tickets_stored:
  assumes env: "keeper_env X k kv_map S N bal tot locked"
  shows "count_of (kv_map (w_kv w)) = Ok c \<Longrightarrow> tickets_fit ts \<Longrightarrow> unat c + length ts \<le> unat counter_clash \<Longrightarrow>
    \<exists>s'. append_tickets k ts w = (Ok (map (\<lambda>i. c + word_of_nat i) [0..<length ts]), w\<lparr>w_kv := s'\<rparr>) \<and>
      (\<forall>i<length ts. case ts ! i of (ctx, ord, post) \<Rightarrow>
        kv_map s' (ticket_store_key (c + word_of_nat i))
          = Some (Ticket_enc (stored_ticket ctx ord post (c + word_of_nat i)))) \<and>
      (\<forall>j. unat j < unat c \<longrightarrow> kv_map s' (ticket_store_key j) = kv_map (w_kv w) (ticket_store_key j))"
proof (induction ts arbitrary: c w)
  case Nil
  then show ?case by (intro exI [of _ "w_kv w"]) simp
next
  case (Cons t ts)
  obtain ctx ord post where t: "t = (ctx, ord, post)" by (cases t) auto
  have bound: "unat counter_clash < 2 ^ 63" by (simp add: counter_clash_def)
  have c1: "unat (c + 1) = unat c + 1"
    using Cons.prems(3) bound by (simp add: unat_add_lem [THEN iffD1])
  have cc: "c \<noteq> counter_clash" using Cons.prems(3) by auto
  have nc: "ticket_store_key j \<noteq> counter_key" if "unat j < unat counter_clash" for j
    using that by (auto simp: ticket_key_eq_counter)
  have fit: "ticket_ok (stored_ticket ctx ord post c)" "tickets_fit ts"
    using Cons.prems(2) t by (auto simp: tickets_fit_def)
  obtain s1 where s1: "AppendTicket k ctx ord post w = (Ok c, w\<lparr>w_kv := s1\<rparr>)"
      "kv_map s1 = (kv_map (w_kv w))(ticket_store_key c \<mapsto> Ticket_enc (stored_ticket ctx ord post c),
        counter_key \<mapsto> PutUint64 (c + 1))"
    using keeper_env.AppendTicket_effect [OF env Cons.prems(1) fit(1)] by blast
  have "count_of (kv_map (w_kv (w\<lparr>w_kv := s1\<rparr>))) = Ok (c + 1)"
    by (simp add: s1(2) count_of_def)
  moreover have "unat (c + 1) + length ts \<le> unat counter_clash"
    using Cons.prems(3) c1 by simp
  ultimately obtain s2 where s2:
      "append_tickets k ts (w\<lparr>w_kv := s1\<rparr>)
        = (Ok (map (\<lambda>i. c + 1 + word_of_nat i) [0..<length ts]), w\<lparr>w_kv := s2\<rparr>)"
      "\<forall>i<length ts. case ts ! i of (ctx, ord, post) \<Rightarrow>
        kv_map s2 (ticket_store_key (c + 1 + word_of_nat i))
          = Some (Ticket_enc (stored_ticket ctx ord post (c + 1 + word_of_nat i)))"
      "\<forall>j. unat j < unat (c + 1) \<longrightarrow> kv_map s2 (ticket_store_key j) = kv_map s1 (ticket_store_key j)"
    using Cons.IH [OF _ fit(2), of "w\<lparr>w_kv := s1\<rparr>" "c + 1"] by auto
  have ids: "c # map (\<lambda>i. c + 1 + word_of_nat i) [0..<length ts] = map (\<lambda>i. c + word_of_nat i) [0..<length (t # ts)]"
    by (simp add: upt_conv_Cons map_Suc_upt [symmetric] del: upt_Suc)
  have "append_tickets k (t # ts) w = (Ok (map (\<lambda>i. c + word_of_nat i) [0..<length (t # ts)]), w\<lparr>w_kv := s2\<rparr>)"
    using s1(1) s2(1) ids by (simp add: t bind_a_apply)
  moreover have "case (t # ts) ! i of (ctx, ord, post) \<Rightarrow>
      kv_map s2 (ticket_store_key (c + word_of_nat i)) = Some (Ticket_enc (stored_ticket ctx ord post (c + word_of_nat i)))"
    if "i < length (t # ts)" for i
  proof (cases i)
    case 0
    have "kv_map s2 (ticket_store_key c) = kv_map s1 (ticket_store_key c)"
      using s2(3) c1 by simp
    with 0 t s1(2) cc show ?thesis by (simp add: ticket_key_eq_counter)
  next
    case (Suc n)
    with that s2(2) have "case ts ! n of (ctx, ord, post) \<Rightarrow>
        kv_map s2 (ticket_store_key (c + 1 + word_of_nat n))
          = Some (Ticket_enc (stored_ticket ctx ord post (c + 1 + word_of_nat n)))" by simp
    moreover have "c + word_of_nat i = c + 1 + word_of_nat n" by (simp add: Suc add.assoc)
    ultimately show ?thesis by (simp add: Suc add.assoc)
  qed
  moreover have "kv_map s2 (ticket_store_key j) = kv_map (w_kv w) (ticket_store_key j)" if "unat j < unat c" for j
  proof -
    have "unat j < unat counter_clash" "j \<noteq> c" using that Cons.prems(3) by auto
    with nc [of j] s2(3) c1 that show ?thesis by (auto simp: s1(2))
  qed
  ultimately show ?case by blast
qed

text \<open>Tickets that are created one after the other get consecutive ids from the counter on, and all of
  them stay in the store: no later ticket overwrites an earlier one before the id that shares
  the counter's key.\<close>

lemma tickets_consecutive:
  assumes env: "keeper_env X k kv_map S N bal tot locked"
    and "GetTicketCount k w = Ok c" "tickets_fit ts" "unat c + length ts \<le> unat counter_clash"
  shows "\<exists>w'. append_tickets k ts w = (Ok (map (\<lambda>i. c + word_of_nat i) [0..<length ts]), w') \<and>
    (\<forall>i<length ts. case ts ! i of (ctx, ord, post) \<Rightarrow>
      kv_map (w_kv w') (ticket_store_key (c + word_of_nat i))
        = Some (Ticket_enc (stored_ticket ctx ord post (c + word_of_nat i))))"
proof -
  have "count_of (kv_map (w_kv w)) = Ok c"
    using assms(2) by (simp add: keeper_env.GetTicketCount_eq [OF env])
  from append_tickets_stored [OF env this assms(3,4)] show ?thesis by auto
qed

definition fx_tickets :: "(sdk_context \<times> map_order \<times> ticket) list" where
  "fx_tickets = [(fx_ctx, id, fx_ticket), (fx_ctx, rev, fx_ticket)]"

lemma sov_small: "sov v \<le> 10"
  by (rule sov_le_10)

lemma fx_tickets_fit: "tickets_fit fx_tickets"
proof -
  have "ticket_ok (stored_ticket fx_ctx ord fx_ticket i)"
    if "length (add_infos (ord (ticket_metadata fx_ctx)) []) \<le> 1000" for ord i
  proof -
    let ?t = "stored_ticket fx_ctx ord fx_ticket i"
    have "length (tk_Author ?t) \<le> 9" "length (tk_Issue ?t) \<le> 4" "length (tk_AdditionalInfo ?t) \<le> 1000"
      using that by (simp_all add: stored_ticket_def fx_ticket_def Ticket_Reset_def alice_def)
    then have "Ticket_Size ?t \<le> 1100"
      using sov_small [of "word_of_nat (length (tk_Author ?t))"] sov_small [of "word_of_nat (length (tk_Issue ?t))"]
        sov_small [of "word_of_nat (length (tk_AdditionalInfo ?t))"] sov_small [of "tk_Id ?t"]
      by (simp add: Ticket_Size_def Let_def)
    then show ?thesis by (simp add: ticket_ok_def)
  qed
  moreover have "length (add_infos (id (ticket_metadata fx_ctx)) []) \<le> 1000"
    "length (add_infos (rev (ticket_metadata fx_ctx)) []) \<le> 1000"
    by code_simp+
  ultimately show ?thesis
    by (simp add: tickets_fit_def fx_tickets_def)
qed

lemma tickets_consecutive_example:
  "\<exists>w'. append_tickets ref_keeper fx_tickets fx_start = (Ok [0, 1], w')"
proof -
  have "GetTicketCount ref_keeper fx_start = Ok 0"
    by (simp add: keeper_env.GetTicketCount_eq [OF fx_env] fx_count)
  moreover have "unat (0 :: 64 word) + length fx_tickets \<le> unat counter_clash"
    by (simp add: fx_tickets_def counter_clash_def)
  moreover have "map (\<lambda>i. 0 + word_of_nat i :: 64 word) [0..<length fx_tickets] = [0, 1]"
    by (simp add: fx_tickets_def upt_rec)
  ultimately show ?thesis
    using tickets_consecutive [OF fx_env _ fx_tickets_fit, of fx_start 0] by auto
qed

lemma add_infos_order: "add_infos (ticket_metadata ctx) s \<noteq> add_infos (rev (ticket_metadata ctx)) s"
proof -
  have "drop (length s) (add_infos (ticket_metadata ctx) s) ! 1 = CHR ''s''"
    "drop (length s) (add_infos (rev (ticket_metadata ctx)) s) ! 1 = CHR ''c''"
    by (simp_all add: add_infos_def ticket_metadata_def)
  then show ?thesis by auto
qed

text \<open>C24: The stored ticket depends on the order in which the metadata map is visited: two nodes that
  visit it in source order and in reverse store different bytes for the same ticket.\<close>

theorem AppendTicket_order_dependent:
  assumes env: "keeper_env X k kv_map S N bal tot locked"
    and c: "GetTicketCount k w = Ok c" "c \<noteq> counter_clash"
    and t: "ticket_ok (stored_ticket ctx id post c)" "ticket_ok (stored_ticket ctx rev post c)"
  shows "\<exists>w1 w2. AppendTicket k ctx id post w = (Ok c, w1) \<and> AppendTicket k ctx rev post w = (Ok c, w2) \<and>
    kv_map (w_kv w1) (ticket_store_key c) \<noteq> kv_map (w_kv w2) (ticket_store_key c)"
proof -
  have cnt: "count_of (kv_map (w_kv w)) = Ok c"
    using c(1) by (simp add: keeper_env.GetTicketCount_eq [OF env])
  have key: "ticket_store_key c \<noteq> counter_key"
    using c(2) by (simp add: ticket_key_eq_counter)
  have "\<exists>w'. AppendTicket k ctx ord post w = (Ok c, w') \<and>
      kv_map (w_kv w') (ticket_store_key c) = Some (Ticket_enc (stored_ticket ctx ord post c))"
    if "ticket_ok (stored_ticket ctx ord post c)" for ord
    using keeper_env.AppendTicket_effect [OF env cnt that] key by force
  from this [OF t(1)] this [OF t(2)] obtain w1 w2 where
    "AppendTicket k ctx id post w = (Ok c, w1)" "AppendTicket k ctx rev post w = (Ok c, w2)"
    "kv_map (w_kv w1) (ticket_store_key c) = Some (Ticket_enc (stored_ticket ctx id post c))"
    "kv_map (w_kv w2) (ticket_store_key c) = Some (Ticket_enc (stored_ticket ctx rev post c))"
    by blast
  moreover have "Ticket_enc (stored_ticket ctx id post c) \<noteq> Ticket_enc (stored_ticket ctx rev post c)"
  proof
    assume eq: "Ticket_enc (stored_ticket ctx id post c) = Ticket_enc (stored_ticket ctx rev post c)"
    have "stored_ticket ctx id post c = stored_ticket ctx rev post c"
      by (rule Ticket.enc_inject) (use t eq in \<open>simp_all add: ticket_ok_def\<close>)
    then have "tk_AdditionalInfo (stored_ticket ctx id post c) = tk_AdditionalInfo (stored_ticket ctx rev post c)"
      by simp
    then show False using add_infos_order [of ctx] by (simp add: stored_ticket_def)
  qed
  ultimately show ?thesis by auto
qed

theorem AppendTicket_order_dependent_witness:
  "\<exists>w1 w2. AppendTicket ref_keeper fx_ctx id fx_ticket fx_start = (Ok 0, w1) \<and>
     AppendTicket ref_keeper fx_ctx rev fx_ticket fx_start = (Ok 0, w2) \<and> w1 \<noteq> w2"
proof -
  have "GetTicketCount ref_keeper fx_start = Ok 0"
    by (simp add: keeper_env.GetTicketCount_eq [OF fx_env] fx_count)
  moreover have "(0 :: 64 word) \<noteq> counter_clash" by (simp add: counter_clash_def)
  ultimately show ?thesis
    using AppendTicket_order_dependent [OF fx_env _ _ fx_ticket_ok] by metis
qed

end
