(* ===== verification/Msg_Properties.thy ===== *)
theory Msg_Properties
  imports Fixtures
begin

text \<open>
  Properties of the message server: what minting and redeeming do to balances, supply and store on
  every branch, and how the guards of the handlers fail.
\<close>

section \<open>Minting\<close>

text \<open>C5: \<open>MintHal\<close> mints twice the collateral amount to the creator and moves the collateral to the
  collateral pool if the creator can pay it; no other balance changes, nor does the store. The
  response carries the minted coin.\<close>

theorem MintHal_mints:
  assumes env: "keeper_env X k kv_map S N bal tot locked"
    and a: "AccAddressFromBech32 S (mh_Creator msg) = Ok a" "\<not> blocked_addr N (k_accountKeeper k) a"
    and p: "GetParams k w = Ok p" "ValidateDenom S (hal_denom p)" "ValidateDenom S (collateral_denom p)"
      "hal_denom p \<noteq> collateral_denom p"
    and c: "mh_CollateralAmount msg = \<lparr>coin_Denom = collateral_denom p, coin_Amount = Some n\<rparr>"
    and n: "0 \<le> n" "2 * n < 2 ^ 255" "tot (w_bank w) (hal_denom p) + 2 * n < 2 ^ 256"
  shows "\<exists>b'. MintHal S k msg w =
      (Ok \<lparr>mhr_MintedAmount = \<lparr>coin_Denom = hal_denom p, coin_Amount = Some (2 * n)\<rparr>\<rparr>, w\<lparr>w_bank := b'\<rparr>) \<and>
    tot b' = (tot (w_bank w))(hal_denom p := tot (w_bank w) (hal_denom p) + 2 * n) \<and>
    (\<forall>x d. bal b' x d = bal (w_bank w) x d + (if x = a \<and> d = hal_denom p then 2 * n else 0)
      + (if can_pay bal locked (w_bank w) a (collateral_denom p) n \<and> d = collateral_denom p
         then (if x = GetModuleAddress (k_accountKeeper k) CollateralPoolName then n else 0)
           - (if x = a then n else 0) else 0))"
  by (rule keeper_env.MintHal_effect [OF env a p c n])

definition fx_mint :: "nat \<Rightarrow> msg_mint_hal" where
  "fx_mint n = \<lparr>mh_Creator = alice, mh_CollateralAmount = \<lparr>coin_Denom = ''Stake'', coin_Amount = Some (int n)\<rparr>\<rparr>"

lemma fx_mint_simps [simp]:
  "mh_Creator (fx_mint n) = alice"
  "mh_CollateralAmount (fx_mint n) = \<lparr>coin_Denom = ''Stake'', coin_Amount = Some (int n)\<rparr>"
  by (simp_all add: fx_mint_def)

theorem MintHal_mints_witness:
  "\<exists>b'. MintHal ref_sdk ref_keeper (fx_mint 50) fx_start =
      (Ok \<lparr>mhr_MintedAmount = \<lparr>coin_Denom = ''HAL'', coin_Amount = Some 100\<rparr>\<rparr>, fx_start\<lparr>w_bank := b'\<rparr>) \<and>
    ledger_total b' ''HAL'' = 100 \<and> ledger_bal b' alice_addr ''HAL'' = 100 \<and>
    ledger_bal b' alice_addr ''Stake'' = 50 \<and> ledger_bal b' coll_pool ''Stake'' = 50"
proof -
  have p: "GetParams ref_keeper fx_start = Ok DefaultParams" by (simp add: fx_GetParams)
  have "can_pay ledger_bal (\<lambda>_ _. 0) (w_bank fx_start) alice_addr ''Stake'' 50"
    by (simp add: can_pay_def fx_bank_simps)
  with MintHal_mints [OF fx_env _ _ p, of "fx_mint 50" alice_addr 50] show ?thesis
    by (auto simp: fx_bank_simps)
qed

text \<open>C16: The payment of \<open>MintHal\<close> is not checked: a creator who cannot pay the collateral still gets the
  HAL, and nothing is taken from the creator or added to a pool.\<close>

theorem MintHal_unpaid:
  assumes env: "keeper_env X k kv_map S N bal tot locked"
    and a: "AccAddressFromBech32 S (mh_Creator msg) = Ok a" "\<not> blocked_addr N (k_accountKeeper k) a"
    and p: "GetParams k w = Ok p" "ValidateDenom S (hal_denom p)" "ValidateDenom S (collateral_denom p)"
      "hal_denom p \<noteq> collateral_denom p"
    and c: "mh_CollateralAmount msg = \<lparr>coin_Denom = collateral_denom p, coin_Amount = Some n\<rparr>"
    and n: "0 < n" "2 * n < 2 ^ 255" "tot (w_bank w) (hal_denom p) + 2 * n < 2 ^ 256"
    and poor: "bal (w_bank w) a (collateral_denom p) < n"
  shows "\<exists>resp b'. MintHal S k msg w = (Ok resp, w\<lparr>w_bank := b'\<rparr>) \<and>
    bal b' = (bal (w_bank w))(a := (bal (w_bank w) a)(hal_denom p := bal (w_bank w) a (hal_denom p) + 2 * n))"
proof -
  note no = keeper_env.cannot_pay [OF env poor n(1)]
  obtain resp b' where b': "MintHal S k msg w = (Ok resp, w\<lparr>w_bank := b'\<rparr>)"
      "\<And>x d. bal b' x d = bal (w_bank w) x d + (if x = a \<and> d = hal_denom p then 2 * n else 0)"
    using keeper_env.MintHal_effect [OF env a p c _ n(2,3)] n(1) no by auto
  then have "bal b' = (bal (w_bank w))(a := (bal (w_bank w) a)(hal_denom p := bal (w_bank w) a (hal_denom p) + 2 * n))"
    by (intro ext) simp
  with b'(1) show ?thesis by blast
qed

lemma ledger_empty: "ledger_bal {#} a d = 0" "ledger_total {#} d = 0"
  by (simp_all add: ledger_bal_def ledger_total_def)

definition poor_world :: ref_world where
  "poor_world = \<lparr>w_kv = fx_store, w_bank = {#}\<rparr>"

theorem MintHal_unpaid_witness:
  "\<exists>resp b'. MintHal ref_sdk ref_keeper (fx_mint 50) poor_world = (Ok resp, poor_world\<lparr>w_bank := b'\<rparr>) \<and>
     ledger_bal b' alice_addr ''HAL'' = 100"
proof -
  have p: "GetParams ref_keeper poor_world = Ok DefaultParams" by (simp add: fx_GetParams poor_world_def)
  show ?thesis
    using MintHal_unpaid [OF fx_env _ _ p, of "fx_mint 50" alice_addr 50]
    by (auto simp: poor_world_def ledger_empty)
qed

text \<open>C17: The failures of \<open>MintHal\<close>: a creator that is not an address, a coin of another denomination than
  the collateral and a zero coin of an invalid denomination are rejected with an error, a
  negative amount makes the handler panic, and none of them changes the state.\<close>

theorem MintHal_failures:
  assumes env: "keeper_env X k kv_map S N bal tot locked" and p: "GetParams k w = Ok p"
  shows "(AccAddressFromBech32 S (mh_Creator msg) = Err e \<longrightarrow> MintHal S k msg w = (Err (invalid_creator S e), w)) \<and>
    (AccAddressFromBech32 S (mh_Creator msg) = Ok a \<and> mh_CollateralAmount msg = \<lparr>coin_Denom = d, coin_Amount = Some n\<rparr> \<longrightarrow>
      (d \<noteq> collateral_denom p \<longrightarrow> (\<exists>s. MintHal S k msg w = (Err (Wrapped SdkErrInvalidRequest s), w))) \<and>
      (\<not> ValidateDenom S d \<and> n = 0 \<longrightarrow>
        MintHal S k msg w = (Err (Wrapped SdkErrInvalidRequest ''collateral amount is invalid or zero''), w)) \<and>
      (d = collateral_denom p \<and> n < 0 \<and> \<bar>2 * n\<bar> < 2 ^ 255 \<longrightarrow> (\<exists>s. MintHal S k msg w = (Panic s, w))))"
  using keeper_env.MintHal_denied [OF env] keeper_env.MintHal_mismatch [OF env _ p, of msg a n]
    keeper_env.MintHal_negative [OF env _ p, of msg a n] keeper_env.MintHal_zero_invalid [OF env, of msg a d w]
  by auto

theorem MintHal_failures_witness:
  "\<exists>s. MintHal ref_sdk ref_keeper \<lparr>mh_Creator = alice, mh_CollateralAmount = \<lparr>coin_Denom = ''HAL'', coin_Amount = Some 5\<rparr>\<rparr>
     fx_start = (Err (Wrapped SdkErrInvalidRequest s), fx_start)"
proof -
  have "GetParams ref_keeper fx_start = Ok DefaultParams" by (simp add: fx_GetParams)
  from MintHal_failures [OF fx_env this, where d = "''HAL''" and n = 5 and a = alice_addr] show ?thesis by simp
qed

text \<open>C10: Minting keeps the condition that the supply check tests: if the HAL supply covers twice the
  collateral in the pools before, it does so after.\<close>

theorem MintHal_keeps_cover:
  assumes env: "keeper_env X k kv_map S N bal tot locked"
    and ok: "MintHal S k msg w = (Ok resp, w')"
    and p: "GetParams k w = Ok p" "ValidateDenom S (hal_denom p)" "ValidateDenom S (collateral_denom p)"
      "hal_denom p \<noteq> collateral_denom p"
    and small: "\<forall>n. coin_Amount (mh_CollateralAmount msg) = Some n \<longrightarrow>
      \<bar>2 * n\<bar> < 2 ^ 255 \<and> tot (w_bank w) (hal_denom p) + 2 * n < 2 ^ 256"
    and cover: "2 * pools bal (k_accountKeeper k) (w_bank w) (collateral_denom p) \<le> tot (w_bank w) (hal_denom p)"
  shows "2 * pools bal (k_accountKeeper k) (w_bank w') (collateral_denom p) \<le> tot (w_bank w') (hal_denom p)"
proof -
  let ?coll = "GetModuleAddress (k_accountKeeper k) CollateralPoolName"
  let ?pool = "GetModuleAddress (k_accountKeeper k) RedeemPoolName"
  obtain a n where a: "AccAddressFromBech32 S (mh_Creator msg) = Ok a" "\<not> blocked_addr N (k_accountKeeper k) a"
    and c: "mh_CollateralAmount msg = \<lparr>coin_Denom = collateral_denom p, coin_Amount = Some n\<rparr>"
    and n: "0 \<le> n" "2 * n < 2 ^ 255" "tot (w_bank w) (hal_denom p) + 2 * n < 2 ^ 256"
    by (rule keeper_env.MintHal_Ok_inv [OF env ok p(1-3) small])
  obtain b' where b': "w' = w\<lparr>w_bank := b'\<rparr>"
      "tot b' = (tot (w_bank w))(hal_denom p := tot (w_bank w) (hal_denom p) + 2 * n)"
      "\<forall>x d. bal b' x d = bal (w_bank w) x d + (if x = a \<and> d = hal_denom p then 2 * n else 0)
      + (if can_pay bal locked (w_bank w) a (collateral_denom p) n \<and> d = collateral_denom p
         then (if x = ?coll then n else 0) - (if x = a then n else 0) else 0)"
    using keeper_env.MintHal_effect [OF env a p c n] ok by auto
  have "bal b' ?coll (collateral_denom p) + bal b' ?pool (collateral_denom p)
      \<le> bal (w_bank w) ?coll (collateral_denom p) + bal (w_bank w) ?pool (collateral_denom p) + n"
    using p(4) n(1) keeper_env.pools_differ [OF env] by (auto simp: b'(3))
  with cover n(1) show ?thesis by (simp add: b'(1,2) pools_def)
qed

lemma fx_mint_ok: "\<exists>resp w'. MintHal ref_sdk ref_keeper (fx_mint 50) fx_start = (Ok resp, w')"
proof -
  have p: "GetParams ref_keeper fx_start = Ok DefaultParams" by (simp add: fx_GetParams)
  show ?thesis
    using keeper_env.MintHal_effect [OF fx_env _ _ p, of "fx_mint 50" alice_addr 50]
    by (auto simp: fx_bank_simps)
qed

theorem MintHal_keeps_cover_witness:
  "\<exists>resp w'. MintHal ref_sdk ref_keeper (fx_mint 50) fx_start = (Ok resp, w') \<and>
     2 * pools ledger_bal ref_accounts (w_bank w') ''Stake'' \<le> ledger_total (w_bank w') ''HAL''"
proof -
  obtain resp w' where ok: "MintHal ref_sdk ref_keeper (fx_mint 50) fx_start = (Ok resp, w')"
    using fx_mint_ok by blast
  have p: "GetParams ref_keeper fx_start = Ok DefaultParams" by (simp add: fx_GetParams)
  have "2 * pools ledger_bal ref_accounts (w_bank w') ''Stake'' \<le> ledger_total (w_bank w') ''HAL''"
    using MintHal_keeps_cover [OF fx_env ok p] by (simp add: pools_def fx_bank_simps)
  with ok show ?thesis by blast
qed

section \<open>Redeeming\<close>

text \<open>C6: \<open>RedeemCollateral\<close> burns the HAL amount, moves half of it, rounded down, as collateral from the
  collateral pool to the redeem pool, and stores a request that matures the redeem duration
  after the time of the node. The HAL is taken from the creator, or, when the creator cannot
  pay, from the collateral pool itself; the denomination of the message is not looked at.\<close>

theorem RedeemCollateral_redeems:
  assumes env: "keeper_env X k kv_map S N bal tot locked"
    and a: "AccAddressFromBech32 S (rc_Creator msg) = Ok a"
    and p: "GetParams k w = Ok p" "ValidateDenom S (hal_denom p)" "ValidateDenom S (collateral_denom p)"
      "hal_denom p \<noteq> collateral_denom p"
    and c: "rc_HalAmount msg = \<lparr>coin_Denom = d', coin_Amount = Some h\<rparr>" "ValidateDenom S d'"
      "0 \<le> h" "h < 2 ^ 255"
    and funds: "can_pay bal locked (w_bank w) a (hal_denom p) h \<or>
        h \<le> bal (w_bank w) (GetModuleAddress (k_accountKeeper k) CollateralPoolName) (hal_denom p)"
      "h div 2 \<le> bal (w_bank w) (GetModuleAddress (k_accountKeeper k) CollateralPoolName) (collateral_denom p)"
    and st: "storable X (redeemed_request S p now a h)"
  shows "\<exists>s' b'. RedeemCollateral S k now msg w =
      (Ok \<lparr>rcr_BurnedAmount = \<lparr>coin_Denom = hal_denom p, coin_Amount = Some h\<rparr>,
           rcr_CompletionTime = time_Add now (pa_RedeemDur p)\<rparr>, w\<lparr>w_bank := b', w_kv := s'\<rparr>) \<and>
    kv_map s' = (kv_map (w_kv w))(request_key (AccAddress_String S a) \<mapsto>
      RedeemRequest_enc X (redeemed_request S p now a h)) \<and>
    tot b' = (tot (w_bank w))(hal_denom p := tot (w_bank w) (hal_denom p) - h) \<and>
    (\<forall>x d. bal b' x d = bal (w_bank w) x d
      - (if d = hal_denom p \<and>
           x = (if can_pay bal locked (w_bank w) a (hal_denom p) h then a
                else GetModuleAddress (k_accountKeeper k) CollateralPoolName) then h else 0)
      + (if d = collateral_denom p
         then (if x = GetModuleAddress (k_accountKeeper k) RedeemPoolName then h div 2 else 0)
           - (if x = GetModuleAddress (k_accountKeeper k) CollateralPoolName then h div 2 else 0) else 0))"
  by (rule keeper_env.RedeemCollateral_effect [OF env a p c funds st])

definition fx_redeem :: "string \<Rightarrow> nat \<Rightarrow> msg_redeem_collateral" where
  "fx_redeem d h = \<lparr>rc_Creator = alice, rc_HalAmount = \<lparr>coin_Denom = d, coin_Amount = Some (int h)\<rparr>\<rparr>"

definition fx_now :: gtime where
  "fx_now = 1698000000 * second"

lemma fx_redeem_simps [simp]:
  "rc_Creator (fx_redeem d h) = alice"
  "rc_HalAmount (fx_redeem d h) = \<lparr>coin_Denom = d, coin_Amount = Some (int h)\<rparr>"
  by (simp_all add: fx_redeem_def)

lemma fx_storable:
  "storable ref_ext (redeemed_request ref_sdk DefaultParams fx_now alice_addr 60)"
  "storable ref_ext (redeemed_request ref_sdk DefaultParams fx_now alice_addr 100)"
  "storable ref_ext (redeemed_request ref_sdk DefaultParams fx_now alice_addr 1)"
  unfolding storable_def by code_simp+

theorem RedeemCollateral_redeems_witness:
  "\<exists>w'. RedeemCollateral ref_sdk ref_keeper fx_now (fx_redeem ''HAL'' 60) fx_minted =
      (Ok \<lparr>rcr_BurnedAmount = \<lparr>coin_Denom = ''HAL'', coin_Amount = Some 60\<rparr>,
           rcr_CompletionTime = time_Add fx_now (pa_RedeemDur DefaultParams)\<rparr>, w') \<and>
     ledger_bal (w_bank w') redeem_pool ''Stake'' = 30 \<and> ledger_bal (w_bank w') alice_addr ''HAL'' = 40"
proof -
  have p: "GetParams ref_keeper fx_minted = Ok DefaultParams" by (simp add: fx_GetParams)
  have "can_pay ledger_bal (\<lambda>_ _. 0) (w_bank fx_minted) alice_addr ''HAL'' 60"
    by (simp add: can_pay_def fx_bank_simps)
  with RedeemCollateral_redeems [OF fx_env _ p, of "fx_redeem ''HAL'' 60" alice_addr "''HAL''" 60 fx_now] fx_storable(1)
  show ?thesis
    by (auto simp: fx_bank_simps)
qed

text \<open>C18: The failures of \<open>RedeemCollateral\<close>: a creator that is not an address, an invalid amount and HAL
  that neither the creator nor the pool holds give an error without an effect on store, balances
  or supply; a collateral pool that is too small gives an error as well.\<close>

theorem RedeemCollateral_failures:
  assumes env: "keeper_env X k kv_map S N bal tot locked"
    and p: "GetParams k w = Ok p" "ValidateDenom S (hal_denom p)" "ValidateDenom S (collateral_denom p)"
      "hal_denom p \<noteq> collateral_denom p"
  shows "(AccAddressFromBech32 S (rc_Creator msg) = Err e \<longrightarrow>
      RedeemCollateral S k now msg w = (Err (invalid_creator S e), w)) \<and>
    (AccAddressFromBech32 S (rc_Creator msg) = Ok a \<longrightarrow>
      (Coin_IsValid S (rc_HalAmount msg) = Ok False \<longrightarrow>
        RedeemCollateral S k now msg w = (Err (Wrapped SdkErrInvalidRequest ''HAL amount is invalid''), w)) \<and>
      (Coin_IsValid S (rc_HalAmount msg) = Ok True \<and> coin_Amount (rc_HalAmount msg) = Some h \<and> h < 2 ^ 255 \<longrightarrow>
        (\<not> can_pay bal locked (w_bank w) a (hal_denom p) h \<and>
          bal (w_bank w) (GetModuleAddress (k_accountKeeper k) CollateralPoolName) (hal_denom p) < h \<longrightarrow>
          (\<exists>b'. RedeemCollateral S k now msg w
              = (Err (Wrapped SdkErrUnauthorized ''failed to burn HAL coins''), w\<lparr>w_bank := b'\<rparr>) \<and>
            bal b' = bal (w_bank w) \<and> tot b' = tot (w_bank w))) \<and>
        (can_pay bal locked (w_bank w) a (hal_denom p) h \<and>
          bal (w_bank w) (GetModuleAddress (k_accountKeeper k) CollateralPoolName) (collateral_denom p) < h div 2 \<longrightarrow>
          (\<exists>w'. RedeemCollateral S k now msg w = (Err (Wrapped SdkErrInsufficientFunds
            ''failed to transfer collateral tokens to redeem pool''), w')))))"
proof -
  let ?coll = "GetModuleAddress (k_accountKeeper k) CollateralPoolName"
  have c: "\<exists>d'. rc_HalAmount msg = \<lparr>coin_Denom = d', coin_Amount = Some h\<rparr> \<and> ValidateDenom S d' \<and> 0 \<le> h"
    if "Coin_IsValid S (rc_HalAmount msg) = Ok True" "coin_Amount (rc_HalAmount msg) = Some h"
    by (rule keeper_env.valid_amount [OF env that])
  have unpaid: "\<exists>b'. RedeemCollateral S k now msg w
              = (Err (Wrapped SdkErrUnauthorized ''failed to burn HAL coins''), w\<lparr>w_bank := b'\<rparr>) \<and>
            bal b' = bal (w_bank w) \<and> tot b' = tot (w_bank w)"
    if "AccAddressFromBech32 S (rc_Creator msg) = Ok a" "Coin_IsValid S (rc_HalAmount msg) = Ok True"
      "coin_Amount (rc_HalAmount msg) = Some h" "h < 2 ^ 255" "\<not> can_pay bal locked (w_bank w) a (hal_denom p) h"
      "bal (w_bank w) ?coll (hal_denom p) < h"
    using c [OF that(2,3)] keeper_env.RedeemCollateral_unpaid [OF env that(1) p(1,2) _ _ _ that(4-6)] by blast
  have short: "\<exists>w'. RedeemCollateral S k now msg w = (Err (Wrapped SdkErrInsufficientFunds
            ''failed to transfer collateral tokens to redeem pool''), w')"
    if "AccAddressFromBech32 S (rc_Creator msg) = Ok a" "Coin_IsValid S (rc_HalAmount msg) = Ok True"
      "coin_Amount (rc_HalAmount msg) = Some h" "h < 2 ^ 255" "can_pay bal locked (w_bank w) a (hal_denom p) h"
      "bal (w_bank w) ?coll (collateral_denom p) < h div 2"
    using c [OF that(2,3)] keeper_env.RedeemCollateral_pool_short [OF env that(1) p _ _ _ that(4) disjI1 [OF that(5)] that(6)]
    by blast
  show ?thesis
    using keeper_env.RedeemCollateral_denied [OF env] keeper_env.RedeemCollateral_invalid [OF env] unpaid short
    by simp
qed

theorem RedeemCollateral_failures_witness:
  "\<exists>b'. RedeemCollateral ref_sdk ref_keeper fx_now (fx_redeem ''HAL'' 10) fx_start
     = (Err (Wrapped SdkErrUnauthorized ''failed to burn HAL coins''), fx_start\<lparr>w_bank := b'\<rparr>) \<and>
     ledger_bal b' = ledger_bal (w_bank fx_start)"
proof -
  have p: "GetParams ref_keeper fx_start = Ok DefaultParams" by (simp add: fx_GetParams)
  have "\<not> can_pay ledger_bal (\<lambda>_ _. 0) (w_bank fx_start) alice_addr ''HAL'' 10"
    by (simp add: can_pay_def fx_bank_simps)
  moreover have "Coin_IsValid ref_sdk (rc_HalAmount (fx_redeem ''HAL'' 10)) = Ok True"
    by (simp add: ref_sdk.Coin_IsValid)
  ultimately show ?thesis
    using RedeemCollateral_failures [OF fx_env p, where msg = "fx_redeem ''HAL'' 10" and now = fx_now
        and a = alice_addr and h = 10]
    by (auto simp: fx_bank_simps)
qed

section \<open>Tickets\<close>

text \<open>C19: No ticket can be created: the fee is paid to a module account that the application does not
  have, so \<open>CreateTicket\<close> panics when the creator holds the fee and returns an error
  when not; the state stays as it was.\<close>

theorem CreateTicket_never_succeeds:
  assumes env: "keeper_env X k kv_map S N bal tot locked"
    and a: "AccAddressFromBech32 S (ct_Creator msg) = Ok a"
    and p: "GetParams k w = Ok p" "ValidateDenom S (hal_denom p)" and n: "length (ct_Issue msg) < 2 ^ 64"
  shows "if int (length (ct_Issue msg)) \<le> bal (w_bank w) a (hal_denom p)
    then \<exists>s. CreateTicket S k ctx ord msg w = (Panic s, w)
    else CreateTicket S k ctx ord msg w = (Err (Wrapped SdkErrInsufficientFunds ''insufficient HAL tokens''), w)"
  using keeper_env.CreateTicket_paying_panics [OF env a p n] keeper_env.CreateTicket_poor [OF env a p n] by simp

theorem CreateTicket_never_succeeds_witness:
  "\<exists>s. CreateTicket ref_sdk ref_keeper fx_ctx id \<lparr>ct_Creator = alice, ct_Author = alice, ct_Issue = ''help''\<rparr> fx_minted
     = (Panic s, fx_minted)"
proof -
  have p: "GetParams ref_keeper fx_minted = Ok DefaultParams" by (simp add: fx_GetParams)
  show ?thesis
    using CreateTicket_never_succeeds [OF fx_env _ p,
        of "\<lparr>ct_Creator = alice, ct_Author = alice, ct_Issue = ''help''\<rparr>" alice_addr]
    by (simp add: fx_bank_simps)
qed

end
