(* ===== verification/Block_Properties.thy ===== *)
theory Block_Properties
  imports Msg_Properties
begin

text \<open>
  Properties of the hooks of a block: which requests the end of a block sees, pays and deletes, when
  the check at the beginning of a block passes, and which messages make one of the two panic.
\<close>

section \<open>The stored requests\<close>

text \<open>C11: \<open>GetAllRedeemRequests\<close> returns exactly the stored requests, in the order of their keys,
  provided that nothing else in the store decodes as a request.\<close>

theorem GetAllRedeemRequests_exact:
  assumes env: "keeper_env X k kv_map S N bal tot locked" and ok: "requests_ok X (kv_map (w_kv w))"
  shows "\<exists>rs. GetAllRedeemRequests S k w = Ok rs \<and> set rs = {r. is_request X (kv_map (w_kv w)) r} \<and>
    sorted_wrt (<) (map (\<lambda>r. request_key (rr_Account r)) rs)"
  by (rule keeper_env.GetAllRedeemRequests_eq [OF env ok])

lemmas fx_wire = ref_wire.wire_ext_laws_axioms

lemma fx_requests_ok: "requests_ok ref_ext (RBT.lookup fx_store)"
proof -
  have "as_request ref_ext (Params_enc ref_ext DefaultParams) = None"
    by (rule wire_ext_laws.params_not_request [OF fx_wire]) (use fx_params_ok in \<open>simp_all add: wire_ext_laws.params_ok_wf [OF fx_wire] DefaultParams_def
        NewParams_def DefaultMaxRedeemEntries_def\<close>)
  moreover have "length (Params_enc ref_ext DefaultParams) < 2 ^ 63"
    using wire_ext_laws.params_ok_value [OF fx_wire fx_params_ok] by (simp add: valid_value_def)
  moreover have "requests_ok ref_ext (\<lambda>_. None)" by (simp add: requests_ok_def)
  ultimately show ?thesis
    using wire_ext_laws.requests_ok_update [OF fx_wire, of "\<lambda>_. None" "Params_enc ref_ext DefaultParams" ParamsKey]
    by (simp add: fx_store_def)
qed

theorem GetAllRedeemRequests_exact_witness:
  "\<exists>rs. GetAllRedeemRequests ref_sdk ref_keeper fx_start = Ok rs \<and>
     set rs = {r. is_request ref_ext (RBT.lookup fx_store) r}"
  using GetAllRedeemRequests_exact [OF fx_env, of fx_start] fx_requests_ok by auto

section \<open>The end of a block\<close>

text \<open>C7: The end of a block pays every matured request and no other: each account gets the sum of its
  matured requests, the redeem pool loses the sum of all of them, the supply stays, and the
  requests that are left are those that are not matured.\<close>

theorem EndBlocker_pays:
  assumes env: "keeper_env X k kv_map S N bal tot locked" and ok: "requests_ok X (kv_map (w_kv w))"
    and rs: "GetAllRedeemRequests S k w = Ok rs"
    and pay: "\<forall>r\<in>set rs. matured ctx r \<longrightarrow> payable S N (k_accountKeeper k) r"
    and funds: "\<forall>d. paid_out ctx rs d \<le> bal (w_bank w) (GetModuleAddress (k_accountKeeper k) RedeemPoolName) d"
  shows "\<exists>w'. EndBlocker S k ctx w = (Ok (), w') \<and> tot (w_bank w') = tot (w_bank w) \<and>
    (\<forall>a d. bal (w_bank w') a d = bal (w_bank w) a d + paid_to S ctx rs a d
      - (if a = GetModuleAddress (k_accountKeeper k) RedeemPoolName then paid_out ctx rs d else 0)) \<and>
    GetAllRedeemRequests S k w' = Ok (filter (\<lambda>r. \<not> matured ctx r) rs)"
  using keeper_env.EndBlocker_pays_lemma [OF env ok rs pay funds] by blast

text \<open>A state with one request, of 50 units of collateral for 100 HAL.\<close>

definition fx_request :: redeem_request where
  "fx_request = redeemed_request ref_sdk DefaultParams fx_now alice_addr 100"

definition fx_pending :: ref_world where
  "fx_pending = \<lparr>w_kv = RBT.insert (request_key alice) (RedeemRequest_enc ref_ext fx_request) fx_store,
     w_bank = units 50 redeem_pool ''Stake''\<rparr>"

lemma fx_request_simps [simp]:
  "rr_Account fx_request = alice" "rr_denom fx_request = ''Stake''" "rr_amount fx_request = 50"
  "rr_addr ref_sdk fx_request = alice_addr"
  by (simp_all add: fx_request_def rr_denom_def rr_amount_def rr_addr_def)

lemma fx_request_wf: "RedeemRequest_wf ref_ext fx_request" "length (RedeemRequest_enc ref_ext fx_request) < 2 ^ 63"
proof -
  show wf: "RedeemRequest_wf ref_ext fx_request"
    using fx_storable(2) by (simp add: RedeemRequest_wf_def storable_def coin_ok_def fx_request_def)
  show "length (RedeemRequest_enc ref_ext fx_request) < 2 ^ 63"
    using wf wire_ext_laws.RedeemRequest_size_enc [OF fx_wire RedeemRequest_wf_time [OF wf]]
    by (simp add: RedeemRequest_wf_def)
qed

lemma fx_request_payable: "payable ref_sdk ref_names ref_accounts fx_request"
  using fx_denoms(2)
  by (simp add: payable_def) (simp add: fx_request_def alice_def ref_sdk_def)

lemma fx_request_matured: "matured fx_ctx fx_request"
  unfolding matured_def fx_request_def by code_simp

lemma fx_pending_ok: "requests_ok ref_ext (RBT.lookup (w_kv fx_pending))"
  using wire_ext_laws.requests_ok_set [OF fx_wire fx_requests_ok fx_request_wf] by (simp add: fx_pending_def)

lemma fx_pending_requests: "GetAllRedeemRequests ref_sdk ref_keeper fx_pending = Ok [fx_request]"
proof -
  let ?m = "RBT.lookup (w_kv fx_pending)"
  obtain rs where rs: "GetAllRedeemRequests ref_sdk ref_keeper fx_pending = Ok rs"
      "set rs = {r. is_request ref_ext ?m r}" "sorted_wrt (<) (map (\<lambda>r. request_key (rr_Account r)) rs)"
    using keeper_env.GetAllRedeemRequests_eq [OF fx_env fx_pending_ok] by blast
  have one: "is_request ref_ext ?m fx_request"
    using fx_request_wf(1) by (simp add: is_request_def fx_pending_def)
  have "r = fx_request" if "is_request ref_ext ?m r" for r
  proof -
    have "rr_Account r = alice"
      using that by (auto simp: is_request_def fx_pending_def fx_store_def split: if_splits)
    then show ?thesis
      using wire_ext_laws.is_request_unique [OF fx_wire that one] by simp
  qed
  with one rs(2) have "set rs = set [fx_request]" by auto
  then have "rs = [fx_request]"
    using rs(2,3) by (intro keeper_env.sorted_requests_eq [OF fx_env rs(3)]) auto
  with rs(1) show ?thesis by simp
qed

theorem EndBlocker_pays_witness:
  "\<exists>w'. EndBlocker ref_sdk ref_keeper fx_ctx fx_pending = (Ok (), w') \<and>
     ledger_bal (w_bank w') alice_addr ''Stake'' = 50 \<and> GetAllRedeemRequests ref_sdk ref_keeper w' = Ok []"
proof -
  have "paid_out fx_ctx [fx_request] d \<le> ledger_bal (w_bank fx_pending) redeem_pool d" for d
    by (simp add: fx_pending_def)
  then show ?thesis
    using EndBlocker_pays [OF fx_env fx_pending_ok fx_pending_requests, of fx_ctx] fx_request_payable fx_request_matured
    by (auto simp: fx_pending_def)
qed

text \<open>C13: Redeeming 0 or 1 HAL stops the chain: the handler accepts it, the stored request is of no
  collateral, and once it is matured the end of a block panics.\<close>

theorem dust_redeem_halts:
  assumes env: "keeper_env X k kv_map S N bal tot locked" and ok: "requests_ok X (kv_map (w_kv w))"
    and a: "AccAddressFromBech32 S (rc_Creator msg) = Ok a" "\<not> blocked_addr N (k_accountKeeper k) a"
    and p: "GetParams k w = Ok p" "ValidateDenom S (hal_denom p)" "ValidateDenom S (collateral_denom p)"
      "hal_denom p \<noteq> collateral_denom p"
    and c: "rc_HalAmount msg = \<lparr>coin_Denom = d', coin_Amount = Some h\<rparr>" "ValidateDenom S d'" "h \<in> {0, 1}"
    and funds: "can_pay bal locked (w_bank w) a (hal_denom p) h"
    and st: "storable X (redeemed_request S p now a h)"
    and later: "time_After (ctx_BlockTime ctx) (time_Add now (pa_RedeemDur p))"
  shows "\<exists>resp w'. RedeemCollateral S k now msg w = (Ok resp, w') \<and>
    (\<exists>s w''. EndBlocker S k ctx w' = (Panic s, w''))"
proof -
  let ?r = "redeemed_request S p now a h"
  have h: "0 \<le> h" "h < 2 ^ 255" "h div 2 = 0" using c(3) by auto
  have "h div 2 \<le> bal (w_bank w) (GetModuleAddress (k_accountKeeper k) CollateralPoolName) (collateral_denom p)"
    using keeper_env.bal_nonneg' [OF env] by (simp add: h(3))
  then obtain resp w' where w': "RedeemCollateral S k now msg w = (Ok resp, w')"
      "kv_map (w_kv w') = (kv_map (w_kv w))(request_key (rr_Account ?r) \<mapsto> RedeemRequest_enc X ?r)"
    using keeper_env.RedeemCollateral_effect [OF env a(1) p c(1,2) h(1,2) disjI1 [OF funds] _ st] by auto
  note wf = keeper_env.redeemed_wf [OF env st h(1,2)]
  have ok': "requests_ok X (kv_map (w_kv w'))"
    unfolding w'(2) using keeper_env.requests_ok_set' [OF env ok] wf by blast
  have "is_request X (kv_map (w_kv w')) ?r" using wf by (simp add: is_request_def w'(2))
  moreover have "matured ctx ?r" using later by (simp add: matured_def)
  moreover have "coin_Amount (rr_Collateral ?r) = Some 0" by (simp add: h(3))
  moreover have "AccAddressFromBech32 S (rr_Account ?r) = Ok a"
    using keeper_env.address_roundtrip' [OF env a(1)] by simp
  ultimately have "\<exists>s w''. EndBlocker S k ctx w' = (Panic s, w'')"
    using EndBlocker_zero_panics [OF env ok' _ _ _ _ a(2)] by blast
  with w'(1) show ?thesis by blast
qed

theorem dust_redeem_halts_witness:
  "\<exists>resp w'. RedeemCollateral ref_sdk ref_keeper fx_now (fx_redeem ''HAL'' 1) fx_minted = (Ok resp, w') \<and>
    (\<exists>s w''. EndBlocker ref_sdk ref_keeper fx_ctx w' = (Panic s, w''))"
proof -
  have p: "GetParams ref_keeper fx_minted = Ok DefaultParams" by (simp add: fx_GetParams)
  have "can_pay ledger_bal (\<lambda>_ _. 0) (w_bank fx_minted) alice_addr ''HAL'' 1"
    by (simp add: can_pay_def fx_bank_simps)
  moreover have "time_After (ctx_BlockTime fx_ctx) (time_Add fx_now (pa_RedeemDur DefaultParams))"
    by code_simp
  moreover have "requests_ok ref_ext (RBT.lookup (w_kv fx_minted))" using fx_requests_ok by simp
  ultimately show ?thesis
    using dust_redeem_halts [OF fx_env _ _ _ p, of "fx_redeem ''HAL'' 1" alice_addr "''HAL''" 1 fx_now fx_ctx] fx_storable(3)
    by simp
qed

section \<open>The beginning of a block\<close>

text \<open>C8: The check at the beginning of a block changes nothing and passes exactly when there is no HAL or
  the supply of HAL is at least twice the collateral in the two pools; otherwise it panics.\<close>

theorem BeginBlocker_exact:
  assumes env: "keeper_env X k kv_map S N bal tot locked" and p: "GetParams k w = Ok p"
    and small: "2 * pools bal (k_accountKeeper k) (w_bank w) (collateral_denom p) < 2 ^ 255"
      "tot (w_bank w) (hal_denom p) < 2 ^ 255"
  shows "BeginBlocker S k w =
    (if tot (w_bank w) (hal_denom p) = 0 \<or>
        2 * (bal (w_bank w) (GetModuleAddress (k_accountKeeper k) CollateralPoolName) (collateral_denom p)
           + bal (w_bank w) (GetModuleAddress (k_accountKeeper k) RedeemPoolName) (collateral_denom p))
          \<le> tot (w_bank w) (hal_denom p)
     then Ok ()
     else Panic ''invariant check failed: total HAL supply is less than the calculated amount from collateral'', w)"
  using keeper_env.InvariantCheck_eq [OF env p small]
  by (simp add: BeginBlocker_def supply_ok_def pools_def discard_a_apply bind_a_apply)

theorem BeginBlocker_exact_witness:
  "BeginBlocker ref_sdk ref_keeper fx_minted = (Ok (), fx_minted)"
proof -
  have p: "GetParams ref_keeper fx_minted = Ok DefaultParams" by (simp add: fx_GetParams)
  show ?thesis
    using BeginBlocker_exact [OF fx_env p] by (simp add: pools_def fx_bank_simps)
qed

text \<open>C12: Redeeming a part of the HAL stops the chain: when the supply is exactly twice the collateral in
  the pools, as it is when every mint has been paid, the beginning of the block after a
  redemption of some but not all HAL panics, since the redeemed collateral stays in a pool
  while the HAL is burned.\<close>

theorem redeem_halts:
  assumes env: "keeper_env X k kv_map S N bal tot locked"
    and a: "AccAddressFromBech32 S (rc_Creator msg) = Ok a"
    and p: "GetParams k w = Ok p" "ValidateDenom S (hal_denom p)" "ValidateDenom S (collateral_denom p)"
      "hal_denom p \<noteq> collateral_denom p"
    and c: "rc_HalAmount msg = \<lparr>coin_Denom = d', coin_Amount = Some h\<rparr>" "ValidateDenom S d'" "0 < h"
    and funds: "can_pay bal locked (w_bank w) a (hal_denom p) h"
      "h div 2 \<le> bal (w_bank w) (GetModuleAddress (k_accountKeeper k) CollateralPoolName) (collateral_denom p)"
    and st: "storable X (redeemed_request S p now a h)"
    and tight: "2 * pools bal (k_accountKeeper k) (w_bank w) (collateral_denom p) = tot (w_bank w) (hal_denom p)"
    and part: "h < tot (w_bank w) (hal_denom p)" "tot (w_bank w) (hal_denom p) < 2 ^ 255"
  shows "\<exists>resp w'. RedeemCollateral S k now msg w = (Ok resp, w') \<and> (\<exists>s. BeginBlocker S k w' = (Panic s, w'))"
proof -
  let ?coll = "GetModuleAddress (k_accountKeeper k) CollateralPoolName"
  let ?pool = "GetModuleAddress (k_accountKeeper k) RedeemPoolName"
  have h: "0 \<le> h" "h < 2 ^ 255" using c(3) part by auto
  obtain resp w' where w': "RedeemCollateral S k now msg w = (Ok resp, w')"
      "kv_map (w_kv w') = (kv_map (w_kv w))(request_key (AccAddress_String S a) \<mapsto> RedeemRequest_enc X (redeemed_request S p now a h))"
      "tot (w_bank w') = (tot (w_bank w))(hal_denom p := tot (w_bank w) (hal_denom p) - h)"
      "\<forall>x d. bal (w_bank w') x d = bal (w_bank w) x d - (if d = hal_denom p \<and> x = a then h else 0)
        + (if d = collateral_denom p then (if x = ?pool then h div 2 else 0) - (if x = ?coll then h div 2 else 0) else 0)"
    using keeper_env.RedeemCollateral_effect [OF env a p c(1,2) h disjI1 [OF funds(1)] funds(2) st] funds(1) by auto
  have p': "GetParams k w' = Ok p"
    using p(1) by (simp add: keeper_env.GetParams_eq [OF env] w'(2))
  have pools: "pools bal (k_accountKeeper k) (w_bank w') (collateral_denom p)
      = pools bal (k_accountKeeper k) (w_bank w) (collateral_denom p)"
    using p(4) keeper_env.pools_differ [OF env] by (auto simp: pools_def w'(4))
  have "tot (w_bank w') (hal_denom p) = tot (w_bank w) (hal_denom p) - h" by (simp add: w'(3))
  then have "\<not> supply_ok bal tot (k_accountKeeper k) p (w_bank w')" "tot (w_bank w') (hal_denom p) < 2 ^ 255"
    using tight part c(3) pools by (simp_all add: supply_ok_def)
  then have "\<exists>s. BeginBlocker S k w' = (Panic s, w')"
    using keeper_env.InvariantCheck_eq [OF env p'] tight part pools
    by (simp add: BeginBlocker_def discard_a_apply bind_a_apply)
  with w'(1) show ?thesis by blast
qed

theorem redeem_halts_witness:
  "\<exists>resp w'. RedeemCollateral ref_sdk ref_keeper fx_now (fx_redeem ''HAL'' 60) fx_minted = (Ok resp, w') \<and>
    (\<exists>s. BeginBlocker ref_sdk ref_keeper w' = (Panic s, w'))"
proof -
  have p: "GetParams ref_keeper fx_minted = Ok DefaultParams" by (simp add: fx_GetParams)
  have "can_pay ledger_bal (\<lambda>_ _. 0) (w_bank fx_minted) alice_addr ''HAL'' 60"
    by (simp add: can_pay_def fx_bank_simps)
  then show ?thesis
    using redeem_halts [OF fx_env _ p, of "fx_redeem ''HAL'' 60" alice_addr "''HAL''" 60 fx_now] fx_storable(1)
    by (simp add: pools_def fx_bank_simps)
qed

end
