(* ===== verification/Chain.thy ===== *)
theory Chain
  imports Store_Invariant Hal_Module
begin

text \<open>
  The module over the life of a chain: the steps that messages, the hooks of a block and other
  modules make, and what holds in every state that they reach from a genesis state. A message or
  hook that fails makes no step, since the application discards its writes.
\<close>

section \<open>Pending requests\<close>

text \<open>The collateral of a denomination that the stored requests promise.\<close>

definition pending :: "wire_ext \<Rightarrow> (bytes \<Rightarrow> bytes option) \<Rightarrow> string \<Rightarrow> int" where
  "pending X m d = (\<Sum>r | is_request X m r \<and> rr_denom r = d. rr_amount r)"

text \<open>Requests that are paid when they are matured, or of nothing.\<close>

definition good_request :: "sdk_lib \<Rightarrow> ext_names \<Rightarrow> account_keeper \<Rightarrow> redeem_request \<Rightarrow> bool" where
  "good_request S N A r \<longleftrightarrow>
     (case AccAddressFromBech32 S (rr_Account r) of
        Ok a \<Rightarrow> \<not> blocked_addr N A a \<and> a \<noteq> GetModuleAddress A RedeemPoolName
      | _ \<Rightarrow> False) \<and>
     ValidateDenom S (rr_denom r) \<and> (\<exists>n. coin_Amount (rr_Collateral r) = Some n \<and> 0 \<le> n \<and> n < 2 ^ 256)"

lemma good_request_amount: "good_request S N A r \<Longrightarrow> 0 \<le> rr_amount r"
  by (auto simp: good_request_def rr_amount_def)

lemma is_request_other:
  "(\<And>a. key \<noteq> request_key a) \<Longrightarrow> is_request X (m(key := v)) r \<longleftrightarrow> is_request X m r"
  by (auto simp: is_request_def)

context keeper_env
begin

lemma good_request_payable:
  assumes "good_request S N (k_accountKeeper k) r" "rr_amount r \<noteq> 0"
  shows "payable S N (k_accountKeeper k) r"
proof -
  obtain a where a: "AccAddressFromBech32 S (rr_Account r) = Ok a" "\<not> blocked_addr N (k_accountKeeper k) a"
      "a \<noteq> pool_addr"
    using assms(1) by (cases "AccAddressFromBech32 S (rr_Account r)") (simp_all add: good_request_def)
  obtain n where n: "coin_Amount (rr_Collateral r) = Some n" "0 \<le> n" "n < 2 ^ 256" "ValidateDenom S (rr_denom r)"
    using assms(1) unfolding good_request_def by blast
  then have "rr_amount r = n" by (simp add: rr_amount_def)
  with a n assms(2) address_input [OF a(1)] show ?thesis
    by (simp add: payable_def)
qed

lemma is_request_set:
  assumes wf: "RedeemRequest_wf X r"
    and r': "is_request X (m(request_key (rr_Account r) \<mapsto> RedeemRequest_enc X r)) r'"
  shows "r' = r \<or> is_request X m r' \<and> rr_Account r' \<noteq> rr_Account r"
proof (cases "rr_Account r' = rr_Account r")
  case True
  have e: "RedeemRequest_wf X r'" "RedeemRequest_enc X r = RedeemRequest_enc X r'"
    using r' unfolding is_request_def True fun_upd_same option.inject by iprover+
  have "Some r' = as_request X (RedeemRequest_enc X r)"
    unfolding e(2) by (rule as_request_enc [OF e(1), symmetric])
  also have "\<dots> = Some r" by (rule as_request_enc [OF wf])
  finally show ?thesis by simp
next
  case False
  with r' show ?thesis by (simp add: is_request_def)
qed

lemma pending_set:
  assumes "finite {r. is_request X m r}" "\<And>r. is_request X m r \<Longrightarrow> 0 \<le> rr_amount r"
    and r: "RedeemRequest_wf X r" "0 \<le> rr_amount r"
  shows "pending X (m(request_key (rr_Account r) \<mapsto> RedeemRequest_enc X r)) d
    \<le> pending X m d + (if rr_denom r = d then rr_amount r else 0)"
proof -
  let ?A = "{r'. is_request X (m(request_key (rr_Account r) \<mapsto> RedeemRequest_enc X r)) r' \<and> rr_denom r' = d}"
  let ?B = "{r. is_request X m r \<and> rr_denom r = d}"
  let ?C = "if rr_denom r = d then insert r ?B else ?B"
  have fin: "finite ?B" by (rule finite_subset [OF _ assms(1)]) auto
  have C: "finite ?C" "\<And>r'. r' \<in> ?C \<Longrightarrow> 0 \<le> rr_amount r'"
    using fin assms(2) r(2) by (auto split: if_splits)
  have "?A \<subseteq> ?C" using is_request_set [OF r(1), of m] by auto
  then have "sum rr_amount ?A \<le> sum rr_amount ?C"
    using C by (intro sum_mono2) auto
  also have "\<dots> \<le> sum rr_amount ?B + (if rr_denom r = d then rr_amount r else 0)"
    using fin r(2) by (auto simp: sum.insert_if)
  finally show ?thesis by (simp add: pending_def)
qed

text \<open>The sums over a list of all requests.\<close>

lemma pending_list:
  assumes "set rs = {r. is_request X m r}" "distinct rs"
  shows "pending X m d = (\<Sum>r\<leftarrow>rs. if rr_denom r = d then rr_amount r else 0)"
proof -
  have "{r. is_request X m r \<and> rr_denom r = d} = set rs \<inter> {r. rr_denom r = d}"
    using assms(1) by auto
  then show ?thesis
    by (simp add: pending_def sum_list_distinct_conv_sum_set [OF assms(2)] sum.inter_restrict)
qed

lemma pending_split:
  "(\<Sum>r\<leftarrow>rs. if rr_denom r = d then rr_amount r else 0)
     = paid_out ctx rs d + (\<Sum>r\<leftarrow>filter (\<lambda>r. \<not> matured ctx r) rs. if rr_denom r = d then rr_amount r else 0)"
  by (induction rs) auto

lemma paid_to_nonneg: "(\<And>r. r \<in> set rs \<Longrightarrow> 0 \<le> rr_amount r) \<Longrightarrow> 0 \<le> paid_to S ctx rs a d"
  by (induction rs) (auto intro!: add_nonneg_nonneg)

end

section \<open>The invariant\<close>

text \<open>Parameters under which the conversions of the handlers are defined.\<close>

definition sane_params :: "wire_ext \<Rightarrow> sdk_lib \<Rightarrow> params \<Rightarrow> bool" where
  "sane_params X S p \<longleftrightarrow> params_ok X p \<and> pa_MaxRedeemEntries p \<noteq> 0 \<and> ValidateDenom S (hal_denom p) \<and>
     ValidateDenom S (collateral_denom p) \<and> hal_denom p \<noteq> collateral_denom p"

definition chain_inv :: "wire_ext \<Rightarrow> ('s \<Rightarrow> bytes \<Rightarrow> bytes option) \<Rightarrow> sdk_lib \<Rightarrow> ext_names \<Rightarrow>
    ('b \<Rightarrow> acc_address \<Rightarrow> string \<Rightarrow> int) \<Rightarrow> ('s, 'b) keeper \<Rightarrow> ('s, 'b) world \<Rightarrow> bool" where
  "chain_inv X kv_map S N bal k w \<longleftrightarrow>
     requests_ok X (kv_map (w_kv w)) \<and>
     (\<exists>p. sane_params X S p \<and> kv_map (w_kv w) ParamsKey = Some (Params_enc X p)) \<and>
     (\<forall>r. is_request X (kv_map (w_kv w)) r \<longrightarrow> good_request S N (k_accountKeeper k) r) \<and>
     (\<forall>d. pending X (kv_map (w_kv w)) d \<le> bal (w_bank w) (GetModuleAddress (k_accountKeeper k) RedeemPoolName) d)"

text \<open>
  A step of the chain. Messages are signed, so their creator is not a module account; amounts fit
  the integers of the bank, messages and requests the limits of the store; other modules do not
  take from the redeem pool. The authority sets parameters with two different, valid denominations
  and a number of entries other than zero.
\<close>

inductive hal_step :: "wire_ext \<Rightarrow> sdk_lib \<Rightarrow> ext_names \<Rightarrow> ('b \<Rightarrow> acc_address \<Rightarrow> string \<Rightarrow> int) \<Rightarrow>
    ('b \<Rightarrow> string \<Rightarrow> int) \<Rightarrow> ('s, 'b) keeper \<Rightarrow> ('s, 'b) world \<Rightarrow> ('s, 'b) world \<Rightarrow> bool"
  for X S N bal tot k where
  step_mint: "MintHal S k msg w = (Ok mint_resp, w') \<Longrightarrow>
    AccAddressFromBech32 S (mh_Creator msg) \<noteq> Ok (GetModuleAddress (k_accountKeeper k) RedeemPoolName) \<Longrightarrow>
    \<forall>n. coin_Amount (mh_CollateralAmount msg) = Some n \<longrightarrow>
      \<bar>2 * n\<bar> < 2 ^ 255 \<and> (\<forall>d. tot (w_bank w) d + 2 * n < 2 ^ 256) \<Longrightarrow>
    hal_step X S N bal tot k w w'"
| step_redeem: "RedeemCollateral S k now rmsg w = (Ok redeem_resp, w') \<Longrightarrow>
    \<forall>a. AccAddressFromBech32 S (rc_Creator rmsg) = Ok a \<longrightarrow>
      \<not> blocked_addr N (k_accountKeeper k) a \<and> a \<noteq> GetModuleAddress (k_accountKeeper k) RedeemPoolName \<Longrightarrow>
    \<forall>h. coin_Amount (rc_HalAmount rmsg) = Some h \<longrightarrow> h < 2 ^ 255 \<and>
      (\<forall>p a. GetParams k w = Ok p \<and> AccAddressFromBech32 S (rc_Creator rmsg) = Ok a \<longrightarrow>
        storable X (redeemed_request S p now a h)) \<Longrightarrow>
    hal_step X S N bal tot k w w'"
| step_ticket: "CreateTicket S k ctx ord tmsg w = (Ok ticket_resp, w') \<Longrightarrow> length (ct_Issue tmsg) < 2 ^ 64 \<Longrightarrow>
    hal_step X S N bal tot k w w'"
| step_params: "UpdateParams k umsg w = (Ok update_resp, w') \<Longrightarrow> sane_params X S (up_Params umsg) \<Longrightarrow>
    hal_step X S N bal tot k w w'"
| step_begin: "BeginBlocker S k w = (Ok (), w') \<Longrightarrow> hal_step X S N bal tot k w w'"
| step_end: "EndBlocker S k ctx w = (Ok (), w') \<Longrightarrow> hal_step X S N bal tot k w w'"
| step_other: "\<forall>d. bal (w_bank w) (GetModuleAddress (k_accountKeeper k) RedeemPoolName) d
      \<le> bal b' (GetModuleAddress (k_accountKeeper k) RedeemPoolName) d \<Longrightarrow>
    hal_step X S N bal tot k w (w\<lparr>w_bank := b'\<rparr>)"

section \<open>Each step keeps the invariant\<close>

text \<open>Actions that leave a part of the state alone, and actions that only read.\<close>

definition keeps :: "('w \<Rightarrow> 'p) \<Rightarrow> ('w, 'a) act \<Rightarrow> bool" where
  "keeps part m \<longleftrightarrow> (\<forall>w. part (snd (m w)) = part w)"

abbreviation reads :: "('w, 'a) act \<Rightarrow> bool" where
  "reads \<equiv> keeps (\<lambda>w. w)"

lemma keeps_basic:
  "keeps part (ret_a x)" "keeps part (fail_a e)" "keeps part (panic_a s)" "keeps part (lift_a r)" "keeps part (read_a f)"
  by (simp_all add: keeps_def ret_a_def fail_a_def panic_a_def lift_a_def read_a_def)

lemma keeps_bind:
  assumes "keeps part m" "\<And>x. keeps part (g x)"
  shows "keeps part (bind_a m g)"
  unfolding keeps_def
proof
  fix w
  obtain r w1 where m: "m w = (r, w1)" by (cases "m w")
  then have "part w1 = part w" using assms(1) unfolding keeps_def by (metis snd_conv)
  with m show "part (snd (bind_a m g w)) = part w"
    using assms(2) by (cases r) (simp_all add: bind_a_apply keeps_def)
qed

lemma keeps_wrap:
  assumes "keeps part m"
  shows "keeps part (discard_a m)" "keeps part (wrap_a e m)"
proof -
  have "part (snd (discard_a m w)) = part w" "part (snd (wrap_a e m w)) = part w" for w
  proof -
    obtain r w1 where m: "m w = (r, w1)" by (cases "m w")
    then have "part w1 = part w" using assms unfolding keeps_def by (metis snd_conv)
    with m show "part (snd (discard_a m w)) = part w" "part (snd (wrap_a e m w)) = part w"
      by (cases r; simp add: discard_a_apply wrap_a_def)+
  qed
  then show "keeps part (discard_a m)" "keeps part (wrap_a e m)" by (simp_all add: keeps_def)
qed

lemma keeps_if: "keeps part m \<Longrightarrow> keeps part m' \<Longrightarrow> keeps part (if b then m else m')"
  by simp

lemma keeps_on_bank: "keeps w_kv (on_bank m)"
  by (simp add: keeps_def on_bank_def split_beta)

lemmas keeps_intros = keeps_basic keeps_bind keeps_wrap keeps_if keeps_on_bank

lemma BeginBlocker_reads: "BeginBlocker S k w = (r, w') \<Longrightarrow> w' = w"
proof -
  assume "BeginBlocker S k w = (r, w')"
  moreover have "reads (BeginBlocker S k)"
    unfolding BeginBlocker_def InvariantCheck_def Let_def by (intro keeps_intros)
  ultimately show ?thesis unfolding keeps_def by (metis snd_conv)
qed

text \<open>Minting does not touch the store, whatever the bank does.\<close>

lemma MintHal_keeps_store: "MintHal S k msg w = (r, w') \<Longrightarrow> w_kv w' = w_kv w"
proof -
  assume "MintHal S k msg w = (r, w')"
  moreover have "keeps w_kv (MintHal S k msg)"
    unfolding MintHal_def Let_def by (intro keeps_intros)
  ultimately show ?thesis unfolding keeps_def by (metis snd_conv)
qed

context keeper_env
begin

abbreviation "safe \<equiv> chain_inv X kv_map S N bal k"

lemma invE:
  assumes "safe w"
  obtains p where "requests_ok X (kv_map (w_kv w))" "sane_params X S p" "GetParams k w = Ok p"
    "kv_map (w_kv w) ParamsKey = Some (Params_enc X p)"
    "\<forall>r. is_request X (kv_map (w_kv w)) r \<longrightarrow> good_request S N (k_accountKeeper k) r"
    "\<forall>d. pending X (kv_map (w_kv w)) d \<le> bal (w_bank w) pool_addr d"
proof -
  obtain p where p: "sane_params X S p" "kv_map (w_kv w) ParamsKey = Some (Params_enc X p)"
    using assms unfolding chain_inv_def by blast
  have "GetParams k w = Ok p"
    using p by (intro GetParams_stored) (simp_all add: sane_params_def)
  with p assms that show thesis unfolding chain_inv_def by blast
qed

lemma inv_params: "safe w \<Longrightarrow> GetParams k w = Ok p \<Longrightarrow> sane_params X S p"
  by (erule invE) simp

lemma requests_finite:
  fixes w :: "('s, 'b) world"
  assumes "requests_ok X (kv_map (w_kv w))"
  shows "finite {r. is_request X (kv_map (w_kv w)) r}"
  using GetAllRedeemRequests_eq [OF assms] by (metis finite_set)

text \<open>A change of the bank that leaves the redeem pool what it had.\<close>

lemma inv_bank:
  assumes "safe w" "w_kv w' = w_kv w" "\<And>d. bal (w_bank w) pool_addr d \<le> bal (w_bank w') pool_addr d"
  shows "safe w'"
  using assms(1) order_trans [OF _ assms(3)] unfolding chain_inv_def assms(2) by blast

lemma MintHal_inv:
  assumes inv: "safe w" and ok: "MintHal S k msg w = (Ok resp, w')"
    and signer: "AccAddressFromBech32 S (mh_Creator msg) \<noteq> Ok pool_addr"
    and small: "\<forall>n. coin_Amount (mh_CollateralAmount msg) = Some n \<longrightarrow>
      \<bar>2 * n\<bar> < 2 ^ 255 \<and> (\<forall>d. total (w_bank w) d + 2 * n < 2 ^ 256)"
  shows "safe w'"
proof -
  from inv obtain p where p: "GetParams k w = Ok p" "sane_params X S p" by (rule invE)
  then have d: "ValidateDenom S (hal_denom p)" "ValidateDenom S (collateral_denom p)" "hal_denom p \<noteq> collateral_denom p"
    by (simp_all add: sane_params_def)
  obtain a n where a: "AccAddressFromBech32 S (mh_Creator msg) = Ok a" "\<not> blocked_addr N (k_accountKeeper k) a"
    and c: "mh_CollateralAmount msg = \<lparr>coin_Denom = collateral_denom p, coin_Amount = Some n\<rparr>"
    and n: "0 \<le> n" "2 * n < 2 ^ 255" "total (w_bank w) (hal_denom p) + 2 * n < 2 ^ 256"
    by (rule MintHal_Ok_inv [OF ok p(1) d(1,2)]) (use small in auto)
  obtain b' where b': "w' = w\<lparr>w_bank := b'\<rparr>"
      "\<forall>x d. bal b' x d = bal (w_bank w) x d + (if x = a \<and> d = hal_denom p then 2 * n else 0)
      + (if can_pay bal locked (w_bank w) a (collateral_denom p) n \<and> d = collateral_denom p
         then (if x = coll_addr then n else 0) - (if x = a then n else 0) else 0)"
    using MintHal_effect [OF a p(1) d c n] ok by auto
  have "pool_addr \<noteq> a" using signer a(1) by auto
  then have "bal b' pool_addr d = bal (w_bank w) pool_addr d" for d
    using b'(2) pools_differ by auto
  then show ?thesis
    using b'(1) by (intro inv_bank [OF inv]) simp_all
qed

lemma RedeemCollateral_Ok_effect:
  assumes ok: "RedeemCollateral S k now msg w = (Ok resp, w')"
    and p: "GetParams k w = Ok p" "ValidateDenom S (hal_denom p)" "ValidateDenom S (collateral_denom p)"
      "hal_denom p \<noteq> collateral_denom p"
    and a: "AccAddressFromBech32 S (rc_Creator msg) = Ok a" "a \<noteq> pool_addr"
    and h: "coin_Amount (rc_HalAmount msg) = Some h" "h < 2 ^ 255"
    and st: "storable X (redeemed_request S p now a h)"
  shows "kv_map (w_kv w') = (kv_map (w_kv w))(request_key (AccAddress_String S a) \<mapsto>
      RedeemRequest_enc X (redeemed_request S p now a h))"
    "bal (w_bank w') pool_addr d = bal (w_bank w) pool_addr d + (if d = collateral_denom p then h div 2 else 0)"
    "0 \<le> h"
proof -
  obtain d' where c: "rc_HalAmount msg = \<lparr>coin_Denom = d', coin_Amount = Some h\<rparr>" "ValidateDenom S d'" "0 \<le> h"
    and funds: "can_pay bal locked (w_bank w) a (hal_denom p) h \<or> h \<le> bal (w_bank w) coll_addr (hal_denom p)"
      "h div 2 \<le> bal (w_bank w) coll_addr (collateral_denom p)"
    by (rule RedeemCollateral_Ok_inv [OF ok p]) (use a(1) h in auto)
  obtain s' b' where w': "w' = w\<lparr>w_bank := b', w_kv := s'\<rparr>"
      "kv_map s' = (kv_map (w_kv w))(request_key (AccAddress_String S a) \<mapsto>
        RedeemRequest_enc X (redeemed_request S p now a h))"
      "\<forall>x d. bal b' x d = bal (w_bank w) x d
        - (if d = hal_denom p \<and> x = (if can_pay bal locked (w_bank w) a (hal_denom p) h then a else coll_addr) then h else 0)
        + (if d = collateral_denom p then (if x = pool_addr then h div 2 else 0) - (if x = coll_addr then h div 2 else 0) else 0)"
    using RedeemCollateral_effect [OF a(1) p c h(2) funds st] ok by auto
  show "kv_map (w_kv w') = (kv_map (w_kv w))(request_key (AccAddress_String S a) \<mapsto>
      RedeemRequest_enc X (redeemed_request S p now a h))" by (simp add: w')
  show "bal (w_bank w') pool_addr d = bal (w_bank w) pool_addr d + (if d = collateral_denom p then h div 2 else 0)"
    using w'(3) pools_differ a(2) by (auto simp: w'(1))
  show "0 \<le> h" by (rule c(3))
qed

lemma RedeemCollateral_inv:
  assumes inv: "safe w" and ok: "RedeemCollateral S k now msg w = (Ok resp, w')"
    and signer: "\<forall>a. AccAddressFromBech32 S (rc_Creator msg) = Ok a \<longrightarrow>
      \<not> blocked_addr N (k_accountKeeper k) a \<and> a \<noteq> pool_addr"
    and small: "\<forall>h. coin_Amount (rc_HalAmount msg) = Some h \<longrightarrow> h < 2 ^ 255 \<and>
      (\<forall>p a. GetParams k w = Ok p \<and> AccAddressFromBech32 S (rc_Creator msg) = Ok a \<longrightarrow>
        storable X (redeemed_request S p now a h))"
  shows "safe w'"
proof -
  let ?m = "kv_map (w_kv w)"
  from inv obtain p where rok: "requests_ok X ?m" and p: "sane_params X S p" "GetParams k w = Ok p"
    "?m ParamsKey = Some (Params_enc X p)"
    and inv': "\<forall>r. is_request X ?m r \<longrightarrow> good_request S N (k_accountKeeper k) r"
      "\<forall>d. pending X ?m d \<le> bal (w_bank w) pool_addr d" by (rule invE)
  note good = inv'(1) [rule_format] and solvent = inv'(2) [rule_format]
  have d: "ValidateDenom S (hal_denom p)" "ValidateDenom S (collateral_denom p)" "hal_denom p \<noteq> collateral_denom p"
    using p(1) by (simp_all add: sane_params_def)
  obtain a h where a: "AccAddressFromBech32 S (rc_Creator msg) = Ok a"
    and c: "coin_Amount (rc_HalAmount msg) = Some h" "0 \<le> h" "h < 2 ^ 255"
    by (rule RedeemCollateral_Ok_inv [OF ok p(2) d]) (use small in auto)
  define r where "r = redeemed_request S p now a h"
  have st: "storable X r" using small a p(2) c(1) by (simp add: r_def)
  have sa: "\<not> blocked_addr N (k_accountKeeper k) a" "a \<noteq> pool_addr" using signer a by auto
  have wf: "RedeemRequest_wf X r" "length (RedeemRequest_enc X r) < 2 ^ 63"
    using redeemed_wf [OF st [unfolded r_def] c(2,3)] by (simp_all add: r_def)
  have r: "rr_denom r = collateral_denom p" "rr_amount r = h div 2" "rr_Account r = AccAddress_String S a"
    by (simp_all add: r_def rr_denom_def rr_amount_def)
  have gr: "good_request S N (k_accountKeeper k) r"
    using address_roundtrip [OF a] sa d(2) c(2,3) by (simp add: good_request_def r) (simp add: r_def)
  note w' = RedeemCollateral_Ok_effect [OF ok p(2) d a sa(2) c(1,3) st [unfolded r_def], folded r_def r(3)]
  have pool: "bal (w_bank w') pool_addr x = bal (w_bank w) pool_addr x + (if rr_denom r = x then rr_amount r else 0)" for x
    by (simp add: w'(2) r)
  have "0 \<le> rr_amount q" if "is_request X ?m q" for q
    using good [OF that] by (rule good_request_amount)
  then have "pending X (kv_map (w_kv w')) x \<le> bal (w_bank w') pool_addr x" for x
    using pending_set [OF requests_finite [OF rok] _ wf(1), of x] solvent [of x] c(2) unfolding pool w'(1)
    by (simp add: r(2))
  moreover have "good_request S N (k_accountKeeper k) q" if "is_request X (kv_map (w_kv w')) q" for q
    using is_request_set [OF wf(1) that [unfolded w'(1)]] gr good by blast
  moreover have "requests_ok X (kv_map (w_kv w'))"
    unfolding w'(1) by (rule requests_ok_set [OF rok wf])
  moreover have "kv_map (w_kv w') ParamsKey = Some (Params_enc X p)"
    unfolding w'(1) using p(3) by simp
  ultimately show ?thesis
    using p(1) by (auto simp: chain_inv_def)
qed

text \<open>In a safe state the end of a block pays every matured request, unless one of them is of nothing.\<close>

lemma EndBlocker_safe:
  assumes inv: "safe w" and rs: "GetAllRedeemRequests S k w = Ok rs"
    and pos: "\<forall>r\<in>set rs. matured ctx r \<longrightarrow> rr_amount r \<noteq> 0"
  shows "\<exists>w'. EndBlocker S k ctx w = (Ok (), w') \<and> safe w' \<and> total (w_bank w') = total (w_bank w) \<and>
    kv_map (w_kv w') = deleted ctx rs (kv_map (w_kv w)) \<and>
    (\<forall>a d. bal (w_bank w') a d = bal (w_bank w) a d + paid_to S ctx rs a d
      - (if a = pool_addr then paid_out ctx rs d else 0)) \<and>
    GetAllRedeemRequests S k w' = Ok (filter (\<lambda>r. \<not> matured ctx r) rs)"
proof -
  let ?m = "kv_map (w_kv w)" and ?rest = "filter (\<lambda>r. \<not> matured ctx r) rs"
  from inv obtain p where rok: "requests_ok X ?m" and p: "sane_params X S p" "?m ParamsKey = Some (Params_enc X p)"
    and inv': "\<forall>r. is_request X ?m r \<longrightarrow> good_request S N (k_accountKeeper k) r"
      "\<forall>d. pending X ?m d \<le> bal (w_bank w) pool_addr d" by (rule invE)
  have set: "set rs = {r. is_request X ?m r}" and sorted: "sorted_wrt (<) (map (\<lambda>r. request_key (rr_Account r)) rs)"
    using GetAllRedeemRequests_eq [OF rok] rs by auto
  have dist: "distinct rs"
    using sorted by (simp add: strict_sorted_iff distinct_map)
  have good: "good_request S N (k_accountKeeper k) r" if "r \<in> set rs" for r
    using that set inv'(1) by auto
  have pay: "\<forall>r\<in>set rs. matured ctx r \<longrightarrow> payable S N (k_accountKeeper k) r"
    using pos good good_request_payable by blast
  have nonneg: "0 \<le> rr_amount r" if "r \<in> set rs" for r
    by (rule good_request_amount [OF good [OF that]])
  have split: "pending X ?m d = paid_out ctx rs d + (\<Sum>r\<leftarrow>?rest. if rr_denom r = d then rr_amount r else 0)" for d
    unfolding pending_list [OF set dist] by (rule pending_split)
  have rest: "0 \<le> (\<Sum>r\<leftarrow>?rest. if rr_denom r = d then rr_amount r else 0)" for d
    using nonneg by (intro sum_list_nonneg) auto
  have "paid_out ctx rs d \<le> bal (w_bank w) pool_addr d" for d
    using split [of d] rest [of d] inv'(2) [rule_format, of d] by linarith
  then have funds: "\<forall>d. paid_out ctx rs d \<le> bal (w_bank w) pool_addr d" by blast
  obtain w' where w': "EndBlocker S k ctx w = (Ok (), w')" "total (w_bank w') = total (w_bank w)"
      "kv_map (w_kv w') = deleted ctx rs ?m"
      "\<forall>a d. bal (w_bank w') a d = bal (w_bank w) a d + paid_to S ctx rs a d
        - (if a = pool_addr then paid_out ctx rs d else 0)"
      "GetAllRedeemRequests S k w' = Ok ?rest"
    using EndBlocker_pays_lemma [OF rok rs pay funds] by blast
  have rok': "requests_ok X (kv_map (w_kv w'))"
    unfolding w'(3) by (rule deleted_requests_ok [OF rok])
  have set': "set ?rest = {r. is_request X (kv_map (w_kv w')) r}"
    using GetAllRedeemRequests_eq [OF rok'] w'(5) by auto
  have "pending X (kv_map (w_kv w')) d \<le> bal (w_bank w') pool_addr d" for d
    using split [of d] inv'(2) [rule_format, of d] w'(4) paid_to_nonneg [OF nonneg, of rs ctx pool_addr d]
    unfolding pending_list [OF set' distinct_filter [OF dist]] by simp
  moreover have "good_request S N (k_accountKeeper k) r" if "is_request X (kv_map (w_kv w')) r" for r
    using that good set' by auto
  moreover have "kv_map (w_kv w') ParamsKey = Some (Params_enc X p)"
    unfolding w'(3) using p(2) by (simp add: deleted_def)
  ultimately have "safe w'"
    using rok' p(1) by (auto simp: chain_inv_def)
  with w' show ?thesis by blast
qed

text \<open>The payout of a single request.\<close>

lemma EndBlocker_single:
  assumes inv: "safe w" and only: "\<And>q. is_request X (kv_map (w_kv w)) q \<longleftrightarrow> q = r"
    and r: "matured ctx r" "rr_amount r \<noteq> 0"
  shows "\<exists>w'. EndBlocker S k ctx w = (Ok (), w') \<and> total (w_bank w') = total (w_bank w) \<and>
    (\<forall>a d. bal (w_bank w') a d = bal (w_bank w) a d
      + (if a = rr_addr S r \<and> d = rr_denom r then rr_amount r else 0)
      - (if a = pool_addr \<and> d = rr_denom r then rr_amount r else 0)) \<and>
    GetAllRedeemRequests S k w' = Ok []"
proof -
  have "requests_ok X (kv_map (w_kv w))" using inv by (simp add: chain_inv_def)
  then obtain rs where rs: "GetAllRedeemRequests S k w = Ok rs" "set rs = {r}"
      "sorted_wrt (<) (map (\<lambda>r. request_key (rr_Account r)) rs)"
    using GetAllRedeemRequests_eq [of w] by (auto simp: only)
  have "rs = [r]"
  proof (rule sorted_requests_eq [OF rs(3), where m = "kv_map (w_kv w)"])
    show "\<forall>q\<in>set rs. is_request X (kv_map (w_kv w)) q" by (simp add: rs(2) only)
  qed (simp_all add: rs(2))
  with rs(1) have one: "GetAllRedeemRequests S k w = Ok [r]" by simp
  have "paid_to S ctx [r] a d = (if a = rr_addr S r \<and> d = rr_denom r then rr_amount r else 0)"
    "paid_out ctx [r] d = (if d = rr_denom r then rr_amount r else 0)" for a d
    using r(1) by auto
  then show ?thesis
    using EndBlocker_safe [OF inv one, of ctx] r by (auto simp del: paid_simps)
qed

text \<open>The end of a block that returns has paid no request of nothing.\<close>

lemma EndBlocker_Ok_pos:
  assumes inv: "safe w" and ok: "EndBlocker S k ctx w = (Ok (), w')" and r: "is_request X (kv_map (w_kv w)) r" "matured ctx r"
  shows "rr_amount r \<noteq> 0"
proof
  assume z: "rr_amount r = 0"
  have rok: "requests_ok X (kv_map (w_kv w))" and gr: "good_request S N (k_accountKeeper k) r"
    using inv r(1) by (simp_all add: chain_inv_def)
  obtain a where a: "AccAddressFromBech32 S (rr_Account r) = Ok a" "\<not> blocked_addr N (k_accountKeeper k) a"
    using gr by (cases "AccAddressFromBech32 S (rr_Account r)") (simp_all add: good_request_def)
  have "coin_Amount (rr_Collateral r) = Some 0"
    using gr z by (auto simp: good_request_def rr_amount_def)
  with EndBlocker_zero_panics [OF keeper_env_axioms rok r _ a] ok show False by auto
qed

lemma EndBlocker_Ok_effect:
  assumes inv: "safe w" and ok: "EndBlocker S k ctx w = (Ok (), w')"
  obtains rs where "GetAllRedeemRequests S k w = Ok rs" "set rs = {r. is_request X (kv_map (w_kv w)) r}" "distinct rs"
    "safe w'" "total (w_bank w') = total (w_bank w)" "kv_map (w_kv w') = deleted ctx rs (kv_map (w_kv w))"
    "\<forall>a d. bal (w_bank w') a d = bal (w_bank w) a d + paid_to S ctx rs a d
      - (if a = pool_addr then paid_out ctx rs d else 0)"
proof -
  have rok: "requests_ok X (kv_map (w_kv w))" using inv by (simp add: chain_inv_def)
  obtain rs where rs: "GetAllRedeemRequests S k w = Ok rs" "set rs = {r. is_request X (kv_map (w_kv w)) r}"
      "sorted_wrt (<) (map (\<lambda>r. request_key (rr_Account r)) rs)"
    using GetAllRedeemRequests_eq [OF rok] by blast
  have "distinct rs" using rs(3) by (simp add: strict_sorted_iff distinct_map)
  moreover have "\<forall>r\<in>set rs. matured ctx r \<longrightarrow> rr_amount r \<noteq> 0"
    using EndBlocker_Ok_pos [OF inv ok] rs(2) by blast
  from EndBlocker_safe [OF inv rs(1) this] ok
  have "safe w' \<and> total (w_bank w') = total (w_bank w) \<and> kv_map (w_kv w') = deleted ctx rs (kv_map (w_kv w)) \<and>
    (\<forall>a d. bal (w_bank w') a d = bal (w_bank w) a d + paid_to S ctx rs a d
      - (if a = pool_addr then paid_out ctx rs d else 0))" by auto
  ultimately show thesis using that rs(1,2) by blast
qed

lemma EndBlocker_inv: "safe w \<Longrightarrow> EndBlocker S k ctx w = (Ok (), w') \<Longrightarrow> safe w'"
  by (rule EndBlocker_Ok_effect)

lemma UpdateParams_inv:
  assumes inv: "safe w" and ok: "UpdateParams k msg w = (Ok resp, w')" and sane: "sane_params X S (up_Params msg)"
  shows "safe w'"
proof -
  let ?m = "kv_map (w_kv w)" and ?p = "up_Params msg"
  have p: "params_ok X ?p" "pa_MaxRedeemEntries ?p \<noteq> 0" using sane by (simp_all add: sane_params_def)
  obtain s' where s': "SetParams k ?p w = (Ok (), w\<lparr>w_kv := s'\<rparr>)" "kv_map s' = ?m(ParamsKey \<mapsto> Params_enc X ?p)"
    using SetParams_effect [OF p(1)] by blast
  have w': "w' = w\<lparr>w_kv := s'\<rparr>"
    using ok s'(1) by (auto simp: UpdateParams_def bind_a_apply split: if_splits)
  have "requests_ok X (kv_map (w_kv w'))"
    using SetParams_requests_ok [OF _ p s'(1)] inv by (simp add: w' chain_inv_def)
  moreover have "is_request X (kv_map s') r = is_request X ?m r" for r
    unfolding s'(2) by (rule is_request_other) simp
  ultimately show ?thesis
    using inv sane by (auto simp: chain_inv_def w' s'(2) pending_def)
qed

lemma CreateTicket_not_ok:
  assumes inv: "safe w" and "length (ct_Issue msg) < 2 ^ 64"
  shows "CreateTicket S k ctx ord msg w \<noteq> (Ok resp, w')"
proof -
  from inv obtain p where p: "GetParams k w = Ok p" "sane_params X S p" by (rule invE)
  then have d: "ValidateDenom S (hal_denom p)" by (simp add: sane_params_def)
  show ?thesis
  proof (cases "AccAddressFromBech32 S (ct_Creator msg)")
    case (Ok a)
    with CreateTicket_paying_panics [OF Ok p(1) d assms(2), of ctx ord]
      CreateTicket_poor [OF Ok p(1) d assms(2), of ctx ord] show ?thesis
      by (cases "int (length (ct_Issue msg)) \<le> bal (w_bank w) a (hal_denom p)") auto
  qed (simp_all add: CreateTicket_def creator_address_def)
qed

lemma hal_step_inv: "hal_step X S N bal total k w w' \<Longrightarrow> safe w \<Longrightarrow> safe w'"
proof (induction rule: hal_step.induct)
  case step_mint
  show ?case by (rule MintHal_inv [OF step_mint.prems step_mint.hyps])
next
  case step_redeem
  show ?case by (rule RedeemCollateral_inv [OF step_redeem.prems step_redeem.hyps])
next
  case step_ticket
  with CreateTicket_not_ok [OF step_ticket.prems step_ticket.hyps(2)] show ?case by simp
next
  case step_params
  show ?case by (rule UpdateParams_inv [OF step_params.prems step_params.hyps])
next
  case step_begin
  with BeginBlocker_reads [OF step_begin.hyps] show ?case by simp
next
  case step_end
  show ?case by (rule EndBlocker_inv [OF step_end.prems step_end.hyps])
next
  case step_other
  show ?case by (rule inv_bank [OF step_other.prems]) (use step_other.hyps in simp_all)
qed

lemma reachable_inv: "(hal_step X S N bal total k)\<^sup>*\<^sup>* w w' \<Longrightarrow> safe w \<Longrightarrow> safe w'"
  by (induction rule: rtranclp_induct) (auto intro: hal_step_inv)

text \<open>A genesis state: the store of the module is empty before.\<close>

lemma InitGenesis_inv:
  assumes empty: "kv_map (w_kv w) = (\<lambda>_. None)" and sane: "sane_params X S (gs_Params g)"
  shows "\<exists>w'. InitGenesis S k g w = (Ok (), w') \<and> safe w' \<and> w_bank w' = w_bank w \<and>
    kv_map (w_kv w') = [ParamsKey \<mapsto> Params_enc X (gs_Params g)]"
proof -
  have p: "params_ok X (gs_Params g)" "pa_MaxRedeemEntries (gs_Params g) \<noteq> 0" using sane by (simp_all add: sane_params_def)
  obtain s' where s': "SetParams k (gs_Params g) w = (Ok (), w\<lparr>w_kv := s'\<rparr>)"
      "kv_map s' = [ParamsKey \<mapsto> Params_enc X (gs_Params g)]"
    using SetParams_effect [OF p(1), of w] empty by auto
  have "requests_ok X (kv_map s')"
    using SetParams_requests_ok [OF _ p s'(1)] empty by (simp add: requests_ok_def)
  moreover have "\<not> is_request X (kv_map s') r" for r
    by (simp add: s'(2) is_request_def)
  ultimately have "safe (w\<lparr>w_kv := s'\<rparr>)"
    using sane bal_nonneg by (auto simp: chain_inv_def pending_def s'(2))
  with s' show ?thesis by (simp add: InitGenesis_def)
qed

end

end
