(* ===== verification/Vault.thy ===== *)
theory Vault
  imports Chain
begin

text \<open>
  What the module promises, without stores, keys, encodings and bank calls: a vault that holds
  collateral for HAL, and a set of claims, at most one for an account. The simulation at the end
  shows that every step of the chain is a step of the vault, under the abstraction that
  forgets how the keeper stores its state.
\<close>

section \<open>The vault\<close>

record vault =
  v_params :: params
  v_claims :: "redeem_request set"
  v_bal :: "acc_address \<Rightarrow> string \<Rightarrow> int"
  v_supply :: "string \<Rightarrow> int"

abbreviation "v_hal v \<equiv> hal_denom (v_params v)"
abbreviation "v_coll v \<equiv> collateral_denom (v_params v)"

text \<open>Two HAL for one collateral; the collateral is taken when it is paid.\<close>

definition vault_mint :: "acc_address \<Rightarrow> acc_address \<Rightarrow> int \<Rightarrow> bool \<Rightarrow> vault \<Rightarrow> vault" where
  "vault_mint coll a n paid v = v\<lparr>
     v_supply := (v_supply v)(v_hal v := v_supply v (v_hal v) + 2 * n),
     v_bal := \<lambda>x d. v_bal v x d + (if x = a \<and> d = v_hal v then 2 * n else 0)
       + (if paid \<and> d = v_coll v then (if x = coll then n else 0) - (if x = a then n else 0) else 0)\<rparr>"

text \<open>Half of the burned HAL becomes a claim, which replaces the claim of the same account.\<close>

definition vault_redeem :: "acc_address \<Rightarrow> acc_address \<Rightarrow> acc_address \<Rightarrow> int \<Rightarrow> redeem_request \<Rightarrow> vault \<Rightarrow> vault" where
  "vault_redeem coll pool payer h r v = v\<lparr>
     v_claims := insert r {q \<in> v_claims v. rr_Account q \<noteq> rr_Account r},
     v_supply := (v_supply v)(v_hal v := v_supply v (v_hal v) - h),
     v_bal := \<lambda>x d. v_bal v x d - (if d = v_hal v \<and> x = payer then h else 0)
       + (if d = v_coll v then (if x = pool then h div 2 else 0) - (if x = coll then h div 2 else 0) else 0)\<rparr>"

text \<open>All claims that are due are paid at once.\<close>

definition due :: "sdk_context \<Rightarrow> vault \<Rightarrow> redeem_request set" where
  "due ctx v = {r \<in> v_claims v. matured ctx r}"

definition vault_settle :: "sdk_lib \<Rightarrow> acc_address \<Rightarrow> sdk_context \<Rightarrow> vault \<Rightarrow> vault" where
  "vault_settle S pool ctx v = v\<lparr>
     v_claims := v_claims v - due ctx v,
     v_bal := \<lambda>a d. v_bal v a d + (\<Sum>r | r \<in> due ctx v \<and> rr_addr S r = a \<and> rr_denom r = d. rr_amount r)
       - (if a = pool then \<Sum>r | r \<in> due ctx v \<and> rr_denom r = d. rr_amount r else 0)\<rparr>"

inductive vault_step :: "sdk_lib \<Rightarrow> acc_address \<Rightarrow> acc_address \<Rightarrow> vault \<Rightarrow> vault \<Rightarrow> bool"
  for S coll pool where
  vault_mint: "a \<noteq> pool \<Longrightarrow> 0 \<le> n \<Longrightarrow> paid \<longrightarrow> n \<le> v_bal v a (v_coll v) \<Longrightarrow> vault_step S coll pool v (vault_mint coll a n paid v)"
| vault_redeem: "a \<noteq> pool \<Longrightarrow> 0 \<le> h \<Longrightarrow> payer \<in> {a, coll} \<Longrightarrow> h \<le> v_bal v payer (v_hal v) \<Longrightarrow> h div 2 \<le> v_bal v coll (v_coll v) \<Longrightarrow>
    r = redeemed_request S (v_params v) now a h \<Longrightarrow>
    vault_step S coll pool v (vault_redeem coll pool payer h r v)"
| vault_settle: "\<forall>r \<in> due ctx v. 0 < rr_amount r \<Longrightarrow>
    \<forall>d. (\<Sum>r | r \<in> due ctx v \<and> rr_denom r = d. rr_amount r) \<le> v_bal v pool d \<Longrightarrow>
    vault_step S coll pool v (vault_settle S pool ctx v)"
| vault_params: "vault_step S coll pool v (v\<lparr>v_params := p\<rparr>)"
| vault_other: "\<forall>d. v_bal v pool d \<le> b pool d \<Longrightarrow> vault_step S coll pool v (v\<lparr>v_bal := b, v_supply := t\<rparr>)"

section \<open>The abstraction\<close>

definition vault_of :: "wire_ext \<Rightarrow> ('s \<Rightarrow> bytes \<Rightarrow> bytes option) \<Rightarrow> ('b \<Rightarrow> acc_address \<Rightarrow> string \<Rightarrow> int) \<Rightarrow>
    ('b \<Rightarrow> string \<Rightarrow> int) \<Rightarrow> ('s, 'b) keeper \<Rightarrow> ('s, 'b) world \<Rightarrow> vault" where
  "vault_of X kv_map bal tot k w = \<lparr>
     v_params = (case GetParams k w of Ok p \<Rightarrow> p | _ \<Rightarrow> Params_Reset),
     v_claims = {r. is_request X (kv_map (w_kv w)) r},
     v_bal = bal (w_bank w), v_supply = tot (w_bank w)\<rparr>"

lemma vault_of_simps [simp]:
  "v_claims (vault_of X kv_map bal tot k w) = {r. is_request X (kv_map (w_kv w)) r}"
  "v_bal (vault_of X kv_map bal tot k w) = bal (w_bank w)" "v_supply (vault_of X kv_map bal tot k w) = tot (w_bank w)"
  "GetParams k w = Ok p \<Longrightarrow> v_params (vault_of X kv_map bal tot k w) = p"
  by (simp_all add: vault_of_def)

lemma vault_eqI:
  "v_params v = v_params v' \<Longrightarrow> v_claims v = v_claims v' \<Longrightarrow> v_bal v = v_bal v' \<Longrightarrow> v_supply v = v_supply v' \<Longrightarrow>
     v = (v' :: vault)"
  by simp

context keeper_env
begin

abbreviation "vof \<equiv> vault_of X kv_map bal total k"
abbreviation "vstep \<equiv> vault_step S coll_addr pool_addr"

lemma can_pay_bal: "can_pay bal locked b a d n \<Longrightarrow> n \<le> bal b a d"
  using locked_nonneg [of a d] bal_nonneg [of b a d] by (auto simp: can_pay_def)

lemma requests_after_set:
  assumes wf: "RedeemRequest_wf X r"
  shows "{q. is_request X (m(request_key (rr_Account r) \<mapsto> RedeemRequest_enc X r)) q}
    = insert r {q \<in> {q. is_request X m q}. rr_Account q \<noteq> rr_Account r}"
proof (intro equalityI subsetI)
  fix q
  assume "q \<in> {q. is_request X (m(request_key (rr_Account r) \<mapsto> RedeemRequest_enc X r)) q}"
  then show "q \<in> insert r {q \<in> {q. is_request X m q}. rr_Account q \<noteq> rr_Account r}"
    using is_request_set [OF wf, of m q] by blast
qed (use wf in \<open>auto simp: is_request_def\<close>)

lemma mint_simulation:
  assumes inv: "safe w" and ok: "MintHal S k msg w = (Ok resp, w')"
    and small: "\<forall>n. coin_Amount (mh_CollateralAmount msg) = Some n \<longrightarrow>
      \<bar>2 * n\<bar> < 2 ^ 255 \<and> (\<forall>d. total (w_bank w) d + 2 * n < 2 ^ 256)"
    and signer: "AccAddressFromBech32 S (mh_Creator msg) \<noteq> Ok pool_addr"
  shows "vstep (vof w) (vof w')"
proof -
  from inv obtain p where p: "GetParams k w = Ok p" "sane_params X S p" by (rule invE)
  then have d: "ValidateDenom S (hal_denom p)" "ValidateDenom S (collateral_denom p)" "hal_denom p \<noteq> collateral_denom p"
    by (simp_all add: sane_params_def)
  obtain a n where a: "AccAddressFromBech32 S (mh_Creator msg) = Ok a" "\<not> blocked_addr N (k_accountKeeper k) a"
    and c: "mh_CollateralAmount msg = \<lparr>coin_Denom = collateral_denom p, coin_Amount = Some n\<rparr>"
    and n: "0 \<le> n" "2 * n < 2 ^ 255" "total (w_bank w) (hal_denom p) + 2 * n < 2 ^ 256"
    by (rule MintHal_Ok_inv [OF ok p(1) d(1,2)]) (use small in auto)
  define paid where "paid = can_pay bal locked (w_bank w) a (collateral_denom p) n"
  obtain b' where b': "w' = w\<lparr>w_bank := b'\<rparr>"
      "total b' = (total (w_bank w))(hal_denom p := total (w_bank w) (hal_denom p) + 2 * n)"
      "\<forall>x d. bal b' x d = bal (w_bank w) x d + (if x = a \<and> d = hal_denom p then 2 * n else 0)
      + (if paid \<and> d = collateral_denom p then (if x = coll_addr then n else 0) - (if x = a then n else 0) else 0)"
    using MintHal_effect [OF a p(1) d c n] ok by (auto simp: paid_def)
  have p': "GetParams k w' = Ok p" using p(1) by (simp add: b'(1) GetParams_eq)
  have "vof w' = vault_mint coll_addr a n paid (vof w)"
    using p(1) p' by (intro vault_eqI) (simp_all add: vault_mint_def b' fun_eq_iff)
  moreover have "paid \<longrightarrow> n \<le> bal (w_bank w) a (collateral_denom p)"
    using can_pay_bal by (simp add: paid_def)
  ultimately show ?thesis
    using vault_step.vault_mint [of a pool_addr n paid "vof w"] n(1) p(1) signer a(1) by auto
qed

lemma redeem_simulation:
  assumes inv: "safe w" and ok: "RedeemCollateral S k now msg w = (Ok resp, w')"
    and small: "\<forall>h. coin_Amount (rc_HalAmount msg) = Some h \<longrightarrow> h < 2 ^ 255 \<and>
      (\<forall>p a. GetParams k w = Ok p \<and> AccAddressFromBech32 S (rc_Creator msg) = Ok a \<longrightarrow>
        storable X (redeemed_request S p now a h))"
    and signer: "AccAddressFromBech32 S (rc_Creator msg) \<noteq> Ok pool_addr"
  shows "vstep (vof w) (vof w')"
proof -
  from inv obtain p where p: "GetParams k w = Ok p" "sane_params X S p" by (rule invE)
  then have d: "ValidateDenom S (hal_denom p)" "ValidateDenom S (collateral_denom p)" "hal_denom p \<noteq> collateral_denom p"
    by (simp_all add: sane_params_def)
  obtain a d' h where a: "AccAddressFromBech32 S (rc_Creator msg) = Ok a"
    and c: "rc_HalAmount msg = \<lparr>coin_Denom = d', coin_Amount = Some h\<rparr>" "ValidateDenom S d'" "0 \<le> h" "h < 2 ^ 255"
    and f: "can_pay bal locked (w_bank w) a (hal_denom p) h \<or> h \<le> bal (w_bank w) coll_addr (hal_denom p)"
      "h div 2 \<le> bal (w_bank w) coll_addr (collateral_denom p)"
    by (rule RedeemCollateral_Ok_inv [OF ok p(1) d]) (use small in auto)
  define r where "r = redeemed_request S p now a h"
  define payer where "payer = (if can_pay bal locked (w_bank w) a (hal_denom p) h then a else coll_addr)"
  have st: "storable X (redeemed_request S p now a h)" using small a p(1) c(1) by simp
  have wf: "RedeemRequest_wf X r" using redeemed_wf [OF st c(3,4)] by (simp add: r_def)
  have acc: "rr_Account r = AccAddress_String S a" by (simp add: r_def)
  obtain s' b' where w': "w' = w\<lparr>w_bank := b', w_kv := s'\<rparr>"
      "kv_map s' = (kv_map (w_kv w))(request_key (rr_Account r) \<mapsto> RedeemRequest_enc X r)"
      "total b' = (total (w_bank w))(hal_denom p := total (w_bank w) (hal_denom p) - h)"
      "\<forall>x d. bal b' x d = bal (w_bank w) x d - (if d = hal_denom p \<and> x = payer then h else 0)
        + (if d = collateral_denom p then (if x = pool_addr then h div 2 else 0) - (if x = coll_addr then h div 2 else 0) else 0)"
    using RedeemCollateral_effect [OF a p(1) d c f st] ok by (auto simp: payer_def r_def)
  have p': "GetParams k w' = Ok p" using p(1) by (simp add: w'(1,2) GetParams_eq)
  have "vof w' = vault_redeem coll_addr pool_addr payer h r (vof w)"
    using p(1) p' requests_after_set [OF wf, of "kv_map (w_kv w)"]
    by (intro vault_eqI) (simp_all add: vault_redeem_def w' fun_eq_iff)
  moreover have "h \<le> bal (w_bank w) payer (hal_denom p)"
    using f(1) can_pay_bal by (auto simp: payer_def)
  ultimately show ?thesis
    using vault_step.vault_redeem [of a pool_addr h payer coll_addr "vof w" r S now] c(3) f(2) p(1) signer a
    by (auto simp: r_def payer_def)
qed

lemma paid_sums:
  assumes "set rs = {r. is_request X (kv_map (w_kv w)) r}" "distinct rs"
  shows "paid_to S ctx rs a d = (\<Sum>r | r \<in> due ctx (vof w) \<and> rr_addr S r = a \<and> rr_denom r = d. rr_amount r)"
    "paid_out ctx rs d = (\<Sum>r | r \<in> due ctx (vof w) \<and> rr_denom r = d. rr_amount r)"
proof -
  have "{r \<in> set rs. matured ctx r \<and> rr_addr S r = a \<and> rr_denom r = d}
      = {r. r \<in> due ctx (vof w) \<and> rr_addr S r = a \<and> rr_denom r = d}"
    "{r \<in> set rs. matured ctx r \<and> rr_denom r = d} = {r. r \<in> due ctx (vof w) \<and> rr_denom r = d}"
    using assms(1) by (auto simp: due_def)
  then show "paid_to S ctx rs a d = (\<Sum>r | r \<in> due ctx (vof w) \<and> rr_addr S r = a \<and> rr_denom r = d. rr_amount r)"
    "paid_out ctx rs d = (\<Sum>r | r \<in> due ctx (vof w) \<and> rr_denom r = d. rr_amount r)"
    by (simp_all add: paid_to_def paid_out_def sum_list_distinct_conv_sum_set [OF assms(2)]
        sum.inter_filter [symmetric])
qed

lemma settle_simulation:
  assumes inv: "safe w" and ok: "EndBlocker S k ctx w = (Ok (), w')"
  shows "vstep (vof w) (vof w')"
proof -
  let ?m = "kv_map (w_kv w)"
  obtain p where p: "GetParams k w = Ok p" "?m ParamsKey = Some (Params_enc X p)" using inv by (rule invE)
  obtain rs where rs: "set rs = {r. is_request X ?m r}" "distinct rs" "safe w'" "total (w_bank w') = total (w_bank w)"
      "kv_map (w_kv w') = deleted ctx rs ?m"
      "\<forall>a d. bal (w_bank w') a d = bal (w_bank w) a d + paid_to S ctx rs a d
        - (if a = pool_addr then paid_out ctx rs d else 0)"
    using inv ok by (rule EndBlocker_Ok_effect)
  have p': "GetParams k w' = Ok p"
    using p by (simp add: GetParams_eq rs(5) deleted_def)
  have "{r. is_request X (kv_map (w_kv w')) r} = {r. is_request X ?m r} - due ctx (vof w)"
    using deleted_requests [OF rs(1), of ctx] by (auto simp: rs(5) due_def)
  then have "vof w' = vault_settle S pool_addr ctx (vof w)"
    using p(1) p' by (intro vault_eqI) (simp_all add: vault_settle_def rs(4,6) fun_eq_iff paid_sums [OF rs(1,2)])
  moreover have "0 < rr_amount r" if "r \<in> due ctx (vof w)" for r
  proof -
    have "is_request X ?m r" "matured ctx r" using that by (simp_all add: due_def)
    moreover from this have "0 \<le> rr_amount r"
      using inv good_request_amount unfolding chain_inv_def by blast
    ultimately show ?thesis using EndBlocker_Ok_pos [OF inv ok, of r] by simp
  qed
  moreover have "(\<Sum>r | r \<in> due ctx (vof w) \<and> rr_denom r = d. rr_amount r) \<le> bal (w_bank w) pool_addr d" for d
  proof -
    have "(\<Sum>r | r \<in> due ctx (vof w) \<and> rr_denom r = d. rr_amount r) \<le> pending X ?m d"
      unfolding pending_def
    proof (rule sum_mono2)
      show "finite {r. is_request X ?m r \<and> rr_denom r = d}"
        using requests_finite [of w] inv unfolding chain_inv_def by (auto intro: finite_subset)
      show "0 \<le> rr_amount r" if "r \<in> {r. is_request X ?m r \<and> rr_denom r = d} - {r. r \<in> due ctx (vof w) \<and> rr_denom r = d}" for r
        using that inv good_request_amount unfolding chain_inv_def by blast
    qed (auto simp: due_def)
    also have "\<dots> \<le> bal (w_bank w) pool_addr d" using inv by (simp add: chain_inv_def)
    finally show ?thesis .
  qed
  ultimately show ?thesis
    using vault_step.vault_settle [of ctx "vof w" pool_addr S coll_addr] by simp
qed

lemma simulation:
  "hal_step X S N bal total k w w' \<Longrightarrow> safe w \<Longrightarrow> vstep (vof w) (vof w') \<or> vof w' = vof w"
proof (induction rule: hal_step.induct)
  case step_mint
  then show ?case using mint_simulation [OF step_mint.prems step_mint.hyps(1,3,2)] by blast
next
  case step_redeem
  then show ?case using redeem_simulation [OF step_redeem.prems step_redeem.hyps(1,3)] step_redeem.hyps(2) by blast
next
  case step_ticket
  with CreateTicket_not_ok [OF step_ticket.prems step_ticket.hyps(2)] show ?case by simp
next
  case (step_params umsg w resp w')
  let ?p = "up_Params umsg"
  have pok: "params_ok X ?p" using step_params.hyps(2) by (simp add: sane_params_def)
  obtain s' where s': "SetParams k ?p w = (Ok (), w\<lparr>w_kv := s'\<rparr>)"
      "kv_map s' = (kv_map (w_kv w))(ParamsKey \<mapsto> Params_enc X ?p)"
    using SetParams_effect [OF pok] by blast
  have w': "w' = w\<lparr>w_kv := s'\<rparr>"
    using step_params.hyps(1) s'(1) by (auto simp: UpdateParams_def bind_a_apply split: if_splits)
  have "GetParams k w' = Ok ?p"
    by (rule GetParams_stored [OF pok]) (simp add: w' s'(2))
  moreover have "is_request X (kv_map s') r = is_request X (kv_map (w_kv w)) r" for r
    unfolding s'(2) by (rule is_request_other) simp
  ultimately have "vof w' = (vof w)\<lparr>v_params := ?p\<rparr>"
    by (intro vault_eqI) (simp_all add: w')
  then show ?case using vault_step.vault_params [of S coll_addr pool_addr "vof w" ?p] by simp
next
  case step_begin
  with BeginBlocker_reads [OF step_begin.hyps] show ?case by simp
next
  case step_end
  then show ?case using settle_simulation [OF step_end.prems step_end.hyps] by blast
next
  case (step_other w b')
  obtain p where p: "GetParams k w = Ok p" using step_other.prems by (rule invE)
  then have p': "GetParams k (w\<lparr>w_bank := b'\<rparr>) = Ok p" by (simp add: GetParams_eq)
  have "vof (w\<lparr>w_bank := b'\<rparr>) = (vof w)\<lparr>v_bal := bal b', v_supply := total b'\<rparr>"
    using p p' by (intro vault_eqI) simp_all
  then show ?case
    using vault_step.vault_other [of "vof w" pool_addr "bal b'" S coll_addr "total b'"] step_other.hyps by simp
qed

lemma run_simulation:
  assumes "(hal_step X S N bal total k)\<^sup>*\<^sup>* w w'" "safe w"
  shows "vstep\<^sup>*\<^sup>* (vof w) (vof w')"
  using assms
proof (induction rule: rtranclp_induct)
  case (step y z)
  then have "safe y" using reachable_inv by blast
  with simulation [OF step.hyps(2)] step.IH [OF step.prems] show ?case
    by (auto intro: rtranclp.rtrancl_into_rtrancl)
qed simp

end

section \<open>What the vault guarantees\<close>

text \<open>An account has at most one claim, and the redeem pool covers all claims.\<close>

definition vault_ok :: "acc_address \<Rightarrow> vault \<Rightarrow> bool" where
  "vault_ok pool v \<longleftrightarrow> finite (v_claims v) \<and> inj_on rr_Account (v_claims v) \<and> (\<forall>r \<in> v_claims v. 0 \<le> rr_amount r) \<and>
     (\<forall>d. (\<Sum>r | r \<in> v_claims v \<and> rr_denom r = d. rr_amount r) \<le> v_bal v pool d)"

lemma insert_claim_sum:
  assumes "finite C" "\<forall>r \<in> C. 0 \<le> rr_amount r" "0 \<le> rr_amount r"
  shows "(\<Sum>q | q \<in> insert r {q \<in> C. rr_Account q \<noteq> rr_Account r} \<and> rr_denom q = d. rr_amount q)
    \<le> (\<Sum>q | q \<in> C \<and> rr_denom q = d. rr_amount q) + (if rr_denom r = d then rr_amount r else 0)"
proof -
  let ?A = "{q. q \<in> insert r {q \<in> C. rr_Account q \<noteq> rr_Account r} \<and> rr_denom q = d}"
  let ?B = "{q \<in> C. rr_denom q = d}"
  let ?D = "if rr_denom r = d then insert r ?B else ?B"
  have "sum rr_amount ?A \<le> sum rr_amount ?D"
    using assms by (intro sum_mono2) (auto split: if_splits)
  also have "\<dots> \<le> sum rr_amount ?B + (if rr_denom r = d then rr_amount r else 0)"
    using assms by (auto simp: sum.insert_if)
  finally show ?thesis by simp
qed

lemma settle_claim_sum:
  assumes "finite C" "\<forall>r \<in> C. 0 \<le> rr_amount r" "D \<subseteq> C"
  shows "(\<Sum>r | r \<in> C - D \<and> rr_denom r = d. rr_amount r) + (\<Sum>r | r \<in> D \<and> rr_denom r = d. rr_amount r)
    = (\<Sum>r | r \<in> C \<and> rr_denom r = d. rr_amount r)"
proof -
  have "{r. r \<in> C \<and> rr_denom r = d} = {r. r \<in> C - D \<and> rr_denom r = d} \<union> {r. r \<in> D \<and> rr_denom r = d}"
    using assms(3) by auto
  moreover have "finite {r. r \<in> C - D \<and> rr_denom r = d}" "finite {r. r \<in> D \<and> rr_denom r = d}"
    using assms(1,3) by (auto intro: finite_subset)
  ultimately show ?thesis by (simp add: sum.union_disjoint disjoint_iff)
qed

lemma vault_step_ok:
  assumes "vault_step S coll pool v v'" "coll \<noteq> pool" "vault_ok pool v"
  shows "vault_ok pool v'"
  using assms
proof (induction rule: vault_step.induct)
  case (vault_mint a n paid v)
  then have "v_bal (vault_mint coll a n paid v) pool d = v_bal v pool d" for d
    by (auto simp: vault_mint_def)
  then show ?case using vault_mint.prems(2) by (simp add: vault_ok_def) (simp add: vault_mint_def)
next
  case (vault_redeem a h payer v r now)
  have "payer \<noteq> pool" using vault_redeem by auto
  then have bal: "v_bal (vault_redeem coll pool payer h r v) pool d
      = v_bal v pool d + (if rr_denom r = d then rr_amount r else 0)" for d
    using vault_redeem by (auto simp: vault_redeem_def rr_denom_def rr_amount_def)
  have pos: "0 \<le> rr_amount r" using vault_redeem by (simp add: rr_amount_def)
  have "(\<Sum>q | q \<in> insert r {q \<in> v_claims v. rr_Account q \<noteq> rr_Account r} \<and> rr_denom q = d. rr_amount q)
      \<le> v_bal v pool d + (if rr_denom r = d then rr_amount r else 0)" for d
  proof -
    have v: "finite (v_claims v)" "\<forall>r \<in> v_claims v. 0 \<le> rr_amount r"
      "(\<Sum>r | r \<in> v_claims v \<and> rr_denom r = d. rr_amount r) \<le> v_bal v pool d"
      using vault_redeem.prems(2) by (simp_all add: vault_ok_def)
    show ?thesis using insert_claim_sum [OF v(1,2) pos, of d] v(3) by linarith
  qed
  then show ?case
    using pos vault_redeem.prems(2) unfolding vault_ok_def bal by (auto simp: vault_redeem_def inj_on_def)
next
  case (vault_settle ctx v)
  have sub: "due ctx v \<subseteq> v_claims v" by (auto simp: due_def)
  have bal: "v_bal v pool d - (\<Sum>r | r \<in> due ctx v \<and> rr_denom r = d. rr_amount r) \<le> v_bal (vault_settle S pool ctx v) pool d" for d
    using sum_nonneg [of "{r. r \<in> due ctx v \<and> rr_addr S r = pool \<and> rr_denom r = d}" rr_amount] vault_settle.hyps(1)
    by (simp add: vault_settle_def less_imp_le)
  have "(\<Sum>r | r \<in> v_claims v - due ctx v \<and> rr_denom r = d. rr_amount r) \<le> v_bal (vault_settle S pool ctx v) pool d" for d
  proof -
    have v: "finite (v_claims v)" "\<forall>r \<in> v_claims v. 0 \<le> rr_amount r"
      "(\<Sum>r | r \<in> v_claims v \<and> rr_denom r = d. rr_amount r) \<le> v_bal v pool d"
      using vault_settle.prems(2) by (simp_all add: vault_ok_def)
    show ?thesis using settle_claim_sum [OF v(1,2) sub, of d] bal [of d] v(3) by linarith
  qed
  then show ?case
    using vault_settle.prems(2) unfolding vault_ok_def by (auto simp: vault_settle_def inj_on_def)
next
  case (vault_other v b t)
  then show ?case unfolding vault_ok_def by (auto intro: order_trans)
qed (simp add: vault_ok_def)

lemma vault_run_ok: "(vault_step S coll pool)\<^sup>*\<^sup>* v v' \<Longrightarrow> coll \<noteq> pool \<Longrightarrow> vault_ok pool v \<Longrightarrow> vault_ok pool v'"
  by (induction rule: rtranclp_induct) (auto intro: vault_step_ok)

end
