(* ===== verification/Store_Types.thy ===== *)
theory Store_Types
  imports Chain
begin

text \<open>
  The types of the values in the store of the module: in every reachable state a key is the one of
  the parameters, with encoded parameters as its value, or the key of an account, with an encoded
  request of that account.
\<close>

definition store_typed :: "wire_ext \<Rightarrow> sdk_lib \<Rightarrow> (bytes \<Rightarrow> bytes option) \<Rightarrow> bool" where
  "store_typed X S m \<longleftrightarrow> (\<forall>key v. m key = Some v \<longrightarrow>
     key = ParamsKey \<and> (\<exists>p. sane_params X S p \<and> v = Params_enc X p) \<or>
     (\<exists>r. key = request_key (rr_Account r) \<and> RedeemRequest_wf X r \<and> v = RedeemRequest_enc X r))"

lemma store_typed_params:
  "store_typed X S m \<Longrightarrow> sane_params X S p \<Longrightarrow> store_typed X S (m(ParamsKey \<mapsto> Params_enc X p))"
  by (auto simp: store_typed_def)

lemma store_typed_request:
  "store_typed X S m \<Longrightarrow> RedeemRequest_wf X r \<Longrightarrow> store_typed X S (m(request_key (rr_Account r) \<mapsto> RedeemRequest_enc X r))"
  unfolding store_typed_def by auto

lemma store_typed_deleted: "store_typed X S m \<Longrightarrow> store_typed X S (deleted ctx rs m)"
  unfolding store_typed_def deleted_def by (auto split: if_splits)

context keeper_env
begin

lemma RedeemCollateral_typed:
  assumes inv: "safe w" and typed: "store_typed X S (kv_map (w_kv w))" and ok: "RedeemCollateral S k now msg w = (Ok resp, w')"
    and small: "\<forall>h. coin_Amount (rc_HalAmount msg) = Some h \<longrightarrow> h < 2 ^ 255 \<and>
      (\<forall>p a. GetParams k w = Ok p \<and> AccAddressFromBech32 S (rc_Creator msg) = Ok a \<longrightarrow>
        storable X (redeemed_request S p now a h))"
    and signer: "\<forall>a. AccAddressFromBech32 S (rc_Creator msg) = Ok a \<longrightarrow> a \<noteq> pool_addr"
  shows "store_typed X S (kv_map (w_kv w'))"
proof -
  from inv obtain p where p: "GetParams k w = Ok p" "sane_params X S p" by (rule invE)
  then have d: "ValidateDenom S (hal_denom p)" "ValidateDenom S (collateral_denom p)" "hal_denom p \<noteq> collateral_denom p"
    by (simp_all add: sane_params_def)
  obtain a h where a: "AccAddressFromBech32 S (rc_Creator msg) = Ok a"
    and c: "coin_Amount (rc_HalAmount msg) = Some h" "0 \<le> h" "h < 2 ^ 255"
    by (rule RedeemCollateral_Ok_inv [OF ok p(1) d]) (use small in auto)
  have st: "storable X (redeemed_request S p now a h)" using small a p(1) c(1) by simp
  have "RedeemRequest_wf X (redeemed_request S p now a h)" using redeemed_wf [OF st c(2,3)] by simp
  from store_typed_request [OF typed this] show ?thesis
    using RedeemCollateral_Ok_effect(1) [OF ok p(1) d a _ c(1,3) st] signer a by simp
qed

lemma hal_step_typed:
  "hal_step X S N bal total k w w' \<Longrightarrow> safe w \<Longrightarrow> store_typed X S (kv_map (w_kv w)) \<Longrightarrow> store_typed X S (kv_map (w_kv w'))"
proof (induction rule: hal_step.induct)
  case (step_mint msg w resp w')
  have "w_kv w' = w_kv w" by (rule MintHal_keeps_store [OF step_mint.hyps(1)])
  with step_mint.prems show ?case by simp
next
  case step_redeem
  show ?case
    by (rule RedeemCollateral_typed [OF step_redeem.prems step_redeem.hyps(1,3)]) (use step_redeem.hyps(2) in blast)
next
  case step_ticket
  with CreateTicket_not_ok [OF step_ticket.prems(1) step_ticket.hyps(2)] show ?case by simp
next
  case (step_params umsg w resp w')
  have pok: "params_ok X (up_Params umsg)" using step_params.hyps(2) by (simp add: sane_params_def)
  obtain s' where s': "SetParams k (up_Params umsg) w = (Ok (), w\<lparr>w_kv := s'\<rparr>)"
      "kv_map s' = (kv_map (w_kv w))(ParamsKey \<mapsto> Params_enc X (up_Params umsg))"
    using SetParams_effect [OF pok] by blast
  have "w' = w\<lparr>w_kv := s'\<rparr>"
    using step_params.hyps(1) s'(1) by (auto simp: UpdateParams_def bind_a_apply split: if_splits)
  then have "w_kv w' = s'" by simp
  then show ?case
    by (simp only: s'(2) store_typed_params [OF step_params.prems(2) step_params.hyps(2)])
next
  case step_begin
  with BeginBlocker_reads [OF step_begin.hyps] show ?case by simp
next
  case (step_end ctx w w')
  obtain rs where "kv_map (w_kv w') = deleted ctx rs (kv_map (w_kv w))"
    using step_end.prems(1) step_end.hyps by (rule EndBlocker_Ok_effect)
  with store_typed_deleted [OF step_end.prems(2)] show ?case by simp
next
  case step_other
  then show ?case by simp
qed

lemma reachable_typed:
  "(hal_step X S N bal total k)\<^sup>*\<^sup>* w w' \<Longrightarrow> safe w \<Longrightarrow> store_typed X S (kv_map (w_kv w)) \<Longrightarrow>
     store_typed X S (kv_map (w_kv w'))"
  by (induction rule: rtranclp_induct) (auto intro: hal_step_typed reachable_inv)

end

end
