(* ===== verification/Pulsar_Runtime.thy ===== *)
theory Pulsar_Runtime
  imports Wire_Roundtrip
begin

text \<open>
  What the files \<open>api/halbornctf/hal/*.pulsar.go\<close> share: the \<open>size\<close>, \<open>marshal\<close> and \<open>unmarshal\<close> closures
  of a \<open>ProtoMethods\<close> method and the switch statements of the reflection methods. The functions
  that these files call in other packages are parameters: \<open>pulsar_rt\<close> is the runtime package of
  cosmos-proto, \<open>proto_ops\<close> the options of the proto package applied to a message type, and
  \<open>value_lib\<close> and \<open>msg_value\<close> the values of protoreflect.
\<close>

section \<open>Packages that the generated code calls\<close>

text \<open>\<open>runtime.Sov\<close>, \<open>runtime.EncodeVarint\<close> and \<open>runtime.Skip\<close>.\<close>

record pulsar_rt =
  rt_Sov :: "64 word \<Rightarrow> int"
  rt_EncodeVarint :: "bytes \<Rightarrow> int \<Rightarrow> 64 word \<Rightarrow> (bytes \<times> int) outcome"
  rt_Skip :: "bytes \<Rightarrow> int outcome"

text \<open>They do what the functions of the same purpose in \<open>x/hal/types\<close> do, with errors of their own.\<close>

locale rt_laws =
  fixes R :: pulsar_rt
  assumes Sov: "rt_Sov R = sov"
    and EncodeVarint: "rt_EncodeVarint R = encodeVarint"
    and Skip: "rt_Skip R = skip PbRuntime"

text \<open>\<open>options.Size(m)\<close>, \<open>options.Marshal(m)\<close>, \<open>options.Unmarshal(b, m)\<close>, which decodes into the value that
  \<open>m\<close> has, and \<open>new(T)\<close> for a message type.\<close>

record 'm proto_ops =
  op_Size :: "'m \<Rightarrow> int"
  op_Marshal :: "'m \<Rightarrow> bytes outcome"
  op_Unmarshal :: "bytes \<Rightarrow> 'm \<Rightarrow> 'm outcome"
  op_new :: 'm

text \<open>A message type whose values are encoded as \<open>enc\<close> says, read back into a new message, and
  never make the decoder panic.\<close>

locale proto_laws =
  fixes P :: "'m proto_ops" and enc :: "'m \<Rightarrow> bytes" and ok :: "'m \<Rightarrow> bool"
  assumes op_size: "ok m \<Longrightarrow> op_Size P m = int (length (enc m))"
    and op_marshal: "ok m \<Longrightarrow> op_Marshal P m = Ok (enc m)"
    and op_unmarshal: "ok m \<Longrightarrow> length (enc m) < 2 ^ 63 \<Longrightarrow> op_Unmarshal P (enc m) (op_new P) = Ok m"
    and op_no_panic: "length bs < 2 ^ 63 \<Longrightarrow> \<not> is_Panic (op_Unmarshal P bs m)"

text \<open>Scalar values: \<open>value.Interface().(string)\<close>, \<open>value.Uint()\<close> and \<open>value.Int()\<close> panic on a value of
  another kind.\<close>

record 'v value_lib =
  ValueOfString :: "string \<Rightarrow> 'v"
  ValueOfUint64 :: "64 word \<Rightarrow> 'v"
  ValueOfUint32 :: "32 word \<Rightarrow> 'v"
  ValueOfInt32 :: "32 word \<Rightarrow> 'v"
  Value_string :: "'v \<Rightarrow> string outcome"
  Value_Uint :: "'v \<Rightarrow> 64 word outcome"
  Value_Int :: "'v \<Rightarrow> 64 word outcome"

locale value_laws =
  fixes V :: "'v value_lib"
  assumes Value_string: "Value_string V (ValueOfString V s) = Ok s"
    and Value_Uint_64: "Value_Uint V (ValueOfUint64 V u) = Ok u"
    and Value_Uint_32: "Value_Uint V (ValueOfUint32 V u') = Ok (ucast u')"
    and Value_Int_32: "Value_Int V (ValueOfInt32 V i) = Ok (scast i)"

text \<open>\<open>protoreflect.ValueOfMessage(p.ProtoReflect())\<close> and \<open>value.Message().Interface().(*T)\<close> for pointers to
  a message type; a nil pointer is \<open>None\<close>.\<close>

record ('v, 'm) msg_value =
  ValueOfMessage :: "'m option \<Rightarrow> 'v"
  Value_Message :: "'v \<Rightarrow> 'm option outcome"

locale msg_value_laws =
  fixes MV :: "('v, 'm) msg_value"
  assumes Value_Message: "Value_Message MV (ValueOfMessage MV p) = Ok p"

text \<open>A field descriptor, as far as it is looked at.\<close>

record field_descriptor =
  FullName :: string
  IsExtension :: bool

section \<open>Messages\<close>

text \<open>What every message struct starts with; \<open>unknownFields\<close> nil is the empty list, and the state and the
  size cache of protoimpl are left out.\<close>

record api_msg =
  unknownFields :: bytes

section \<open>Size\<close>

text \<open>\<open>l = len(x.F); if l > 0 { n += 1 + l + runtime.Sov(uint64(l)) }\<close> and the like for integers, messages
  and unknown fields.\<close>

definition size_string :: "pulsar_rt \<Rightarrow> string \<Rightarrow> int" where
  "size_string R s = (let l = int (length s) in
     if l > 0 then 1 + l + rt_Sov R (word_of_nat (length s)) else 0)"

definition size_varint :: "pulsar_rt \<Rightarrow> bool \<Rightarrow> 64 word \<Rightarrow> int" where
  "size_varint R nonzero v = (if nonzero then 1 + rt_Sov R v else 0)"

definition size_message :: "pulsar_rt \<Rightarrow> 'm proto_ops \<Rightarrow> 'm option \<Rightarrow> int" where
  "size_message R P p = (case p of None \<Rightarrow> 0
     | Some m \<Rightarrow> let l = op_Size P m in 1 + l + rt_Sov R (word_of_int l))"

definition size_unknown :: "bytes \<Rightarrow> int" where
  "size_unknown u = int (length u)"

text \<open>A nil message has size 0.\<close>

definition size_of :: "('m \<Rightarrow> int) \<Rightarrow> 'm option \<Rightarrow> int" where
  "size_of sz x = (case x of None \<Rightarrow> 0 | Some m \<Rightarrow> sz m)"

section \<open>Marshal\<close>

definition put_sov :: "pulsar_rt \<Rightarrow> 64 word \<Rightarrow> wr" where
  "put_sov R v = (\<lambda>(dAtA, i). rt_EncodeVarint R dAtA i v)"

definition wr_string :: "pulsar_rt \<Rightarrow> byte \<Rightarrow> string \<Rightarrow> wr" where
  "wr_string R tag s = when_w (s \<noteq> [])
     (then_w (put_bytes (bytes_of s)) (then_w (put_sov R (word_of_nat (length s))) (put_byte tag)))"

definition wr_varint :: "pulsar_rt \<Rightarrow> byte \<Rightarrow> bool \<Rightarrow> 64 word \<Rightarrow> wr" where
  "wr_varint R tag nonzero v = when_w nonzero (then_w (put_sov R v) (put_byte tag))"

definition wr_message :: "pulsar_rt \<Rightarrow> 'm proto_ops \<Rightarrow> byte \<Rightarrow> 'm option \<Rightarrow> wr" where
  "wr_message R P tag p = (case p of None \<Rightarrow> skip_w
     | Some m \<Rightarrow> (\<lambda>s. bind_o (op_Marshal P m) (\<lambda>encoded.
         then_w (put_bytes encoded)
           (then_w (put_sov R (word_of_nat (length encoded))) (put_byte tag)) s)))"

definition wr_unknown :: "bytes \<Rightarrow> wr" where
  "wr_unknown u = when_w (u \<noteq> []) (put_bytes u)"

text \<open>The \<open>marshal\<close> closure around the statements that fill the buffer: \<open>Size\<close> is \<open>options.Size\<close>, \<open>buf\<close> the
  buffer of the input, which the result is appended to.\<close>

definition p_marshal :: "('m \<Rightarrow> int) \<Rightarrow> ('m \<Rightarrow> wr) \<Rightarrow> 'm option \<Rightarrow> bytes option \<Rightarrow> bytes option outcome" where
  "p_marshal Size body x buf =
     (case x of None \<Rightarrow> Ok buf
      | Some m \<Rightarrow>
          if Size m < 0 then Panic ''makeslice: len out of range''
          else bind_o (body m (replicate (nat (Size m)) 0, Size m)) (\<lambda>(dAtA, _).
            Ok (Some (case buf of None \<Rightarrow> dAtA | Some b \<Rightarrow> b @ dAtA))))"

section \<open>Unmarshal\<close>

text \<open>An embedded message: \<open>if x.F == nil { x.F = &T{} }\<close>, then \<open>options.Unmarshal(dAtA[iNdEx:postIndex], x.F)\<close>.\<close>

definition ptr_case :: "string \<Rightarrow> ('m \<Rightarrow> 'x option) \<Rightarrow> ('x option \<Rightarrow> 'm \<Rightarrow> 'm) \<Rightarrow> 'x proto_ops \<Rightarrow> 'm field_case" where
  "ptr_case name get put P = LenDelim name (\<lambda>bs m.
     bind_o (op_Unmarshal P bs (case get m of None \<Rightarrow> op_new P | Some x \<Rightarrow> x)) (\<lambda>x. Ok (put (Some x) m)))"

text \<open>The default case: \<open>if !options.DiscardUnknown { x.unknownFields = append(x.unknownFields, ...) }\<close>.\<close>

definition keep_unknown :: "bool \<Rightarrow> bytes \<Rightarrow> 'a api_msg_scheme \<Rightarrow> 'a api_msg_scheme" where
  "keep_unknown DiscardUnknown raw x =
     (if \<not> DiscardUnknown then x\<lparr>unknownFields := unknownFields x @ raw\<rparr> else x)"

text \<open>The loop over the fields. Nothing is known here of how far \<open>runtime.Skip\<close> advances, so the number of
  rounds is bounded; one more than the number of bytes is enough (\<open>p_loop_eq\<close>).\<close>

fun p_unmarshal_loop :: "nat \<Rightarrow> pulsar_rt \<Rightarrow> string \<Rightarrow> (bytes \<Rightarrow> 'm \<Rightarrow> 'm) \<Rightarrow> 'm fields \<Rightarrow> bytes \<Rightarrow> int \<Rightarrow> 'm \<Rightarrow> 'm outcome" where
  "p_unmarshal_loop 0 R msg keep fs dAtA iNdEx m = Panic ''out of rounds''"
| "p_unmarshal_loop (Suc n) R msg keep fs dAtA iNdEx m =
     (if iNdEx < int (length dAtA) then
        (case decode_varint PbRuntime dAtA iNdEx 0 (0 :: 64 word) of
           Ok (wire, i1) \<Rightarrow>
             (if wire_type wire = 4 then Err (EndGroupForNonGroup msg)
              else if wire_field wire \<le> 0 then Err (IllegalTag msg (wire_field wire) wire)
              else case unmarshal_field PbRuntime (rt_Skip R) keep fs dAtA iNdEx i1 (wire_field wire)
                  (wire_type wire) m of
                Ok (m', i2) \<Rightarrow> p_unmarshal_loop n R msg keep fs dAtA i2 m'
              | Err e \<Rightarrow> Err e
              | Panic s \<Rightarrow> Panic s)
         | Err e \<Rightarrow> Err e
         | Panic s \<Rightarrow> Panic s)
      else if iNdEx > int (length dAtA) then Err ErrUnexpectedEOF
      else Ok m)"

text \<open>The \<open>unmarshal\<close> closure; a nil message is left alone.\<close>

definition p_unmarshal :: "pulsar_rt \<Rightarrow> bool \<Rightarrow> string \<Rightarrow> 'a api_msg_scheme fields \<Rightarrow> 'a api_msg_scheme option \<Rightarrow> bytes \<Rightarrow>
    'a api_msg_scheme option outcome" where
  "p_unmarshal R DiscardUnknown msg fs x dAtA =
     (case x of None \<Rightarrow> Ok None
      | Some m \<Rightarrow> bind_o (p_unmarshal_loop (Suc (length dAtA)) R msg (keep_unknown DiscardUnknown) fs dAtA 0 m)
          (\<lambda>m'. Ok (Some m')))"

section \<open>Reflection\<close>

text \<open>A field access through a pointer.\<close>

definition deref :: "'m option \<Rightarrow> ('m \<Rightarrow> 'a outcome) \<Rightarrow> 'a outcome" where
  "deref x f = (case x of None \<Rightarrow> Panic ''invalid memory address or nil pointer dereference'' | Some m \<Rightarrow> f m)"

definition GetUnknown :: "'a api_msg_scheme option \<Rightarrow> bytes outcome" where
  "GetUnknown x = deref x (\<lambda>m. Ok (unknownFields m))"

definition SetUnknown :: "bytes \<Rightarrow> 'a api_msg_scheme option \<Rightarrow> 'a api_msg_scheme option outcome" where
  "SetUnknown raw x = deref x (\<lambda>m. Ok (Some (m\<lparr>unknownFields := raw\<rparr>)))"

definition IsValid :: "'m option \<Rightarrow> bool" where
  "IsValid x \<longleftrightarrow> x \<noteq> None"

text \<open>No message has a oneof.\<close>

definition WhichOneof :: "string \<Rightarrow> string \<Rightarrow> field_descriptor outcome" where
  "WhichOneof msg d = Panic (d @ '' is not a oneof field in '' @ msg)"

text \<open>The default case of the switch statements.\<close>

definition no_field :: "string \<Rightarrow> field_descriptor \<Rightarrow> 'a outcome" where
  "no_field msg fd =
     (if IsExtension fd then Panic (''proto3 declared messages do not support extensions: '' @ msg)
      else Panic (''message '' @ msg @ '' does not contain field '' @ FullName fd))"

definition not_mutable :: "string \<Rightarrow> string \<Rightarrow> 'a outcome" where
  "not_mutable field msg = Panic (''field '' @ field @ '' of message '' @ msg @ '' is not mutable'')"

text \<open>One statement of a \<open>Range\<close> method: \<open>if populated { if !f(fd, value) { return } }\<close>, followed by the
  rest. The callback works on a state of its own.\<close>

definition visit :: "bool \<Rightarrow> field_descriptor \<Rightarrow> 'v \<Rightarrow> (field_descriptor \<Rightarrow> 'v \<Rightarrow> 's \<Rightarrow> bool \<times> 's) \<Rightarrow>
    ('s \<Rightarrow> 's) \<Rightarrow> 's \<Rightarrow> 's" where
  "visit populated fd value f rest s =
     (if populated then (case f fd value s of (again, s') \<Rightarrow> if again then rest s' else s') else rest s)"

section \<open>What the closures do\<close>

text \<open>The reference encoding of a message field, left out when the pointer is nil.\<close>

definition enc_ptr_field :: "('m \<Rightarrow> bytes) \<Rightarrow> byte \<Rightarrow> 'm option \<Rightarrow> bytes" where
  "enc_ptr_field enc tag p = (case p of None \<Rightarrow> [] | Some m \<Rightarrow> enc_len tag (enc m))"

definition wf_ptr :: "('m \<Rightarrow> bool) \<Rightarrow> 'm option \<Rightarrow> bool" where
  "wf_ptr ok p = (case p of None \<Rightarrow> True | Some m \<Rightarrow> ok m)"

lemma wf_ptr_simps [simp]: "wf_ptr ok None" "wf_ptr ok (Some m) = ok m"
  by (simp_all add: wf_ptr_def)

lemma enc_ptr_simps [simp]: "enc_ptr_field enc tag None = []" "enc_ptr_field enc tag (Some m) = enc_len tag (enc m)"
  by (simp_all add: enc_ptr_field_def)

text \<open>Unknown fields are a sequence of fields that the message does not know.\<close>

definition raw_fields :: "'m fields \<Rightarrow> bytes \<Rightarrow> bool" where
  "raw_fields fs u \<longleftrightarrow> (\<exists>xss. u = concat xss \<and> list_all (raw_field PbRuntime fs) xss)"

lemma raw_fields_Nil [simp]: "raw_fields fs []"
  unfolding raw_fields_def by (intro exI [of _ "[]"]) simp

lemma raw_fields_single: "raw_field PbRuntime fs xs \<Longrightarrow> raw_fields fs xs"
  unfolding raw_fields_def by (intro exI [of _ "[xs]"]) simp

lemma decodes_raw_list:
  "list_all (raw_field PbRuntime fs) xss \<Longrightarrow>
     decodes_k PbRuntime msg (keep_unknown disc) fs (concat xss) m (keep_unknown disc (concat xss) m)"
proof (induction xss arbitrary: m)
  case Nil
  then show ?case by (simp add: keep_unknown_def decodes_Nil)
next
  case (Cons xs xss)
  have "decodes_k PbRuntime msg (keep_unknown disc) fs xs m (keep_unknown disc xs m)"
    using Cons.prems by (intro decodes_raw) simp
  moreover have "decodes_k PbRuntime msg (keep_unknown disc) fs (concat xss) (keep_unknown disc xs m)
      (keep_unknown disc (concat xss) (keep_unknown disc xs m))"
    using Cons.prems by (intro Cons.IH) simp
  moreover have "keep_unknown disc (concat xss) (keep_unknown disc xs m) = keep_unknown disc (concat (xs # xss)) m"
    by (simp add: keep_unknown_def)
  ultimately show ?case
    using decodes_append by fastforce
qed

lemma decodes_raw_fields:
  "raw_fields fs u \<Longrightarrow> decodes_k PbRuntime msg (keep_unknown disc) fs u m (keep_unknown disc u m)"
  unfolding raw_fields_def using decodes_raw_list by blast

text \<open>A 32-bit integer survives the detour through 64 bits.\<close>

lemma wide_word [simp]:
  "(ucast (ucast (v :: 32 word) :: 64 word) :: 32 word) = v" "(ucast (scast (v :: 32 word) :: 64 word) :: 32 word) = v"
  "(ucast (v :: 32 word) :: 64 word) = 0 \<longleftrightarrow> v = 0" "(scast (v :: 32 word) :: 64 word) = 0 \<longleftrightarrow> v = 0"
proof -
  show 1: "(ucast (ucast v :: 64 word) :: 32 word) = v" "(ucast (scast v :: 64 word) :: 32 word) = v"
    by (rule bit_word_eqI; auto simp: bit_simps)+
  show "(ucast v :: 64 word) = 0 \<longleftrightarrow> v = 0" "(scast v :: 64 word) = 0 \<longleftrightarrow> v = 0"
    using 1 by (metis ucast_0, metis ucast_0 scast_0)
qed

context rt_laws
begin

lemma size_string_enc: "size_string R s = int (length (enc_string_field tag s))"
  by (simp add: size_string_def Sov Let_def size_simps)

lemma size_varint_enc: "(nonzero \<longleftrightarrow> v \<noteq> 0) \<Longrightarrow> size_varint R nonzero v = int (length (enc_varint_field tag v))"
  by (simp add: size_varint_def Sov size_simps)

lemma size_u64_enc: "size_varint R (v \<noteq> 0) v = int (length (enc_varint_field tag v))"
  by (rule size_varint_enc) simp

lemma size_u32_enc: "size_varint R (v \<noteq> (0 :: 32 word)) (ucast v) = int (length (enc_varint_field tag (ucast v)))"
  by (rule size_varint_enc) (simp add: wide_word)

lemma size_i32_enc: "size_varint R (v \<noteq> (0 :: 32 word)) (scast v) = int (length (enc_varint_field tag (scast v)))"
  by (rule size_varint_enc) (simp add: wide_word)

lemma put_sov_eq: "put_sov R v = put_varint v"
  by (simp add: put_sov_def put_varint_def EncodeVarint)

lemma writes_wr_string: "writes (wr_string R tag s) (enc_string_field tag s)"
  using writes_string_field [of tag s] by (simp add: wr_string_def put_string_field_def put_sov_eq)

lemma writes_wr_varint: "(nonzero \<longleftrightarrow> v \<noteq> 0) \<Longrightarrow> writes (wr_varint R tag nonzero v) (enc_varint_field tag v)"
  using writes_varint_field [of tag v] by (simp add: wr_varint_def put_varint_field_def put_sov_eq)

lemma writes_wr_u64: "writes (wr_varint R tag (v \<noteq> 0) v) (enc_varint_field tag v)"
  by (rule writes_wr_varint) simp

lemma writes_wr_u32: "writes (wr_varint R tag (v \<noteq> (0 :: 32 word)) (ucast v)) (enc_varint_field tag (ucast v))"
  by (rule writes_wr_varint) (simp add: wide_word)

lemma writes_wr_i32: "writes (wr_varint R tag (v \<noteq> (0 :: 32 word)) (scast v)) (enc_varint_field tag (scast v))"
  by (rule writes_wr_varint) (simp add: wide_word)

lemma size_message_enc:
  assumes "proto_laws P enc ok" "wf_ptr ok p"
  shows "size_message R P p = int (length (enc_ptr_field enc tag p))"
  using proto_laws.op_size [OF assms(1)] assms(2)
  by (cases p) (simp_all add: size_message_def Sov Let_def size_simps)

lemma writes_wr_message:
  assumes "proto_laws P enc ok" "wf_ptr ok p"
  shows "writes (wr_message R P tag p) (enc_ptr_field enc tag p)"
proof (cases p)
  case None
  then show ?thesis by (simp add: wr_message_def writes_skip)
next
  case (Some m)
  have "writes (then_w (put_bytes (enc m)) (then_w (put_varint (word_of_nat (length (enc m)))) (put_byte tag)))
      (([tag] @ enc_varint (word_of_nat (length (enc m)))) @ enc m)"
    by (intro writes_intro)
  then show ?thesis
    using proto_laws.op_marshal [OF assms(1), of m] assms(2) Some
    by (simp add: wr_message_def put_sov_eq enc_len_def)
qed

lemma p_loop_eq:
  "nat (int (length dAtA) - i) < n \<Longrightarrow>
     p_unmarshal_loop n R msg keep fs dAtA i m = unmarshal_loop PbRuntime msg keep fs dAtA i m"
proof (induction n arbitrary: i m)
  case (Suc n)
  have rec: "p_unmarshal_loop n R msg keep fs dAtA i2 m' = unmarshal_loop PbRuntime msg keep fs dAtA i2 m'"
    if "decode_varint PbRuntime dAtA i 0 (0 :: 64 word) = Ok (wire, i1)" "i < int (length dAtA)"
      "unmarshal_field PbRuntime (skip PbRuntime) keep fs dAtA i i1 f t m = Ok (m', i2)" for wire i1 f t m' i2
  proof (rule Suc.IH)
    have "i < i2"
      using decode_varint_progress [OF that(1)] unmarshal_field_progress [OF that(3)] that(2) by auto
    then show "nat (int (length dAtA) - i2) < n"
      using Suc.prems that(2) by linarith
  qed
  show ?case
    by (subst unmarshal_loop.simps) (auto simp: Skip rec split: outcome.splits)
qed simp

end

lemma writes_wr_unknown: "writes (wr_unknown u) u"
  using writes_when [OF writes_put_bytes [of u], of "u \<noteq> []"] by (cases "u = []") (simp_all add: wr_unknown_def)

lemma decodes_ptr:
  assumes "fs n = Some (ptr_case name get put P)" "tag_for n 2 t" "proto_laws P enc ok" "wf_ptr ok p"
    "get m = None" "length (enc_ptr_field enc t p) < 2 ^ 63" "m' = (if p = None then m else put p m)"
  shows "decodes_k pf msg keep fs (enc_ptr_field enc t p) m m'"
proof (cases p)
  case None
  then show ?thesis by (simp add: decodes_Nil assms(7))
next
  case (Some x)
  have "op_Unmarshal P (enc x) (op_new P) = Ok x"
    using assms(4,6) Some by (intro proto_laws.op_unmarshal [OF assms(3)]) (simp_all add: enc_len_def)
  then have "bind_o (op_Unmarshal P (enc x) (case get m of None \<Rightarrow> op_new P | Some x \<Rightarrow> x)) (\<lambda>x. Ok (put (Some x) m))
      = Ok (put (Some x) m)"
    by (simp add: assms(5))
  then have "decodes_k pf msg keep fs (enc_len t (enc x)) m (put (Some x) m)"
    by - (rule decodes_len, rule assms(1) [unfolded ptr_case_def], rule assms(2), simp)
  then show ?thesis
    by (simp add: Some assms(7))
qed

lemma safe_ptr_case: "proto_laws P enc ok \<Longrightarrow> safe_case (ptr_case name get put P)"
  by (auto simp: ptr_case_def is_Panic_bind_o proto_laws.op_no_panic)

section \<open>The contract of a generated message\<close>

text \<open>What the proto package documents for a message with fast-path methods: \<open>Size\<close>, \<open>Marshal\<close> and \<open>Unmarshal\<close> of the
  package call those methods, the last one on the message it is given or on that message after
  a reset, as its \<open>Merge\<close> option says.\<close>

definition result_o :: "'a option outcome \<Rightarrow> 'a outcome" where
  "result_o r = bind_o r (\<lambda>x. case x of None \<Rightarrow> Panic ''nil'' | Some a \<Rightarrow> Ok a)"

definition dispatches :: "bool \<Rightarrow> 'm proto_ops \<Rightarrow> ('m option \<Rightarrow> int) \<Rightarrow> ('m option \<Rightarrow> bytes option \<Rightarrow> bytes option outcome) \<Rightarrow>
    ('m option \<Rightarrow> bytes \<Rightarrow> 'm option outcome) \<Rightarrow> 'm \<Rightarrow> bool" where
  "dispatches merge P sz ma un new \<longleftrightarrow>
     op_new P = new \<and> (\<forall>m. op_Size P m = sz (Some m)) \<and>
     (\<forall>m. op_Marshal P m = bind_o (ma (Some m) None) (\<lambda>b. Ok (case b of None \<Rightarrow> [] | Some b \<Rightarrow> b))) \<and>
     (\<forall>bs m. op_Unmarshal P bs m = result_o (un (Some (if merge then m else new)) bs))"

locale pulsar_message = rt_laws R for R :: pulsar_rt +
  fixes msg :: string and fs :: "'a api_msg_scheme fields" and Size :: "'a api_msg_scheme option \<Rightarrow> int"
    and body :: "'a api_msg_scheme \<Rightarrow> wr" and enc :: "'a api_msg_scheme \<Rightarrow> bytes" and new :: "'a api_msg_scheme"
    and ok :: "'a api_msg_scheme \<Rightarrow> bool"
  assumes writes_enc: "ok m \<Longrightarrow> writes (body m) (enc m @ unknownFields m)"
    and size_enc: "ok m \<Longrightarrow> Size (Some m) = int (length (enc m @ unknownFields m))"
    and decodes_enc: "ok m \<Longrightarrow> length (enc m) < 2 ^ 63 \<Longrightarrow>
      decodes_k PbRuntime msg keep fs (enc m) new (m\<lparr>unknownFields := []\<rparr>)"
    and unknown_raw: "ok m \<Longrightarrow> raw_fields fs (unknownFields m)"
    and safe: "safe_fields fs"
begin

lemma marshal_enc:
  assumes "ok m"
  shows "p_marshal (\<lambda>m. Size (Some m)) body (Some m) buf
    = Ok (Some ((case buf of None \<Rightarrow> [] | Some b \<Rightarrow> b) @ enc m @ unknownFields m))"
proof -
  have "body m (replicate (nat (Size (Some m))) 0, Size (Some m)) = Ok (enc m @ unknownFields m, 0)" "0 \<le> Size (Some m)"
    using writesD [OF writes_enc [OF assms], of "replicate (nat (Size (Some m))) 0" "Size (Some m)" "[]" "[]"]
    by (simp_all add: size_enc [OF assms] nat_add_distrib)
  then show ?thesis
    by (simp add: p_marshal_def split: option.splits)
qed

lemma unmarshal_enc:
  assumes "ok m" "length (enc m @ unknownFields m) < 2 ^ 63"
  shows "p_unmarshal R disc msg fs (Some new) (enc m @ unknownFields m)
    = Ok (Some (if disc then m\<lparr>unknownFields := []\<rparr> else m))"
proof -
  have "decodes_k PbRuntime msg (keep_unknown disc) fs (enc m @ unknownFields m) new
      (keep_unknown disc (unknownFields m) (m\<lparr>unknownFields := []\<rparr>))"
    using assms by (intro decodes_append [OF decodes_enc decodes_raw_fields] unknown_raw) simp_all
  from decodes_k_loop [OF this assms(2)] show ?thesis
    by (simp add: p_unmarshal_def p_loop_eq keep_unknown_def del: p_unmarshal_loop.simps)
qed

lemma no_panic:
  "length dAtA < 2 ^ 63 \<Longrightarrow> \<not> is_Panic (p_unmarshal R disc msg fs x dAtA)"
  using unmarshal_loop_no_panic [OF safe, of dAtA 0]
  by (simp add: p_unmarshal_def p_loop_eq is_Panic_bind_o del: p_unmarshal_loop.simps split: option.split)

lemma proto:
  assumes "dispatches merge P Size (p_marshal (op_Size P) body) (p_unmarshal R disc msg fs) new"
  shows "proto_laws P (\<lambda>m. enc m @ unknownFields m) (\<lambda>m. ok m \<and> (disc \<longrightarrow> unknownFields m = []))"
proof -
  have sz: "op_Size P = (\<lambda>m. Size (Some m))"
    using assms by (simp add: dispatches_def fun_eq_iff)
  have ma: "op_Marshal P m = Ok (enc m @ unknownFields m)" if "ok m" for m
    using assms marshal_enc [OF that, of None] by (simp add: dispatches_def sz)
  have un: "op_Unmarshal P bs x = result_o (p_unmarshal R disc msg fs (Some (if merge then x else new)) bs)" for bs x
    using assms by (simp add: dispatches_def)
  have nw: "op_new P = new"
    using assms by (simp add: dispatches_def)
  show ?thesis
  proof
    fix m
    assume "ok m \<and> (disc \<longrightarrow> unknownFields m = [])" and len: "length (enc m @ unknownFields m) < 2 ^ 63"
    then show "op_Unmarshal P (enc m @ unknownFields m) (op_new P) = Ok m"
      using unmarshal_enc [of m disc] by (cases disc) (simp_all add: un nw result_o_def)
  next
    fix bs :: bytes and x
    assume len: "length bs < 2 ^ 63"
    have "p_unmarshal R disc msg fs (Some y) bs \<noteq> Ok None" for y
      by (cases "p_unmarshal_loop (Suc (length bs)) R msg (keep_unknown disc) fs bs 0 y")
        (simp_all add: p_unmarshal_def del: p_unmarshal_loop.simps)
    then show "\<not> is_Panic (op_Unmarshal P bs x)"
      using no_panic [OF len, of disc] by (auto simp: un result_o_def is_Panic_bind_o split: option.splits)
  qed (simp_all add: sz size_enc ma)
qed

end

section \<open>The contract of a reflection type\<close>

named_theorems reflect_simps \<open>how the reflection methods compute\<close>

declare deref_def [reflect_simps] no_field_def [reflect_simps] not_mutable_def [reflect_simps] visit_def [reflect_simps]
  bind_o_eq_Ok [reflect_simps] value_laws_def [reflect_simps] msg_value_laws_def [reflect_simps]

text \<open>What the comments on the methods of \<open>protoreflect.Message\<close> ask of them, for the message type whose
  fields have the full names \<open>known\<close> and the descriptors \<open>fds\<close>. \<open>Range\<close> is run with a callback that
  collects what it is called with.\<close>

definition collect :: "field_descriptor \<Rightarrow> 'v \<Rightarrow> (field_descriptor \<times> 'v) list \<Rightarrow> bool \<times> (field_descriptor \<times> 'v) list" where
  "collect fd v acc = (True, acc @ [(fd, v)])"

declare collect_def [reflect_simps]

text \<open>Copying field by field, as \<open>proto.Merge\<close> does.\<close>

fun copy_fields :: "(field_descriptor \<Rightarrow> 'v \<Rightarrow> 'm option \<Rightarrow> 'm option outcome) \<Rightarrow> (field_descriptor \<times> 'v) list \<Rightarrow>
    'm option \<Rightarrow> 'm option outcome" where
  "copy_fields Set [] x = Ok x"
| "copy_fields Set ((fd, v) # items) x = bind_o (Set fd v x) (copy_fields Set items)"

locale reflection =
  fixes known :: "string list" and fds :: "field_descriptor list" and new :: 'm
    and Has :: "field_descriptor \<Rightarrow> 'm option \<Rightarrow> bool outcome"
    and Clear :: "field_descriptor \<Rightarrow> 'm option \<Rightarrow> 'm option outcome"
    and Get :: "field_descriptor \<Rightarrow> 'm option \<Rightarrow> 'v outcome"
    and Set :: "field_descriptor \<Rightarrow> 'v \<Rightarrow> 'm option \<Rightarrow> 'm option outcome"
    and Mutable :: "field_descriptor \<Rightarrow> 'm option \<Rightarrow> ('v \<times> 'm option) outcome"
    and NewField :: "field_descriptor \<Rightarrow> 'v outcome"
    and Range :: "(field_descriptor \<Rightarrow> 'v \<Rightarrow> (field_descriptor \<times> 'v) list \<Rightarrow> bool \<times> (field_descriptor \<times> 'v) list) \<Rightarrow>
      'm option \<Rightarrow> (field_descriptor \<times> 'v) list \<Rightarrow> (field_descriptor \<times> 'v) list outcome"
  assumes names: "map FullName fds = known" "distinct known"
    and foreign: "FullName fd \<notin> List.set known \<Longrightarrow> is_Panic (Has fd x) \<and> is_Panic (Clear fd x) \<and> is_Panic (Get fd x) \<and>
      is_Panic (Set fd v x) \<and> is_Panic (Mutable fd x) \<and> is_Panic (NewField fd)"
    and has: "FullName fd \<in> List.set known \<Longrightarrow> \<exists>b. Has fd (Some m) = Ok b"
    and unpopulated: "Has fd (Some m) = Ok False \<Longrightarrow> Get fd (Some m) = Get fd (Some new)"
    and clear: "FullName fd \<in> List.set known \<Longrightarrow>
      \<exists>m'. Clear fd (Some m) = Ok (Some m') \<and> Has fd (Some m') = Ok False"
    and get: "FullName fd \<in> List.set known \<Longrightarrow> \<exists>v. Get fd (Some m) = Ok v \<and>
      (\<forall>n. \<exists>n'. Set fd v (Some n) = Ok (Some n') \<and> Get fd (Some n') = Ok v)"
    and set_other: "Set fd v (Some m) = Ok (Some m') \<Longrightarrow> FullName fd' \<noteq> FullName fd \<Longrightarrow>
      Get fd' (Some m') = Get fd' (Some m)"
    and clear_other: "Clear fd (Some m) = Ok (Some m') \<Longrightarrow> FullName fd' \<noteq> FullName fd \<Longrightarrow>
      Get fd' (Some m') = Get fd' (Some m)"
    and range: "Range collect (Some m) [] = Ok (concat (map (\<lambda>fd. case (Has fd (Some m), Get fd (Some m)) of
      (Ok True, Ok v) \<Rightarrow> [(fd, v)] | _ \<Rightarrow> []) fds))"
    and same_name: "FullName fd = FullName fd' \<Longrightarrow> FullName fd \<in> List.set known \<Longrightarrow> Get fd x = Get fd' x"
begin

abbreviation items :: "'m \<Rightarrow> field_descriptor list \<Rightarrow> (field_descriptor \<times> 'v) list" where
  "items m ds \<equiv> concat (map (\<lambda>fd. case (Has fd (Some m), Get fd (Some m)) of (Ok True, Ok v) \<Rightarrow> [(fd, v)] | _ \<Rightarrow> []) ds)"

lemma clear_get:
  "FullName fd \<in> List.set known \<Longrightarrow> \<exists>m'. Clear fd (Some m) = Ok (Some m') \<and> Get fd (Some m') = Get fd (Some new)"
  using clear [of fd m] unpopulated by blast

lemma copy_items:
  assumes "distinct (map FullName ds)" "List.set ds \<subseteq> List.set fds"
  shows "\<exists>n'. copy_fields Set (items m ds) (Some n) = Ok (Some n') \<and>
    (\<forall>fd \<in> List.set fds. Get fd (Some n') = (if fd \<in> List.set ds \<and> Has fd (Some m) = Ok True then Get fd (Some m) else Get fd (Some n)))"
  using assms
proof (induction ds arbitrary: n)
  case (Cons d ds)
  have d: "FullName d \<in> List.set known"
    using Cons.prems(2) names(1) by auto
  then obtain v where v: "Get d (Some m) = Ok v"
    and set: "\<forall>n. \<exists>n'. Set d v (Some n) = Ok (Some n') \<and> Get d (Some n') = Ok v"
    using get by blast
  have ds: "distinct (map FullName ds)" "List.set ds \<subseteq> List.set fds" "FullName d \<notin> FullName ` List.set ds"
    using Cons.prems by auto
  obtain b where b: "Has d (Some m) = Ok b"
    using has [OF d] by blast
  show ?case
  proof (cases b)
    case True
    obtain n1 where n1: "Set d v (Some n) = Ok (Some n1)" "Get d (Some n1) = Ok v"
      using set by blast
    obtain n' where n': "copy_fields Set (items m ds) (Some n1) = Ok (Some n')"
      and gets: "\<forall>fd \<in> List.set fds. Get fd (Some n') = (if fd \<in> List.set ds \<and> Has fd (Some m) = Ok True then Get fd (Some m) else Get fd (Some n1))"
      using Cons.IH [OF ds(1,2)] by blast
    have "Get fd (Some n') = (if fd \<in> List.set (d # ds) \<and> Has fd (Some m) = Ok True then Get fd (Some m) else Get fd (Some n))"
      if fd: "fd \<in> List.set fds" for fd
    proof (cases "fd = d")
      case True
      with gets [rule_format, OF fd] n1 ds(3) v b \<open>b\<close> show ?thesis by auto
    next
      case False
      moreover have "d \<in> List.set fds" using Cons.prems(2) by simp
      ultimately have "FullName fd \<noteq> FullName d"
        using names fd by (auto simp: distinct_map inj_on_def)
      with gets [rule_format, OF fd] set_other [OF n1(1)] False show ?thesis by simp
    qed
    then show ?thesis
      using n1 n' b v True by (intro exI [of _ n']) simp
  next
    case False
    then show ?thesis
      using Cons.IH [OF ds(1,2), of n] b by auto
  qed
qed simp

text \<open>A message can be copied through its reflection: the copy has the value of every field.\<close>

lemma copy:
  "\<exists>items n. Range collect (Some m) [] = Ok items \<and> copy_fields Set items (Some new) = Ok (Some n) \<and>
     (\<forall>fd. FullName fd \<in> List.set known \<longrightarrow> Get fd (Some n) = Get fd (Some m))"
proof -
  have "distinct (map FullName fds)" using names by simp
  from copy_items [OF this, of m new] obtain n where n: "copy_fields Set (items m fds) (Some new) = Ok (Some n)"
    and gets: "\<forall>fd \<in> List.set fds. Get fd (Some n) =
      (if fd \<in> List.set fds \<and> Has fd (Some m) = Ok True then Get fd (Some m) else Get fd (Some new))"
    by auto
  have "Get fd (Some n) = Get fd (Some m)" if fd: "FullName fd \<in> List.set known" for fd
  proof -
    obtain d where d: "d \<in> List.set fds" "FullName d = FullName fd"
      using fd names(1) by (metis imageE set_map)
    have "Get d (Some n) = Get d (Some m)"
      using gets d unpopulated [of d m] has [of d m] fd by (auto split: if_splits)
    then show ?thesis
      using same_name [of fd d] d fd by simp
  qed
  with n range [of m] show ?thesis by blast
qed

end

end
