(* ===== verification/Pulsar_Store.thy ===== *)
theory Pulsar_Store
  imports Pulsar_Runtime
begin

text \<open>
  \<open>tickets.pulsar.go\<close>, \<open>redeem_request.pulsar.go\<close> and \<open>module/module.pulsar.go\<close> under \<open>api/halbornctf/hal\<close>: the
  stored messages \<open>Ticket\<close> and \<open>RedeemRequest\<close> and the module configuration. A \<open>Coin\<close> is a value of a
  type \<open>'c\<close>, a \<open>Timestamp\<close> of a type \<open>'t\<close>.
\<close>

section \<open>Ticket\<close>

text \<open>The struct, its zero value and its getters.\<close>

record api_ticket = api_msg +
  api_tk_Author :: "string"
  api_tk_Issue :: "string"
  api_tk_Id :: "64 word"
  api_tk_AdditionalInfo :: "string"

definition api_Ticket_new :: "api_ticket" where
  "api_Ticket_new = \<lparr>unknownFields = [], api_tk_Author = [], api_tk_Issue = [], api_tk_Id = 0, api_tk_AdditionalInfo = []\<rparr>"

definition api_Ticket_GetAuthor :: "api_ticket option \<Rightarrow> string" where
  "api_Ticket_GetAuthor x = (case x of Some m \<Rightarrow> api_tk_Author m | None \<Rightarrow> [])"

definition api_Ticket_GetIssue :: "api_ticket option \<Rightarrow> string" where
  "api_Ticket_GetIssue x = (case x of Some m \<Rightarrow> api_tk_Issue m | None \<Rightarrow> [])"

definition api_Ticket_GetId :: "api_ticket option \<Rightarrow> 64 word" where
  "api_Ticket_GetId x = (case x of Some m \<Rightarrow> api_tk_Id m | None \<Rightarrow> 0)"

definition api_Ticket_GetAdditionalInfo :: "api_ticket option \<Rightarrow> string" where
  "api_Ticket_GetAdditionalInfo x = (case x of Some m \<Rightarrow> api_tk_AdditionalInfo m | None \<Rightarrow> [])"

text \<open>The methods of \<open>fastReflection_Ticket\<close>.\<close>

definition api_Ticket_Range :: "'v value_lib \<Rightarrow> (string \<Rightarrow> field_descriptor) \<Rightarrow> (field_descriptor \<Rightarrow> 'v \<Rightarrow> 's \<Rightarrow> bool \<times> 's) \<Rightarrow>
    api_ticket option \<Rightarrow> 's \<Rightarrow> 's outcome" where
  "api_Ticket_Range V D f x s = deref x (\<lambda>m. Ok ((visit (api_tk_Author m \<noteq> []) (D ''author'') (ValueOfString V (api_tk_Author m)) f
       (visit (api_tk_Issue m \<noteq> []) (D ''issue'') (ValueOfString V (api_tk_Issue m)) f
       (visit (api_tk_Id m \<noteq> 0) (D ''id'') (ValueOfUint64 V (api_tk_Id m)) f
       (visit (api_tk_AdditionalInfo m \<noteq> []) (D ''additionalInfo'') (ValueOfString V (api_tk_AdditionalInfo m)) f
       (\<lambda>s. s))))) s))"

definition api_Ticket_Has :: "field_descriptor \<Rightarrow> api_ticket option \<Rightarrow> bool outcome" where
  "api_Ticket_Has fd x =
     (if FullName fd = ''halbornctf.hal.Ticket.author'' then deref x (\<lambda>m. Ok (api_tk_Author m \<noteq> []))
      else if FullName fd = ''halbornctf.hal.Ticket.issue'' then deref x (\<lambda>m. Ok (api_tk_Issue m \<noteq> []))
      else if FullName fd = ''halbornctf.hal.Ticket.id'' then deref x (\<lambda>m. Ok (api_tk_Id m \<noteq> 0))
      else if FullName fd = ''halbornctf.hal.Ticket.additionalInfo'' then deref x (\<lambda>m. Ok (api_tk_AdditionalInfo m \<noteq> []))
      else no_field ''halbornctf.hal.Ticket'' fd)"

definition api_Ticket_Clear :: "field_descriptor \<Rightarrow> api_ticket option \<Rightarrow> api_ticket option outcome" where
  "api_Ticket_Clear fd x =
     (if FullName fd = ''halbornctf.hal.Ticket.author'' then deref x (\<lambda>m. Ok (Some (m\<lparr>api_tk_Author := []\<rparr>)))
      else if FullName fd = ''halbornctf.hal.Ticket.issue'' then deref x (\<lambda>m. Ok (Some (m\<lparr>api_tk_Issue := []\<rparr>)))
      else if FullName fd = ''halbornctf.hal.Ticket.id'' then deref x (\<lambda>m. Ok (Some (m\<lparr>api_tk_Id := 0\<rparr>)))
      else if FullName fd = ''halbornctf.hal.Ticket.additionalInfo'' then deref x (\<lambda>m. Ok (Some (m\<lparr>api_tk_AdditionalInfo := []\<rparr>)))
      else no_field ''halbornctf.hal.Ticket'' fd)"

definition api_Ticket_Get :: "'v value_lib \<Rightarrow> field_descriptor \<Rightarrow> api_ticket option \<Rightarrow> 'v outcome" where
  "api_Ticket_Get V fd x =
     (if FullName fd = ''halbornctf.hal.Ticket.author'' then deref x (\<lambda>m. Ok (ValueOfString V (api_tk_Author m)))
      else if FullName fd = ''halbornctf.hal.Ticket.issue'' then deref x (\<lambda>m. Ok (ValueOfString V (api_tk_Issue m)))
      else if FullName fd = ''halbornctf.hal.Ticket.id'' then deref x (\<lambda>m. Ok (ValueOfUint64 V (api_tk_Id m)))
      else if FullName fd = ''halbornctf.hal.Ticket.additionalInfo'' then deref x (\<lambda>m. Ok (ValueOfString V (api_tk_AdditionalInfo m)))
      else no_field ''halbornctf.hal.Ticket'' fd)"

definition api_Ticket_Set :: "'v value_lib \<Rightarrow> field_descriptor \<Rightarrow> 'v \<Rightarrow> api_ticket option \<Rightarrow> api_ticket option outcome" where
  "api_Ticket_Set V fd value x =
     (if FullName fd = ''halbornctf.hal.Ticket.author'' then bind_o (Value_string V value) (\<lambda>s. deref x (\<lambda>m. Ok (Some (m\<lparr>api_tk_Author := s\<rparr>))))
      else if FullName fd = ''halbornctf.hal.Ticket.issue'' then bind_o (Value_string V value) (\<lambda>s. deref x (\<lambda>m. Ok (Some (m\<lparr>api_tk_Issue := s\<rparr>))))
      else if FullName fd = ''halbornctf.hal.Ticket.id'' then bind_o (Value_Uint V value) (\<lambda>u. deref x (\<lambda>m. Ok (Some (m\<lparr>api_tk_Id := u\<rparr>))))
      else if FullName fd = ''halbornctf.hal.Ticket.additionalInfo'' then bind_o (Value_string V value) (\<lambda>s. deref x (\<lambda>m. Ok (Some (m\<lparr>api_tk_AdditionalInfo := s\<rparr>))))
      else no_field ''halbornctf.hal.Ticket'' fd)"

definition api_Ticket_Mutable :: "field_descriptor \<Rightarrow> api_ticket option \<Rightarrow> ('v \<times> api_ticket option) outcome" where
  "api_Ticket_Mutable fd x =
     (if FullName fd = ''halbornctf.hal.Ticket.author'' then not_mutable ''author'' ''halbornctf.hal.Ticket''
      else if FullName fd = ''halbornctf.hal.Ticket.issue'' then not_mutable ''issue'' ''halbornctf.hal.Ticket''
      else if FullName fd = ''halbornctf.hal.Ticket.id'' then not_mutable ''id'' ''halbornctf.hal.Ticket''
      else if FullName fd = ''halbornctf.hal.Ticket.additionalInfo'' then not_mutable ''additionalInfo'' ''halbornctf.hal.Ticket''
      else no_field ''halbornctf.hal.Ticket'' fd)"

definition api_Ticket_NewField :: "'v value_lib \<Rightarrow> field_descriptor \<Rightarrow> 'v outcome" where
  "api_Ticket_NewField V fd =
     (if FullName fd = ''halbornctf.hal.Ticket.author'' then Ok (ValueOfString V ([]))
      else if FullName fd = ''halbornctf.hal.Ticket.issue'' then Ok (ValueOfString V ([]))
      else if FullName fd = ''halbornctf.hal.Ticket.id'' then Ok (ValueOfUint64 V (0))
      else if FullName fd = ''halbornctf.hal.Ticket.additionalInfo'' then Ok (ValueOfString V ([]))
      else no_field ''halbornctf.hal.Ticket'' fd)"

text \<open>The closures of \<open>ProtoMethods\<close>.\<close>

definition api_Ticket_size :: "pulsar_rt \<Rightarrow> api_ticket option \<Rightarrow> int" where
  "api_Ticket_size R x = size_of (\<lambda>m. size_string R (api_tk_Author m)
     + size_string R (api_tk_Issue m)
     + size_varint R (api_tk_Id m \<noteq> 0) (api_tk_Id m)
     + size_string R (api_tk_AdditionalInfo m)
     + size_unknown (unknownFields m)) x"

definition api_Ticket_body :: "pulsar_rt \<Rightarrow> api_ticket \<Rightarrow> wr" where
  "api_Ticket_body R m =
     then_w (wr_unknown (unknownFields m))
    (then_w (wr_string R 0x22 (api_tk_AdditionalInfo m))
    (then_w (wr_varint R 0x18 (api_tk_Id m \<noteq> 0) (api_tk_Id m))
    (then_w (wr_string R 0x12 (api_tk_Issue m))
    (wr_string R 0x0a (api_tk_Author m)))))"

definition api_Ticket_marshal :: "pulsar_rt \<Rightarrow> (api_ticket \<Rightarrow> int) \<Rightarrow> api_ticket option \<Rightarrow> bytes option \<Rightarrow> bytes option outcome" where
  "api_Ticket_marshal R Size = p_marshal Size (api_Ticket_body R)"

definition api_Ticket_fields :: "api_ticket fields" where
  "api_Ticket_fields n =
     (if n = 1 then Some (string_case ''Author'' (\<lambda>s m. m\<lparr>api_tk_Author := s\<rparr>))
      else if n = 2 then Some (string_case ''Issue'' (\<lambda>s m. m\<lparr>api_tk_Issue := s\<rparr>))
      else if n = 3 then Some (Varint ''Id'' (\<lambda>v m. m\<lparr>api_tk_Id := v\<rparr>))
      else if n = 4 then Some (string_case ''AdditionalInfo'' (\<lambda>s m. m\<lparr>api_tk_AdditionalInfo := s\<rparr>))
      else None)"

definition api_Ticket_unmarshal :: "pulsar_rt \<Rightarrow> bool \<Rightarrow> api_ticket option \<Rightarrow> bytes \<Rightarrow> api_ticket option outcome" where
  "api_Ticket_unmarshal R DiscardUnknown = p_unmarshal R DiscardUnknown ''Ticket'' (api_Ticket_fields)"

text \<open>The contracts.\<close>

definition api_Ticket_enc :: "api_ticket \<Rightarrow> bytes" where
  "api_Ticket_enc m =
     enc_string_field 0x0a (api_tk_Author m)
   @ enc_string_field 0x12 (api_tk_Issue m)
   @ enc_varint_field 0x18 (api_tk_Id m)
   @ enc_string_field 0x22 (api_tk_AdditionalInfo m)"

definition api_Ticket_ok :: "api_ticket \<Rightarrow> bool" where
  "api_Ticket_ok m \<longleftrightarrow> raw_fields (api_Ticket_fields) (unknownFields m)"

lemma api_Ticket_fields_simps [simp]:
  "api_Ticket_fields 1 = Some (string_case ''Author'' (\<lambda>s m. m\<lparr>api_tk_Author := s\<rparr>))"
  "api_Ticket_fields 2 = Some (string_case ''Issue'' (\<lambda>s m. m\<lparr>api_tk_Issue := s\<rparr>))"
  "api_Ticket_fields 3 = Some (Varint ''Id'' (\<lambda>v m. m\<lparr>api_tk_Id := v\<rparr>))"
  "api_Ticket_fields 4 = Some (string_case ''AdditionalInfo'' (\<lambda>s m. m\<lparr>api_tk_AdditionalInfo := s\<rparr>))"
  by (simp_all add: api_Ticket_fields_def)

lemma api_Ticket_writes:
  assumes "rt_laws R" "api_Ticket_ok m"
  shows "writes (api_Ticket_body R m) (api_Ticket_enc m @ unknownFields m)"
proof -
  have "writes (api_Ticket_body R m)
      ((((enc_string_field 0x0a (api_tk_Author m)
        @ enc_string_field 0x12 (api_tk_Issue m))
        @ enc_varint_field 0x18 (api_tk_Id m))
        @ enc_string_field 0x22 (api_tk_AdditionalInfo m))
        @ unknownFields m)"
    unfolding api_Ticket_body_def
    by (intro writes_then
        writes_wr_unknown
        rt_laws.writes_wr_string [OF assms(1)]
        rt_laws.writes_wr_u64 [OF assms(1)])
  then show ?thesis by (simp add: api_Ticket_enc_def)
qed

lemma api_Ticket_size_enc:
  assumes "rt_laws R" "api_Ticket_ok m"
  shows "api_Ticket_size R (Some m) = int (length (api_Ticket_enc m @ unknownFields m))"
proof -
  have s0: "size_string R (api_tk_Author m) = int (length (enc_string_field 0x0a (api_tk_Author m)))"
    by (rule rt_laws.size_string_enc [OF assms(1)])
  have s1: "size_string R (api_tk_Issue m) = int (length (enc_string_field 0x12 (api_tk_Issue m)))"
    by (rule rt_laws.size_string_enc [OF assms(1)])
  have s2: "size_varint R (api_tk_Id m \<noteq> 0) (api_tk_Id m) = int (length (enc_varint_field 0x18 (api_tk_Id m)))"
    by (rule rt_laws.size_u64_enc [OF assms(1)])
  have s3: "size_string R (api_tk_AdditionalInfo m) = int (length (enc_string_field 0x22 (api_tk_AdditionalInfo m)))"
    by (rule rt_laws.size_string_enc [OF assms(1)])
  show ?thesis
    by (simp add: api_Ticket_size_def api_Ticket_enc_def size_of_def size_unknown_def s0 s1 s2 s3)
qed

lemma api_Ticket_decodes:
  assumes "api_Ticket_ok m" "length (api_Ticket_enc m) < 2 ^ 63"
  shows "decodes_k PbRuntime ''Ticket'' keep (api_Ticket_fields) (api_Ticket_enc m) api_Ticket_new (m\<lparr>unknownFields := []\<rparr>)"
proof -
  let ?m1 = "if api_tk_Author m = [] then api_Ticket_new else api_Ticket_new\<lparr>api_tk_Author := api_tk_Author m\<rparr>"
  let ?m2 = "if api_tk_Issue m = [] then ?m1 else ?m1\<lparr>api_tk_Issue := api_tk_Issue m\<rparr>"
  let ?m3 = "if api_tk_Id m = 0 then ?m2 else ?m2\<lparr>api_tk_Id := api_tk_Id m\<rparr>"
  let ?m4 = "if api_tk_AdditionalInfo m = [] then ?m3 else ?m3\<lparr>api_tk_AdditionalInfo := api_tk_AdditionalInfo m\<rparr>"
  let ?d = "decodes_k PbRuntime ''Ticket'' keep (api_Ticket_fields)"
  have "?d (enc_string_field 0x0a (api_tk_Author m)) api_Ticket_new ?m1"
    by (rule decodes_string [where n = 1], rule api_Ticket_fields_simps(1), rule tags, rule refl)
  moreover have "?d (enc_string_field 0x12 (api_tk_Issue m)) ?m1 ?m2"
    by (rule decodes_string [where n = 2], rule api_Ticket_fields_simps(2), rule tags, rule refl)
  moreover have "?d (enc_varint_field 0x18 (api_tk_Id m)) ?m2 ?m3"
    by (rule decodes_varint [where n = 3], rule api_Ticket_fields_simps(3), rule tags) simp
  moreover have "?d (enc_string_field 0x22 (api_tk_AdditionalInfo m)) ?m3 ?m4"
    by (rule decodes_string [where n = 4], rule api_Ticket_fields_simps(4), rule tags, rule refl)
  ultimately have "?d (api_Ticket_enc m) api_Ticket_new ?m4"
    unfolding api_Ticket_enc_def by (intro decodes_append)
  moreover have "?m4 = m\<lparr>unknownFields := []\<rparr>"
    by (cases m) (simp add: api_Ticket_new_def wide_word)
  ultimately show ?thesis by simp
qed

lemma api_Ticket_message:
  assumes "rt_laws R"
  shows "pulsar_message R ''Ticket'' (api_Ticket_fields) (api_Ticket_size R) (api_Ticket_body R) (api_Ticket_enc) api_Ticket_new
    (api_Ticket_ok)"
proof -
  have "safe_fields (api_Ticket_fields)"
    by (rule safe_fieldsI) (auto simp: api_Ticket_fields_def split: if_splits)
  with assms(1) show ?thesis
    unfolding pulsar_message_def pulsar_message_axioms_def
    using api_Ticket_writes [OF assms] api_Ticket_size_enc [OF assms] api_Ticket_decodes
    by (simp add: api_Ticket_ok_def)
qed

lemmas api_Ticket_reflect =
  api_Ticket_new_def api_Ticket_Range_def api_Ticket_Has_def api_Ticket_Clear_def api_Ticket_Get_def api_Ticket_Set_def
  api_Ticket_Mutable_def api_Ticket_NewField_def

lemma api_Ticket_reflection:
  assumes "value_laws V" "\<And>f. FullName (D f) = ''halbornctf.hal.Ticket.'' @ f"
  shows "reflection [''halbornctf.hal.Ticket.author'', ''halbornctf.hal.Ticket.issue'', ''halbornctf.hal.Ticket.id'', ''halbornctf.hal.Ticket.additionalInfo'']
    [D ''author'', D ''issue'', D ''id'', D ''additionalInfo''] api_Ticket_new api_Ticket_Has api_Ticket_Clear
    (api_Ticket_Get V) (api_Ticket_Set V) (api_Ticket_Mutable)
    (api_Ticket_NewField V) (api_Ticket_Range V D)"
  using assms by unfold_locales (auto simp: api_Ticket_reflect reflect_simps split: if_splits)

section \<open>RedeemRequest\<close>

text \<open>The struct, its zero value and its getters.\<close>

record ('c, 't) api_redeem_request = api_msg +
  api_rr_Account :: "string"
  api_rr_Collateral :: "'c option"
  api_rr_Completiontime :: "'t option"

definition api_RedeemRequest_new :: "('c, 't) api_redeem_request" where
  "api_RedeemRequest_new = \<lparr>unknownFields = [], api_rr_Account = [], api_rr_Collateral = None, api_rr_Completiontime = None\<rparr>"

definition api_RedeemRequest_GetAccount :: "('c, 't) api_redeem_request option \<Rightarrow> string" where
  "api_RedeemRequest_GetAccount x = (case x of Some m \<Rightarrow> api_rr_Account m | None \<Rightarrow> [])"

definition api_RedeemRequest_GetCollateral :: "('c, 't) api_redeem_request option \<Rightarrow> 'c option" where
  "api_RedeemRequest_GetCollateral x = (case x of Some m \<Rightarrow> api_rr_Collateral m | None \<Rightarrow> None)"

definition api_RedeemRequest_GetCompletiontime :: "('c, 't) api_redeem_request option \<Rightarrow> 't option" where
  "api_RedeemRequest_GetCompletiontime x = (case x of Some m \<Rightarrow> api_rr_Completiontime m | None \<Rightarrow> None)"

text \<open>The methods of \<open>fastReflection_RedeemRequest\<close>. \<open>Mutable\<close> returns the new state of the message beside
  the value, which in Go is a reference into it.\<close>

definition api_RedeemRequest_Range :: "'v value_lib \<Rightarrow> ('v, 'c) msg_value \<Rightarrow> ('v, 't) msg_value \<Rightarrow> (string \<Rightarrow> field_descriptor) \<Rightarrow> (field_descriptor \<Rightarrow> 'v \<Rightarrow> 's \<Rightarrow> bool \<times> 's) \<Rightarrow>
    ('c, 't) api_redeem_request option \<Rightarrow> 's \<Rightarrow> 's outcome" where
  "api_RedeemRequest_Range V MC MT D f x s = deref x (\<lambda>m. Ok ((visit (api_rr_Account m \<noteq> []) (D ''account'') (ValueOfString V (api_rr_Account m)) f
       (visit (api_rr_Collateral m \<noteq> None) (D ''collateral'') (ValueOfMessage MC (api_rr_Collateral m)) f
       (visit (api_rr_Completiontime m \<noteq> None) (D ''completiontime'') (ValueOfMessage MT (api_rr_Completiontime m)) f
       (\<lambda>s. s)))) s))"

definition api_RedeemRequest_Has :: "field_descriptor \<Rightarrow> ('c, 't) api_redeem_request option \<Rightarrow> bool outcome" where
  "api_RedeemRequest_Has fd x =
     (if FullName fd = ''halbornctf.hal.RedeemRequest.account'' then deref x (\<lambda>m. Ok (api_rr_Account m \<noteq> []))
      else if FullName fd = ''halbornctf.hal.RedeemRequest.collateral'' then deref x (\<lambda>m. Ok (api_rr_Collateral m \<noteq> None))
      else if FullName fd = ''halbornctf.hal.RedeemRequest.completiontime'' then deref x (\<lambda>m. Ok (api_rr_Completiontime m \<noteq> None))
      else no_field ''halbornctf.hal.RedeemRequest'' fd)"

definition api_RedeemRequest_Clear :: "field_descriptor \<Rightarrow> ('c, 't) api_redeem_request option \<Rightarrow> ('c, 't) api_redeem_request option outcome" where
  "api_RedeemRequest_Clear fd x =
     (if FullName fd = ''halbornctf.hal.RedeemRequest.account'' then deref x (\<lambda>m. Ok (Some (m\<lparr>api_rr_Account := []\<rparr>)))
      else if FullName fd = ''halbornctf.hal.RedeemRequest.collateral'' then deref x (\<lambda>m. Ok (Some (m\<lparr>api_rr_Collateral := None\<rparr>)))
      else if FullName fd = ''halbornctf.hal.RedeemRequest.completiontime'' then deref x (\<lambda>m. Ok (Some (m\<lparr>api_rr_Completiontime := None\<rparr>)))
      else no_field ''halbornctf.hal.RedeemRequest'' fd)"

definition api_RedeemRequest_Get :: "'v value_lib \<Rightarrow> ('v, 'c) msg_value \<Rightarrow> ('v, 't) msg_value \<Rightarrow> field_descriptor \<Rightarrow> ('c, 't) api_redeem_request option \<Rightarrow> 'v outcome" where
  "api_RedeemRequest_Get V MC MT fd x =
     (if FullName fd = ''halbornctf.hal.RedeemRequest.account'' then deref x (\<lambda>m. Ok (ValueOfString V (api_rr_Account m)))
      else if FullName fd = ''halbornctf.hal.RedeemRequest.collateral'' then deref x (\<lambda>m. Ok (ValueOfMessage MC (api_rr_Collateral m)))
      else if FullName fd = ''halbornctf.hal.RedeemRequest.completiontime'' then deref x (\<lambda>m. Ok (ValueOfMessage MT (api_rr_Completiontime m)))
      else no_field ''halbornctf.hal.RedeemRequest'' fd)"

definition api_RedeemRequest_Set :: "'v value_lib \<Rightarrow> ('v, 'c) msg_value \<Rightarrow> ('v, 't) msg_value \<Rightarrow> field_descriptor \<Rightarrow> 'v \<Rightarrow> ('c, 't) api_redeem_request option \<Rightarrow> ('c, 't) api_redeem_request option outcome" where
  "api_RedeemRequest_Set V MC MT fd value x =
     (if FullName fd = ''halbornctf.hal.RedeemRequest.account'' then bind_o (Value_string V value) (\<lambda>s. deref x (\<lambda>m. Ok (Some (m\<lparr>api_rr_Account := s\<rparr>))))
      else if FullName fd = ''halbornctf.hal.RedeemRequest.collateral'' then bind_o (Value_Message MC value) (\<lambda>p. deref x (\<lambda>m. Ok (Some (m\<lparr>api_rr_Collateral := p\<rparr>))))
      else if FullName fd = ''halbornctf.hal.RedeemRequest.completiontime'' then bind_o (Value_Message MT value) (\<lambda>p. deref x (\<lambda>m. Ok (Some (m\<lparr>api_rr_Completiontime := p\<rparr>))))
      else no_field ''halbornctf.hal.RedeemRequest'' fd)"

definition api_RedeemRequest_Mutable :: "'c proto_ops \<Rightarrow> 't proto_ops \<Rightarrow> ('v, 'c) msg_value \<Rightarrow> ('v, 't) msg_value \<Rightarrow> field_descriptor \<Rightarrow> ('c, 't) api_redeem_request option \<Rightarrow> ('v \<times> ('c, 't) api_redeem_request option) outcome" where
  "api_RedeemRequest_Mutable C T MC MT fd x =
     (if FullName fd = ''halbornctf.hal.RedeemRequest.collateral'' then deref x (\<lambda>m.
        let p = (case api_rr_Collateral m of None \<Rightarrow> Some (op_new C) | Some v \<Rightarrow> Some v)
        in Ok (ValueOfMessage MC p, Some (m\<lparr>api_rr_Collateral := p\<rparr>)))
      else if FullName fd = ''halbornctf.hal.RedeemRequest.completiontime'' then deref x (\<lambda>m.
        let p = (case api_rr_Completiontime m of None \<Rightarrow> Some (op_new T) | Some v \<Rightarrow> Some v)
        in Ok (ValueOfMessage MT p, Some (m\<lparr>api_rr_Completiontime := p\<rparr>)))
      else if FullName fd = ''halbornctf.hal.RedeemRequest.account'' then not_mutable ''account'' ''halbornctf.hal.RedeemRequest''
      else no_field ''halbornctf.hal.RedeemRequest'' fd)"

definition api_RedeemRequest_NewField :: "'v value_lib \<Rightarrow> 'c proto_ops \<Rightarrow> 't proto_ops \<Rightarrow> ('v, 'c) msg_value \<Rightarrow> ('v, 't) msg_value \<Rightarrow> field_descriptor \<Rightarrow> 'v outcome" where
  "api_RedeemRequest_NewField V C T MC MT fd =
     (if FullName fd = ''halbornctf.hal.RedeemRequest.account'' then Ok (ValueOfString V ([]))
      else if FullName fd = ''halbornctf.hal.RedeemRequest.collateral'' then Ok (ValueOfMessage MC (Some (op_new C)))
      else if FullName fd = ''halbornctf.hal.RedeemRequest.completiontime'' then Ok (ValueOfMessage MT (Some (op_new T)))
      else no_field ''halbornctf.hal.RedeemRequest'' fd)"

text \<open>The closures of \<open>ProtoMethods\<close>.\<close>

definition api_RedeemRequest_size :: "pulsar_rt \<Rightarrow> 'c proto_ops \<Rightarrow> 't proto_ops \<Rightarrow> ('c, 't) api_redeem_request option \<Rightarrow> int" where
  "api_RedeemRequest_size R C T x = size_of (\<lambda>m. size_string R (api_rr_Account m)
     + size_message R C (api_rr_Collateral m)
     + size_message R T (api_rr_Completiontime m)
     + size_unknown (unknownFields m)) x"

definition api_RedeemRequest_body :: "pulsar_rt \<Rightarrow> 'c proto_ops \<Rightarrow> 't proto_ops \<Rightarrow> ('c, 't) api_redeem_request \<Rightarrow> wr" where
  "api_RedeemRequest_body R C T m =
     then_w (wr_unknown (unknownFields m))
    (then_w (wr_message R T 0x1a (api_rr_Completiontime m))
    (then_w (wr_message R C 0x12 (api_rr_Collateral m))
    (wr_string R 0x0a (api_rr_Account m))))"

definition api_RedeemRequest_marshal :: "pulsar_rt \<Rightarrow> 'c proto_ops \<Rightarrow> 't proto_ops \<Rightarrow> (('c, 't) api_redeem_request \<Rightarrow> int) \<Rightarrow> ('c, 't) api_redeem_request option \<Rightarrow> bytes option \<Rightarrow> bytes option outcome" where
  "api_RedeemRequest_marshal R C T Size = p_marshal Size (api_RedeemRequest_body R C T)"

definition api_RedeemRequest_fields :: "'c proto_ops \<Rightarrow> 't proto_ops \<Rightarrow> ('c, 't) api_redeem_request fields" where
  "api_RedeemRequest_fields C T n =
     (if n = 1 then Some (string_case ''Account'' (\<lambda>s m. m\<lparr>api_rr_Account := s\<rparr>))
      else if n = 2 then Some (ptr_case ''Collateral'' api_rr_Collateral (\<lambda>p m. m\<lparr>api_rr_Collateral := p\<rparr>) C)
      else if n = 3 then Some (ptr_case ''Completiontime'' api_rr_Completiontime (\<lambda>p m. m\<lparr>api_rr_Completiontime := p\<rparr>) T)
      else None)"

definition api_RedeemRequest_unmarshal :: "pulsar_rt \<Rightarrow> 'c proto_ops \<Rightarrow> 't proto_ops \<Rightarrow> bool \<Rightarrow> ('c, 't) api_redeem_request option \<Rightarrow> bytes \<Rightarrow> ('c, 't) api_redeem_request option outcome" where
  "api_RedeemRequest_unmarshal R C T DiscardUnknown = p_unmarshal R DiscardUnknown ''RedeemRequest'' (api_RedeemRequest_fields C T)"

text \<open>The contracts.\<close>

definition api_RedeemRequest_enc :: "('c \<Rightarrow> bytes) \<Rightarrow> ('t \<Rightarrow> bytes) \<Rightarrow> ('c, 't) api_redeem_request \<Rightarrow> bytes" where
  "api_RedeemRequest_enc encc enct m =
     enc_string_field 0x0a (api_rr_Account m)
   @ enc_ptr_field encc 0x12 (api_rr_Collateral m)
   @ enc_ptr_field enct 0x1a (api_rr_Completiontime m)"

definition api_RedeemRequest_ok :: "'c proto_ops \<Rightarrow> 't proto_ops \<Rightarrow> ('c \<Rightarrow> bool) \<Rightarrow> ('t \<Rightarrow> bool) \<Rightarrow> ('c, 't) api_redeem_request \<Rightarrow> bool" where
  "api_RedeemRequest_ok C T okc okt m \<longleftrightarrow> wf_ptr okc (api_rr_Collateral m) \<and> wf_ptr okt (api_rr_Completiontime m) \<and> raw_fields (api_RedeemRequest_fields C T) (unknownFields m)"

lemma api_RedeemRequest_fields_simps [simp]:
  "api_RedeemRequest_fields C T 1 = Some (string_case ''Account'' (\<lambda>s m. m\<lparr>api_rr_Account := s\<rparr>))"
  "api_RedeemRequest_fields C T 2 = Some (ptr_case ''Collateral'' api_rr_Collateral (\<lambda>p m. m\<lparr>api_rr_Collateral := p\<rparr>) C)"
  "api_RedeemRequest_fields C T 3 = Some (ptr_case ''Completiontime'' api_rr_Completiontime (\<lambda>p m. m\<lparr>api_rr_Completiontime := p\<rparr>) T)"
  by (simp_all add: api_RedeemRequest_fields_def)

lemma api_RedeemRequest_writes:
  assumes "rt_laws R" "proto_laws C encc okc" "proto_laws T enct okt" "api_RedeemRequest_ok C T okc okt m"
  shows "writes (api_RedeemRequest_body R C T m) (api_RedeemRequest_enc encc enct m @ unknownFields m)"
proof -
  have "writes (api_RedeemRequest_body R C T m)
      (((enc_string_field 0x0a (api_rr_Account m)
        @ enc_ptr_field encc 0x12 (api_rr_Collateral m))
        @ enc_ptr_field enct 0x1a (api_rr_Completiontime m))
        @ unknownFields m)"
    unfolding api_RedeemRequest_body_def
    by (intro writes_then
        writes_wr_unknown
        rt_laws.writes_wr_string [OF assms(1)]
        rt_laws.writes_wr_message [OF assms(1) assms(2)]
        rt_laws.writes_wr_message [OF assms(1) assms(3)])
      (use assms(4) in \<open>simp_all add: api_RedeemRequest_ok_def\<close>)
  then show ?thesis by (simp add: api_RedeemRequest_enc_def)
qed

lemma api_RedeemRequest_size_enc:
  assumes "rt_laws R" "proto_laws C encc okc" "proto_laws T enct okt" "api_RedeemRequest_ok C T okc okt m"
  shows "api_RedeemRequest_size R C T (Some m) = int (length (api_RedeemRequest_enc encc enct m @ unknownFields m))"
proof -
  have s0: "size_string R (api_rr_Account m) = int (length (enc_string_field 0x0a (api_rr_Account m)))"
    by (rule rt_laws.size_string_enc [OF assms(1)])
  have s1: "size_message R C (api_rr_Collateral m) = int (length (enc_ptr_field encc 0x12 (api_rr_Collateral m)))"
    by (rule rt_laws.size_message_enc [OF assms(1) assms(2)]) (use assms(4) in \<open>simp add: api_RedeemRequest_ok_def\<close>)
  have s2: "size_message R T (api_rr_Completiontime m) = int (length (enc_ptr_field enct 0x1a (api_rr_Completiontime m)))"
    by (rule rt_laws.size_message_enc [OF assms(1) assms(3)]) (use assms(4) in \<open>simp add: api_RedeemRequest_ok_def\<close>)
  show ?thesis
    by (simp add: api_RedeemRequest_size_def api_RedeemRequest_enc_def size_of_def size_unknown_def s0 s1 s2)
qed

lemma api_RedeemRequest_decodes:
  assumes "proto_laws C encc okc" "proto_laws T enct okt" "api_RedeemRequest_ok C T okc okt m" "length (api_RedeemRequest_enc encc enct m) < 2 ^ 63"
  shows "decodes_k PbRuntime ''RedeemRequest'' keep (api_RedeemRequest_fields C T) (api_RedeemRequest_enc encc enct m) api_RedeemRequest_new (m\<lparr>unknownFields := []\<rparr>)"
proof -
  let ?m1 = "if api_rr_Account m = [] then api_RedeemRequest_new else api_RedeemRequest_new\<lparr>api_rr_Account := api_rr_Account m\<rparr>"
  let ?m2 = "if api_rr_Collateral m = None then ?m1 else ?m1\<lparr>api_rr_Collateral := api_rr_Collateral m\<rparr>"
  let ?m3 = "if api_rr_Completiontime m = None then ?m2 else ?m2\<lparr>api_rr_Completiontime := api_rr_Completiontime m\<rparr>"
  let ?d = "decodes_k PbRuntime ''RedeemRequest'' keep (api_RedeemRequest_fields C T)"
  have "?d (enc_string_field 0x0a (api_rr_Account m)) api_RedeemRequest_new ?m1"
    by (rule decodes_string [where n = 1], rule api_RedeemRequest_fields_simps(1), rule tags, rule refl)
  moreover have "?d (enc_ptr_field encc 0x12 (api_rr_Collateral m)) ?m1 ?m2"
    by (rule decodes_ptr [where n = 2], rule api_RedeemRequest_fields_simps(2), rule tags, rule assms(1))
      (use assms(3) assms(4) in \<open>simp_all add: api_RedeemRequest_ok_def api_RedeemRequest_enc_def api_RedeemRequest_new_def\<close>)
  moreover have "?d (enc_ptr_field enct 0x1a (api_rr_Completiontime m)) ?m2 ?m3"
    by (rule decodes_ptr [where n = 3], rule api_RedeemRequest_fields_simps(3), rule tags, rule assms(2))
      (use assms(3) assms(4) in \<open>simp_all add: api_RedeemRequest_ok_def api_RedeemRequest_enc_def api_RedeemRequest_new_def\<close>)
  ultimately have "?d (api_RedeemRequest_enc encc enct m) api_RedeemRequest_new ?m3"
    unfolding api_RedeemRequest_enc_def by (intro decodes_append)
  moreover have "?m3 = m\<lparr>unknownFields := []\<rparr>"
    by (cases m) (simp add: api_RedeemRequest_new_def wide_word)
  ultimately show ?thesis by simp
qed

lemma api_RedeemRequest_message:
  assumes "rt_laws R" "proto_laws C encc okc" "proto_laws T enct okt"
  shows "pulsar_message R ''RedeemRequest'' (api_RedeemRequest_fields C T) (api_RedeemRequest_size R C T) (api_RedeemRequest_body R C T) (api_RedeemRequest_enc encc enct) api_RedeemRequest_new
    (api_RedeemRequest_ok C T okc okt)"
proof -
  have "safe_fields (api_RedeemRequest_fields C T)"
    by (rule safe_fieldsI) (auto simp: api_RedeemRequest_fields_def intro: safe_ptr_case [OF assms(2)] safe_ptr_case [OF assms(3)] split: if_splits)
  with assms(1) show ?thesis
    unfolding pulsar_message_def pulsar_message_axioms_def
    using api_RedeemRequest_writes [OF assms] api_RedeemRequest_size_enc [OF assms] api_RedeemRequest_decodes [OF assms(2) assms(3)]
    by (simp add: api_RedeemRequest_ok_def)
qed

lemmas api_RedeemRequest_reflect =
  api_RedeemRequest_new_def api_RedeemRequest_Range_def api_RedeemRequest_Has_def api_RedeemRequest_Clear_def api_RedeemRequest_Get_def api_RedeemRequest_Set_def
  api_RedeemRequest_Mutable_def api_RedeemRequest_NewField_def

lemma api_RedeemRequest_reflection:
  fixes MC :: "('v, 'c) msg_value" and MT :: "('v, 't) msg_value"
  assumes "value_laws V" "msg_value_laws MC" "msg_value_laws MT" "\<And>f. FullName (D f) = ''halbornctf.hal.RedeemRequest.'' @ f"
  shows "reflection [''halbornctf.hal.RedeemRequest.account'', ''halbornctf.hal.RedeemRequest.collateral'', ''halbornctf.hal.RedeemRequest.completiontime'']
    [D ''account'', D ''collateral'', D ''completiontime''] api_RedeemRequest_new api_RedeemRequest_Has api_RedeemRequest_Clear
    (api_RedeemRequest_Get V MC MT) (api_RedeemRequest_Set V MC MT) (api_RedeemRequest_Mutable C T MC MT)
    (api_RedeemRequest_NewField V C T MC MT) (api_RedeemRequest_Range V MC MT D)"
  using assms by unfold_locales (auto simp: api_RedeemRequest_reflect reflect_simps split: if_splits)

section \<open>Module\<close>

text \<open>The struct, its zero value and its getters.\<close>

record api_module = api_msg +
  api_mo_Authority :: "string"

definition api_Module_new :: "api_module" where
  "api_Module_new = \<lparr>unknownFields = [], api_mo_Authority = []\<rparr>"

definition api_Module_GetAuthority :: "api_module option \<Rightarrow> string" where
  "api_Module_GetAuthority x = (case x of Some m \<Rightarrow> api_mo_Authority m | None \<Rightarrow> [])"

text \<open>The methods of \<open>fastReflection_Module\<close>.\<close>

definition api_Module_Range :: "'v value_lib \<Rightarrow> (string \<Rightarrow> field_descriptor) \<Rightarrow> (field_descriptor \<Rightarrow> 'v \<Rightarrow> 's \<Rightarrow> bool \<times> 's) \<Rightarrow>
    api_module option \<Rightarrow> 's \<Rightarrow> 's outcome" where
  "api_Module_Range V D f x s = deref x (\<lambda>m. Ok ((visit (api_mo_Authority m \<noteq> []) (D ''authority'') (ValueOfString V (api_mo_Authority m)) f
       (\<lambda>s. s)) s))"

definition api_Module_Has :: "field_descriptor \<Rightarrow> api_module option \<Rightarrow> bool outcome" where
  "api_Module_Has fd x =
     (if FullName fd = ''halbornctf.hal.module.Module.authority'' then deref x (\<lambda>m. Ok (api_mo_Authority m \<noteq> []))
      else no_field ''halbornctf.hal.module.Module'' fd)"

definition api_Module_Clear :: "field_descriptor \<Rightarrow> api_module option \<Rightarrow> api_module option outcome" where
  "api_Module_Clear fd x =
     (if FullName fd = ''halbornctf.hal.module.Module.authority'' then deref x (\<lambda>m. Ok (Some (m\<lparr>api_mo_Authority := []\<rparr>)))
      else no_field ''halbornctf.hal.module.Module'' fd)"

definition api_Module_Get :: "'v value_lib \<Rightarrow> field_descriptor \<Rightarrow> api_module option \<Rightarrow> 'v outcome" where
  "api_Module_Get V fd x =
     (if FullName fd = ''halbornctf.hal.module.Module.authority'' then deref x (\<lambda>m. Ok (ValueOfString V (api_mo_Authority m)))
      else no_field ''halbornctf.hal.module.Module'' fd)"

definition api_Module_Set :: "'v value_lib \<Rightarrow> field_descriptor \<Rightarrow> 'v \<Rightarrow> api_module option \<Rightarrow> api_module option outcome" where
  "api_Module_Set V fd value x =
     (if FullName fd = ''halbornctf.hal.module.Module.authority'' then bind_o (Value_string V value) (\<lambda>s. deref x (\<lambda>m. Ok (Some (m\<lparr>api_mo_Authority := s\<rparr>))))
      else no_field ''halbornctf.hal.module.Module'' fd)"

definition api_Module_Mutable :: "field_descriptor \<Rightarrow> api_module option \<Rightarrow> ('v \<times> api_module option) outcome" where
  "api_Module_Mutable fd x =
     (if FullName fd = ''halbornctf.hal.module.Module.authority'' then not_mutable ''authority'' ''halbornctf.hal.module.Module''
      else no_field ''halbornctf.hal.module.Module'' fd)"

definition api_Module_NewField :: "'v value_lib \<Rightarrow> field_descriptor \<Rightarrow> 'v outcome" where
  "api_Module_NewField V fd =
     (if FullName fd = ''halbornctf.hal.module.Module.authority'' then Ok (ValueOfString V ([]))
      else no_field ''halbornctf.hal.module.Module'' fd)"

text \<open>The closures of \<open>ProtoMethods\<close>.\<close>

definition api_Module_size :: "pulsar_rt \<Rightarrow> api_module option \<Rightarrow> int" where
  "api_Module_size R x = size_of (\<lambda>m. size_string R (api_mo_Authority m)
     + size_unknown (unknownFields m)) x"

definition api_Module_body :: "pulsar_rt \<Rightarrow> api_module \<Rightarrow> wr" where
  "api_Module_body R m =
     then_w (wr_unknown (unknownFields m))
    (wr_string R 0x0a (api_mo_Authority m))"

definition api_Module_marshal :: "pulsar_rt \<Rightarrow> (api_module \<Rightarrow> int) \<Rightarrow> api_module option \<Rightarrow> bytes option \<Rightarrow> bytes option outcome" where
  "api_Module_marshal R Size = p_marshal Size (api_Module_body R)"

definition api_Module_fields :: "api_module fields" where
  "api_Module_fields n =
     (if n = 1 then Some (string_case ''Authority'' (\<lambda>s m. m\<lparr>api_mo_Authority := s\<rparr>))
      else None)"

definition api_Module_unmarshal :: "pulsar_rt \<Rightarrow> bool \<Rightarrow> api_module option \<Rightarrow> bytes \<Rightarrow> api_module option outcome" where
  "api_Module_unmarshal R DiscardUnknown = p_unmarshal R DiscardUnknown ''Module'' (api_Module_fields)"

text \<open>The contracts.\<close>

definition api_Module_enc :: "api_module \<Rightarrow> bytes" where
  "api_Module_enc m =
     enc_string_field 0x0a (api_mo_Authority m)"

definition api_Module_ok :: "api_module \<Rightarrow> bool" where
  "api_Module_ok m \<longleftrightarrow> raw_fields (api_Module_fields) (unknownFields m)"

lemma api_Module_fields_simps [simp]:
  "api_Module_fields 1 = Some (string_case ''Authority'' (\<lambda>s m. m\<lparr>api_mo_Authority := s\<rparr>))"
  by (simp_all add: api_Module_fields_def)

lemma api_Module_writes:
  assumes "rt_laws R" "api_Module_ok m"
  shows "writes (api_Module_body R m) (api_Module_enc m @ unknownFields m)"
proof -
  have "writes (api_Module_body R m)
      (enc_string_field 0x0a (api_mo_Authority m)
        @ unknownFields m)"
    unfolding api_Module_body_def
    by (intro writes_then
        writes_wr_unknown
        rt_laws.writes_wr_string [OF assms(1)])
  then show ?thesis by (simp add: api_Module_enc_def)
qed

lemma api_Module_size_enc:
  assumes "rt_laws R" "api_Module_ok m"
  shows "api_Module_size R (Some m) = int (length (api_Module_enc m @ unknownFields m))"
proof -
  have s0: "size_string R (api_mo_Authority m) = int (length (enc_string_field 0x0a (api_mo_Authority m)))"
    by (rule rt_laws.size_string_enc [OF assms(1)])
  show ?thesis
    by (simp add: api_Module_size_def api_Module_enc_def size_of_def size_unknown_def s0)
qed

lemma api_Module_decodes:
  assumes "api_Module_ok m" "length (api_Module_enc m) < 2 ^ 63"
  shows "decodes_k PbRuntime ''Module'' keep (api_Module_fields) (api_Module_enc m) api_Module_new (m\<lparr>unknownFields := []\<rparr>)"
proof -
  let ?m1 = "if api_mo_Authority m = [] then api_Module_new else api_Module_new\<lparr>api_mo_Authority := api_mo_Authority m\<rparr>"
  let ?d = "decodes_k PbRuntime ''Module'' keep (api_Module_fields)"
  have "?d (enc_string_field 0x0a (api_mo_Authority m)) api_Module_new ?m1"
    by (rule decodes_string [where n = 1], rule api_Module_fields_simps, rule tags, rule refl)
  then have "?d (api_Module_enc m) api_Module_new ?m1"
    unfolding api_Module_enc_def .
  moreover have "?m1 = m\<lparr>unknownFields := []\<rparr>"
    by (cases m) (simp add: api_Module_new_def wide_word)
  ultimately show ?thesis by simp
qed

lemma api_Module_message:
  assumes "rt_laws R"
  shows "pulsar_message R ''Module'' (api_Module_fields) (api_Module_size R) (api_Module_body R) (api_Module_enc) api_Module_new
    (api_Module_ok)"
proof -
  have "safe_fields (api_Module_fields)"
    by (rule safe_fieldsI) (auto simp: api_Module_fields_def split: if_splits)
  with assms(1) show ?thesis
    unfolding pulsar_message_def pulsar_message_axioms_def
    using api_Module_writes [OF assms] api_Module_size_enc [OF assms] api_Module_decodes
    by (simp add: api_Module_ok_def)
qed

lemmas api_Module_reflect =
  api_Module_new_def api_Module_Range_def api_Module_Has_def api_Module_Clear_def api_Module_Get_def api_Module_Set_def
  api_Module_Mutable_def api_Module_NewField_def

lemma api_Module_reflection:
  assumes "value_laws V" "\<And>f. FullName (D f) = ''halbornctf.hal.module.Module.'' @ f"
  shows "reflection [''halbornctf.hal.module.Module.authority'']
    [D ''authority''] api_Module_new api_Module_Has api_Module_Clear
    (api_Module_Get V) (api_Module_Set V) (api_Module_Mutable)
    (api_Module_NewField V) (api_Module_Range V D)"
  using assms by unfold_locales (auto simp: api_Module_reflect reflect_simps split: if_splits)

end
