(* ===== verification/Pulsar_Params.thy ===== *)
theory Pulsar_Params
  imports Pulsar_Runtime
begin

text \<open>
  \<open>api/halbornctf/hal/params.pulsar.go\<close>: the messages \<open>Params\<close> and \<open>TokenMeta\<close> with their reflection methods and
  the closures of \<open>ProtoMethods\<close>, and the proof that each satisfies the contracts of a generated
  message and of a reflection type. A \<open>Duration\<close> is a value of a type \<open>'d\<close> that the proto package knows.
\<close>

section \<open>TokenMeta\<close>

text \<open>The struct, its zero value and its getters.\<close>

record api_token_meta = api_msg +
  api_tm_Denom :: "string"
  api_tm_Decimals :: "32 word"
  api_tm_Description :: "string"

definition api_TokenMeta_new :: "api_token_meta" where
  "api_TokenMeta_new = \<lparr>unknownFields = [], api_tm_Denom = [], api_tm_Decimals = 0, api_tm_Description = []\<rparr>"

definition api_TokenMeta_GetDenom :: "api_token_meta option \<Rightarrow> string" where
  "api_TokenMeta_GetDenom x = (case x of Some m \<Rightarrow> api_tm_Denom m | None \<Rightarrow> [])"

definition api_TokenMeta_GetDecimals :: "api_token_meta option \<Rightarrow> 32 word" where
  "api_TokenMeta_GetDecimals x = (case x of Some m \<Rightarrow> api_tm_Decimals m | None \<Rightarrow> 0)"

definition api_TokenMeta_GetDescription :: "api_token_meta option \<Rightarrow> string" where
  "api_TokenMeta_GetDescription x = (case x of Some m \<Rightarrow> api_tm_Description m | None \<Rightarrow> [])"

text \<open>The methods of \<open>fastReflection_TokenMeta\<close>.\<close>

definition api_TokenMeta_Range :: "'v value_lib \<Rightarrow> (string \<Rightarrow> field_descriptor) \<Rightarrow> (field_descriptor \<Rightarrow> 'v \<Rightarrow> 's \<Rightarrow> bool \<times> 's) \<Rightarrow>
    api_token_meta option \<Rightarrow> 's \<Rightarrow> 's outcome" where
  "api_TokenMeta_Range V D f x s = deref x (\<lambda>m. Ok ((visit (api_tm_Denom m \<noteq> []) (D ''denom'') (ValueOfString V (api_tm_Denom m)) f
       (visit (api_tm_Decimals m \<noteq> 0) (D ''decimals'') (ValueOfUint32 V (api_tm_Decimals m)) f
       (visit (api_tm_Description m \<noteq> []) (D ''description'') (ValueOfString V (api_tm_Description m)) f
       (\<lambda>s. s)))) s))"

definition api_TokenMeta_Has :: "field_descriptor \<Rightarrow> api_token_meta option \<Rightarrow> bool outcome" where
  "api_TokenMeta_Has fd x =
     (if FullName fd = ''halbornctf.hal.TokenMeta.denom'' then deref x (\<lambda>m. Ok (api_tm_Denom m \<noteq> []))
      else if FullName fd = ''halbornctf.hal.TokenMeta.decimals'' then deref x (\<lambda>m. Ok (api_tm_Decimals m \<noteq> 0))
      else if FullName fd = ''halbornctf.hal.TokenMeta.description'' then deref x (\<lambda>m. Ok (api_tm_Description m \<noteq> []))
      else no_field ''halbornctf.hal.TokenMeta'' fd)"

definition api_TokenMeta_Clear :: "field_descriptor \<Rightarrow> api_token_meta option \<Rightarrow> api_token_meta option outcome" where
  "api_TokenMeta_Clear fd x =
     (if FullName fd = ''halbornctf.hal.TokenMeta.denom'' then deref x (\<lambda>m. Ok (Some (m\<lparr>api_tm_Denom := []\<rparr>)))
      else if FullName fd = ''halbornctf.hal.TokenMeta.decimals'' then deref x (\<lambda>m. Ok (Some (m\<lparr>api_tm_Decimals := 0\<rparr>)))
      else if FullName fd = ''halbornctf.hal.TokenMeta.description'' then deref x (\<lambda>m. Ok (Some (m\<lparr>api_tm_Description := []\<rparr>)))
      else no_field ''halbornctf.hal.TokenMeta'' fd)"

definition api_TokenMeta_Get :: "'v value_lib \<Rightarrow> field_descriptor \<Rightarrow> api_token_meta option \<Rightarrow> 'v outcome" where
  "api_TokenMeta_Get V fd x =
     (if FullName fd = ''halbornctf.hal.TokenMeta.denom'' then deref x (\<lambda>m. Ok (ValueOfString V (api_tm_Denom m)))
      else if FullName fd = ''halbornctf.hal.TokenMeta.decimals'' then deref x (\<lambda>m. Ok (ValueOfUint32 V (api_tm_Decimals m)))
      else if FullName fd = ''halbornctf.hal.TokenMeta.description'' then deref x (\<lambda>m. Ok (ValueOfString V (api_tm_Description m)))
      else no_field ''halbornctf.hal.TokenMeta'' fd)"

definition api_TokenMeta_Set :: "'v value_lib \<Rightarrow> field_descriptor \<Rightarrow> 'v \<Rightarrow> api_token_meta option \<Rightarrow> api_token_meta option outcome" where
  "api_TokenMeta_Set V fd value x =
     (if FullName fd = ''halbornctf.hal.TokenMeta.denom'' then bind_o (Value_string V value) (\<lambda>s. deref x (\<lambda>m. Ok (Some (m\<lparr>api_tm_Denom := s\<rparr>))))
      else if FullName fd = ''halbornctf.hal.TokenMeta.decimals'' then bind_o (Value_Uint V value) (\<lambda>u. deref x (\<lambda>m. Ok (Some (m\<lparr>api_tm_Decimals := ucast u\<rparr>))))
      else if FullName fd = ''halbornctf.hal.TokenMeta.description'' then bind_o (Value_string V value) (\<lambda>s. deref x (\<lambda>m. Ok (Some (m\<lparr>api_tm_Description := s\<rparr>))))
      else no_field ''halbornctf.hal.TokenMeta'' fd)"

definition api_TokenMeta_Mutable :: "field_descriptor \<Rightarrow> api_token_meta option \<Rightarrow> ('v \<times> api_token_meta option) outcome" where
  "api_TokenMeta_Mutable fd x =
     (if FullName fd = ''halbornctf.hal.TokenMeta.denom'' then not_mutable ''denom'' ''halbornctf.hal.TokenMeta''
      else if FullName fd = ''halbornctf.hal.TokenMeta.decimals'' then not_mutable ''decimals'' ''halbornctf.hal.TokenMeta''
      else if FullName fd = ''halbornctf.hal.TokenMeta.description'' then not_mutable ''description'' ''halbornctf.hal.TokenMeta''
      else no_field ''halbornctf.hal.TokenMeta'' fd)"

definition api_TokenMeta_NewField :: "'v value_lib \<Rightarrow> field_descriptor \<Rightarrow> 'v outcome" where
  "api_TokenMeta_NewField V fd =
     (if FullName fd = ''halbornctf.hal.TokenMeta.denom'' then Ok (ValueOfString V ([]))
      else if FullName fd = ''halbornctf.hal.TokenMeta.decimals'' then Ok (ValueOfUint32 V (0))
      else if FullName fd = ''halbornctf.hal.TokenMeta.description'' then Ok (ValueOfString V ([]))
      else no_field ''halbornctf.hal.TokenMeta'' fd)"

text \<open>The closures of \<open>ProtoMethods\<close>.\<close>

definition api_TokenMeta_size :: "pulsar_rt \<Rightarrow> api_token_meta option \<Rightarrow> int" where
  "api_TokenMeta_size R x = size_of (\<lambda>m. size_string R (api_tm_Denom m)
     + size_varint R (api_tm_Decimals m \<noteq> 0) (ucast (api_tm_Decimals m))
     + size_string R (api_tm_Description m)
     + size_unknown (unknownFields m)) x"

definition api_TokenMeta_body :: "pulsar_rt \<Rightarrow> api_token_meta \<Rightarrow> wr" where
  "api_TokenMeta_body R m =
     then_w (wr_unknown (unknownFields m))
    (then_w (wr_string R 0x1a (api_tm_Description m))
    (then_w (wr_varint R 0x10 (api_tm_Decimals m \<noteq> 0) (ucast (api_tm_Decimals m)))
    (wr_string R 0x0a (api_tm_Denom m))))"

definition api_TokenMeta_marshal :: "pulsar_rt \<Rightarrow> (api_token_meta \<Rightarrow> int) \<Rightarrow> api_token_meta option \<Rightarrow> bytes option \<Rightarrow> bytes option outcome" where
  "api_TokenMeta_marshal R Size = p_marshal Size (api_TokenMeta_body R)"

definition api_TokenMeta_fields :: "api_token_meta fields" where
  "api_TokenMeta_fields n =
     (if n = 1 then Some (string_case ''Denom'' (\<lambda>s m. m\<lparr>api_tm_Denom := s\<rparr>))
      else if n = 2 then Some (Varint ''Decimals'' (\<lambda>v m. m\<lparr>api_tm_Decimals := ucast v\<rparr>))
      else if n = 3 then Some (string_case ''Description'' (\<lambda>s m. m\<lparr>api_tm_Description := s\<rparr>))
      else None)"

definition api_TokenMeta_unmarshal :: "pulsar_rt \<Rightarrow> bool \<Rightarrow> api_token_meta option \<Rightarrow> bytes \<Rightarrow> api_token_meta option outcome" where
  "api_TokenMeta_unmarshal R DiscardUnknown = p_unmarshal R DiscardUnknown ''TokenMeta'' (api_TokenMeta_fields)"

text \<open>The contracts.\<close>

definition api_TokenMeta_enc :: "api_token_meta \<Rightarrow> bytes" where
  "api_TokenMeta_enc m =
     enc_string_field 0x0a (api_tm_Denom m)
   @ enc_varint_field 0x10 (ucast (api_tm_Decimals m))
   @ enc_string_field 0x1a (api_tm_Description m)"

definition api_TokenMeta_ok :: "api_token_meta \<Rightarrow> bool" where
  "api_TokenMeta_ok m \<longleftrightarrow> raw_fields (api_TokenMeta_fields) (unknownFields m)"

lemma api_TokenMeta_fields_simps [simp]:
  "api_TokenMeta_fields 1 = Some (string_case ''Denom'' (\<lambda>s m. m\<lparr>api_tm_Denom := s\<rparr>))"
  "api_TokenMeta_fields 2 = Some (Varint ''Decimals'' (\<lambda>v m. m\<lparr>api_tm_Decimals := ucast v\<rparr>))"
  "api_TokenMeta_fields 3 = Some (string_case ''Description'' (\<lambda>s m. m\<lparr>api_tm_Description := s\<rparr>))"
  by (simp_all add: api_TokenMeta_fields_def)

lemma api_TokenMeta_writes:
  assumes "rt_laws R" "api_TokenMeta_ok m"
  shows "writes (api_TokenMeta_body R m) (api_TokenMeta_enc m @ unknownFields m)"
proof -
  have "writes (api_TokenMeta_body R m)
      (((enc_string_field 0x0a (api_tm_Denom m)
        @ enc_varint_field 0x10 (ucast (api_tm_Decimals m)))
        @ enc_string_field 0x1a (api_tm_Description m))
        @ unknownFields m)"
    unfolding api_TokenMeta_body_def
    by (intro writes_then
        writes_wr_unknown
        rt_laws.writes_wr_string [OF assms(1)]
        rt_laws.writes_wr_u32 [OF assms(1)])
  then show ?thesis by (simp add: api_TokenMeta_enc_def)
qed

lemma api_TokenMeta_size_enc:
  assumes "rt_laws R" "api_TokenMeta_ok m"
  shows "api_TokenMeta_size R (Some m) = int (length (api_TokenMeta_enc m @ unknownFields m))"
proof -
  have s0: "size_string R (api_tm_Denom m) = int (length (enc_string_field 0x0a (api_tm_Denom m)))"
    by (rule rt_laws.size_string_enc [OF assms(1)])
  have s1: "size_varint R (api_tm_Decimals m \<noteq> 0) (ucast (api_tm_Decimals m)) = int (length (enc_varint_field 0x10 (ucast (api_tm_Decimals m))))"
    by (rule rt_laws.size_u32_enc [OF assms(1)])
  have s2: "size_string R (api_tm_Description m) = int (length (enc_string_field 0x1a (api_tm_Description m)))"
    by (rule rt_laws.size_string_enc [OF assms(1)])
  show ?thesis
    by (simp add: api_TokenMeta_size_def api_TokenMeta_enc_def size_of_def size_unknown_def s0 s1 s2)
qed

lemma api_TokenMeta_decodes:
  assumes "api_TokenMeta_ok m" "length (api_TokenMeta_enc m) < 2 ^ 63"
  shows "decodes_k PbRuntime ''TokenMeta'' keep (api_TokenMeta_fields) (api_TokenMeta_enc m) api_TokenMeta_new (m\<lparr>unknownFields := []\<rparr>)"
proof -
  let ?m1 = "if api_tm_Denom m = [] then api_TokenMeta_new else api_TokenMeta_new\<lparr>api_tm_Denom := api_tm_Denom m\<rparr>"
  let ?m2 = "if (ucast (api_tm_Decimals m) :: 64 word) = 0 then ?m1 else ?m1\<lparr>api_tm_Decimals := ucast (ucast (api_tm_Decimals m) :: 64 word)\<rparr>"
  let ?m3 = "if api_tm_Description m = [] then ?m2 else ?m2\<lparr>api_tm_Description := api_tm_Description m\<rparr>"
  let ?d = "decodes_k PbRuntime ''TokenMeta'' keep (api_TokenMeta_fields)"
  have "?d (enc_string_field 0x0a (api_tm_Denom m)) api_TokenMeta_new ?m1"
    by (rule decodes_string [where n = 1], rule api_TokenMeta_fields_simps(1), rule tags, rule refl)
  moreover have "?d (enc_varint_field 0x10 (ucast (api_tm_Decimals m))) ?m1 ?m2"
    by (rule decodes_varint [where n = 2], rule api_TokenMeta_fields_simps(2), rule tags) simp
  moreover have "?d (enc_string_field 0x1a (api_tm_Description m)) ?m2 ?m3"
    by (rule decodes_string [where n = 3], rule api_TokenMeta_fields_simps(3), rule tags, rule refl)
  ultimately have "?d (api_TokenMeta_enc m) api_TokenMeta_new ?m3"
    unfolding api_TokenMeta_enc_def by (intro decodes_append)
  moreover have "?m3 = m\<lparr>unknownFields := []\<rparr>"
    by (cases m) (simp add: api_TokenMeta_new_def wide_word)
  ultimately show ?thesis by simp
qed

lemma api_TokenMeta_message:
  assumes "rt_laws R"
  shows "pulsar_message R ''TokenMeta'' (api_TokenMeta_fields) (api_TokenMeta_size R) (api_TokenMeta_body R) (api_TokenMeta_enc) api_TokenMeta_new
    (api_TokenMeta_ok)"
proof -
  have "safe_fields (api_TokenMeta_fields)"
    by (rule safe_fieldsI) (auto simp: api_TokenMeta_fields_def split: if_splits)
  with assms(1) show ?thesis
    unfolding pulsar_message_def pulsar_message_axioms_def
    using api_TokenMeta_writes [OF assms] api_TokenMeta_size_enc [OF assms] api_TokenMeta_decodes
    by (simp add: api_TokenMeta_ok_def)
qed

lemmas api_TokenMeta_reflect =
  api_TokenMeta_new_def api_TokenMeta_Range_def api_TokenMeta_Has_def api_TokenMeta_Clear_def api_TokenMeta_Get_def api_TokenMeta_Set_def
  api_TokenMeta_Mutable_def api_TokenMeta_NewField_def

lemma api_TokenMeta_reflection:
  assumes "value_laws V" "\<And>f. FullName (D f) = ''halbornctf.hal.TokenMeta.'' @ f"
  shows "reflection [''halbornctf.hal.TokenMeta.denom'', ''halbornctf.hal.TokenMeta.decimals'', ''halbornctf.hal.TokenMeta.description'']
    [D ''denom'', D ''decimals'', D ''description''] api_TokenMeta_new api_TokenMeta_Has api_TokenMeta_Clear
    (api_TokenMeta_Get V) (api_TokenMeta_Set V) (api_TokenMeta_Mutable)
    (api_TokenMeta_NewField V) (api_TokenMeta_Range V D)"
  using assms by unfold_locales (auto simp: api_TokenMeta_reflect reflect_simps split: if_splits)

section \<open>Params\<close>

text \<open>The struct, its zero value and its getters.\<close>

record 'd api_params = api_msg +
  api_pa_RedeemDur :: "'d option"
  api_pa_MaxRedeemEntries :: "32 word"
  api_pa_CollateralMetas :: "api_token_meta option"
  api_pa_HalMeta :: "api_token_meta option"

definition api_Params_new :: "'d api_params" where
  "api_Params_new = \<lparr>unknownFields = [], api_pa_RedeemDur = None, api_pa_MaxRedeemEntries = 0, api_pa_CollateralMetas = None, api_pa_HalMeta = None\<rparr>"

definition api_Params_GetRedeemDur :: "'d api_params option \<Rightarrow> 'd option" where
  "api_Params_GetRedeemDur x = (case x of Some m \<Rightarrow> api_pa_RedeemDur m | None \<Rightarrow> None)"

definition api_Params_GetMaxRedeemEntries :: "'d api_params option \<Rightarrow> 32 word" where
  "api_Params_GetMaxRedeemEntries x = (case x of Some m \<Rightarrow> api_pa_MaxRedeemEntries m | None \<Rightarrow> 0)"

definition api_Params_GetCollateralMetas :: "'d api_params option \<Rightarrow> api_token_meta option" where
  "api_Params_GetCollateralMetas x = (case x of Some m \<Rightarrow> api_pa_CollateralMetas m | None \<Rightarrow> None)"

definition api_Params_GetHalMeta :: "'d api_params option \<Rightarrow> api_token_meta option" where
  "api_Params_GetHalMeta x = (case x of Some m \<Rightarrow> api_pa_HalMeta m | None \<Rightarrow> None)"

text \<open>The methods of \<open>fastReflection_Params\<close>. \<open>Mutable\<close> returns the new state of the message beside
  the value, which in Go is a reference into it.\<close>

definition api_Params_Range :: "'v value_lib \<Rightarrow> ('v, 'd) msg_value \<Rightarrow> ('v, api_token_meta) msg_value \<Rightarrow> (string \<Rightarrow> field_descriptor) \<Rightarrow> (field_descriptor \<Rightarrow> 'v \<Rightarrow> 's \<Rightarrow> bool \<times> 's) \<Rightarrow>
    'd api_params option \<Rightarrow> 's \<Rightarrow> 's outcome" where
  "api_Params_Range V MD MM D f x s = deref x (\<lambda>m. Ok ((visit (api_pa_RedeemDur m \<noteq> None) (D ''redeem_dur'') (ValueOfMessage MD (api_pa_RedeemDur m)) f
       (visit (api_pa_MaxRedeemEntries m \<noteq> 0) (D ''max_redeem_entries'') (ValueOfInt32 V (api_pa_MaxRedeemEntries m)) f
       (visit (api_pa_CollateralMetas m \<noteq> None) (D ''collateral_metas'') (ValueOfMessage MM (api_pa_CollateralMetas m)) f
       (visit (api_pa_HalMeta m \<noteq> None) (D ''hal_meta'') (ValueOfMessage MM (api_pa_HalMeta m)) f
       (\<lambda>s. s))))) s))"

definition api_Params_Has :: "field_descriptor \<Rightarrow> 'd api_params option \<Rightarrow> bool outcome" where
  "api_Params_Has fd x =
     (if FullName fd = ''halbornctf.hal.Params.redeem_dur'' then deref x (\<lambda>m. Ok (api_pa_RedeemDur m \<noteq> None))
      else if FullName fd = ''halbornctf.hal.Params.max_redeem_entries'' then deref x (\<lambda>m. Ok (api_pa_MaxRedeemEntries m \<noteq> 0))
      else if FullName fd = ''halbornctf.hal.Params.collateral_metas'' then deref x (\<lambda>m. Ok (api_pa_CollateralMetas m \<noteq> None))
      else if FullName fd = ''halbornctf.hal.Params.hal_meta'' then deref x (\<lambda>m. Ok (api_pa_HalMeta m \<noteq> None))
      else no_field ''halbornctf.hal.Params'' fd)"

definition api_Params_Clear :: "field_descriptor \<Rightarrow> 'd api_params option \<Rightarrow> 'd api_params option outcome" where
  "api_Params_Clear fd x =
     (if FullName fd = ''halbornctf.hal.Params.redeem_dur'' then deref x (\<lambda>m. Ok (Some (m\<lparr>api_pa_RedeemDur := None\<rparr>)))
      else if FullName fd = ''halbornctf.hal.Params.max_redeem_entries'' then deref x (\<lambda>m. Ok (Some (m\<lparr>api_pa_MaxRedeemEntries := 0\<rparr>)))
      else if FullName fd = ''halbornctf.hal.Params.collateral_metas'' then deref x (\<lambda>m. Ok (Some (m\<lparr>api_pa_CollateralMetas := None\<rparr>)))
      else if FullName fd = ''halbornctf.hal.Params.hal_meta'' then deref x (\<lambda>m. Ok (Some (m\<lparr>api_pa_HalMeta := None\<rparr>)))
      else no_field ''halbornctf.hal.Params'' fd)"

definition api_Params_Get :: "'v value_lib \<Rightarrow> ('v, 'd) msg_value \<Rightarrow> ('v, api_token_meta) msg_value \<Rightarrow> field_descriptor \<Rightarrow> 'd api_params option \<Rightarrow> 'v outcome" where
  "api_Params_Get V MD MM fd x =
     (if FullName fd = ''halbornctf.hal.Params.redeem_dur'' then deref x (\<lambda>m. Ok (ValueOfMessage MD (api_pa_RedeemDur m)))
      else if FullName fd = ''halbornctf.hal.Params.max_redeem_entries'' then deref x (\<lambda>m. Ok (ValueOfInt32 V (api_pa_MaxRedeemEntries m)))
      else if FullName fd = ''halbornctf.hal.Params.collateral_metas'' then deref x (\<lambda>m. Ok (ValueOfMessage MM (api_pa_CollateralMetas m)))
      else if FullName fd = ''halbornctf.hal.Params.hal_meta'' then deref x (\<lambda>m. Ok (ValueOfMessage MM (api_pa_HalMeta m)))
      else no_field ''halbornctf.hal.Params'' fd)"

definition api_Params_Set :: "'v value_lib \<Rightarrow> ('v, 'd) msg_value \<Rightarrow> ('v, api_token_meta) msg_value \<Rightarrow> field_descriptor \<Rightarrow> 'v \<Rightarrow> 'd api_params option \<Rightarrow> 'd api_params option outcome" where
  "api_Params_Set V MD MM fd value x =
     (if FullName fd = ''halbornctf.hal.Params.redeem_dur'' then bind_o (Value_Message MD value) (\<lambda>p. deref x (\<lambda>m. Ok (Some (m\<lparr>api_pa_RedeemDur := p\<rparr>))))
      else if FullName fd = ''halbornctf.hal.Params.max_redeem_entries'' then bind_o (Value_Int V value) (\<lambda>i. deref x (\<lambda>m. Ok (Some (m\<lparr>api_pa_MaxRedeemEntries := ucast i\<rparr>))))
      else if FullName fd = ''halbornctf.hal.Params.collateral_metas'' then bind_o (Value_Message MM value) (\<lambda>p. deref x (\<lambda>m. Ok (Some (m\<lparr>api_pa_CollateralMetas := p\<rparr>))))
      else if FullName fd = ''halbornctf.hal.Params.hal_meta'' then bind_o (Value_Message MM value) (\<lambda>p. deref x (\<lambda>m. Ok (Some (m\<lparr>api_pa_HalMeta := p\<rparr>))))
      else no_field ''halbornctf.hal.Params'' fd)"

definition api_Params_Mutable :: "'d proto_ops \<Rightarrow> api_token_meta proto_ops \<Rightarrow> ('v, 'd) msg_value \<Rightarrow> ('v, api_token_meta) msg_value \<Rightarrow> field_descriptor \<Rightarrow> 'd api_params option \<Rightarrow> ('v \<times> 'd api_params option) outcome" where
  "api_Params_Mutable DU TM MD MM fd x =
     (if FullName fd = ''halbornctf.hal.Params.redeem_dur'' then deref x (\<lambda>m.
        let p = (case api_pa_RedeemDur m of None \<Rightarrow> Some (op_new DU) | Some v \<Rightarrow> Some v)
        in Ok (ValueOfMessage MD p, Some (m\<lparr>api_pa_RedeemDur := p\<rparr>)))
      else if FullName fd = ''halbornctf.hal.Params.collateral_metas'' then deref x (\<lambda>m.
        let p = (case api_pa_CollateralMetas m of None \<Rightarrow> Some (op_new TM) | Some v \<Rightarrow> Some v)
        in Ok (ValueOfMessage MM p, Some (m\<lparr>api_pa_CollateralMetas := p\<rparr>)))
      else if FullName fd = ''halbornctf.hal.Params.hal_meta'' then deref x (\<lambda>m.
        let p = (case api_pa_HalMeta m of None \<Rightarrow> Some (op_new TM) | Some v \<Rightarrow> Some v)
        in Ok (ValueOfMessage MM p, Some (m\<lparr>api_pa_HalMeta := p\<rparr>)))
      else if FullName fd = ''halbornctf.hal.Params.max_redeem_entries'' then not_mutable ''max_redeem_entries'' ''halbornctf.hal.Params''
      else no_field ''halbornctf.hal.Params'' fd)"

definition api_Params_NewField :: "'v value_lib \<Rightarrow> 'd proto_ops \<Rightarrow> api_token_meta proto_ops \<Rightarrow> ('v, 'd) msg_value \<Rightarrow> ('v, api_token_meta) msg_value \<Rightarrow> field_descriptor \<Rightarrow> 'v outcome" where
  "api_Params_NewField V DU TM MD MM fd =
     (if FullName fd = ''halbornctf.hal.Params.redeem_dur'' then Ok (ValueOfMessage MD (Some (op_new DU)))
      else if FullName fd = ''halbornctf.hal.Params.max_redeem_entries'' then Ok (ValueOfInt32 V (0))
      else if FullName fd = ''halbornctf.hal.Params.collateral_metas'' then Ok (ValueOfMessage MM (Some (op_new TM)))
      else if FullName fd = ''halbornctf.hal.Params.hal_meta'' then Ok (ValueOfMessage MM (Some (op_new TM)))
      else no_field ''halbornctf.hal.Params'' fd)"

text \<open>The closures of \<open>ProtoMethods\<close>.\<close>

definition api_Params_size :: "pulsar_rt \<Rightarrow> 'd proto_ops \<Rightarrow> api_token_meta proto_ops \<Rightarrow> 'd api_params option \<Rightarrow> int" where
  "api_Params_size R DU TM x = size_of (\<lambda>m. size_message R DU (api_pa_RedeemDur m)
     + size_varint R (api_pa_MaxRedeemEntries m \<noteq> 0) (scast (api_pa_MaxRedeemEntries m))
     + size_message R TM (api_pa_CollateralMetas m)
     + size_message R TM (api_pa_HalMeta m)
     + size_unknown (unknownFields m)) x"

definition api_Params_body :: "pulsar_rt \<Rightarrow> 'd proto_ops \<Rightarrow> api_token_meta proto_ops \<Rightarrow> 'd api_params \<Rightarrow> wr" where
  "api_Params_body R DU TM m =
     then_w (wr_unknown (unknownFields m))
    (then_w (wr_message R TM 0x22 (api_pa_HalMeta m))
    (then_w (wr_message R TM 0x1a (api_pa_CollateralMetas m))
    (then_w (wr_varint R 0x10 (api_pa_MaxRedeemEntries m \<noteq> 0) (scast (api_pa_MaxRedeemEntries m)))
    (wr_message R DU 0x0a (api_pa_RedeemDur m)))))"

definition api_Params_marshal :: "pulsar_rt \<Rightarrow> 'd proto_ops \<Rightarrow> api_token_meta proto_ops \<Rightarrow> ('d api_params \<Rightarrow> int) \<Rightarrow> 'd api_params option \<Rightarrow> bytes option \<Rightarrow> bytes option outcome" where
  "api_Params_marshal R DU TM Size = p_marshal Size (api_Params_body R DU TM)"

definition api_Params_fields :: "'d proto_ops \<Rightarrow> api_token_meta proto_ops \<Rightarrow> 'd api_params fields" where
  "api_Params_fields DU TM n =
     (if n = 1 then Some (ptr_case ''RedeemDur'' api_pa_RedeemDur (\<lambda>p m. m\<lparr>api_pa_RedeemDur := p\<rparr>) DU)
      else if n = 2 then Some (Varint ''MaxRedeemEntries'' (\<lambda>v m. m\<lparr>api_pa_MaxRedeemEntries := ucast v\<rparr>))
      else if n = 3 then Some (ptr_case ''CollateralMetas'' api_pa_CollateralMetas (\<lambda>p m. m\<lparr>api_pa_CollateralMetas := p\<rparr>) TM)
      else if n = 4 then Some (ptr_case ''HalMeta'' api_pa_HalMeta (\<lambda>p m. m\<lparr>api_pa_HalMeta := p\<rparr>) TM)
      else None)"

definition api_Params_unmarshal :: "pulsar_rt \<Rightarrow> 'd proto_ops \<Rightarrow> api_token_meta proto_ops \<Rightarrow> bool \<Rightarrow> 'd api_params option \<Rightarrow> bytes \<Rightarrow> 'd api_params option outcome" where
  "api_Params_unmarshal R DU TM DiscardUnknown = p_unmarshal R DiscardUnknown ''Params'' (api_Params_fields DU TM)"

text \<open>The contracts.\<close>

definition api_Params_enc :: "('d \<Rightarrow> bytes) \<Rightarrow> (api_token_meta \<Rightarrow> bytes) \<Rightarrow> 'd api_params \<Rightarrow> bytes" where
  "api_Params_enc encd encm m =
     enc_ptr_field encd 0x0a (api_pa_RedeemDur m)
   @ enc_varint_field 0x10 (scast (api_pa_MaxRedeemEntries m))
   @ enc_ptr_field encm 0x1a (api_pa_CollateralMetas m)
   @ enc_ptr_field encm 0x22 (api_pa_HalMeta m)"

definition api_Params_ok :: "'d proto_ops \<Rightarrow> api_token_meta proto_ops \<Rightarrow> ('d \<Rightarrow> bool) \<Rightarrow> (api_token_meta \<Rightarrow> bool) \<Rightarrow> 'd api_params \<Rightarrow> bool" where
  "api_Params_ok DU TM okd okm m \<longleftrightarrow> wf_ptr okd (api_pa_RedeemDur m) \<and> wf_ptr okm (api_pa_CollateralMetas m) \<and> wf_ptr okm (api_pa_HalMeta m) \<and> raw_fields (api_Params_fields DU TM) (unknownFields m)"

lemma api_Params_fields_simps [simp]:
  "api_Params_fields DU TM 1 = Some (ptr_case ''RedeemDur'' api_pa_RedeemDur (\<lambda>p m. m\<lparr>api_pa_RedeemDur := p\<rparr>) DU)"
  "api_Params_fields DU TM 2 = Some (Varint ''MaxRedeemEntries'' (\<lambda>v m. m\<lparr>api_pa_MaxRedeemEntries := ucast v\<rparr>))"
  "api_Params_fields DU TM 3 = Some (ptr_case ''CollateralMetas'' api_pa_CollateralMetas (\<lambda>p m. m\<lparr>api_pa_CollateralMetas := p\<rparr>) TM)"
  "api_Params_fields DU TM 4 = Some (ptr_case ''HalMeta'' api_pa_HalMeta (\<lambda>p m. m\<lparr>api_pa_HalMeta := p\<rparr>) TM)"
  by (simp_all add: api_Params_fields_def)

lemma api_Params_writes:
  assumes "rt_laws R" "proto_laws DU encd okd" "proto_laws TM encm okm" "api_Params_ok DU TM okd okm m"
  shows "writes (api_Params_body R DU TM m) (api_Params_enc encd encm m @ unknownFields m)"
proof -
  have "writes (api_Params_body R DU TM m)
      ((((enc_ptr_field encd 0x0a (api_pa_RedeemDur m)
        @ enc_varint_field 0x10 (scast (api_pa_MaxRedeemEntries m)))
        @ enc_ptr_field encm 0x1a (api_pa_CollateralMetas m))
        @ enc_ptr_field encm 0x22 (api_pa_HalMeta m))
        @ unknownFields m)"
    unfolding api_Params_body_def
    by (intro writes_then
        writes_wr_unknown
        rt_laws.writes_wr_i32 [OF assms(1)]
        rt_laws.writes_wr_message [OF assms(1) assms(2)]
        rt_laws.writes_wr_message [OF assms(1) assms(3)])
      (use assms(4) in \<open>simp_all add: api_Params_ok_def\<close>)
  then show ?thesis by (simp add: api_Params_enc_def)
qed

lemma api_Params_size_enc:
  assumes "rt_laws R" "proto_laws DU encd okd" "proto_laws TM encm okm" "api_Params_ok DU TM okd okm m"
  shows "api_Params_size R DU TM (Some m) = int (length (api_Params_enc encd encm m @ unknownFields m))"
proof -
  have s0: "size_message R DU (api_pa_RedeemDur m) = int (length (enc_ptr_field encd 0x0a (api_pa_RedeemDur m)))"
    by (rule rt_laws.size_message_enc [OF assms(1) assms(2)]) (use assms(4) in \<open>simp add: api_Params_ok_def\<close>)
  have s1: "size_varint R (api_pa_MaxRedeemEntries m \<noteq> 0) (scast (api_pa_MaxRedeemEntries m)) = int (length (enc_varint_field 0x10 (scast (api_pa_MaxRedeemEntries m))))"
    by (rule rt_laws.size_i32_enc [OF assms(1)])
  have s2: "size_message R TM (api_pa_CollateralMetas m) = int (length (enc_ptr_field encm 0x1a (api_pa_CollateralMetas m)))"
    by (rule rt_laws.size_message_enc [OF assms(1) assms(3)]) (use assms(4) in \<open>simp add: api_Params_ok_def\<close>)
  have s3: "size_message R TM (api_pa_HalMeta m) = int (length (enc_ptr_field encm 0x22 (api_pa_HalMeta m)))"
    by (rule rt_laws.size_message_enc [OF assms(1) assms(3)]) (use assms(4) in \<open>simp add: api_Params_ok_def\<close>)
  show ?thesis
    by (simp add: api_Params_size_def api_Params_enc_def size_of_def size_unknown_def s0 s1 s2 s3)
qed

lemma api_Params_decodes:
  assumes "proto_laws DU encd okd" "proto_laws TM encm okm" "api_Params_ok DU TM okd okm m" "length (api_Params_enc encd encm m) < 2 ^ 63"
  shows "decodes_k PbRuntime ''Params'' keep (api_Params_fields DU TM) (api_Params_enc encd encm m) api_Params_new (m\<lparr>unknownFields := []\<rparr>)"
proof -
  let ?m1 = "if api_pa_RedeemDur m = None then api_Params_new else api_Params_new\<lparr>api_pa_RedeemDur := api_pa_RedeemDur m\<rparr>"
  let ?m2 = "if (scast (api_pa_MaxRedeemEntries m) :: 64 word) = 0 then ?m1 else ?m1\<lparr>api_pa_MaxRedeemEntries := ucast (scast (api_pa_MaxRedeemEntries m) :: 64 word)\<rparr>"
  let ?m3 = "if api_pa_CollateralMetas m = None then ?m2 else ?m2\<lparr>api_pa_CollateralMetas := api_pa_CollateralMetas m\<rparr>"
  let ?m4 = "if api_pa_HalMeta m = None then ?m3 else ?m3\<lparr>api_pa_HalMeta := api_pa_HalMeta m\<rparr>"
  let ?d = "decodes_k PbRuntime ''Params'' keep (api_Params_fields DU TM)"
  have "?d (enc_ptr_field encd 0x0a (api_pa_RedeemDur m)) api_Params_new ?m1"
    by (rule decodes_ptr [where n = 1], rule api_Params_fields_simps(1), rule tags, rule assms(1))
      (use assms(3) assms(4) in \<open>simp_all add: api_Params_ok_def api_Params_enc_def api_Params_new_def\<close>)
  moreover have "?d (enc_varint_field 0x10 (scast (api_pa_MaxRedeemEntries m))) ?m1 ?m2"
    by (rule decodes_varint [where n = 2], rule api_Params_fields_simps(2), rule tags) simp
  moreover have "?d (enc_ptr_field encm 0x1a (api_pa_CollateralMetas m)) ?m2 ?m3"
    by (rule decodes_ptr [where n = 3], rule api_Params_fields_simps(3), rule tags, rule assms(2))
      (use assms(3) assms(4) in \<open>simp_all add: api_Params_ok_def api_Params_enc_def api_Params_new_def\<close>)
  moreover have "?d (enc_ptr_field encm 0x22 (api_pa_HalMeta m)) ?m3 ?m4"
    by (rule decodes_ptr [where n = 4], rule api_Params_fields_simps(4), rule tags, rule assms(2))
      (use assms(3) assms(4) in \<open>simp_all add: api_Params_ok_def api_Params_enc_def api_Params_new_def\<close>)
  ultimately have "?d (api_Params_enc encd encm m) api_Params_new ?m4"
    unfolding api_Params_enc_def by (intro decodes_append)
  moreover have "?m4 = m\<lparr>unknownFields := []\<rparr>"
    by (cases m) (simp add: api_Params_new_def wide_word)
  ultimately show ?thesis by simp
qed

lemma api_Params_message:
  assumes "rt_laws R" "proto_laws DU encd okd" "proto_laws TM encm okm"
  shows "pulsar_message R ''Params'' (api_Params_fields DU TM) (api_Params_size R DU TM) (api_Params_body R DU TM) (api_Params_enc encd encm) api_Params_new
    (api_Params_ok DU TM okd okm)"
proof -
  have "safe_fields (api_Params_fields DU TM)"
    by (rule safe_fieldsI) (auto simp: api_Params_fields_def intro: safe_ptr_case [OF assms(2)] safe_ptr_case [OF assms(3)] split: if_splits)
  with assms(1) show ?thesis
    unfolding pulsar_message_def pulsar_message_axioms_def
    using api_Params_writes [OF assms] api_Params_size_enc [OF assms] api_Params_decodes [OF assms(2) assms(3)]
    by (simp add: api_Params_ok_def)
qed

lemmas api_Params_reflect =
  api_Params_new_def api_Params_Range_def api_Params_Has_def api_Params_Clear_def api_Params_Get_def api_Params_Set_def
  api_Params_Mutable_def api_Params_NewField_def

lemma api_Params_reflection:
  fixes MD :: "('v, 'd) msg_value" and MM :: "('v, api_token_meta) msg_value"
  assumes "value_laws V" "msg_value_laws MD" "msg_value_laws MM" "\<And>f. FullName (D f) = ''halbornctf.hal.Params.'' @ f"
  shows "reflection [''halbornctf.hal.Params.redeem_dur'', ''halbornctf.hal.Params.max_redeem_entries'', ''halbornctf.hal.Params.collateral_metas'', ''halbornctf.hal.Params.hal_meta'']
    [D ''redeem_dur'', D ''max_redeem_entries'', D ''collateral_metas'', D ''hal_meta''] api_Params_new api_Params_Has api_Params_Clear
    (api_Params_Get V MD MM) (api_Params_Set V MD MM) (api_Params_Mutable DU TM MD MM)
    (api_Params_NewField V DU TM MD MM) (api_Params_Range V MD MM D)"
  using assms by unfold_locales (auto simp: api_Params_reflect reflect_simps split: if_splits)

end
