(* ===== verification/Pulsar_Tx.thy ===== *)
theory Pulsar_Tx
  imports Pulsar_Params
begin

text \<open>
  \<open>api/halbornctf/hal/tx.pulsar.go\<close>: the four transaction messages and their responses.
\<close>

section \<open>MsgUpdateParams\<close>

text \<open>The struct, its zero value and its getters.\<close>

record 'd api_update_params = api_msg +
  api_up_Authority :: "string"
  api_up_Params :: "'d api_params option"

definition api_MsgUpdateParams_new :: "'d api_update_params" where
  "api_MsgUpdateParams_new = \<lparr>unknownFields = [], api_up_Authority = [], api_up_Params = None\<rparr>"

definition api_MsgUpdateParams_GetAuthority :: "'d api_update_params option \<Rightarrow> string" where
  "api_MsgUpdateParams_GetAuthority x = (case x of Some m \<Rightarrow> api_up_Authority m | None \<Rightarrow> [])"

definition api_MsgUpdateParams_GetParams :: "'d api_update_params option \<Rightarrow> 'd api_params option" where
  "api_MsgUpdateParams_GetParams x = (case x of Some m \<Rightarrow> api_up_Params m | None \<Rightarrow> None)"

text \<open>The methods of \<open>fastReflection_MsgUpdateParams\<close>. \<open>Mutable\<close> returns the new state of the message beside
  the value, which in Go is a reference into it.\<close>

definition api_MsgUpdateParams_Range :: "'v value_lib \<Rightarrow> ('v, 'd api_params) msg_value \<Rightarrow> (string \<Rightarrow> field_descriptor) \<Rightarrow> (field_descriptor \<Rightarrow> 'v \<Rightarrow> 's \<Rightarrow> bool \<times> 's) \<Rightarrow>
    'd api_update_params option \<Rightarrow> 's \<Rightarrow> 's outcome" where
  "api_MsgUpdateParams_Range V MP D f x s = deref x (\<lambda>m. Ok ((visit (api_up_Authority m \<noteq> []) (D ''authority'') (ValueOfString V (api_up_Authority m)) f
       (visit (api_up_Params m \<noteq> None) (D ''params'') (ValueOfMessage MP (api_up_Params m)) f
       (\<lambda>s. s))) s))"

definition api_MsgUpdateParams_Has :: "field_descriptor \<Rightarrow> 'd api_update_params option \<Rightarrow> bool outcome" where
  "api_MsgUpdateParams_Has fd x =
     (if FullName fd = ''halbornctf.hal.MsgUpdateParams.authority'' then deref x (\<lambda>m. Ok (api_up_Authority m \<noteq> []))
      else if FullName fd = ''halbornctf.hal.MsgUpdateParams.params'' then deref x (\<lambda>m. Ok (api_up_Params m \<noteq> None))
      else no_field ''halbornctf.hal.MsgUpdateParams'' fd)"

definition api_MsgUpdateParams_Clear :: "field_descriptor \<Rightarrow> 'd api_update_params option \<Rightarrow> 'd api_update_params option outcome" where
  "api_MsgUpdateParams_Clear fd x =
     (if FullName fd = ''halbornctf.hal.MsgUpdateParams.authority'' then deref x (\<lambda>m. Ok (Some (m\<lparr>api_up_Authority := []\<rparr>)))
      else if FullName fd = ''halbornctf.hal.MsgUpdateParams.params'' then deref x (\<lambda>m. Ok (Some (m\<lparr>api_up_Params := None\<rparr>)))
      else no_field ''halbornctf.hal.MsgUpdateParams'' fd)"

definition api_MsgUpdateParams_Get :: "'v value_lib \<Rightarrow> ('v, 'd api_params) msg_value \<Rightarrow> field_descriptor \<Rightarrow> 'd api_update_params option \<Rightarrow> 'v outcome" where
  "api_MsgUpdateParams_Get V MP fd x =
     (if FullName fd = ''halbornctf.hal.MsgUpdateParams.authority'' then deref x (\<lambda>m. Ok (ValueOfString V (api_up_Authority m)))
      else if FullName fd = ''halbornctf.hal.MsgUpdateParams.params'' then deref x (\<lambda>m. Ok (ValueOfMessage MP (api_up_Params m)))
      else no_field ''halbornctf.hal.MsgUpdateParams'' fd)"

definition api_MsgUpdateParams_Set :: "'v value_lib \<Rightarrow> ('v, 'd api_params) msg_value \<Rightarrow> field_descriptor \<Rightarrow> 'v \<Rightarrow> 'd api_update_params option \<Rightarrow> 'd api_update_params option outcome" where
  "api_MsgUpdateParams_Set V MP fd value x =
     (if FullName fd = ''halbornctf.hal.MsgUpdateParams.authority'' then bind_o (Value_string V value) (\<lambda>s. deref x (\<lambda>m. Ok (Some (m\<lparr>api_up_Authority := s\<rparr>))))
      else if FullName fd = ''halbornctf.hal.MsgUpdateParams.params'' then bind_o (Value_Message MP value) (\<lambda>p. deref x (\<lambda>m. Ok (Some (m\<lparr>api_up_Params := p\<rparr>))))
      else no_field ''halbornctf.hal.MsgUpdateParams'' fd)"

definition api_MsgUpdateParams_Mutable :: "'d api_params proto_ops \<Rightarrow> ('v, 'd api_params) msg_value \<Rightarrow> field_descriptor \<Rightarrow> 'd api_update_params option \<Rightarrow> ('v \<times> 'd api_update_params option) outcome" where
  "api_MsgUpdateParams_Mutable PA MP fd x =
     (if FullName fd = ''halbornctf.hal.MsgUpdateParams.params'' then deref x (\<lambda>m.
        let p = (case api_up_Params m of None \<Rightarrow> Some (op_new PA) | Some v \<Rightarrow> Some v)
        in Ok (ValueOfMessage MP p, Some (m\<lparr>api_up_Params := p\<rparr>)))
      else if FullName fd = ''halbornctf.hal.MsgUpdateParams.authority'' then not_mutable ''authority'' ''halbornctf.hal.MsgUpdateParams''
      else no_field ''halbornctf.hal.MsgUpdateParams'' fd)"

definition api_MsgUpdateParams_NewField :: "'v value_lib \<Rightarrow> 'd api_params proto_ops \<Rightarrow> ('v, 'd api_params) msg_value \<Rightarrow> field_descriptor \<Rightarrow> 'v outcome" where
  "api_MsgUpdateParams_NewField V PA MP fd =
     (if FullName fd = ''halbornctf.hal.MsgUpdateParams.authority'' then Ok (ValueOfString V ([]))
      else if FullName fd = ''halbornctf.hal.MsgUpdateParams.params'' then Ok (ValueOfMessage MP (Some (op_new PA)))
      else no_field ''halbornctf.hal.MsgUpdateParams'' fd)"

text \<open>The closures of \<open>ProtoMethods\<close>.\<close>

definition api_MsgUpdateParams_size :: "pulsar_rt \<Rightarrow> 'd api_params proto_ops \<Rightarrow> 'd api_update_params option \<Rightarrow> int" where
  "api_MsgUpdateParams_size R PA x = size_of (\<lambda>m. size_string R (api_up_Authority m)
     + size_message R PA (api_up_Params m)
     + size_unknown (unknownFields m)) x"

definition api_MsgUpdateParams_body :: "pulsar_rt \<Rightarrow> 'd api_params proto_ops \<Rightarrow> 'd api_update_params \<Rightarrow> wr" where
  "api_MsgUpdateParams_body R PA m =
     then_w (wr_unknown (unknownFields m))
    (then_w (wr_message R PA 0x12 (api_up_Params m))
    (wr_string R 0x0a (api_up_Authority m)))"

definition api_MsgUpdateParams_marshal :: "pulsar_rt \<Rightarrow> 'd api_params proto_ops \<Rightarrow> ('d api_update_params \<Rightarrow> int) \<Rightarrow> 'd api_update_params option \<Rightarrow> bytes option \<Rightarrow> bytes option outcome" where
  "api_MsgUpdateParams_marshal R PA Size = p_marshal Size (api_MsgUpdateParams_body R PA)"

definition api_MsgUpdateParams_fields :: "'d api_params proto_ops \<Rightarrow> 'd api_update_params fields" where
  "api_MsgUpdateParams_fields PA n =
     (if n = 1 then Some (string_case ''Authority'' (\<lambda>s m. m\<lparr>api_up_Authority := s\<rparr>))
      else if n = 2 then Some (ptr_case ''Params'' api_up_Params (\<lambda>p m. m\<lparr>api_up_Params := p\<rparr>) PA)
      else None)"

definition api_MsgUpdateParams_unmarshal :: "pulsar_rt \<Rightarrow> 'd api_params proto_ops \<Rightarrow> bool \<Rightarrow> 'd api_update_params option \<Rightarrow> bytes \<Rightarrow> 'd api_update_params option outcome" where
  "api_MsgUpdateParams_unmarshal R PA DiscardUnknown = p_unmarshal R DiscardUnknown ''MsgUpdateParams'' (api_MsgUpdateParams_fields PA)"

text \<open>The contracts.\<close>

definition api_MsgUpdateParams_enc :: "('d api_params \<Rightarrow> bytes) \<Rightarrow> 'd api_update_params \<Rightarrow> bytes" where
  "api_MsgUpdateParams_enc encp m =
     enc_string_field 0x0a (api_up_Authority m)
   @ enc_ptr_field encp 0x12 (api_up_Params m)"

definition api_MsgUpdateParams_ok :: "'d api_params proto_ops \<Rightarrow> ('d api_params \<Rightarrow> bool) \<Rightarrow> 'd api_update_params \<Rightarrow> bool" where
  "api_MsgUpdateParams_ok PA okp m \<longleftrightarrow> wf_ptr okp (api_up_Params m) \<and> raw_fields (api_MsgUpdateParams_fields PA) (unknownFields m)"

lemma api_MsgUpdateParams_fields_simps [simp]:
  "api_MsgUpdateParams_fields PA 1 = Some (string_case ''Authority'' (\<lambda>s m. m\<lparr>api_up_Authority := s\<rparr>))"
  "api_MsgUpdateParams_fields PA 2 = Some (ptr_case ''Params'' api_up_Params (\<lambda>p m. m\<lparr>api_up_Params := p\<rparr>) PA)"
  by (simp_all add: api_MsgUpdateParams_fields_def)

lemma api_MsgUpdateParams_writes:
  assumes "rt_laws R" "proto_laws PA encp okp" "api_MsgUpdateParams_ok PA okp m"
  shows "writes (api_MsgUpdateParams_body R PA m) (api_MsgUpdateParams_enc encp m @ unknownFields m)"
proof -
  have "writes (api_MsgUpdateParams_body R PA m)
      ((enc_string_field 0x0a (api_up_Authority m)
        @ enc_ptr_field encp 0x12 (api_up_Params m))
        @ unknownFields m)"
    unfolding api_MsgUpdateParams_body_def
    by (intro writes_then
        writes_wr_unknown
        rt_laws.writes_wr_string [OF assms(1)]
        rt_laws.writes_wr_message [OF assms(1) assms(2)])
      (use assms(3) in \<open>simp_all add: api_MsgUpdateParams_ok_def\<close>)
  then show ?thesis by (simp add: api_MsgUpdateParams_enc_def)
qed

lemma api_MsgUpdateParams_size_enc:
  assumes "rt_laws R" "proto_laws PA encp okp" "api_MsgUpdateParams_ok PA okp m"
  shows "api_MsgUpdateParams_size R PA (Some m) = int (length (api_MsgUpdateParams_enc encp m @ unknownFields m))"
proof -
  have s0: "size_string R (api_up_Authority m) = int (length (enc_string_field 0x0a (api_up_Authority m)))"
    by (rule rt_laws.size_string_enc [OF assms(1)])
  have s1: "size_message R PA (api_up_Params m) = int (length (enc_ptr_field encp 0x12 (api_up_Params m)))"
    by (rule rt_laws.size_message_enc [OF assms(1) assms(2)]) (use assms(3) in \<open>simp add: api_MsgUpdateParams_ok_def\<close>)
  show ?thesis
    by (simp add: api_MsgUpdateParams_size_def api_MsgUpdateParams_enc_def size_of_def size_unknown_def s0 s1)
qed

lemma api_MsgUpdateParams_decodes:
  assumes "proto_laws PA encp okp" "api_MsgUpdateParams_ok PA okp m" "length (api_MsgUpdateParams_enc encp m) < 2 ^ 63"
  shows "decodes_k PbRuntime ''MsgUpdateParams'' keep (api_MsgUpdateParams_fields PA) (api_MsgUpdateParams_enc encp m) api_MsgUpdateParams_new (m\<lparr>unknownFields := []\<rparr>)"
proof -
  let ?m1 = "if api_up_Authority m = [] then api_MsgUpdateParams_new else api_MsgUpdateParams_new\<lparr>api_up_Authority := api_up_Authority m\<rparr>"
  let ?m2 = "if api_up_Params m = None then ?m1 else ?m1\<lparr>api_up_Params := api_up_Params m\<rparr>"
  let ?d = "decodes_k PbRuntime ''MsgUpdateParams'' keep (api_MsgUpdateParams_fields PA)"
  have "?d (enc_string_field 0x0a (api_up_Authority m)) api_MsgUpdateParams_new ?m1"
    by (rule decodes_string [where n = 1], rule api_MsgUpdateParams_fields_simps(1), rule tags, rule refl)
  moreover have "?d (enc_ptr_field encp 0x12 (api_up_Params m)) ?m1 ?m2"
    by (rule decodes_ptr [where n = 2], rule api_MsgUpdateParams_fields_simps(2), rule tags, rule assms(1))
      (use assms(2) assms(3) in \<open>simp_all add: api_MsgUpdateParams_ok_def api_MsgUpdateParams_enc_def api_MsgUpdateParams_new_def\<close>)
  ultimately have "?d (api_MsgUpdateParams_enc encp m) api_MsgUpdateParams_new ?m2"
    unfolding api_MsgUpdateParams_enc_def by (intro decodes_append)
  moreover have "?m2 = m\<lparr>unknownFields := []\<rparr>"
    by (cases m) (simp add: api_MsgUpdateParams_new_def wide_word)
  ultimately show ?thesis by simp
qed

lemma api_MsgUpdateParams_message:
  assumes "rt_laws R" "proto_laws PA encp okp"
  shows "pulsar_message R ''MsgUpdateParams'' (api_MsgUpdateParams_fields PA) (api_MsgUpdateParams_size R PA) (api_MsgUpdateParams_body R PA) (api_MsgUpdateParams_enc encp) api_MsgUpdateParams_new
    (api_MsgUpdateParams_ok PA okp)"
proof -
  have "safe_fields (api_MsgUpdateParams_fields PA)"
    by (rule safe_fieldsI) (auto simp: api_MsgUpdateParams_fields_def intro: safe_ptr_case [OF assms(2)] split: if_splits)
  with assms(1) show ?thesis
    unfolding pulsar_message_def pulsar_message_axioms_def
    using api_MsgUpdateParams_writes [OF assms] api_MsgUpdateParams_size_enc [OF assms] api_MsgUpdateParams_decodes [OF assms(2)]
    by (simp add: api_MsgUpdateParams_ok_def)
qed

lemmas api_MsgUpdateParams_reflect =
  api_MsgUpdateParams_new_def api_MsgUpdateParams_Range_def api_MsgUpdateParams_Has_def api_MsgUpdateParams_Clear_def api_MsgUpdateParams_Get_def api_MsgUpdateParams_Set_def
  api_MsgUpdateParams_Mutable_def api_MsgUpdateParams_NewField_def

lemma api_MsgUpdateParams_reflection:
  fixes MP :: "('v, 'd api_params) msg_value"
  assumes "value_laws V" "msg_value_laws MP" "\<And>f. FullName (D f) = ''halbornctf.hal.MsgUpdateParams.'' @ f"
  shows "reflection [''halbornctf.hal.MsgUpdateParams.authority'', ''halbornctf.hal.MsgUpdateParams.params'']
    [D ''authority'', D ''params''] api_MsgUpdateParams_new api_MsgUpdateParams_Has api_MsgUpdateParams_Clear
    (api_MsgUpdateParams_Get V MP) (api_MsgUpdateParams_Set V MP) (api_MsgUpdateParams_Mutable PA MP)
    (api_MsgUpdateParams_NewField V PA MP) (api_MsgUpdateParams_Range V MP D)"
  using assms by unfold_locales (auto simp: api_MsgUpdateParams_reflect reflect_simps split: if_splits)

section \<open>MsgUpdateParamsResponse\<close>

type_synonym api_update_params_response = api_msg

definition api_MsgUpdateParamsResponse_new :: "api_update_params_response" where
  "api_MsgUpdateParamsResponse_new = \<lparr>unknownFields = []\<rparr>"

text \<open>The methods of \<open>fastReflection_MsgUpdateParamsResponse\<close>.\<close>

definition api_MsgUpdateParamsResponse_Range :: "(field_descriptor \<Rightarrow> 'v \<Rightarrow> 's \<Rightarrow> bool \<times> 's) \<Rightarrow> api_update_params_response option \<Rightarrow> 's \<Rightarrow> 's outcome" where
  "api_MsgUpdateParamsResponse_Range f x s = Ok s"

definition api_MsgUpdateParamsResponse_Has :: "field_descriptor \<Rightarrow> api_update_params_response option \<Rightarrow> bool outcome" where
  "api_MsgUpdateParamsResponse_Has fd x =
     no_field ''halbornctf.hal.MsgUpdateParamsResponse'' fd"

definition api_MsgUpdateParamsResponse_Clear :: "field_descriptor \<Rightarrow> api_update_params_response option \<Rightarrow> api_update_params_response option outcome" where
  "api_MsgUpdateParamsResponse_Clear fd x =
     no_field ''halbornctf.hal.MsgUpdateParamsResponse'' fd"

definition api_MsgUpdateParamsResponse_Get :: "field_descriptor \<Rightarrow> api_update_params_response option \<Rightarrow> 'v outcome" where
  "api_MsgUpdateParamsResponse_Get fd x =
     no_field ''halbornctf.hal.MsgUpdateParamsResponse'' fd"

definition api_MsgUpdateParamsResponse_Set :: "field_descriptor \<Rightarrow> 'v \<Rightarrow> api_update_params_response option \<Rightarrow> api_update_params_response option outcome" where
  "api_MsgUpdateParamsResponse_Set fd value x =
     no_field ''halbornctf.hal.MsgUpdateParamsResponse'' fd"

definition api_MsgUpdateParamsResponse_Mutable :: "field_descriptor \<Rightarrow> api_update_params_response option \<Rightarrow> ('v \<times> api_update_params_response option) outcome" where
  "api_MsgUpdateParamsResponse_Mutable fd x =
     no_field ''halbornctf.hal.MsgUpdateParamsResponse'' fd"

definition api_MsgUpdateParamsResponse_NewField :: "field_descriptor \<Rightarrow> 'v outcome" where
  "api_MsgUpdateParamsResponse_NewField fd =
     no_field ''halbornctf.hal.MsgUpdateParamsResponse'' fd"

text \<open>The closures of \<open>ProtoMethods\<close>.\<close>

definition api_MsgUpdateParamsResponse_size :: "pulsar_rt \<Rightarrow> api_update_params_response option \<Rightarrow> int" where
  "api_MsgUpdateParamsResponse_size R x = size_of (\<lambda>m. size_unknown (unknownFields m)) x"

definition api_MsgUpdateParamsResponse_body :: "pulsar_rt \<Rightarrow> api_update_params_response \<Rightarrow> wr" where
  "api_MsgUpdateParamsResponse_body R m =
     wr_unknown (unknownFields m)"

definition api_MsgUpdateParamsResponse_marshal :: "pulsar_rt \<Rightarrow> (api_update_params_response \<Rightarrow> int) \<Rightarrow> api_update_params_response option \<Rightarrow> bytes option \<Rightarrow> bytes option outcome" where
  "api_MsgUpdateParamsResponse_marshal R Size = p_marshal Size (api_MsgUpdateParamsResponse_body R)"

definition api_MsgUpdateParamsResponse_fields :: "api_update_params_response fields" where
  "api_MsgUpdateParamsResponse_fields n =
     None"

definition api_MsgUpdateParamsResponse_unmarshal :: "pulsar_rt \<Rightarrow> bool \<Rightarrow> api_update_params_response option \<Rightarrow> bytes \<Rightarrow> api_update_params_response option outcome" where
  "api_MsgUpdateParamsResponse_unmarshal R DiscardUnknown = p_unmarshal R DiscardUnknown ''MsgUpdateParamsResponse'' (api_MsgUpdateParamsResponse_fields)"

text \<open>The contracts.\<close>

definition api_MsgUpdateParamsResponse_enc :: "api_update_params_response \<Rightarrow> bytes" where
  "api_MsgUpdateParamsResponse_enc m =
     []"

definition api_MsgUpdateParamsResponse_ok :: "api_update_params_response \<Rightarrow> bool" where
  "api_MsgUpdateParamsResponse_ok m \<longleftrightarrow> raw_fields (api_MsgUpdateParamsResponse_fields) (unknownFields m)"

lemma api_MsgUpdateParamsResponse_writes:
  assumes "rt_laws R" "api_MsgUpdateParamsResponse_ok m"
  shows "writes (api_MsgUpdateParamsResponse_body R m) (api_MsgUpdateParamsResponse_enc m @ unknownFields m)"
  by (simp add: api_MsgUpdateParamsResponse_body_def api_MsgUpdateParamsResponse_enc_def writes_wr_unknown)

lemma api_MsgUpdateParamsResponse_size_enc:
  assumes "rt_laws R" "api_MsgUpdateParamsResponse_ok m"
  shows "api_MsgUpdateParamsResponse_size R (Some m) = int (length (api_MsgUpdateParamsResponse_enc m @ unknownFields m))"
  by (simp add: api_MsgUpdateParamsResponse_size_def api_MsgUpdateParamsResponse_enc_def size_of_def size_unknown_def)

lemma api_MsgUpdateParamsResponse_decodes:
  assumes "api_MsgUpdateParamsResponse_ok m" "length (api_MsgUpdateParamsResponse_enc m) < 2 ^ 63"
  shows "decodes_k PbRuntime ''MsgUpdateParamsResponse'' keep (api_MsgUpdateParamsResponse_fields) (api_MsgUpdateParamsResponse_enc m) api_MsgUpdateParamsResponse_new (m\<lparr>unknownFields := []\<rparr>)"
  by (cases m) (simp add: api_MsgUpdateParamsResponse_enc_def api_MsgUpdateParamsResponse_new_def decodes_Nil)

lemma api_MsgUpdateParamsResponse_message:
  assumes "rt_laws R"
  shows "pulsar_message R ''MsgUpdateParamsResponse'' (api_MsgUpdateParamsResponse_fields) (api_MsgUpdateParamsResponse_size R) (api_MsgUpdateParamsResponse_body R) (api_MsgUpdateParamsResponse_enc) api_MsgUpdateParamsResponse_new
    (api_MsgUpdateParamsResponse_ok)"
proof -
  have "safe_fields (api_MsgUpdateParamsResponse_fields)"
    by (rule safe_fieldsI) (auto simp: api_MsgUpdateParamsResponse_fields_def)
  with assms(1) show ?thesis
    unfolding pulsar_message_def pulsar_message_axioms_def
    using api_MsgUpdateParamsResponse_writes [OF assms] api_MsgUpdateParamsResponse_size_enc [OF assms] api_MsgUpdateParamsResponse_decodes
    by (simp add: api_MsgUpdateParamsResponse_ok_def)
qed

section \<open>MsgMintHal\<close>

text \<open>The struct, its zero value and its getters.\<close>

record 'c api_mint_hal = api_msg +
  api_mh_Creator :: "string"
  api_mh_CollateralAmount :: "'c option"

definition api_MsgMintHal_new :: "'c api_mint_hal" where
  "api_MsgMintHal_new = \<lparr>unknownFields = [], api_mh_Creator = [], api_mh_CollateralAmount = None\<rparr>"

definition api_MsgMintHal_GetCreator :: "'c api_mint_hal option \<Rightarrow> string" where
  "api_MsgMintHal_GetCreator x = (case x of Some m \<Rightarrow> api_mh_Creator m | None \<Rightarrow> [])"

definition api_MsgMintHal_GetCollateralAmount :: "'c api_mint_hal option \<Rightarrow> 'c option" where
  "api_MsgMintHal_GetCollateralAmount x = (case x of Some m \<Rightarrow> api_mh_CollateralAmount m | None \<Rightarrow> None)"

text \<open>The methods of \<open>fastReflection_MsgMintHal\<close>. \<open>Mutable\<close> returns the new state of the message beside
  the value, which in Go is a reference into it.\<close>

definition api_MsgMintHal_Range :: "'v value_lib \<Rightarrow> ('v, 'c) msg_value \<Rightarrow> (string \<Rightarrow> field_descriptor) \<Rightarrow> (field_descriptor \<Rightarrow> 'v \<Rightarrow> 's \<Rightarrow> bool \<times> 's) \<Rightarrow>
    'c api_mint_hal option \<Rightarrow> 's \<Rightarrow> 's outcome" where
  "api_MsgMintHal_Range V MC D f x s = deref x (\<lambda>m. Ok ((visit (api_mh_Creator m \<noteq> []) (D ''creator'') (ValueOfString V (api_mh_Creator m)) f
       (visit (api_mh_CollateralAmount m \<noteq> None) (D ''collateralAmount'') (ValueOfMessage MC (api_mh_CollateralAmount m)) f
       (\<lambda>s. s))) s))"

definition api_MsgMintHal_Has :: "field_descriptor \<Rightarrow> 'c api_mint_hal option \<Rightarrow> bool outcome" where
  "api_MsgMintHal_Has fd x =
     (if FullName fd = ''halbornctf.hal.MsgMintHal.creator'' then deref x (\<lambda>m. Ok (api_mh_Creator m \<noteq> []))
      else if FullName fd = ''halbornctf.hal.MsgMintHal.collateralAmount'' then deref x (\<lambda>m. Ok (api_mh_CollateralAmount m \<noteq> None))
      else no_field ''halbornctf.hal.MsgMintHal'' fd)"

definition api_MsgMintHal_Clear :: "field_descriptor \<Rightarrow> 'c api_mint_hal option \<Rightarrow> 'c api_mint_hal option outcome" where
  "api_MsgMintHal_Clear fd x =
     (if FullName fd = ''halbornctf.hal.MsgMintHal.creator'' then deref x (\<lambda>m. Ok (Some (m\<lparr>api_mh_Creator := []\<rparr>)))
      else if FullName fd = ''halbornctf.hal.MsgMintHal.collateralAmount'' then deref x (\<lambda>m. Ok (Some (m\<lparr>api_mh_CollateralAmount := None\<rparr>)))
      else no_field ''halbornctf.hal.MsgMintHal'' fd)"

definition api_MsgMintHal_Get :: "'v value_lib \<Rightarrow> ('v, 'c) msg_value \<Rightarrow> field_descriptor \<Rightarrow> 'c api_mint_hal option \<Rightarrow> 'v outcome" where
  "api_MsgMintHal_Get V MC fd x =
     (if FullName fd = ''halbornctf.hal.MsgMintHal.creator'' then deref x (\<lambda>m. Ok (ValueOfString V (api_mh_Creator m)))
      else if FullName fd = ''halbornctf.hal.MsgMintHal.collateralAmount'' then deref x (\<lambda>m. Ok (ValueOfMessage MC (api_mh_CollateralAmount m)))
      else no_field ''halbornctf.hal.MsgMintHal'' fd)"

definition api_MsgMintHal_Set :: "'v value_lib \<Rightarrow> ('v, 'c) msg_value \<Rightarrow> field_descriptor \<Rightarrow> 'v \<Rightarrow> 'c api_mint_hal option \<Rightarrow> 'c api_mint_hal option outcome" where
  "api_MsgMintHal_Set V MC fd value x =
     (if FullName fd = ''halbornctf.hal.MsgMintHal.creator'' then bind_o (Value_string V value) (\<lambda>s. deref x (\<lambda>m. Ok (Some (m\<lparr>api_mh_Creator := s\<rparr>))))
      else if FullName fd = ''halbornctf.hal.MsgMintHal.collateralAmount'' then bind_o (Value_Message MC value) (\<lambda>p. deref x (\<lambda>m. Ok (Some (m\<lparr>api_mh_CollateralAmount := p\<rparr>))))
      else no_field ''halbornctf.hal.MsgMintHal'' fd)"

definition api_MsgMintHal_Mutable :: "'c proto_ops \<Rightarrow> ('v, 'c) msg_value \<Rightarrow> field_descriptor \<Rightarrow> 'c api_mint_hal option \<Rightarrow> ('v \<times> 'c api_mint_hal option) outcome" where
  "api_MsgMintHal_Mutable C MC fd x =
     (if FullName fd = ''halbornctf.hal.MsgMintHal.collateralAmount'' then deref x (\<lambda>m.
        let p = (case api_mh_CollateralAmount m of None \<Rightarrow> Some (op_new C) | Some v \<Rightarrow> Some v)
        in Ok (ValueOfMessage MC p, Some (m\<lparr>api_mh_CollateralAmount := p\<rparr>)))
      else if FullName fd = ''halbornctf.hal.MsgMintHal.creator'' then not_mutable ''creator'' ''halbornctf.hal.MsgMintHal''
      else no_field ''halbornctf.hal.MsgMintHal'' fd)"

definition api_MsgMintHal_NewField :: "'v value_lib \<Rightarrow> 'c proto_ops \<Rightarrow> ('v, 'c) msg_value \<Rightarrow> field_descriptor \<Rightarrow> 'v outcome" where
  "api_MsgMintHal_NewField V C MC fd =
     (if FullName fd = ''halbornctf.hal.MsgMintHal.creator'' then Ok (ValueOfString V ([]))
      else if FullName fd = ''halbornctf.hal.MsgMintHal.collateralAmount'' then Ok (ValueOfMessage MC (Some (op_new C)))
      else no_field ''halbornctf.hal.MsgMintHal'' fd)"

text \<open>The closures of \<open>ProtoMethods\<close>.\<close>

definition api_MsgMintHal_size :: "pulsar_rt \<Rightarrow> 'c proto_ops \<Rightarrow> 'c api_mint_hal option \<Rightarrow> int" where
  "api_MsgMintHal_size R C x = size_of (\<lambda>m. size_string R (api_mh_Creator m)
     + size_message R C (api_mh_CollateralAmount m)
     + size_unknown (unknownFields m)) x"

definition api_MsgMintHal_body :: "pulsar_rt \<Rightarrow> 'c proto_ops \<Rightarrow> 'c api_mint_hal \<Rightarrow> wr" where
  "api_MsgMintHal_body R C m =
     then_w (wr_unknown (unknownFields m))
    (then_w (wr_message R C 0x12 (api_mh_CollateralAmount m))
    (wr_string R 0x0a (api_mh_Creator m)))"

definition api_MsgMintHal_marshal :: "pulsar_rt \<Rightarrow> 'c proto_ops \<Rightarrow> ('c api_mint_hal \<Rightarrow> int) \<Rightarrow> 'c api_mint_hal option \<Rightarrow> bytes option \<Rightarrow> bytes option outcome" where
  "api_MsgMintHal_marshal R C Size = p_marshal Size (api_MsgMintHal_body R C)"

definition api_MsgMintHal_fields :: "'c proto_ops \<Rightarrow> 'c api_mint_hal fields" where
  "api_MsgMintHal_fields C n =
     (if n = 1 then Some (string_case ''Creator'' (\<lambda>s m. m\<lparr>api_mh_Creator := s\<rparr>))
      else if n = 2 then Some (ptr_case ''CollateralAmount'' api_mh_CollateralAmount (\<lambda>p m. m\<lparr>api_mh_CollateralAmount := p\<rparr>) C)
      else None)"

definition api_MsgMintHal_unmarshal :: "pulsar_rt \<Rightarrow> 'c proto_ops \<Rightarrow> bool \<Rightarrow> 'c api_mint_hal option \<Rightarrow> bytes \<Rightarrow> 'c api_mint_hal option outcome" where
  "api_MsgMintHal_unmarshal R C DiscardUnknown = p_unmarshal R DiscardUnknown ''MsgMintHal'' (api_MsgMintHal_fields C)"

text \<open>The contracts.\<close>

definition api_MsgMintHal_enc :: "('c \<Rightarrow> bytes) \<Rightarrow> 'c api_mint_hal \<Rightarrow> bytes" where
  "api_MsgMintHal_enc encc m =
     enc_string_field 0x0a (api_mh_Creator m)
   @ enc_ptr_field encc 0x12 (api_mh_CollateralAmount m)"

definition api_MsgMintHal_ok :: "'c proto_ops \<Rightarrow> ('c \<Rightarrow> bool) \<Rightarrow> 'c api_mint_hal \<Rightarrow> bool" where
  "api_MsgMintHal_ok C okc m \<longleftrightarrow> wf_ptr okc (api_mh_CollateralAmount m) \<and> raw_fields (api_MsgMintHal_fields C) (unknownFields m)"

lemma api_MsgMintHal_fields_simps [simp]:
  "api_MsgMintHal_fields C 1 = Some (string_case ''Creator'' (\<lambda>s m. m\<lparr>api_mh_Creator := s\<rparr>))"
  "api_MsgMintHal_fields C 2 = Some (ptr_case ''CollateralAmount'' api_mh_CollateralAmount (\<lambda>p m. m\<lparr>api_mh_CollateralAmount := p\<rparr>) C)"
  by (simp_all add: api_MsgMintHal_fields_def)

lemma api_MsgMintHal_writes:
  assumes "rt_laws R" "proto_laws C encc okc" "api_MsgMintHal_ok C okc m"
  shows "writes (api_MsgMintHal_body R C m) (api_MsgMintHal_enc encc m @ unknownFields m)"
proof -
  have "writes (api_MsgMintHal_body R C m)
      ((enc_string_field 0x0a (api_mh_Creator m)
        @ enc_ptr_field encc 0x12 (api_mh_CollateralAmount m))
        @ unknownFields m)"
    unfolding api_MsgMintHal_body_def
    by (intro writes_then
        writes_wr_unknown
        rt_laws.writes_wr_string [OF assms(1)]
        rt_laws.writes_wr_message [OF assms(1) assms(2)])
      (use assms(3) in \<open>simp_all add: api_MsgMintHal_ok_def\<close>)
  then show ?thesis by (simp add: api_MsgMintHal_enc_def)
qed

lemma api_MsgMintHal_size_enc:
  assumes "rt_laws R" "proto_laws C encc okc" "api_MsgMintHal_ok C okc m"
  shows "api_MsgMintHal_size R C (Some m) = int (length (api_MsgMintHal_enc encc m @ unknownFields m))"
proof -
  have s0: "size_string R (api_mh_Creator m) = int (length (enc_string_field 0x0a (api_mh_Creator m)))"
    by (rule rt_laws.size_string_enc [OF assms(1)])
  have s1: "size_message R C (api_mh_CollateralAmount m) = int (length (enc_ptr_field encc 0x12 (api_mh_CollateralAmount m)))"
    by (rule rt_laws.size_message_enc [OF assms(1) assms(2)]) (use assms(3) in \<open>simp add: api_MsgMintHal_ok_def\<close>)
  show ?thesis
    by (simp add: api_MsgMintHal_size_def api_MsgMintHal_enc_def size_of_def size_unknown_def s0 s1)
qed

lemma api_MsgMintHal_decodes:
  assumes "proto_laws C encc okc" "api_MsgMintHal_ok C okc m" "length (api_MsgMintHal_enc encc m) < 2 ^ 63"
  shows "decodes_k PbRuntime ''MsgMintHal'' keep (api_MsgMintHal_fields C) (api_MsgMintHal_enc encc m) api_MsgMintHal_new (m\<lparr>unknownFields := []\<rparr>)"
proof -
  let ?m1 = "if api_mh_Creator m = [] then api_MsgMintHal_new else api_MsgMintHal_new\<lparr>api_mh_Creator := api_mh_Creator m\<rparr>"
  let ?m2 = "if api_mh_CollateralAmount m = None then ?m1 else ?m1\<lparr>api_mh_CollateralAmount := api_mh_CollateralAmount m\<rparr>"
  let ?d = "decodes_k PbRuntime ''MsgMintHal'' keep (api_MsgMintHal_fields C)"
  have "?d (enc_string_field 0x0a (api_mh_Creator m)) api_MsgMintHal_new ?m1"
    by (rule decodes_string [where n = 1], rule api_MsgMintHal_fields_simps(1), rule tags, rule refl)
  moreover have "?d (enc_ptr_field encc 0x12 (api_mh_CollateralAmount m)) ?m1 ?m2"
    by (rule decodes_ptr [where n = 2], rule api_MsgMintHal_fields_simps(2), rule tags, rule assms(1))
      (use assms(2) assms(3) in \<open>simp_all add: api_MsgMintHal_ok_def api_MsgMintHal_enc_def api_MsgMintHal_new_def\<close>)
  ultimately have "?d (api_MsgMintHal_enc encc m) api_MsgMintHal_new ?m2"
    unfolding api_MsgMintHal_enc_def by (intro decodes_append)
  moreover have "?m2 = m\<lparr>unknownFields := []\<rparr>"
    by (cases m) (simp add: api_MsgMintHal_new_def wide_word)
  ultimately show ?thesis by simp
qed

lemma api_MsgMintHal_message:
  assumes "rt_laws R" "proto_laws C encc okc"
  shows "pulsar_message R ''MsgMintHal'' (api_MsgMintHal_fields C) (api_MsgMintHal_size R C) (api_MsgMintHal_body R C) (api_MsgMintHal_enc encc) api_MsgMintHal_new
    (api_MsgMintHal_ok C okc)"
proof -
  have "safe_fields (api_MsgMintHal_fields C)"
    by (rule safe_fieldsI) (auto simp: api_MsgMintHal_fields_def intro: safe_ptr_case [OF assms(2)] split: if_splits)
  with assms(1) show ?thesis
    unfolding pulsar_message_def pulsar_message_axioms_def
    using api_MsgMintHal_writes [OF assms] api_MsgMintHal_size_enc [OF assms] api_MsgMintHal_decodes [OF assms(2)]
    by (simp add: api_MsgMintHal_ok_def)
qed

lemmas api_MsgMintHal_reflect =
  api_MsgMintHal_new_def api_MsgMintHal_Range_def api_MsgMintHal_Has_def api_MsgMintHal_Clear_def api_MsgMintHal_Get_def api_MsgMintHal_Set_def
  api_MsgMintHal_Mutable_def api_MsgMintHal_NewField_def

lemma api_MsgMintHal_reflection:
  fixes MC :: "('v, 'c) msg_value"
  assumes "value_laws V" "msg_value_laws MC" "\<And>f. FullName (D f) = ''halbornctf.hal.MsgMintHal.'' @ f"
  shows "reflection [''halbornctf.hal.MsgMintHal.creator'', ''halbornctf.hal.MsgMintHal.collateralAmount'']
    [D ''creator'', D ''collateralAmount''] api_MsgMintHal_new api_MsgMintHal_Has api_MsgMintHal_Clear
    (api_MsgMintHal_Get V MC) (api_MsgMintHal_Set V MC) (api_MsgMintHal_Mutable C MC)
    (api_MsgMintHal_NewField V C MC) (api_MsgMintHal_Range V MC D)"
  using assms by unfold_locales (auto simp: api_MsgMintHal_reflect reflect_simps split: if_splits)

section \<open>MsgMintHalResponse\<close>

text \<open>The struct, its zero value and its getters.\<close>

record 'c api_mint_hal_response = api_msg +
  api_mhr_MintedAmount :: "'c option"

definition api_MsgMintHalResponse_new :: "'c api_mint_hal_response" where
  "api_MsgMintHalResponse_new = \<lparr>unknownFields = [], api_mhr_MintedAmount = None\<rparr>"

definition api_MsgMintHalResponse_GetMintedAmount :: "'c api_mint_hal_response option \<Rightarrow> 'c option" where
  "api_MsgMintHalResponse_GetMintedAmount x = (case x of Some m \<Rightarrow> api_mhr_MintedAmount m | None \<Rightarrow> None)"

text \<open>The methods of \<open>fastReflection_MsgMintHalResponse\<close>. \<open>Mutable\<close> returns the new state of the message beside
  the value, which in Go is a reference into it.\<close>

definition api_MsgMintHalResponse_Range :: "('v, 'c) msg_value \<Rightarrow> (string \<Rightarrow> field_descriptor) \<Rightarrow> (field_descriptor \<Rightarrow> 'v \<Rightarrow> 's \<Rightarrow> bool \<times> 's) \<Rightarrow>
    'c api_mint_hal_response option \<Rightarrow> 's \<Rightarrow> 's outcome" where
  "api_MsgMintHalResponse_Range MC D f x s = deref x (\<lambda>m. Ok ((visit (api_mhr_MintedAmount m \<noteq> None) (D ''mintedAmount'') (ValueOfMessage MC (api_mhr_MintedAmount m)) f
       (\<lambda>s. s)) s))"

definition api_MsgMintHalResponse_Has :: "field_descriptor \<Rightarrow> 'c api_mint_hal_response option \<Rightarrow> bool outcome" where
  "api_MsgMintHalResponse_Has fd x =
     (if FullName fd = ''halbornctf.hal.MsgMintHalResponse.mintedAmount'' then deref x (\<lambda>m. Ok (api_mhr_MintedAmount m \<noteq> None))
      else no_field ''halbornctf.hal.MsgMintHalResponse'' fd)"

definition api_MsgMintHalResponse_Clear :: "field_descriptor \<Rightarrow> 'c api_mint_hal_response option \<Rightarrow> 'c api_mint_hal_response option outcome" where
  "api_MsgMintHalResponse_Clear fd x =
     (if FullName fd = ''halbornctf.hal.MsgMintHalResponse.mintedAmount'' then deref x (\<lambda>m. Ok (Some (m\<lparr>api_mhr_MintedAmount := None\<rparr>)))
      else no_field ''halbornctf.hal.MsgMintHalResponse'' fd)"

definition api_MsgMintHalResponse_Get :: "('v, 'c) msg_value \<Rightarrow> field_descriptor \<Rightarrow> 'c api_mint_hal_response option \<Rightarrow> 'v outcome" where
  "api_MsgMintHalResponse_Get MC fd x =
     (if FullName fd = ''halbornctf.hal.MsgMintHalResponse.mintedAmount'' then deref x (\<lambda>m. Ok (ValueOfMessage MC (api_mhr_MintedAmount m)))
      else no_field ''halbornctf.hal.MsgMintHalResponse'' fd)"

definition api_MsgMintHalResponse_Set :: "('v, 'c) msg_value \<Rightarrow> field_descriptor \<Rightarrow> 'v \<Rightarrow> 'c api_mint_hal_response option \<Rightarrow> 'c api_mint_hal_response option outcome" where
  "api_MsgMintHalResponse_Set MC fd value x =
     (if FullName fd = ''halbornctf.hal.MsgMintHalResponse.mintedAmount'' then bind_o (Value_Message MC value) (\<lambda>p. deref x (\<lambda>m. Ok (Some (m\<lparr>api_mhr_MintedAmount := p\<rparr>))))
      else no_field ''halbornctf.hal.MsgMintHalResponse'' fd)"

definition api_MsgMintHalResponse_Mutable :: "'c proto_ops \<Rightarrow> ('v, 'c) msg_value \<Rightarrow> field_descriptor \<Rightarrow> 'c api_mint_hal_response option \<Rightarrow> ('v \<times> 'c api_mint_hal_response option) outcome" where
  "api_MsgMintHalResponse_Mutable C MC fd x =
     (if FullName fd = ''halbornctf.hal.MsgMintHalResponse.mintedAmount'' then deref x (\<lambda>m.
        let p = (case api_mhr_MintedAmount m of None \<Rightarrow> Some (op_new C) | Some v \<Rightarrow> Some v)
        in Ok (ValueOfMessage MC p, Some (m\<lparr>api_mhr_MintedAmount := p\<rparr>)))
      else no_field ''halbornctf.hal.MsgMintHalResponse'' fd)"

definition api_MsgMintHalResponse_NewField :: "'c proto_ops \<Rightarrow> ('v, 'c) msg_value \<Rightarrow> field_descriptor \<Rightarrow> 'v outcome" where
  "api_MsgMintHalResponse_NewField C MC fd =
     (if FullName fd = ''halbornctf.hal.MsgMintHalResponse.mintedAmount'' then Ok (ValueOfMessage MC (Some (op_new C)))
      else no_field ''halbornctf.hal.MsgMintHalResponse'' fd)"

text \<open>The closures of \<open>ProtoMethods\<close>.\<close>

definition api_MsgMintHalResponse_size :: "pulsar_rt \<Rightarrow> 'c proto_ops \<Rightarrow> 'c api_mint_hal_response option \<Rightarrow> int" where
  "api_MsgMintHalResponse_size R C x = size_of (\<lambda>m. size_message R C (api_mhr_MintedAmount m)
     + size_unknown (unknownFields m)) x"

definition api_MsgMintHalResponse_body :: "pulsar_rt \<Rightarrow> 'c proto_ops \<Rightarrow> 'c api_mint_hal_response \<Rightarrow> wr" where
  "api_MsgMintHalResponse_body R C m =
     then_w (wr_unknown (unknownFields m))
    (wr_message R C 0x0a (api_mhr_MintedAmount m))"

definition api_MsgMintHalResponse_marshal :: "pulsar_rt \<Rightarrow> 'c proto_ops \<Rightarrow> ('c api_mint_hal_response \<Rightarrow> int) \<Rightarrow> 'c api_mint_hal_response option \<Rightarrow> bytes option \<Rightarrow> bytes option outcome" where
  "api_MsgMintHalResponse_marshal R C Size = p_marshal Size (api_MsgMintHalResponse_body R C)"

definition api_MsgMintHalResponse_fields :: "'c proto_ops \<Rightarrow> 'c api_mint_hal_response fields" where
  "api_MsgMintHalResponse_fields C n =
     (if n = 1 then Some (ptr_case ''MintedAmount'' api_mhr_MintedAmount (\<lambda>p m. m\<lparr>api_mhr_MintedAmount := p\<rparr>) C)
      else None)"

definition api_MsgMintHalResponse_unmarshal :: "pulsar_rt \<Rightarrow> 'c proto_ops \<Rightarrow> bool \<Rightarrow> 'c api_mint_hal_response option \<Rightarrow> bytes \<Rightarrow> 'c api_mint_hal_response option outcome" where
  "api_MsgMintHalResponse_unmarshal R C DiscardUnknown = p_unmarshal R DiscardUnknown ''MsgMintHalResponse'' (api_MsgMintHalResponse_fields C)"

text \<open>The contracts.\<close>

definition api_MsgMintHalResponse_enc :: "('c \<Rightarrow> bytes) \<Rightarrow> 'c api_mint_hal_response \<Rightarrow> bytes" where
  "api_MsgMintHalResponse_enc encc m =
     enc_ptr_field encc 0x0a (api_mhr_MintedAmount m)"

definition api_MsgMintHalResponse_ok :: "'c proto_ops \<Rightarrow> ('c \<Rightarrow> bool) \<Rightarrow> 'c api_mint_hal_response \<Rightarrow> bool" where
  "api_MsgMintHalResponse_ok C okc m \<longleftrightarrow> wf_ptr okc (api_mhr_MintedAmount m) \<and> raw_fields (api_MsgMintHalResponse_fields C) (unknownFields m)"

lemma api_MsgMintHalResponse_fields_simps [simp]:
  "api_MsgMintHalResponse_fields C 1 = Some (ptr_case ''MintedAmount'' api_mhr_MintedAmount (\<lambda>p m. m\<lparr>api_mhr_MintedAmount := p\<rparr>) C)"
  by (simp_all add: api_MsgMintHalResponse_fields_def)

lemma api_MsgMintHalResponse_writes:
  assumes "rt_laws R" "proto_laws C encc okc" "api_MsgMintHalResponse_ok C okc m"
  shows "writes (api_MsgMintHalResponse_body R C m) (api_MsgMintHalResponse_enc encc m @ unknownFields m)"
proof -
  have "writes (api_MsgMintHalResponse_body R C m)
      (enc_ptr_field encc 0x0a (api_mhr_MintedAmount m)
        @ unknownFields m)"
    unfolding api_MsgMintHalResponse_body_def
    by (intro writes_then
        writes_wr_unknown
        rt_laws.writes_wr_message [OF assms(1) assms(2)])
      (use assms(3) in \<open>simp_all add: api_MsgMintHalResponse_ok_def\<close>)
  then show ?thesis by (simp add: api_MsgMintHalResponse_enc_def)
qed

lemma api_MsgMintHalResponse_size_enc:
  assumes "rt_laws R" "proto_laws C encc okc" "api_MsgMintHalResponse_ok C okc m"
  shows "api_MsgMintHalResponse_size R C (Some m) = int (length (api_MsgMintHalResponse_enc encc m @ unknownFields m))"
proof -
  have s0: "size_message R C (api_mhr_MintedAmount m) = int (length (enc_ptr_field encc 0x0a (api_mhr_MintedAmount m)))"
    by (rule rt_laws.size_message_enc [OF assms(1) assms(2)]) (use assms(3) in \<open>simp add: api_MsgMintHalResponse_ok_def\<close>)
  show ?thesis
    by (simp add: api_MsgMintHalResponse_size_def api_MsgMintHalResponse_enc_def size_of_def size_unknown_def s0)
qed

lemma api_MsgMintHalResponse_decodes:
  assumes "proto_laws C encc okc" "api_MsgMintHalResponse_ok C okc m" "length (api_MsgMintHalResponse_enc encc m) < 2 ^ 63"
  shows "decodes_k PbRuntime ''MsgMintHalResponse'' keep (api_MsgMintHalResponse_fields C) (api_MsgMintHalResponse_enc encc m) api_MsgMintHalResponse_new (m\<lparr>unknownFields := []\<rparr>)"
proof -
  let ?m1 = "if api_mhr_MintedAmount m = None then api_MsgMintHalResponse_new else api_MsgMintHalResponse_new\<lparr>api_mhr_MintedAmount := api_mhr_MintedAmount m\<rparr>"
  let ?d = "decodes_k PbRuntime ''MsgMintHalResponse'' keep (api_MsgMintHalResponse_fields C)"
  have "?d (enc_ptr_field encc 0x0a (api_mhr_MintedAmount m)) api_MsgMintHalResponse_new ?m1"
    by (rule decodes_ptr [where n = 1], rule api_MsgMintHalResponse_fields_simps, rule tags, rule assms(1))
      (use assms(2) assms(3) in \<open>simp_all add: api_MsgMintHalResponse_ok_def api_MsgMintHalResponse_enc_def api_MsgMintHalResponse_new_def\<close>)
  then have "?d (api_MsgMintHalResponse_enc encc m) api_MsgMintHalResponse_new ?m1"
    unfolding api_MsgMintHalResponse_enc_def .
  moreover have "?m1 = m\<lparr>unknownFields := []\<rparr>"
    by (cases m) (simp add: api_MsgMintHalResponse_new_def wide_word)
  ultimately show ?thesis by simp
qed

lemma api_MsgMintHalResponse_message:
  assumes "rt_laws R" "proto_laws C encc okc"
  shows "pulsar_message R ''MsgMintHalResponse'' (api_MsgMintHalResponse_fields C) (api_MsgMintHalResponse_size R C) (api_MsgMintHalResponse_body R C) (api_MsgMintHalResponse_enc encc) api_MsgMintHalResponse_new
    (api_MsgMintHalResponse_ok C okc)"
proof -
  have "safe_fields (api_MsgMintHalResponse_fields C)"
    by (rule safe_fieldsI) (auto simp: api_MsgMintHalResponse_fields_def intro: safe_ptr_case [OF assms(2)] split: if_splits)
  with assms(1) show ?thesis
    unfolding pulsar_message_def pulsar_message_axioms_def
    using api_MsgMintHalResponse_writes [OF assms] api_MsgMintHalResponse_size_enc [OF assms] api_MsgMintHalResponse_decodes [OF assms(2)]
    by (simp add: api_MsgMintHalResponse_ok_def)
qed

lemmas api_MsgMintHalResponse_reflect =
  api_MsgMintHalResponse_new_def api_MsgMintHalResponse_Range_def api_MsgMintHalResponse_Has_def api_MsgMintHalResponse_Clear_def api_MsgMintHalResponse_Get_def api_MsgMintHalResponse_Set_def
  api_MsgMintHalResponse_Mutable_def api_MsgMintHalResponse_NewField_def

lemma api_MsgMintHalResponse_reflection:
  fixes MC :: "('v, 'c) msg_value"
  assumes "msg_value_laws MC" "\<And>f. FullName (D f) = ''halbornctf.hal.MsgMintHalResponse.'' @ f"
  shows "reflection [''halbornctf.hal.MsgMintHalResponse.mintedAmount'']
    [D ''mintedAmount''] api_MsgMintHalResponse_new api_MsgMintHalResponse_Has api_MsgMintHalResponse_Clear
    (api_MsgMintHalResponse_Get MC) (api_MsgMintHalResponse_Set MC) (api_MsgMintHalResponse_Mutable C MC)
    (api_MsgMintHalResponse_NewField C MC) (api_MsgMintHalResponse_Range MC D)"
  using assms by unfold_locales (auto simp: api_MsgMintHalResponse_reflect reflect_simps split: if_splits)

section \<open>MsgRedeemCollateral\<close>

text \<open>The struct, its zero value and its getters.\<close>

record 'c api_redeem_collateral = api_msg +
  api_rc_Creator :: "string"
  api_rc_HalAmount :: "'c option"

definition api_MsgRedeemCollateral_new :: "'c api_redeem_collateral" where
  "api_MsgRedeemCollateral_new = \<lparr>unknownFields = [], api_rc_Creator = [], api_rc_HalAmount = None\<rparr>"

definition api_MsgRedeemCollateral_GetCreator :: "'c api_redeem_collateral option \<Rightarrow> string" where
  "api_MsgRedeemCollateral_GetCreator x = (case x of Some m \<Rightarrow> api_rc_Creator m | None \<Rightarrow> [])"

definition api_MsgRedeemCollateral_GetHalAmount :: "'c api_redeem_collateral option \<Rightarrow> 'c option" where
  "api_MsgRedeemCollateral_GetHalAmount x = (case x of Some m \<Rightarrow> api_rc_HalAmount m | None \<Rightarrow> None)"

text \<open>The methods of \<open>fastReflection_MsgRedeemCollateral\<close>. \<open>Mutable\<close> returns the new state of the message beside
  the value, which in Go is a reference into it.\<close>

definition api_MsgRedeemCollateral_Range :: "'v value_lib \<Rightarrow> ('v, 'c) msg_value \<Rightarrow> (string \<Rightarrow> field_descriptor) \<Rightarrow> (field_descriptor \<Rightarrow> 'v \<Rightarrow> 's \<Rightarrow> bool \<times> 's) \<Rightarrow>
    'c api_redeem_collateral option \<Rightarrow> 's \<Rightarrow> 's outcome" where
  "api_MsgRedeemCollateral_Range V MC D f x s = deref x (\<lambda>m. Ok ((visit (api_rc_Creator m \<noteq> []) (D ''creator'') (ValueOfString V (api_rc_Creator m)) f
       (visit (api_rc_HalAmount m \<noteq> None) (D ''halAmount'') (ValueOfMessage MC (api_rc_HalAmount m)) f
       (\<lambda>s. s))) s))"

definition api_MsgRedeemCollateral_Has :: "field_descriptor \<Rightarrow> 'c api_redeem_collateral option \<Rightarrow> bool outcome" where
  "api_MsgRedeemCollateral_Has fd x =
     (if FullName fd = ''halbornctf.hal.MsgRedeemCollateral.creator'' then deref x (\<lambda>m. Ok (api_rc_Creator m \<noteq> []))
      else if FullName fd = ''halbornctf.hal.MsgRedeemCollateral.halAmount'' then deref x (\<lambda>m. Ok (api_rc_HalAmount m \<noteq> None))
      else no_field ''halbornctf.hal.MsgRedeemCollateral'' fd)"

definition api_MsgRedeemCollateral_Clear :: "field_descriptor \<Rightarrow> 'c api_redeem_collateral option \<Rightarrow> 'c api_redeem_collateral option outcome" where
  "api_MsgRedeemCollateral_Clear fd x =
     (if FullName fd = ''halbornctf.hal.MsgRedeemCollateral.creator'' then deref x (\<lambda>m. Ok (Some (m\<lparr>api_rc_Creator := []\<rparr>)))
      else if FullName fd = ''halbornctf.hal.MsgRedeemCollateral.halAmount'' then deref x (\<lambda>m. Ok (Some (m\<lparr>api_rc_HalAmount := None\<rparr>)))
      else no_field ''halbornctf.hal.MsgRedeemCollateral'' fd)"

definition api_MsgRedeemCollateral_Get :: "'v value_lib \<Rightarrow> ('v, 'c) msg_value \<Rightarrow> field_descriptor \<Rightarrow> 'c api_redeem_collateral option \<Rightarrow> 'v outcome" where
  "api_MsgRedeemCollateral_Get V MC fd x =
     (if FullName fd = ''halbornctf.hal.MsgRedeemCollateral.creator'' then deref x (\<lambda>m. Ok (ValueOfString V (api_rc_Creator m)))
      else if FullName fd = ''halbornctf.hal.MsgRedeemCollateral.halAmount'' then deref x (\<lambda>m. Ok (ValueOfMessage MC (api_rc_HalAmount m)))
      else no_field ''halbornctf.hal.MsgRedeemCollateral'' fd)"

definition api_MsgRedeemCollateral_Set :: "'v value_lib \<Rightarrow> ('v, 'c) msg_value \<Rightarrow> field_descriptor \<Rightarrow> 'v \<Rightarrow> 'c api_redeem_collateral option \<Rightarrow> 'c api_redeem_collateral option outcome" where
  "api_MsgRedeemCollateral_Set V MC fd value x =
     (if FullName fd = ''halbornctf.hal.MsgRedeemCollateral.creator'' then bind_o (Value_string V value) (\<lambda>s. deref x (\<lambda>m. Ok (Some (m\<lparr>api_rc_Creator := s\<rparr>))))
      else if FullName fd = ''halbornctf.hal.MsgRedeemCollateral.halAmount'' then bind_o (Value_Message MC value) (\<lambda>p. deref x (\<lambda>m. Ok (Some (m\<lparr>api_rc_HalAmount := p\<rparr>))))
      else no_field ''halbornctf.hal.MsgRedeemCollateral'' fd)"

definition api_MsgRedeemCollateral_Mutable :: "'c proto_ops \<Rightarrow> ('v, 'c) msg_value \<Rightarrow> field_descriptor \<Rightarrow> 'c api_redeem_collateral option \<Rightarrow> ('v \<times> 'c api_redeem_collateral option) outcome" where
  "api_MsgRedeemCollateral_Mutable C MC fd x =
     (if FullName fd = ''halbornctf.hal.MsgRedeemCollateral.halAmount'' then deref x (\<lambda>m.
        let p = (case api_rc_HalAmount m of None \<Rightarrow> Some (op_new C) | Some v \<Rightarrow> Some v)
        in Ok (ValueOfMessage MC p, Some (m\<lparr>api_rc_HalAmount := p\<rparr>)))
      else if FullName fd = ''halbornctf.hal.MsgRedeemCollateral.creator'' then not_mutable ''creator'' ''halbornctf.hal.MsgRedeemCollateral''
      else no_field ''halbornctf.hal.MsgRedeemCollateral'' fd)"

definition api_MsgRedeemCollateral_NewField :: "'v value_lib \<Rightarrow> 'c proto_ops \<Rightarrow> ('v, 'c) msg_value \<Rightarrow> field_descriptor \<Rightarrow> 'v outcome" where
  "api_MsgRedeemCollateral_NewField V C MC fd =
     (if FullName fd = ''halbornctf.hal.MsgRedeemCollateral.creator'' then Ok (ValueOfString V ([]))
      else if FullName fd = ''halbornctf.hal.MsgRedeemCollateral.halAmount'' then Ok (ValueOfMessage MC (Some (op_new C)))
      else no_field ''halbornctf.hal.MsgRedeemCollateral'' fd)"

text \<open>The closures of \<open>ProtoMethods\<close>.\<close>

definition api_MsgRedeemCollateral_size :: "pulsar_rt \<Rightarrow> 'c proto_ops \<Rightarrow> 'c api_redeem_collateral option \<Rightarrow> int" where
  "api_MsgRedeemCollateral_size R C x = size_of (\<lambda>m. size_string R (api_rc_Creator m)
     + size_message R C (api_rc_HalAmount m)
     + size_unknown (unknownFields m)) x"

definition api_MsgRedeemCollateral_body :: "pulsar_rt \<Rightarrow> 'c proto_ops \<Rightarrow> 'c api_redeem_collateral \<Rightarrow> wr" where
  "api_MsgRedeemCollateral_body R C m =
     then_w (wr_unknown (unknownFields m))
    (then_w (wr_message R C 0x12 (api_rc_HalAmount m))
    (wr_string R 0x0a (api_rc_Creator m)))"

definition api_MsgRedeemCollateral_marshal :: "pulsar_rt \<Rightarrow> 'c proto_ops \<Rightarrow> ('c api_redeem_collateral \<Rightarrow> int) \<Rightarrow> 'c api_redeem_collateral option \<Rightarrow> bytes option \<Rightarrow> bytes option outcome" where
  "api_MsgRedeemCollateral_marshal R C Size = p_marshal Size (api_MsgRedeemCollateral_body R C)"

definition api_MsgRedeemCollateral_fields :: "'c proto_ops \<Rightarrow> 'c api_redeem_collateral fields" where
  "api_MsgRedeemCollateral_fields C n =
     (if n = 1 then Some (string_case ''Creator'' (\<lambda>s m. m\<lparr>api_rc_Creator := s\<rparr>))
      else if n = 2 then Some (ptr_case ''HalAmount'' api_rc_HalAmount (\<lambda>p m. m\<lparr>api_rc_HalAmount := p\<rparr>) C)
      else None)"

definition api_MsgRedeemCollateral_unmarshal :: "pulsar_rt \<Rightarrow> 'c proto_ops \<Rightarrow> bool \<Rightarrow> 'c api_redeem_collateral option \<Rightarrow> bytes \<Rightarrow> 'c api_redeem_collateral option outcome" where
  "api_MsgRedeemCollateral_unmarshal R C DiscardUnknown = p_unmarshal R DiscardUnknown ''MsgRedeemCollateral'' (api_MsgRedeemCollateral_fields C)"

text \<open>The contracts.\<close>

definition api_MsgRedeemCollateral_enc :: "('c \<Rightarrow> bytes) \<Rightarrow> 'c api_redeem_collateral \<Rightarrow> bytes" where
  "api_MsgRedeemCollateral_enc encc m =
     enc_string_field 0x0a (api_rc_Creator m)
   @ enc_ptr_field encc 0x12 (api_rc_HalAmount m)"

definition api_MsgRedeemCollateral_ok :: "'c proto_ops \<Rightarrow> ('c \<Rightarrow> bool) \<Rightarrow> 'c api_redeem_collateral \<Rightarrow> bool" where
  "api_MsgRedeemCollateral_ok C okc m \<longleftrightarrow> wf_ptr okc (api_rc_HalAmount m) \<and> raw_fields (api_MsgRedeemCollateral_fields C) (unknownFields m)"

lemma api_MsgRedeemCollateral_fields_simps [simp]:
  "api_MsgRedeemCollateral_fields C 1 = Some (string_case ''Creator'' (\<lambda>s m. m\<lparr>api_rc_Creator := s\<rparr>))"
  "api_MsgRedeemCollateral_fields C 2 = Some (ptr_case ''HalAmount'' api_rc_HalAmount (\<lambda>p m. m\<lparr>api_rc_HalAmount := p\<rparr>) C)"
  by (simp_all add: api_MsgRedeemCollateral_fields_def)

lemma api_MsgRedeemCollateral_writes:
  assumes "rt_laws R" "proto_laws C encc okc" "api_MsgRedeemCollateral_ok C okc m"
  shows "writes (api_MsgRedeemCollateral_body R C m) (api_MsgRedeemCollateral_enc encc m @ unknownFields m)"
proof -
  have "writes (api_MsgRedeemCollateral_body R C m)
      ((enc_string_field 0x0a (api_rc_Creator m)
        @ enc_ptr_field encc 0x12 (api_rc_HalAmount m))
        @ unknownFields m)"
    unfolding api_MsgRedeemCollateral_body_def
    by (intro writes_then
        writes_wr_unknown
        rt_laws.writes_wr_string [OF assms(1)]
        rt_laws.writes_wr_message [OF assms(1) assms(2)])
      (use assms(3) in \<open>simp_all add: api_MsgRedeemCollateral_ok_def\<close>)
  then show ?thesis by (simp add: api_MsgRedeemCollateral_enc_def)
qed

lemma api_MsgRedeemCollateral_size_enc:
  assumes "rt_laws R" "proto_laws C encc okc" "api_MsgRedeemCollateral_ok C okc m"
  shows "api_MsgRedeemCollateral_size R C (Some m) = int (length (api_MsgRedeemCollateral_enc encc m @ unknownFields m))"
proof -
  have s0: "size_string R (api_rc_Creator m) = int (length (enc_string_field 0x0a (api_rc_Creator m)))"
    by (rule rt_laws.size_string_enc [OF assms(1)])
  have s1: "size_message R C (api_rc_HalAmount m) = int (length (enc_ptr_field encc 0x12 (api_rc_HalAmount m)))"
    by (rule rt_laws.size_message_enc [OF assms(1) assms(2)]) (use assms(3) in \<open>simp add: api_MsgRedeemCollateral_ok_def\<close>)
  show ?thesis
    by (simp add: api_MsgRedeemCollateral_size_def api_MsgRedeemCollateral_enc_def size_of_def size_unknown_def s0 s1)
qed

lemma api_MsgRedeemCollateral_decodes:
  assumes "proto_laws C encc okc" "api_MsgRedeemCollateral_ok C okc m" "length (api_MsgRedeemCollateral_enc encc m) < 2 ^ 63"
  shows "decodes_k PbRuntime ''MsgRedeemCollateral'' keep (api_MsgRedeemCollateral_fields C) (api_MsgRedeemCollateral_enc encc m) api_MsgRedeemCollateral_new (m\<lparr>unknownFields := []\<rparr>)"
proof -
  let ?m1 = "if api_rc_Creator m = [] then api_MsgRedeemCollateral_new else api_MsgRedeemCollateral_new\<lparr>api_rc_Creator := api_rc_Creator m\<rparr>"
  let ?m2 = "if api_rc_HalAmount m = None then ?m1 else ?m1\<lparr>api_rc_HalAmount := api_rc_HalAmount m\<rparr>"
  let ?d = "decodes_k PbRuntime ''MsgRedeemCollateral'' keep (api_MsgRedeemCollateral_fields C)"
  have "?d (enc_string_field 0x0a (api_rc_Creator m)) api_MsgRedeemCollateral_new ?m1"
    by (rule decodes_string [where n = 1], rule api_MsgRedeemCollateral_fields_simps(1), rule tags, rule refl)
  moreover have "?d (enc_ptr_field encc 0x12 (api_rc_HalAmount m)) ?m1 ?m2"
    by (rule decodes_ptr [where n = 2], rule api_MsgRedeemCollateral_fields_simps(2), rule tags, rule assms(1))
      (use assms(2) assms(3) in \<open>simp_all add: api_MsgRedeemCollateral_ok_def api_MsgRedeemCollateral_enc_def api_MsgRedeemCollateral_new_def\<close>)
  ultimately have "?d (api_MsgRedeemCollateral_enc encc m) api_MsgRedeemCollateral_new ?m2"
    unfolding api_MsgRedeemCollateral_enc_def by (intro decodes_append)
  moreover have "?m2 = m\<lparr>unknownFields := []\<rparr>"
    by (cases m) (simp add: api_MsgRedeemCollateral_new_def wide_word)
  ultimately show ?thesis by simp
qed

lemma api_MsgRedeemCollateral_message:
  assumes "rt_laws R" "proto_laws C encc okc"
  shows "pulsar_message R ''MsgRedeemCollateral'' (api_MsgRedeemCollateral_fields C) (api_MsgRedeemCollateral_size R C) (api_MsgRedeemCollateral_body R C) (api_MsgRedeemCollateral_enc encc) api_MsgRedeemCollateral_new
    (api_MsgRedeemCollateral_ok C okc)"
proof -
  have "safe_fields (api_MsgRedeemCollateral_fields C)"
    by (rule safe_fieldsI) (auto simp: api_MsgRedeemCollateral_fields_def intro: safe_ptr_case [OF assms(2)] split: if_splits)
  with assms(1) show ?thesis
    unfolding pulsar_message_def pulsar_message_axioms_def
    using api_MsgRedeemCollateral_writes [OF assms] api_MsgRedeemCollateral_size_enc [OF assms] api_MsgRedeemCollateral_decodes [OF assms(2)]
    by (simp add: api_MsgRedeemCollateral_ok_def)
qed

lemmas api_MsgRedeemCollateral_reflect =
  api_MsgRedeemCollateral_new_def api_MsgRedeemCollateral_Range_def api_MsgRedeemCollateral_Has_def api_MsgRedeemCollateral_Clear_def api_MsgRedeemCollateral_Get_def api_MsgRedeemCollateral_Set_def
  api_MsgRedeemCollateral_Mutable_def api_MsgRedeemCollateral_NewField_def

lemma api_MsgRedeemCollateral_reflection:
  fixes MC :: "('v, 'c) msg_value"
  assumes "value_laws V" "msg_value_laws MC" "\<And>f. FullName (D f) = ''halbornctf.hal.MsgRedeemCollateral.'' @ f"
  shows "reflection [''halbornctf.hal.MsgRedeemCollateral.creator'', ''halbornctf.hal.MsgRedeemCollateral.halAmount'']
    [D ''creator'', D ''halAmount''] api_MsgRedeemCollateral_new api_MsgRedeemCollateral_Has api_MsgRedeemCollateral_Clear
    (api_MsgRedeemCollateral_Get V MC) (api_MsgRedeemCollateral_Set V MC) (api_MsgRedeemCollateral_Mutable C MC)
    (api_MsgRedeemCollateral_NewField V C MC) (api_MsgRedeemCollateral_Range V MC D)"
  using assms by unfold_locales (auto simp: api_MsgRedeemCollateral_reflect reflect_simps split: if_splits)

section \<open>MsgRedeemCollateralResponse\<close>

text \<open>The struct, its zero value and its getters.\<close>

record ('c, 't) api_redeem_collateral_response = api_msg +
  api_rcr_BurnedAmount :: "'c option"
  api_rcr_CompletionTime :: "'t option"

definition api_MsgRedeemCollateralResponse_new :: "('c, 't) api_redeem_collateral_response" where
  "api_MsgRedeemCollateralResponse_new = \<lparr>unknownFields = [], api_rcr_BurnedAmount = None, api_rcr_CompletionTime = None\<rparr>"

definition api_MsgRedeemCollateralResponse_GetBurnedAmount :: "('c, 't) api_redeem_collateral_response option \<Rightarrow> 'c option" where
  "api_MsgRedeemCollateralResponse_GetBurnedAmount x = (case x of Some m \<Rightarrow> api_rcr_BurnedAmount m | None \<Rightarrow> None)"

definition api_MsgRedeemCollateralResponse_GetCompletionTime :: "('c, 't) api_redeem_collateral_response option \<Rightarrow> 't option" where
  "api_MsgRedeemCollateralResponse_GetCompletionTime x = (case x of Some m \<Rightarrow> api_rcr_CompletionTime m | None \<Rightarrow> None)"

text \<open>The methods of \<open>fastReflection_MsgRedeemCollateralResponse\<close>. \<open>Mutable\<close> returns the new state of the message beside
  the value, which in Go is a reference into it.\<close>

definition api_MsgRedeemCollateralResponse_Range :: "('v, 'c) msg_value \<Rightarrow> ('v, 't) msg_value \<Rightarrow> (string \<Rightarrow> field_descriptor) \<Rightarrow> (field_descriptor \<Rightarrow> 'v \<Rightarrow> 's \<Rightarrow> bool \<times> 's) \<Rightarrow>
    ('c, 't) api_redeem_collateral_response option \<Rightarrow> 's \<Rightarrow> 's outcome" where
  "api_MsgRedeemCollateralResponse_Range MC MT D f x s = deref x (\<lambda>m. Ok ((visit (api_rcr_BurnedAmount m \<noteq> None) (D ''burnedAmount'') (ValueOfMessage MC (api_rcr_BurnedAmount m)) f
       (visit (api_rcr_CompletionTime m \<noteq> None) (D ''completion_time'') (ValueOfMessage MT (api_rcr_CompletionTime m)) f
       (\<lambda>s. s))) s))"

definition api_MsgRedeemCollateralResponse_Has :: "field_descriptor \<Rightarrow> ('c, 't) api_redeem_collateral_response option \<Rightarrow> bool outcome" where
  "api_MsgRedeemCollateralResponse_Has fd x =
     (if FullName fd = ''halbornctf.hal.MsgRedeemCollateralResponse.burnedAmount'' then deref x (\<lambda>m. Ok (api_rcr_BurnedAmount m \<noteq> None))
      else if FullName fd = ''halbornctf.hal.MsgRedeemCollateralResponse.completion_time'' then deref x (\<lambda>m. Ok (api_rcr_CompletionTime m \<noteq> None))
      else no_field ''halbornctf.hal.MsgRedeemCollateralResponse'' fd)"

definition api_MsgRedeemCollateralResponse_Clear :: "field_descriptor \<Rightarrow> ('c, 't) api_redeem_collateral_response option \<Rightarrow> ('c, 't) api_redeem_collateral_response option outcome" where
  "api_MsgRedeemCollateralResponse_Clear fd x =
     (if FullName fd = ''halbornctf.hal.MsgRedeemCollateralResponse.burnedAmount'' then deref x (\<lambda>m. Ok (Some (m\<lparr>api_rcr_BurnedAmount := None\<rparr>)))
      else if FullName fd = ''halbornctf.hal.MsgRedeemCollateralResponse.completion_time'' then deref x (\<lambda>m. Ok (Some (m\<lparr>api_rcr_CompletionTime := None\<rparr>)))
      else no_field ''halbornctf.hal.MsgRedeemCollateralResponse'' fd)"

definition api_MsgRedeemCollateralResponse_Get :: "('v, 'c) msg_value \<Rightarrow> ('v, 't) msg_value \<Rightarrow> field_descriptor \<Rightarrow> ('c, 't) api_redeem_collateral_response option \<Rightarrow> 'v outcome" where
  "api_MsgRedeemCollateralResponse_Get MC MT fd x =
     (if FullName fd = ''halbornctf.hal.MsgRedeemCollateralResponse.burnedAmount'' then deref x (\<lambda>m. Ok (ValueOfMessage MC (api_rcr_BurnedAmount m)))
      else if FullName fd = ''halbornctf.hal.MsgRedeemCollateralResponse.completion_time'' then deref x (\<lambda>m. Ok (ValueOfMessage MT (api_rcr_CompletionTime m)))
      else no_field ''halbornctf.hal.MsgRedeemCollateralResponse'' fd)"

definition api_MsgRedeemCollateralResponse_Set :: "('v, 'c) msg_value \<Rightarrow> ('v, 't) msg_value \<Rightarrow> field_descriptor \<Rightarrow> 'v \<Rightarrow> ('c, 't) api_redeem_collateral_response option \<Rightarrow> ('c, 't) api_redeem_collateral_response option outcome" where
  "api_MsgRedeemCollateralResponse_Set MC MT fd value x =
     (if FullName fd = ''halbornctf.hal.MsgRedeemCollateralResponse.burnedAmount'' then bind_o (Value_Message MC value) (\<lambda>p. deref x (\<lambda>m. Ok (Some (m\<lparr>api_rcr_BurnedAmount := p\<rparr>))))
      else if FullName fd = ''halbornctf.hal.MsgRedeemCollateralResponse.completion_time'' then bind_o (Value_Message MT value) (\<lambda>p. deref x (\<lambda>m. Ok (Some (m\<lparr>api_rcr_CompletionTime := p\<rparr>))))
      else no_field ''halbornctf.hal.MsgRedeemCollateralResponse'' fd)"

definition api_MsgRedeemCollateralResponse_Mutable :: "'c proto_ops \<Rightarrow> 't proto_ops \<Rightarrow> ('v, 'c) msg_value \<Rightarrow> ('v, 't) msg_value \<Rightarrow> field_descriptor \<Rightarrow> ('c, 't) api_redeem_collateral_response option \<Rightarrow> ('v \<times> ('c, 't) api_redeem_collateral_response option) outcome" where
  "api_MsgRedeemCollateralResponse_Mutable C T MC MT fd x =
     (if FullName fd = ''halbornctf.hal.MsgRedeemCollateralResponse.burnedAmount'' then deref x (\<lambda>m.
        let p = (case api_rcr_BurnedAmount m of None \<Rightarrow> Some (op_new C) | Some v \<Rightarrow> Some v)
        in Ok (ValueOfMessage MC p, Some (m\<lparr>api_rcr_BurnedAmount := p\<rparr>)))
      else if FullName fd = ''halbornctf.hal.MsgRedeemCollateralResponse.completion_time'' then deref x (\<lambda>m.
        let p = (case api_rcr_CompletionTime m of None \<Rightarrow> Some (op_new T) | Some v \<Rightarrow> Some v)
        in Ok (ValueOfMessage MT p, Some (m\<lparr>api_rcr_CompletionTime := p\<rparr>)))
      else no_field ''halbornctf.hal.MsgRedeemCollateralResponse'' fd)"

definition api_MsgRedeemCollateralResponse_NewField :: "'c proto_ops \<Rightarrow> 't proto_ops \<Rightarrow> ('v, 'c) msg_value \<Rightarrow> ('v, 't) msg_value \<Rightarrow> field_descriptor \<Rightarrow> 'v outcome" where
  "api_MsgRedeemCollateralResponse_NewField C T MC MT fd =
     (if FullName fd = ''halbornctf.hal.MsgRedeemCollateralResponse.burnedAmount'' then Ok (ValueOfMessage MC (Some (op_new C)))
      else if FullName fd = ''halbornctf.hal.MsgRedeemCollateralResponse.completion_time'' then Ok (ValueOfMessage MT (Some (op_new T)))
      else no_field ''halbornctf.hal.MsgRedeemCollateralResponse'' fd)"

text \<open>The closures of \<open>ProtoMethods\<close>.\<close>

definition api_MsgRedeemCollateralResponse_size :: "pulsar_rt \<Rightarrow> 'c proto_ops \<Rightarrow> 't proto_ops \<Rightarrow> ('c, 't) api_redeem_collateral_response option \<Rightarrow> int" where
  "api_MsgRedeemCollateralResponse_size R C T x = size_of (\<lambda>m. size_message R C (api_rcr_BurnedAmount m)
     + size_message R T (api_rcr_CompletionTime m)
     + size_unknown (unknownFields m)) x"

definition api_MsgRedeemCollateralResponse_body :: "pulsar_rt \<Rightarrow> 'c proto_ops \<Rightarrow> 't proto_ops \<Rightarrow> ('c, 't) api_redeem_collateral_response \<Rightarrow> wr" where
  "api_MsgRedeemCollateralResponse_body R C T m =
     then_w (wr_unknown (unknownFields m))
    (then_w (wr_message R T 0x12 (api_rcr_CompletionTime m))
    (wr_message R C 0x0a (api_rcr_BurnedAmount m)))"

definition api_MsgRedeemCollateralResponse_marshal :: "pulsar_rt \<Rightarrow> 'c proto_ops \<Rightarrow> 't proto_ops \<Rightarrow> (('c, 't) api_redeem_collateral_response \<Rightarrow> int) \<Rightarrow> ('c, 't) api_redeem_collateral_response option \<Rightarrow> bytes option \<Rightarrow> bytes option outcome" where
  "api_MsgRedeemCollateralResponse_marshal R C T Size = p_marshal Size (api_MsgRedeemCollateralResponse_body R C T)"

definition api_MsgRedeemCollateralResponse_fields :: "'c proto_ops \<Rightarrow> 't proto_ops \<Rightarrow> ('c, 't) api_redeem_collateral_response fields" where
  "api_MsgRedeemCollateralResponse_fields C T n =
     (if n = 1 then Some (ptr_case ''BurnedAmount'' api_rcr_BurnedAmount (\<lambda>p m. m\<lparr>api_rcr_BurnedAmount := p\<rparr>) C)
      else if n = 2 then Some (ptr_case ''CompletionTime'' api_rcr_CompletionTime (\<lambda>p m. m\<lparr>api_rcr_CompletionTime := p\<rparr>) T)
      else None)"

definition api_MsgRedeemCollateralResponse_unmarshal :: "pulsar_rt \<Rightarrow> 'c proto_ops \<Rightarrow> 't proto_ops \<Rightarrow> bool \<Rightarrow> ('c, 't) api_redeem_collateral_response option \<Rightarrow> bytes \<Rightarrow> ('c, 't) api_redeem_collateral_response option outcome" where
  "api_MsgRedeemCollateralResponse_unmarshal R C T DiscardUnknown = p_unmarshal R DiscardUnknown ''MsgRedeemCollateralResponse'' (api_MsgRedeemCollateralResponse_fields C T)"

text \<open>The contracts.\<close>

definition api_MsgRedeemCollateralResponse_enc :: "('c \<Rightarrow> bytes) \<Rightarrow> ('t \<Rightarrow> bytes) \<Rightarrow> ('c, 't) api_redeem_collateral_response \<Rightarrow> bytes" where
  "api_MsgRedeemCollateralResponse_enc encc enct m =
     enc_ptr_field encc 0x0a (api_rcr_BurnedAmount m)
   @ enc_ptr_field enct 0x12 (api_rcr_CompletionTime m)"

definition api_MsgRedeemCollateralResponse_ok :: "'c proto_ops \<Rightarrow> 't proto_ops \<Rightarrow> ('c \<Rightarrow> bool) \<Rightarrow> ('t \<Rightarrow> bool) \<Rightarrow> ('c, 't) api_redeem_collateral_response \<Rightarrow> bool" where
  "api_MsgRedeemCollateralResponse_ok C T okc okt m \<longleftrightarrow> wf_ptr okc (api_rcr_BurnedAmount m) \<and> wf_ptr okt (api_rcr_CompletionTime m) \<and> raw_fields (api_MsgRedeemCollateralResponse_fields C T) (unknownFields m)"

lemma api_MsgRedeemCollateralResponse_fields_simps [simp]:
  "api_MsgRedeemCollateralResponse_fields C T 1 = Some (ptr_case ''BurnedAmount'' api_rcr_BurnedAmount (\<lambda>p m. m\<lparr>api_rcr_BurnedAmount := p\<rparr>) C)"
  "api_MsgRedeemCollateralResponse_fields C T 2 = Some (ptr_case ''CompletionTime'' api_rcr_CompletionTime (\<lambda>p m. m\<lparr>api_rcr_CompletionTime := p\<rparr>) T)"
  by (simp_all add: api_MsgRedeemCollateralResponse_fields_def)

lemma api_MsgRedeemCollateralResponse_writes:
  assumes "rt_laws R" "proto_laws C encc okc" "proto_laws T enct okt" "api_MsgRedeemCollateralResponse_ok C T okc okt m"
  shows "writes (api_MsgRedeemCollateralResponse_body R C T m) (api_MsgRedeemCollateralResponse_enc encc enct m @ unknownFields m)"
proof -
  have "writes (api_MsgRedeemCollateralResponse_body R C T m)
      ((enc_ptr_field encc 0x0a (api_rcr_BurnedAmount m)
        @ enc_ptr_field enct 0x12 (api_rcr_CompletionTime m))
        @ unknownFields m)"
    unfolding api_MsgRedeemCollateralResponse_body_def
    by (intro writes_then
        writes_wr_unknown
        rt_laws.writes_wr_message [OF assms(1) assms(2)]
        rt_laws.writes_wr_message [OF assms(1) assms(3)])
      (use assms(4) in \<open>simp_all add: api_MsgRedeemCollateralResponse_ok_def\<close>)
  then show ?thesis by (simp add: api_MsgRedeemCollateralResponse_enc_def)
qed

lemma api_MsgRedeemCollateralResponse_size_enc:
  assumes "rt_laws R" "proto_laws C encc okc" "proto_laws T enct okt" "api_MsgRedeemCollateralResponse_ok C T okc okt m"
  shows "api_MsgRedeemCollateralResponse_size R C T (Some m) = int (length (api_MsgRedeemCollateralResponse_enc encc enct m @ unknownFields m))"
proof -
  have s0: "size_message R C (api_rcr_BurnedAmount m) = int (length (enc_ptr_field encc 0x0a (api_rcr_BurnedAmount m)))"
    by (rule rt_laws.size_message_enc [OF assms(1) assms(2)]) (use assms(4) in \<open>simp add: api_MsgRedeemCollateralResponse_ok_def\<close>)
  have s1: "size_message R T (api_rcr_CompletionTime m) = int (length (enc_ptr_field enct 0x12 (api_rcr_CompletionTime m)))"
    by (rule rt_laws.size_message_enc [OF assms(1) assms(3)]) (use assms(4) in \<open>simp add: api_MsgRedeemCollateralResponse_ok_def\<close>)
  show ?thesis
    by (simp add: api_MsgRedeemCollateralResponse_size_def api_MsgRedeemCollateralResponse_enc_def size_of_def size_unknown_def s0 s1)
qed

lemma api_MsgRedeemCollateralResponse_decodes:
  assumes "proto_laws C encc okc" "proto_laws T enct okt" "api_MsgRedeemCollateralResponse_ok C T okc okt m" "length (api_MsgRedeemCollateralResponse_enc encc enct m) < 2 ^ 63"
  shows "decodes_k PbRuntime ''MsgRedeemCollateralResponse'' keep (api_MsgRedeemCollateralResponse_fields C T) (api_MsgRedeemCollateralResponse_enc encc enct m) api_MsgRedeemCollateralResponse_new (m\<lparr>unknownFields := []\<rparr>)"
proof -
  let ?m1 = "if api_rcr_BurnedAmount m = None then api_MsgRedeemCollateralResponse_new else api_MsgRedeemCollateralResponse_new\<lparr>api_rcr_BurnedAmount := api_rcr_BurnedAmount m\<rparr>"
  let ?m2 = "if api_rcr_CompletionTime m = None then ?m1 else ?m1\<lparr>api_rcr_CompletionTime := api_rcr_CompletionTime m\<rparr>"
  let ?d = "decodes_k PbRuntime ''MsgRedeemCollateralResponse'' keep (api_MsgRedeemCollateralResponse_fields C T)"
  have "?d (enc_ptr_field encc 0x0a (api_rcr_BurnedAmount m)) api_MsgRedeemCollateralResponse_new ?m1"
    by (rule decodes_ptr [where n = 1], rule api_MsgRedeemCollateralResponse_fields_simps(1), rule tags, rule assms(1))
      (use assms(3) assms(4) in \<open>simp_all add: api_MsgRedeemCollateralResponse_ok_def api_MsgRedeemCollateralResponse_enc_def api_MsgRedeemCollateralResponse_new_def\<close>)
  moreover have "?d (enc_ptr_field enct 0x12 (api_rcr_CompletionTime m)) ?m1 ?m2"
    by (rule decodes_ptr [where n = 2], rule api_MsgRedeemCollateralResponse_fields_simps(2), rule tags, rule assms(2))
      (use assms(3) assms(4) in \<open>simp_all add: api_MsgRedeemCollateralResponse_ok_def api_MsgRedeemCollateralResponse_enc_def api_MsgRedeemCollateralResponse_new_def\<close>)
  ultimately have "?d (api_MsgRedeemCollateralResponse_enc encc enct m) api_MsgRedeemCollateralResponse_new ?m2"
    unfolding api_MsgRedeemCollateralResponse_enc_def by (intro decodes_append)
  moreover have "?m2 = m\<lparr>unknownFields := []\<rparr>"
    by (cases m) (simp add: api_MsgRedeemCollateralResponse_new_def wide_word)
  ultimately show ?thesis by simp
qed

lemma api_MsgRedeemCollateralResponse_message:
  assumes "rt_laws R" "proto_laws C encc okc" "proto_laws T enct okt"
  shows "pulsar_message R ''MsgRedeemCollateralResponse'' (api_MsgRedeemCollateralResponse_fields C T) (api_MsgRedeemCollateralResponse_size R C T) (api_MsgRedeemCollateralResponse_body R C T) (api_MsgRedeemCollateralResponse_enc encc enct) api_MsgRedeemCollateralResponse_new
    (api_MsgRedeemCollateralResponse_ok C T okc okt)"
proof -
  have "safe_fields (api_MsgRedeemCollateralResponse_fields C T)"
    by (rule safe_fieldsI) (auto simp: api_MsgRedeemCollateralResponse_fields_def intro: safe_ptr_case [OF assms(2)] safe_ptr_case [OF assms(3)] split: if_splits)
  with assms(1) show ?thesis
    unfolding pulsar_message_def pulsar_message_axioms_def
    using api_MsgRedeemCollateralResponse_writes [OF assms] api_MsgRedeemCollateralResponse_size_enc [OF assms] api_MsgRedeemCollateralResponse_decodes [OF assms(2) assms(3)]
    by (simp add: api_MsgRedeemCollateralResponse_ok_def)
qed

lemmas api_MsgRedeemCollateralResponse_reflect =
  api_MsgRedeemCollateralResponse_new_def api_MsgRedeemCollateralResponse_Range_def api_MsgRedeemCollateralResponse_Has_def api_MsgRedeemCollateralResponse_Clear_def api_MsgRedeemCollateralResponse_Get_def api_MsgRedeemCollateralResponse_Set_def
  api_MsgRedeemCollateralResponse_Mutable_def api_MsgRedeemCollateralResponse_NewField_def

lemma api_MsgRedeemCollateralResponse_reflection:
  fixes MC :: "('v, 'c) msg_value" and MT :: "('v, 't) msg_value"
  assumes "msg_value_laws MC" "msg_value_laws MT" "\<And>f. FullName (D f) = ''halbornctf.hal.MsgRedeemCollateralResponse.'' @ f"
  shows "reflection [''halbornctf.hal.MsgRedeemCollateralResponse.burnedAmount'', ''halbornctf.hal.MsgRedeemCollateralResponse.completion_time'']
    [D ''burnedAmount'', D ''completion_time''] api_MsgRedeemCollateralResponse_new api_MsgRedeemCollateralResponse_Has api_MsgRedeemCollateralResponse_Clear
    (api_MsgRedeemCollateralResponse_Get MC MT) (api_MsgRedeemCollateralResponse_Set MC MT) (api_MsgRedeemCollateralResponse_Mutable C T MC MT)
    (api_MsgRedeemCollateralResponse_NewField C T MC MT) (api_MsgRedeemCollateralResponse_Range MC MT D)"
  using assms by unfold_locales (auto simp: api_MsgRedeemCollateralResponse_reflect reflect_simps split: if_splits)

section \<open>MsgCreateTicket\<close>

text \<open>The struct, its zero value and its getters.\<close>

record api_create_ticket = api_msg +
  api_ct_Creator :: "string"
  api_ct_Author :: "string"
  api_ct_Issue :: "string"

definition api_MsgCreateTicket_new :: "api_create_ticket" where
  "api_MsgCreateTicket_new = \<lparr>unknownFields = [], api_ct_Creator = [], api_ct_Author = [], api_ct_Issue = []\<rparr>"

definition api_MsgCreateTicket_GetCreator :: "api_create_ticket option \<Rightarrow> string" where
  "api_MsgCreateTicket_GetCreator x = (case x of Some m \<Rightarrow> api_ct_Creator m | None \<Rightarrow> [])"

definition api_MsgCreateTicket_GetAuthor :: "api_create_ticket option \<Rightarrow> string" where
  "api_MsgCreateTicket_GetAuthor x = (case x of Some m \<Rightarrow> api_ct_Author m | None \<Rightarrow> [])"

definition api_MsgCreateTicket_GetIssue :: "api_create_ticket option \<Rightarrow> string" where
  "api_MsgCreateTicket_GetIssue x = (case x of Some m \<Rightarrow> api_ct_Issue m | None \<Rightarrow> [])"

text \<open>The methods of \<open>fastReflection_MsgCreateTicket\<close>.\<close>

definition api_MsgCreateTicket_Range :: "'v value_lib \<Rightarrow> (string \<Rightarrow> field_descriptor) \<Rightarrow> (field_descriptor \<Rightarrow> 'v \<Rightarrow> 's \<Rightarrow> bool \<times> 's) \<Rightarrow>
    api_create_ticket option \<Rightarrow> 's \<Rightarrow> 's outcome" where
  "api_MsgCreateTicket_Range V D f x s = deref x (\<lambda>m. Ok ((visit (api_ct_Creator m \<noteq> []) (D ''creator'') (ValueOfString V (api_ct_Creator m)) f
       (visit (api_ct_Author m \<noteq> []) (D ''author'') (ValueOfString V (api_ct_Author m)) f
       (visit (api_ct_Issue m \<noteq> []) (D ''issue'') (ValueOfString V (api_ct_Issue m)) f
       (\<lambda>s. s)))) s))"

definition api_MsgCreateTicket_Has :: "field_descriptor \<Rightarrow> api_create_ticket option \<Rightarrow> bool outcome" where
  "api_MsgCreateTicket_Has fd x =
     (if FullName fd = ''halbornctf.hal.MsgCreateTicket.creator'' then deref x (\<lambda>m. Ok (api_ct_Creator m \<noteq> []))
      else if FullName fd = ''halbornctf.hal.MsgCreateTicket.author'' then deref x (\<lambda>m. Ok (api_ct_Author m \<noteq> []))
      else if FullName fd = ''halbornctf.hal.MsgCreateTicket.issue'' then deref x (\<lambda>m. Ok (api_ct_Issue m \<noteq> []))
      else no_field ''halbornctf.hal.MsgCreateTicket'' fd)"

definition api_MsgCreateTicket_Clear :: "field_descriptor \<Rightarrow> api_create_ticket option \<Rightarrow> api_create_ticket option outcome" where
  "api_MsgCreateTicket_Clear fd x =
     (if FullName fd = ''halbornctf.hal.MsgCreateTicket.creator'' then deref x (\<lambda>m. Ok (Some (m\<lparr>api_ct_Creator := []\<rparr>)))
      else if FullName fd = ''halbornctf.hal.MsgCreateTicket.author'' then deref x (\<lambda>m. Ok (Some (m\<lparr>api_ct_Author := []\<rparr>)))
      else if FullName fd = ''halbornctf.hal.MsgCreateTicket.issue'' then deref x (\<lambda>m. Ok (Some (m\<lparr>api_ct_Issue := []\<rparr>)))
      else no_field ''halbornctf.hal.MsgCreateTicket'' fd)"

definition api_MsgCreateTicket_Get :: "'v value_lib \<Rightarrow> field_descriptor \<Rightarrow> api_create_ticket option \<Rightarrow> 'v outcome" where
  "api_MsgCreateTicket_Get V fd x =
     (if FullName fd = ''halbornctf.hal.MsgCreateTicket.creator'' then deref x (\<lambda>m. Ok (ValueOfString V (api_ct_Creator m)))
      else if FullName fd = ''halbornctf.hal.MsgCreateTicket.author'' then deref x (\<lambda>m. Ok (ValueOfString V (api_ct_Author m)))
      else if FullName fd = ''halbornctf.hal.MsgCreateTicket.issue'' then deref x (\<lambda>m. Ok (ValueOfString V (api_ct_Issue m)))
      else no_field ''halbornctf.hal.MsgCreateTicket'' fd)"

definition api_MsgCreateTicket_Set :: "'v value_lib \<Rightarrow> field_descriptor \<Rightarrow> 'v \<Rightarrow> api_create_ticket option \<Rightarrow> api_create_ticket option outcome" where
  "api_MsgCreateTicket_Set V fd value x =
     (if FullName fd = ''halbornctf.hal.MsgCreateTicket.creator'' then bind_o (Value_string V value) (\<lambda>s. deref x (\<lambda>m. Ok (Some (m\<lparr>api_ct_Creator := s\<rparr>))))
      else if FullName fd = ''halbornctf.hal.MsgCreateTicket.author'' then bind_o (Value_string V value) (\<lambda>s. deref x (\<lambda>m. Ok (Some (m\<lparr>api_ct_Author := s\<rparr>))))
      else if FullName fd = ''halbornctf.hal.MsgCreateTicket.issue'' then bind_o (Value_string V value) (\<lambda>s. deref x (\<lambda>m. Ok (Some (m\<lparr>api_ct_Issue := s\<rparr>))))
      else no_field ''halbornctf.hal.MsgCreateTicket'' fd)"

definition api_MsgCreateTicket_Mutable :: "field_descriptor \<Rightarrow> api_create_ticket option \<Rightarrow> ('v \<times> api_create_ticket option) outcome" where
  "api_MsgCreateTicket_Mutable fd x =
     (if FullName fd = ''halbornctf.hal.MsgCreateTicket.creator'' then not_mutable ''creator'' ''halbornctf.hal.MsgCreateTicket''
      else if FullName fd = ''halbornctf.hal.MsgCreateTicket.author'' then not_mutable ''author'' ''halbornctf.hal.MsgCreateTicket''
      else if FullName fd = ''halbornctf.hal.MsgCreateTicket.issue'' then not_mutable ''issue'' ''halbornctf.hal.MsgCreateTicket''
      else no_field ''halbornctf.hal.MsgCreateTicket'' fd)"

definition api_MsgCreateTicket_NewField :: "'v value_lib \<Rightarrow> field_descriptor \<Rightarrow> 'v outcome" where
  "api_MsgCreateTicket_NewField V fd =
     (if FullName fd = ''halbornctf.hal.MsgCreateTicket.creator'' then Ok (ValueOfString V ([]))
      else if FullName fd = ''halbornctf.hal.MsgCreateTicket.author'' then Ok (ValueOfString V ([]))
      else if FullName fd = ''halbornctf.hal.MsgCreateTicket.issue'' then Ok (ValueOfString V ([]))
      else no_field ''halbornctf.hal.MsgCreateTicket'' fd)"

text \<open>The closures of \<open>ProtoMethods\<close>.\<close>

definition api_MsgCreateTicket_size :: "pulsar_rt \<Rightarrow> api_create_ticket option \<Rightarrow> int" where
  "api_MsgCreateTicket_size R x = size_of (\<lambda>m. size_string R (api_ct_Creator m)
     + size_string R (api_ct_Author m)
     + size_string R (api_ct_Issue m)
     + size_unknown (unknownFields m)) x"

definition api_MsgCreateTicket_body :: "pulsar_rt \<Rightarrow> api_create_ticket \<Rightarrow> wr" where
  "api_MsgCreateTicket_body R m =
     then_w (wr_unknown (unknownFields m))
    (then_w (wr_string R 0x1a (api_ct_Issue m))
    (then_w (wr_string R 0x12 (api_ct_Author m))
    (wr_string R 0x0a (api_ct_Creator m))))"

definition api_MsgCreateTicket_marshal :: "pulsar_rt \<Rightarrow> (api_create_ticket \<Rightarrow> int) \<Rightarrow> api_create_ticket option \<Rightarrow> bytes option \<Rightarrow> bytes option outcome" where
  "api_MsgCreateTicket_marshal R Size = p_marshal Size (api_MsgCreateTicket_body R)"

definition api_MsgCreateTicket_fields :: "api_create_ticket fields" where
  "api_MsgCreateTicket_fields n =
     (if n = 1 then Some (string_case ''Creator'' (\<lambda>s m. m\<lparr>api_ct_Creator := s\<rparr>))
      else if n = 2 then Some (string_case ''Author'' (\<lambda>s m. m\<lparr>api_ct_Author := s\<rparr>))
      else if n = 3 then Some (string_case ''Issue'' (\<lambda>s m. m\<lparr>api_ct_Issue := s\<rparr>))
      else None)"

definition api_MsgCreateTicket_unmarshal :: "pulsar_rt \<Rightarrow> bool \<Rightarrow> api_create_ticket option \<Rightarrow> bytes \<Rightarrow> api_create_ticket option outcome" where
  "api_MsgCreateTicket_unmarshal R DiscardUnknown = p_unmarshal R DiscardUnknown ''MsgCreateTicket'' (api_MsgCreateTicket_fields)"

text \<open>The contracts.\<close>

definition api_MsgCreateTicket_enc :: "api_create_ticket \<Rightarrow> bytes" where
  "api_MsgCreateTicket_enc m =
     enc_string_field 0x0a (api_ct_Creator m)
   @ enc_string_field 0x12 (api_ct_Author m)
   @ enc_string_field 0x1a (api_ct_Issue m)"

definition api_MsgCreateTicket_ok :: "api_create_ticket \<Rightarrow> bool" where
  "api_MsgCreateTicket_ok m \<longleftrightarrow> raw_fields (api_MsgCreateTicket_fields) (unknownFields m)"

lemma api_MsgCreateTicket_fields_simps [simp]:
  "api_MsgCreateTicket_fields 1 = Some (string_case ''Creator'' (\<lambda>s m. m\<lparr>api_ct_Creator := s\<rparr>))"
  "api_MsgCreateTicket_fields 2 = Some (string_case ''Author'' (\<lambda>s m. m\<lparr>api_ct_Author := s\<rparr>))"
  "api_MsgCreateTicket_fields 3 = Some (string_case ''Issue'' (\<lambda>s m. m\<lparr>api_ct_Issue := s\<rparr>))"
  by (simp_all add: api_MsgCreateTicket_fields_def)

lemma api_MsgCreateTicket_writes:
  assumes "rt_laws R" "api_MsgCreateTicket_ok m"
  shows "writes (api_MsgCreateTicket_body R m) (api_MsgCreateTicket_enc m @ unknownFields m)"
proof -
  have "writes (api_MsgCreateTicket_body R m)
      (((enc_string_field 0x0a (api_ct_Creator m)
        @ enc_string_field 0x12 (api_ct_Author m))
        @ enc_string_field 0x1a (api_ct_Issue m))
        @ unknownFields m)"
    unfolding api_MsgCreateTicket_body_def
    by (intro writes_then
        writes_wr_unknown
        rt_laws.writes_wr_string [OF assms(1)])
  then show ?thesis by (simp add: api_MsgCreateTicket_enc_def)
qed

lemma api_MsgCreateTicket_size_enc:
  assumes "rt_laws R" "api_MsgCreateTicket_ok m"
  shows "api_MsgCreateTicket_size R (Some m) = int (length (api_MsgCreateTicket_enc m @ unknownFields m))"
proof -
  have s0: "size_string R (api_ct_Creator m) = int (length (enc_string_field 0x0a (api_ct_Creator m)))"
    by (rule rt_laws.size_string_enc [OF assms(1)])
  have s1: "size_string R (api_ct_Author m) = int (length (enc_string_field 0x12 (api_ct_Author m)))"
    by (rule rt_laws.size_string_enc [OF assms(1)])
  have s2: "size_string R (api_ct_Issue m) = int (length (enc_string_field 0x1a (api_ct_Issue m)))"
    by (rule rt_laws.size_string_enc [OF assms(1)])
  show ?thesis
    by (simp add: api_MsgCreateTicket_size_def api_MsgCreateTicket_enc_def size_of_def size_unknown_def s0 s1 s2)
qed

lemma api_MsgCreateTicket_decodes:
  assumes "api_MsgCreateTicket_ok m" "length (api_MsgCreateTicket_enc m) < 2 ^ 63"
  shows "decodes_k PbRuntime ''MsgCreateTicket'' keep (api_MsgCreateTicket_fields) (api_MsgCreateTicket_enc m) api_MsgCreateTicket_new (m\<lparr>unknownFields := []\<rparr>)"
proof -
  let ?m1 = "if api_ct_Creator m = [] then api_MsgCreateTicket_new else api_MsgCreateTicket_new\<lparr>api_ct_Creator := api_ct_Creator m\<rparr>"
  let ?m2 = "if api_ct_Author m = [] then ?m1 else ?m1\<lparr>api_ct_Author := api_ct_Author m\<rparr>"
  let ?m3 = "if api_ct_Issue m = [] then ?m2 else ?m2\<lparr>api_ct_Issue := api_ct_Issue m\<rparr>"
  let ?d = "decodes_k PbRuntime ''MsgCreateTicket'' keep (api_MsgCreateTicket_fields)"
  have "?d (enc_string_field 0x0a (api_ct_Creator m)) api_MsgCreateTicket_new ?m1"
    by (rule decodes_string [where n = 1], rule api_MsgCreateTicket_fields_simps(1), rule tags, rule refl)
  moreover have "?d (enc_string_field 0x12 (api_ct_Author m)) ?m1 ?m2"
    by (rule decodes_string [where n = 2], rule api_MsgCreateTicket_fields_simps(2), rule tags, rule refl)
  moreover have "?d (enc_string_field 0x1a (api_ct_Issue m)) ?m2 ?m3"
    by (rule decodes_string [where n = 3], rule api_MsgCreateTicket_fields_simps(3), rule tags, rule refl)
  ultimately have "?d (api_MsgCreateTicket_enc m) api_MsgCreateTicket_new ?m3"
    unfolding api_MsgCreateTicket_enc_def by (intro decodes_append)
  moreover have "?m3 = m\<lparr>unknownFields := []\<rparr>"
    by (cases m) (simp add: api_MsgCreateTicket_new_def wide_word)
  ultimately show ?thesis by simp
qed

lemma api_MsgCreateTicket_message:
  assumes "rt_laws R"
  shows "pulsar_message R ''MsgCreateTicket'' (api_MsgCreateTicket_fields) (api_MsgCreateTicket_size R) (api_MsgCreateTicket_body R) (api_MsgCreateTicket_enc) api_MsgCreateTicket_new
    (api_MsgCreateTicket_ok)"
proof -
  have "safe_fields (api_MsgCreateTicket_fields)"
    by (rule safe_fieldsI) (auto simp: api_MsgCreateTicket_fields_def split: if_splits)
  with assms(1) show ?thesis
    unfolding pulsar_message_def pulsar_message_axioms_def
    using api_MsgCreateTicket_writes [OF assms] api_MsgCreateTicket_size_enc [OF assms] api_MsgCreateTicket_decodes
    by (simp add: api_MsgCreateTicket_ok_def)
qed

lemmas api_MsgCreateTicket_reflect =
  api_MsgCreateTicket_new_def api_MsgCreateTicket_Range_def api_MsgCreateTicket_Has_def api_MsgCreateTicket_Clear_def api_MsgCreateTicket_Get_def api_MsgCreateTicket_Set_def
  api_MsgCreateTicket_Mutable_def api_MsgCreateTicket_NewField_def

lemma api_MsgCreateTicket_reflection:
  assumes "value_laws V" "\<And>f. FullName (D f) = ''halbornctf.hal.MsgCreateTicket.'' @ f"
  shows "reflection [''halbornctf.hal.MsgCreateTicket.creator'', ''halbornctf.hal.MsgCreateTicket.author'', ''halbornctf.hal.MsgCreateTicket.issue'']
    [D ''creator'', D ''author'', D ''issue''] api_MsgCreateTicket_new api_MsgCreateTicket_Has api_MsgCreateTicket_Clear
    (api_MsgCreateTicket_Get V) (api_MsgCreateTicket_Set V) (api_MsgCreateTicket_Mutable)
    (api_MsgCreateTicket_NewField V) (api_MsgCreateTicket_Range V D)"
  using assms by unfold_locales (auto simp: api_MsgCreateTicket_reflect reflect_simps split: if_splits)

section \<open>MsgCreateTicketResponse\<close>

text \<open>The struct, its zero value and its getters.\<close>

record api_create_ticket_response = api_msg +
  api_ctr_Id :: "64 word"

definition api_MsgCreateTicketResponse_new :: "api_create_ticket_response" where
  "api_MsgCreateTicketResponse_new = \<lparr>unknownFields = [], api_ctr_Id = 0\<rparr>"

definition api_MsgCreateTicketResponse_GetId :: "api_create_ticket_response option \<Rightarrow> 64 word" where
  "api_MsgCreateTicketResponse_GetId x = (case x of Some m \<Rightarrow> api_ctr_Id m | None \<Rightarrow> 0)"

text \<open>The methods of \<open>fastReflection_MsgCreateTicketResponse\<close>.\<close>

definition api_MsgCreateTicketResponse_Range :: "'v value_lib \<Rightarrow> (string \<Rightarrow> field_descriptor) \<Rightarrow> (field_descriptor \<Rightarrow> 'v \<Rightarrow> 's \<Rightarrow> bool \<times> 's) \<Rightarrow>
    api_create_ticket_response option \<Rightarrow> 's \<Rightarrow> 's outcome" where
  "api_MsgCreateTicketResponse_Range V D f x s = deref x (\<lambda>m. Ok ((visit (api_ctr_Id m \<noteq> 0) (D ''id'') (ValueOfUint64 V (api_ctr_Id m)) f
       (\<lambda>s. s)) s))"

definition api_MsgCreateTicketResponse_Has :: "field_descriptor \<Rightarrow> api_create_ticket_response option \<Rightarrow> bool outcome" where
  "api_MsgCreateTicketResponse_Has fd x =
     (if FullName fd = ''halbornctf.hal.MsgCreateTicketResponse.id'' then deref x (\<lambda>m. Ok (api_ctr_Id m \<noteq> 0))
      else no_field ''halbornctf.hal.MsgCreateTicketResponse'' fd)"

definition api_MsgCreateTicketResponse_Clear :: "field_descriptor \<Rightarrow> api_create_ticket_response option \<Rightarrow> api_create_ticket_response option outcome" where
  "api_MsgCreateTicketResponse_Clear fd x =
     (if FullName fd = ''halbornctf.hal.MsgCreateTicketResponse.id'' then deref x (\<lambda>m. Ok (Some (m\<lparr>api_ctr_Id := 0\<rparr>)))
      else no_field ''halbornctf.hal.MsgCreateTicketResponse'' fd)"

definition api_MsgCreateTicketResponse_Get :: "'v value_lib \<Rightarrow> field_descriptor \<Rightarrow> api_create_ticket_response option \<Rightarrow> 'v outcome" where
  "api_MsgCreateTicketResponse_Get V fd x =
     (if FullName fd = ''halbornctf.hal.MsgCreateTicketResponse.id'' then deref x (\<lambda>m. Ok (ValueOfUint64 V (api_ctr_Id m)))
      else no_field ''halbornctf.hal.MsgCreateTicketResponse'' fd)"

definition api_MsgCreateTicketResponse_Set :: "'v value_lib \<Rightarrow> field_descriptor \<Rightarrow> 'v \<Rightarrow> api_create_ticket_response option \<Rightarrow> api_create_ticket_response option outcome" where
  "api_MsgCreateTicketResponse_Set V fd value x =
     (if FullName fd = ''halbornctf.hal.MsgCreateTicketResponse.id'' then bind_o (Value_Uint V value) (\<lambda>u. deref x (\<lambda>m. Ok (Some (m\<lparr>api_ctr_Id := u\<rparr>))))
      else no_field ''halbornctf.hal.MsgCreateTicketResponse'' fd)"

definition api_MsgCreateTicketResponse_Mutable :: "field_descriptor \<Rightarrow> api_create_ticket_response option \<Rightarrow> ('v \<times> api_create_ticket_response option) outcome" where
  "api_MsgCreateTicketResponse_Mutable fd x =
     (if FullName fd = ''halbornctf.hal.MsgCreateTicketResponse.id'' then not_mutable ''id'' ''halbornctf.hal.MsgCreateTicketResponse''
      else no_field ''halbornctf.hal.MsgCreateTicketResponse'' fd)"

definition api_MsgCreateTicketResponse_NewField :: "'v value_lib \<Rightarrow> field_descriptor \<Rightarrow> 'v outcome" where
  "api_MsgCreateTicketResponse_NewField V fd =
     (if FullName fd = ''halbornctf.hal.MsgCreateTicketResponse.id'' then Ok (ValueOfUint64 V (0))
      else no_field ''halbornctf.hal.MsgCreateTicketResponse'' fd)"

text \<open>The closures of \<open>ProtoMethods\<close>.\<close>

definition api_MsgCreateTicketResponse_size :: "pulsar_rt \<Rightarrow> api_create_ticket_response option \<Rightarrow> int" where
  "api_MsgCreateTicketResponse_size R x = size_of (\<lambda>m. size_varint R (api_ctr_Id m \<noteq> 0) (api_ctr_Id m)
     + size_unknown (unknownFields m)) x"

definition api_MsgCreateTicketResponse_body :: "pulsar_rt \<Rightarrow> api_create_ticket_response \<Rightarrow> wr" where
  "api_MsgCreateTicketResponse_body R m =
     then_w (wr_unknown (unknownFields m))
    (wr_varint R 0x08 (api_ctr_Id m \<noteq> 0) (api_ctr_Id m))"

definition api_MsgCreateTicketResponse_marshal :: "pulsar_rt \<Rightarrow> (api_create_ticket_response \<Rightarrow> int) \<Rightarrow> api_create_ticket_response option \<Rightarrow> bytes option \<Rightarrow> bytes option outcome" where
  "api_MsgCreateTicketResponse_marshal R Size = p_marshal Size (api_MsgCreateTicketResponse_body R)"

definition api_MsgCreateTicketResponse_fields :: "api_create_ticket_response fields" where
  "api_MsgCreateTicketResponse_fields n =
     (if n = 1 then Some (Varint ''Id'' (\<lambda>v m. m\<lparr>api_ctr_Id := v\<rparr>))
      else None)"

definition api_MsgCreateTicketResponse_unmarshal :: "pulsar_rt \<Rightarrow> bool \<Rightarrow> api_create_ticket_response option \<Rightarrow> bytes \<Rightarrow> api_create_ticket_response option outcome" where
  "api_MsgCreateTicketResponse_unmarshal R DiscardUnknown = p_unmarshal R DiscardUnknown ''MsgCreateTicketResponse'' (api_MsgCreateTicketResponse_fields)"

text \<open>The contracts.\<close>

definition api_MsgCreateTicketResponse_enc :: "api_create_ticket_response \<Rightarrow> bytes" where
  "api_MsgCreateTicketResponse_enc m =
     enc_varint_field 0x08 (api_ctr_Id m)"

definition api_MsgCreateTicketResponse_ok :: "api_create_ticket_response \<Rightarrow> bool" where
  "api_MsgCreateTicketResponse_ok m \<longleftrightarrow> raw_fields (api_MsgCreateTicketResponse_fields) (unknownFields m)"

lemma api_MsgCreateTicketResponse_fields_simps [simp]:
  "api_MsgCreateTicketResponse_fields 1 = Some (Varint ''Id'' (\<lambda>v m. m\<lparr>api_ctr_Id := v\<rparr>))"
  by (simp_all add: api_MsgCreateTicketResponse_fields_def)

lemma api_MsgCreateTicketResponse_writes:
  assumes "rt_laws R" "api_MsgCreateTicketResponse_ok m"
  shows "writes (api_MsgCreateTicketResponse_body R m) (api_MsgCreateTicketResponse_enc m @ unknownFields m)"
proof -
  have "writes (api_MsgCreateTicketResponse_body R m)
      (enc_varint_field 0x08 (api_ctr_Id m)
        @ unknownFields m)"
    unfolding api_MsgCreateTicketResponse_body_def
    by (intro writes_then
        writes_wr_unknown
        rt_laws.writes_wr_u64 [OF assms(1)])
  then show ?thesis by (simp add: api_MsgCreateTicketResponse_enc_def)
qed

lemma api_MsgCreateTicketResponse_size_enc:
  assumes "rt_laws R" "api_MsgCreateTicketResponse_ok m"
  shows "api_MsgCreateTicketResponse_size R (Some m) = int (length (api_MsgCreateTicketResponse_enc m @ unknownFields m))"
proof -
  have s0: "size_varint R (api_ctr_Id m \<noteq> 0) (api_ctr_Id m) = int (length (enc_varint_field 0x08 (api_ctr_Id m)))"
    by (rule rt_laws.size_u64_enc [OF assms(1)])
  show ?thesis
    by (simp add: api_MsgCreateTicketResponse_size_def api_MsgCreateTicketResponse_enc_def size_of_def size_unknown_def s0)
qed

lemma api_MsgCreateTicketResponse_decodes:
  assumes "api_MsgCreateTicketResponse_ok m" "length (api_MsgCreateTicketResponse_enc m) < 2 ^ 63"
  shows "decodes_k PbRuntime ''MsgCreateTicketResponse'' keep (api_MsgCreateTicketResponse_fields) (api_MsgCreateTicketResponse_enc m) api_MsgCreateTicketResponse_new (m\<lparr>unknownFields := []\<rparr>)"
proof -
  let ?m1 = "if api_ctr_Id m = 0 then api_MsgCreateTicketResponse_new else api_MsgCreateTicketResponse_new\<lparr>api_ctr_Id := api_ctr_Id m\<rparr>"
  let ?d = "decodes_k PbRuntime ''MsgCreateTicketResponse'' keep (api_MsgCreateTicketResponse_fields)"
  have "?d (enc_varint_field 0x08 (api_ctr_Id m)) api_MsgCreateTicketResponse_new ?m1"
    by (rule decodes_varint [where n = 1], rule api_MsgCreateTicketResponse_fields_simps, rule tags) simp
  then have "?d (api_MsgCreateTicketResponse_enc m) api_MsgCreateTicketResponse_new ?m1"
    unfolding api_MsgCreateTicketResponse_enc_def .
  moreover have "?m1 = m\<lparr>unknownFields := []\<rparr>"
    by (cases m) (simp add: api_MsgCreateTicketResponse_new_def wide_word)
  ultimately show ?thesis by simp
qed

lemma api_MsgCreateTicketResponse_message:
  assumes "rt_laws R"
  shows "pulsar_message R ''MsgCreateTicketResponse'' (api_MsgCreateTicketResponse_fields) (api_MsgCreateTicketResponse_size R) (api_MsgCreateTicketResponse_body R) (api_MsgCreateTicketResponse_enc) api_MsgCreateTicketResponse_new
    (api_MsgCreateTicketResponse_ok)"
proof -
  have "safe_fields (api_MsgCreateTicketResponse_fields)"
    by (rule safe_fieldsI) (auto simp: api_MsgCreateTicketResponse_fields_def split: if_splits)
  with assms(1) show ?thesis
    unfolding pulsar_message_def pulsar_message_axioms_def
    using api_MsgCreateTicketResponse_writes [OF assms] api_MsgCreateTicketResponse_size_enc [OF assms] api_MsgCreateTicketResponse_decodes
    by (simp add: api_MsgCreateTicketResponse_ok_def)
qed

lemmas api_MsgCreateTicketResponse_reflect =
  api_MsgCreateTicketResponse_new_def api_MsgCreateTicketResponse_Range_def api_MsgCreateTicketResponse_Has_def api_MsgCreateTicketResponse_Clear_def api_MsgCreateTicketResponse_Get_def api_MsgCreateTicketResponse_Set_def
  api_MsgCreateTicketResponse_Mutable_def api_MsgCreateTicketResponse_NewField_def

lemma api_MsgCreateTicketResponse_reflection:
  assumes "value_laws V" "\<And>f. FullName (D f) = ''halbornctf.hal.MsgCreateTicketResponse.'' @ f"
  shows "reflection [''halbornctf.hal.MsgCreateTicketResponse.id'']
    [D ''id''] api_MsgCreateTicketResponse_new api_MsgCreateTicketResponse_Has api_MsgCreateTicketResponse_Clear
    (api_MsgCreateTicketResponse_Get V) (api_MsgCreateTicketResponse_Set V) (api_MsgCreateTicketResponse_Mutable)
    (api_MsgCreateTicketResponse_NewField V) (api_MsgCreateTicketResponse_Range V D)"
  using assms by unfold_locales (auto simp: api_MsgCreateTicketResponse_reflect reflect_simps split: if_splits)

end
