(* ===== verification/Pulsar_Query.thy ===== *)
theory Pulsar_Query
  imports Pulsar_Params
begin

text \<open>
  \<open>genesis.pulsar.go\<close> and \<open>query.pulsar.go\<close> under \<open>api/halbornctf/hal\<close>: the genesis state and the messages of
  the parameter query.
\<close>

section \<open>GenesisState\<close>

text \<open>The struct, its zero value and its getters.\<close>

record 'd api_genesis_state = api_msg +
  api_gs_Params :: "'d api_params option"

definition api_GenesisState_new :: "'d api_genesis_state" where
  "api_GenesisState_new = \<lparr>unknownFields = [], api_gs_Params = None\<rparr>"

definition api_GenesisState_GetParams :: "'d api_genesis_state option \<Rightarrow> 'd api_params option" where
  "api_GenesisState_GetParams x = (case x of Some m \<Rightarrow> api_gs_Params m | None \<Rightarrow> None)"

text \<open>The methods of \<open>fastReflection_GenesisState\<close>. \<open>Mutable\<close> returns the new state of the message beside
  the value, which in Go is a reference into it.\<close>

definition api_GenesisState_Range :: "('v, 'd api_params) msg_value \<Rightarrow> (string \<Rightarrow> field_descriptor) \<Rightarrow> (field_descriptor \<Rightarrow> 'v \<Rightarrow> 's \<Rightarrow> bool \<times> 's) \<Rightarrow>
    'd api_genesis_state option \<Rightarrow> 's \<Rightarrow> 's outcome" where
  "api_GenesisState_Range MP D f x s = deref x (\<lambda>m. Ok ((visit (api_gs_Params m \<noteq> None) (D ''params'') (ValueOfMessage MP (api_gs_Params m)) f
       (\<lambda>s. s)) s))"

definition api_GenesisState_Has :: "field_descriptor \<Rightarrow> 'd api_genesis_state option \<Rightarrow> bool outcome" where
  "api_GenesisState_Has fd x =
     (if FullName fd = ''halbornctf.hal.GenesisState.params'' then deref x (\<lambda>m. Ok (api_gs_Params m \<noteq> None))
      else no_field ''halbornctf.hal.GenesisState'' fd)"

definition api_GenesisState_Clear :: "field_descriptor \<Rightarrow> 'd api_genesis_state option \<Rightarrow> 'd api_genesis_state option outcome" where
  "api_GenesisState_Clear fd x =
     (if FullName fd = ''halbornctf.hal.GenesisState.params'' then deref x (\<lambda>m. Ok (Some (m\<lparr>api_gs_Params := None\<rparr>)))
      else no_field ''halbornctf.hal.GenesisState'' fd)"

definition api_GenesisState_Get :: "('v, 'd api_params) msg_value \<Rightarrow> field_descriptor \<Rightarrow> 'd api_genesis_state option \<Rightarrow> 'v outcome" where
  "api_GenesisState_Get MP fd x =
     (if FullName fd = ''halbornctf.hal.GenesisState.params'' then deref x (\<lambda>m. Ok (ValueOfMessage MP (api_gs_Params m)))
      else no_field ''halbornctf.hal.GenesisState'' fd)"

definition api_GenesisState_Set :: "('v, 'd api_params) msg_value \<Rightarrow> field_descriptor \<Rightarrow> 'v \<Rightarrow> 'd api_genesis_state option \<Rightarrow> 'd api_genesis_state option outcome" where
  "api_GenesisState_Set MP fd value x =
     (if FullName fd = ''halbornctf.hal.GenesisState.params'' then bind_o (Value_Message MP value) (\<lambda>p. deref x (\<lambda>m. Ok (Some (m\<lparr>api_gs_Params := p\<rparr>))))
      else no_field ''halbornctf.hal.GenesisState'' fd)"

definition api_GenesisState_Mutable :: "'d api_params proto_ops \<Rightarrow> ('v, 'd api_params) msg_value \<Rightarrow> field_descriptor \<Rightarrow> 'd api_genesis_state option \<Rightarrow> ('v \<times> 'd api_genesis_state option) outcome" where
  "api_GenesisState_Mutable PA MP fd x =
     (if FullName fd = ''halbornctf.hal.GenesisState.params'' then deref x (\<lambda>m.
        let p = (case api_gs_Params m of None \<Rightarrow> Some (op_new PA) | Some v \<Rightarrow> Some v)
        in Ok (ValueOfMessage MP p, Some (m\<lparr>api_gs_Params := p\<rparr>)))
      else no_field ''halbornctf.hal.GenesisState'' fd)"

definition api_GenesisState_NewField :: "'d api_params proto_ops \<Rightarrow> ('v, 'd api_params) msg_value \<Rightarrow> field_descriptor \<Rightarrow> 'v outcome" where
  "api_GenesisState_NewField PA MP fd =
     (if FullName fd = ''halbornctf.hal.GenesisState.params'' then Ok (ValueOfMessage MP (Some (op_new PA)))
      else no_field ''halbornctf.hal.GenesisState'' fd)"

text \<open>The closures of \<open>ProtoMethods\<close>.\<close>

definition api_GenesisState_size :: "pulsar_rt \<Rightarrow> 'd api_params proto_ops \<Rightarrow> 'd api_genesis_state option \<Rightarrow> int" where
  "api_GenesisState_size R PA x = size_of (\<lambda>m. size_message R PA (api_gs_Params m)
     + size_unknown (unknownFields m)) x"

definition api_GenesisState_body :: "pulsar_rt \<Rightarrow> 'd api_params proto_ops \<Rightarrow> 'd api_genesis_state \<Rightarrow> wr" where
  "api_GenesisState_body R PA m =
     then_w (wr_unknown (unknownFields m))
    (wr_message R PA 0x0a (api_gs_Params m))"

definition api_GenesisState_marshal :: "pulsar_rt \<Rightarrow> 'd api_params proto_ops \<Rightarrow> ('d api_genesis_state \<Rightarrow> int) \<Rightarrow> 'd api_genesis_state option \<Rightarrow> bytes option \<Rightarrow> bytes option outcome" where
  "api_GenesisState_marshal R PA Size = p_marshal Size (api_GenesisState_body R PA)"

definition api_GenesisState_fields :: "'d api_params proto_ops \<Rightarrow> 'd api_genesis_state fields" where
  "api_GenesisState_fields PA n =
     (if n = 1 then Some (ptr_case ''Params'' api_gs_Params (\<lambda>p m. m\<lparr>api_gs_Params := p\<rparr>) PA)
      else None)"

definition api_GenesisState_unmarshal :: "pulsar_rt \<Rightarrow> 'd api_params proto_ops \<Rightarrow> bool \<Rightarrow> 'd api_genesis_state option \<Rightarrow> bytes \<Rightarrow> 'd api_genesis_state option outcome" where
  "api_GenesisState_unmarshal R PA DiscardUnknown = p_unmarshal R DiscardUnknown ''GenesisState'' (api_GenesisState_fields PA)"

text \<open>The contracts.\<close>

definition api_GenesisState_enc :: "('d api_params \<Rightarrow> bytes) \<Rightarrow> 'd api_genesis_state \<Rightarrow> bytes" where
  "api_GenesisState_enc encp m =
     enc_ptr_field encp 0x0a (api_gs_Params m)"

definition api_GenesisState_ok :: "'d api_params proto_ops \<Rightarrow> ('d api_params \<Rightarrow> bool) \<Rightarrow> 'd api_genesis_state \<Rightarrow> bool" where
  "api_GenesisState_ok PA okp m \<longleftrightarrow> wf_ptr okp (api_gs_Params m) \<and> raw_fields (api_GenesisState_fields PA) (unknownFields m)"

lemma api_GenesisState_fields_simps [simp]:
  "api_GenesisState_fields PA 1 = Some (ptr_case ''Params'' api_gs_Params (\<lambda>p m. m\<lparr>api_gs_Params := p\<rparr>) PA)"
  by (simp_all add: api_GenesisState_fields_def)

lemma api_GenesisState_writes:
  assumes "rt_laws R" "proto_laws PA encp okp" "api_GenesisState_ok PA okp m"
  shows "writes (api_GenesisState_body R PA m) (api_GenesisState_enc encp m @ unknownFields m)"
proof -
  have "writes (api_GenesisState_body R PA m)
      (enc_ptr_field encp 0x0a (api_gs_Params m)
        @ unknownFields m)"
    unfolding api_GenesisState_body_def
    by (intro writes_then
        writes_wr_unknown
        rt_laws.writes_wr_message [OF assms(1) assms(2)])
      (use assms(3) in \<open>simp_all add: api_GenesisState_ok_def\<close>)
  then show ?thesis by (simp add: api_GenesisState_enc_def)
qed

lemma api_GenesisState_size_enc:
  assumes "rt_laws R" "proto_laws PA encp okp" "api_GenesisState_ok PA okp m"
  shows "api_GenesisState_size R PA (Some m) = int (length (api_GenesisState_enc encp m @ unknownFields m))"
proof -
  have s0: "size_message R PA (api_gs_Params m) = int (length (enc_ptr_field encp 0x0a (api_gs_Params m)))"
    by (rule rt_laws.size_message_enc [OF assms(1) assms(2)]) (use assms(3) in \<open>simp add: api_GenesisState_ok_def\<close>)
  show ?thesis
    by (simp add: api_GenesisState_size_def api_GenesisState_enc_def size_of_def size_unknown_def s0)
qed

lemma api_GenesisState_decodes:
  assumes "proto_laws PA encp okp" "api_GenesisState_ok PA okp m" "length (api_GenesisState_enc encp m) < 2 ^ 63"
  shows "decodes_k PbRuntime ''GenesisState'' keep (api_GenesisState_fields PA) (api_GenesisState_enc encp m) api_GenesisState_new (m\<lparr>unknownFields := []\<rparr>)"
proof -
  let ?m1 = "if api_gs_Params m = None then api_GenesisState_new else api_GenesisState_new\<lparr>api_gs_Params := api_gs_Params m\<rparr>"
  let ?d = "decodes_k PbRuntime ''GenesisState'' keep (api_GenesisState_fields PA)"
  have "?d (enc_ptr_field encp 0x0a (api_gs_Params m)) api_GenesisState_new ?m1"
    by (rule decodes_ptr [where n = 1], rule api_GenesisState_fields_simps, rule tags, rule assms(1))
      (use assms(2) assms(3) in \<open>simp_all add: api_GenesisState_ok_def api_GenesisState_enc_def api_GenesisState_new_def\<close>)
  then have "?d (api_GenesisState_enc encp m) api_GenesisState_new ?m1"
    unfolding api_GenesisState_enc_def .
  moreover have "?m1 = m\<lparr>unknownFields := []\<rparr>"
    by (cases m) (simp add: api_GenesisState_new_def wide_word)
  ultimately show ?thesis by simp
qed

lemma api_GenesisState_message:
  assumes "rt_laws R" "proto_laws PA encp okp"
  shows "pulsar_message R ''GenesisState'' (api_GenesisState_fields PA) (api_GenesisState_size R PA) (api_GenesisState_body R PA) (api_GenesisState_enc encp) api_GenesisState_new
    (api_GenesisState_ok PA okp)"
proof -
  have "safe_fields (api_GenesisState_fields PA)"
    by (rule safe_fieldsI) (auto simp: api_GenesisState_fields_def intro: safe_ptr_case [OF assms(2)] split: if_splits)
  with assms(1) show ?thesis
    unfolding pulsar_message_def pulsar_message_axioms_def
    using api_GenesisState_writes [OF assms] api_GenesisState_size_enc [OF assms] api_GenesisState_decodes [OF assms(2)]
    by (simp add: api_GenesisState_ok_def)
qed

lemmas api_GenesisState_reflect =
  api_GenesisState_new_def api_GenesisState_Range_def api_GenesisState_Has_def api_GenesisState_Clear_def api_GenesisState_Get_def api_GenesisState_Set_def
  api_GenesisState_Mutable_def api_GenesisState_NewField_def

lemma api_GenesisState_reflection:
  fixes MP :: "('v, 'd api_params) msg_value"
  assumes "msg_value_laws MP" "\<And>f. FullName (D f) = ''halbornctf.hal.GenesisState.'' @ f"
  shows "reflection [''halbornctf.hal.GenesisState.params'']
    [D ''params''] api_GenesisState_new api_GenesisState_Has api_GenesisState_Clear
    (api_GenesisState_Get MP) (api_GenesisState_Set MP) (api_GenesisState_Mutable PA MP)
    (api_GenesisState_NewField PA MP) (api_GenesisState_Range MP D)"
  using assms by unfold_locales (auto simp: api_GenesisState_reflect reflect_simps split: if_splits)

section \<open>QueryParamsRequest\<close>

type_synonym api_query_params_request = api_msg

definition api_QueryParamsRequest_new :: "api_query_params_request" where
  "api_QueryParamsRequest_new = \<lparr>unknownFields = []\<rparr>"

text \<open>The methods of \<open>fastReflection_QueryParamsRequest\<close>.\<close>

definition api_QueryParamsRequest_Range :: "(field_descriptor \<Rightarrow> 'v \<Rightarrow> 's \<Rightarrow> bool \<times> 's) \<Rightarrow> api_query_params_request option \<Rightarrow> 's \<Rightarrow> 's outcome" where
  "api_QueryParamsRequest_Range f x s = Ok s"

definition api_QueryParamsRequest_Has :: "field_descriptor \<Rightarrow> api_query_params_request option \<Rightarrow> bool outcome" where
  "api_QueryParamsRequest_Has fd x =
     no_field ''halbornctf.hal.QueryParamsRequest'' fd"

definition api_QueryParamsRequest_Clear :: "field_descriptor \<Rightarrow> api_query_params_request option \<Rightarrow> api_query_params_request option outcome" where
  "api_QueryParamsRequest_Clear fd x =
     no_field ''halbornctf.hal.QueryParamsRequest'' fd"

definition api_QueryParamsRequest_Get :: "field_descriptor \<Rightarrow> api_query_params_request option \<Rightarrow> 'v outcome" where
  "api_QueryParamsRequest_Get fd x =
     no_field ''halbornctf.hal.QueryParamsRequest'' fd"

definition api_QueryParamsRequest_Set :: "field_descriptor \<Rightarrow> 'v \<Rightarrow> api_query_params_request option \<Rightarrow> api_query_params_request option outcome" where
  "api_QueryParamsRequest_Set fd value x =
     no_field ''halbornctf.hal.QueryParamsRequest'' fd"

definition api_QueryParamsRequest_Mutable :: "field_descriptor \<Rightarrow> api_query_params_request option \<Rightarrow> ('v \<times> api_query_params_request option) outcome" where
  "api_QueryParamsRequest_Mutable fd x =
     no_field ''halbornctf.hal.QueryParamsRequest'' fd"

definition api_QueryParamsRequest_NewField :: "field_descriptor \<Rightarrow> 'v outcome" where
  "api_QueryParamsRequest_NewField fd =
     no_field ''halbornctf.hal.QueryParamsRequest'' fd"

text \<open>The closures of \<open>ProtoMethods\<close>.\<close>

definition api_QueryParamsRequest_size :: "pulsar_rt \<Rightarrow> api_query_params_request option \<Rightarrow> int" where
  "api_QueryParamsRequest_size R x = size_of (\<lambda>m. size_unknown (unknownFields m)) x"

definition api_QueryParamsRequest_body :: "pulsar_rt \<Rightarrow> api_query_params_request \<Rightarrow> wr" where
  "api_QueryParamsRequest_body R m =
     wr_unknown (unknownFields m)"

definition api_QueryParamsRequest_marshal :: "pulsar_rt \<Rightarrow> (api_query_params_request \<Rightarrow> int) \<Rightarrow> api_query_params_request option \<Rightarrow> bytes option \<Rightarrow> bytes option outcome" where
  "api_QueryParamsRequest_marshal R Size = p_marshal Size (api_QueryParamsRequest_body R)"

definition api_QueryParamsRequest_fields :: "api_query_params_request fields" where
  "api_QueryParamsRequest_fields n =
     None"

definition api_QueryParamsRequest_unmarshal :: "pulsar_rt \<Rightarrow> bool \<Rightarrow> api_query_params_request option \<Rightarrow> bytes \<Rightarrow> api_query_params_request option outcome" where
  "api_QueryParamsRequest_unmarshal R DiscardUnknown = p_unmarshal R DiscardUnknown ''QueryParamsRequest'' (api_QueryParamsRequest_fields)"

text \<open>The contracts.\<close>

definition api_QueryParamsRequest_enc :: "api_query_params_request \<Rightarrow> bytes" where
  "api_QueryParamsRequest_enc m =
     []"

definition api_QueryParamsRequest_ok :: "api_query_params_request \<Rightarrow> bool" where
  "api_QueryParamsRequest_ok m \<longleftrightarrow> raw_fields (api_QueryParamsRequest_fields) (unknownFields m)"

lemma api_QueryParamsRequest_writes:
  assumes "rt_laws R" "api_QueryParamsRequest_ok m"
  shows "writes (api_QueryParamsRequest_body R m) (api_QueryParamsRequest_enc m @ unknownFields m)"
  by (simp add: api_QueryParamsRequest_body_def api_QueryParamsRequest_enc_def writes_wr_unknown)

lemma api_QueryParamsRequest_size_enc:
  assumes "rt_laws R" "api_QueryParamsRequest_ok m"
  shows "api_QueryParamsRequest_size R (Some m) = int (length (api_QueryParamsRequest_enc m @ unknownFields m))"
  by (simp add: api_QueryParamsRequest_size_def api_QueryParamsRequest_enc_def size_of_def size_unknown_def)

lemma api_QueryParamsRequest_decodes:
  assumes "api_QueryParamsRequest_ok m" "length (api_QueryParamsRequest_enc m) < 2 ^ 63"
  shows "decodes_k PbRuntime ''QueryParamsRequest'' keep (api_QueryParamsRequest_fields) (api_QueryParamsRequest_enc m) api_QueryParamsRequest_new (m\<lparr>unknownFields := []\<rparr>)"
  by (cases m) (simp add: api_QueryParamsRequest_enc_def api_QueryParamsRequest_new_def decodes_Nil)

lemma api_QueryParamsRequest_message:
  assumes "rt_laws R"
  shows "pulsar_message R ''QueryParamsRequest'' (api_QueryParamsRequest_fields) (api_QueryParamsRequest_size R) (api_QueryParamsRequest_body R) (api_QueryParamsRequest_enc) api_QueryParamsRequest_new
    (api_QueryParamsRequest_ok)"
proof -
  have "safe_fields (api_QueryParamsRequest_fields)"
    by (rule safe_fieldsI) (auto simp: api_QueryParamsRequest_fields_def)
  with assms(1) show ?thesis
    unfolding pulsar_message_def pulsar_message_axioms_def
    using api_QueryParamsRequest_writes [OF assms] api_QueryParamsRequest_size_enc [OF assms] api_QueryParamsRequest_decodes
    by (simp add: api_QueryParamsRequest_ok_def)
qed

section \<open>QueryParamsResponse\<close>

text \<open>The struct, its zero value and its getters.\<close>

record 'd api_query_params_response = api_msg +
  api_qps_Params :: "'d api_params option"

definition api_QueryParamsResponse_new :: "'d api_query_params_response" where
  "api_QueryParamsResponse_new = \<lparr>unknownFields = [], api_qps_Params = None\<rparr>"

definition api_QueryParamsResponse_GetParams :: "'d api_query_params_response option \<Rightarrow> 'd api_params option" where
  "api_QueryParamsResponse_GetParams x = (case x of Some m \<Rightarrow> api_qps_Params m | None \<Rightarrow> None)"

text \<open>The methods of \<open>fastReflection_QueryParamsResponse\<close>. \<open>Mutable\<close> returns the new state of the message beside
  the value, which in Go is a reference into it.\<close>

definition api_QueryParamsResponse_Range :: "('v, 'd api_params) msg_value \<Rightarrow> (string \<Rightarrow> field_descriptor) \<Rightarrow> (field_descriptor \<Rightarrow> 'v \<Rightarrow> 's \<Rightarrow> bool \<times> 's) \<Rightarrow>
    'd api_query_params_response option \<Rightarrow> 's \<Rightarrow> 's outcome" where
  "api_QueryParamsResponse_Range MP D f x s = deref x (\<lambda>m. Ok ((visit (api_qps_Params m \<noteq> None) (D ''params'') (ValueOfMessage MP (api_qps_Params m)) f
       (\<lambda>s. s)) s))"

definition api_QueryParamsResponse_Has :: "field_descriptor \<Rightarrow> 'd api_query_params_response option \<Rightarrow> bool outcome" where
  "api_QueryParamsResponse_Has fd x =
     (if FullName fd = ''halbornctf.hal.QueryParamsResponse.params'' then deref x (\<lambda>m. Ok (api_qps_Params m \<noteq> None))
      else no_field ''halbornctf.hal.QueryParamsResponse'' fd)"

definition api_QueryParamsResponse_Clear :: "field_descriptor \<Rightarrow> 'd api_query_params_response option \<Rightarrow> 'd api_query_params_response option outcome" where
  "api_QueryParamsResponse_Clear fd x =
     (if FullName fd = ''halbornctf.hal.QueryParamsResponse.params'' then deref x (\<lambda>m. Ok (Some (m\<lparr>api_qps_Params := None\<rparr>)))
      else no_field ''halbornctf.hal.QueryParamsResponse'' fd)"

definition api_QueryParamsResponse_Get :: "('v, 'd api_params) msg_value \<Rightarrow> field_descriptor \<Rightarrow> 'd api_query_params_response option \<Rightarrow> 'v outcome" where
  "api_QueryParamsResponse_Get MP fd x =
     (if FullName fd = ''halbornctf.hal.QueryParamsResponse.params'' then deref x (\<lambda>m. Ok (ValueOfMessage MP (api_qps_Params m)))
      else no_field ''halbornctf.hal.QueryParamsResponse'' fd)"

definition api_QueryParamsResponse_Set :: "('v, 'd api_params) msg_value \<Rightarrow> field_descriptor \<Rightarrow> 'v \<Rightarrow> 'd api_query_params_response option \<Rightarrow> 'd api_query_params_response option outcome" where
  "api_QueryParamsResponse_Set MP fd value x =
     (if FullName fd = ''halbornctf.hal.QueryParamsResponse.params'' then bind_o (Value_Message MP value) (\<lambda>p. deref x (\<lambda>m. Ok (Some (m\<lparr>api_qps_Params := p\<rparr>))))
      else no_field ''halbornctf.hal.QueryParamsResponse'' fd)"

definition api_QueryParamsResponse_Mutable :: "'d api_params proto_ops \<Rightarrow> ('v, 'd api_params) msg_value \<Rightarrow> field_descriptor \<Rightarrow> 'd api_query_params_response option \<Rightarrow> ('v \<times> 'd api_query_params_response option) outcome" where
  "api_QueryParamsResponse_Mutable PA MP fd x =
     (if FullName fd = ''halbornctf.hal.QueryParamsResponse.params'' then deref x (\<lambda>m.
        let p = (case api_qps_Params m of None \<Rightarrow> Some (op_new PA) | Some v \<Rightarrow> Some v)
        in Ok (ValueOfMessage MP p, Some (m\<lparr>api_qps_Params := p\<rparr>)))
      else no_field ''halbornctf.hal.QueryParamsResponse'' fd)"

definition api_QueryParamsResponse_NewField :: "'d api_params proto_ops \<Rightarrow> ('v, 'd api_params) msg_value \<Rightarrow> field_descriptor \<Rightarrow> 'v outcome" where
  "api_QueryParamsResponse_NewField PA MP fd =
     (if FullName fd = ''halbornctf.hal.QueryParamsResponse.params'' then Ok (ValueOfMessage MP (Some (op_new PA)))
      else no_field ''halbornctf.hal.QueryParamsResponse'' fd)"

text \<open>The closures of \<open>ProtoMethods\<close>.\<close>

definition api_QueryParamsResponse_size :: "pulsar_rt \<Rightarrow> 'd api_params proto_ops \<Rightarrow> 'd api_query_params_response option \<Rightarrow> int" where
  "api_QueryParamsResponse_size R PA x = size_of (\<lambda>m. size_message R PA (api_qps_Params m)
     + size_unknown (unknownFields m)) x"

definition api_QueryParamsResponse_body :: "pulsar_rt \<Rightarrow> 'd api_params proto_ops \<Rightarrow> 'd api_query_params_response \<Rightarrow> wr" where
  "api_QueryParamsResponse_body R PA m =
     then_w (wr_unknown (unknownFields m))
    (wr_message R PA 0x0a (api_qps_Params m))"

definition api_QueryParamsResponse_marshal :: "pulsar_rt \<Rightarrow> 'd api_params proto_ops \<Rightarrow> ('d api_query_params_response \<Rightarrow> int) \<Rightarrow> 'd api_query_params_response option \<Rightarrow> bytes option \<Rightarrow> bytes option outcome" where
  "api_QueryParamsResponse_marshal R PA Size = p_marshal Size (api_QueryParamsResponse_body R PA)"

definition api_QueryParamsResponse_fields :: "'d api_params proto_ops \<Rightarrow> 'd api_query_params_response fields" where
  "api_QueryParamsResponse_fields PA n =
     (if n = 1 then Some (ptr_case ''Params'' api_qps_Params (\<lambda>p m. m\<lparr>api_qps_Params := p\<rparr>) PA)
      else None)"

definition api_QueryParamsResponse_unmarshal :: "pulsar_rt \<Rightarrow> 'd api_params proto_ops \<Rightarrow> bool \<Rightarrow> 'd api_query_params_response option \<Rightarrow> bytes \<Rightarrow> 'd api_query_params_response option outcome" where
  "api_QueryParamsResponse_unmarshal R PA DiscardUnknown = p_unmarshal R DiscardUnknown ''QueryParamsResponse'' (api_QueryParamsResponse_fields PA)"

text \<open>The contracts.\<close>

definition api_QueryParamsResponse_enc :: "('d api_params \<Rightarrow> bytes) \<Rightarrow> 'd api_query_params_response \<Rightarrow> bytes" where
  "api_QueryParamsResponse_enc encp m =
     enc_ptr_field encp 0x0a (api_qps_Params m)"

definition api_QueryParamsResponse_ok :: "'d api_params proto_ops \<Rightarrow> ('d api_params \<Rightarrow> bool) \<Rightarrow> 'd api_query_params_response \<Rightarrow> bool" where
  "api_QueryParamsResponse_ok PA okp m \<longleftrightarrow> wf_ptr okp (api_qps_Params m) \<and> raw_fields (api_QueryParamsResponse_fields PA) (unknownFields m)"

lemma api_QueryParamsResponse_fields_simps [simp]:
  "api_QueryParamsResponse_fields PA 1 = Some (ptr_case ''Params'' api_qps_Params (\<lambda>p m. m\<lparr>api_qps_Params := p\<rparr>) PA)"
  by (simp_all add: api_QueryParamsResponse_fields_def)

lemma api_QueryParamsResponse_writes:
  assumes "rt_laws R" "proto_laws PA encp okp" "api_QueryParamsResponse_ok PA okp m"
  shows "writes (api_QueryParamsResponse_body R PA m) (api_QueryParamsResponse_enc encp m @ unknownFields m)"
proof -
  have "writes (api_QueryParamsResponse_body R PA m)
      (enc_ptr_field encp 0x0a (api_qps_Params m)
        @ unknownFields m)"
    unfolding api_QueryParamsResponse_body_def
    by (intro writes_then
        writes_wr_unknown
        rt_laws.writes_wr_message [OF assms(1) assms(2)])
      (use assms(3) in \<open>simp_all add: api_QueryParamsResponse_ok_def\<close>)
  then show ?thesis by (simp add: api_QueryParamsResponse_enc_def)
qed

lemma api_QueryParamsResponse_size_enc:
  assumes "rt_laws R" "proto_laws PA encp okp" "api_QueryParamsResponse_ok PA okp m"
  shows "api_QueryParamsResponse_size R PA (Some m) = int (length (api_QueryParamsResponse_enc encp m @ unknownFields m))"
proof -
  have s0: "size_message R PA (api_qps_Params m) = int (length (enc_ptr_field encp 0x0a (api_qps_Params m)))"
    by (rule rt_laws.size_message_enc [OF assms(1) assms(2)]) (use assms(3) in \<open>simp add: api_QueryParamsResponse_ok_def\<close>)
  show ?thesis
    by (simp add: api_QueryParamsResponse_size_def api_QueryParamsResponse_enc_def size_of_def size_unknown_def s0)
qed

lemma api_QueryParamsResponse_decodes:
  assumes "proto_laws PA encp okp" "api_QueryParamsResponse_ok PA okp m" "length (api_QueryParamsResponse_enc encp m) < 2 ^ 63"
  shows "decodes_k PbRuntime ''QueryParamsResponse'' keep (api_QueryParamsResponse_fields PA) (api_QueryParamsResponse_enc encp m) api_QueryParamsResponse_new (m\<lparr>unknownFields := []\<rparr>)"
proof -
  let ?m1 = "if api_qps_Params m = None then api_QueryParamsResponse_new else api_QueryParamsResponse_new\<lparr>api_qps_Params := api_qps_Params m\<rparr>"
  let ?d = "decodes_k PbRuntime ''QueryParamsResponse'' keep (api_QueryParamsResponse_fields PA)"
  have "?d (enc_ptr_field encp 0x0a (api_qps_Params m)) api_QueryParamsResponse_new ?m1"
    by (rule decodes_ptr [where n = 1], rule api_QueryParamsResponse_fields_simps, rule tags, rule assms(1))
      (use assms(2) assms(3) in \<open>simp_all add: api_QueryParamsResponse_ok_def api_QueryParamsResponse_enc_def api_QueryParamsResponse_new_def\<close>)
  then have "?d (api_QueryParamsResponse_enc encp m) api_QueryParamsResponse_new ?m1"
    unfolding api_QueryParamsResponse_enc_def .
  moreover have "?m1 = m\<lparr>unknownFields := []\<rparr>"
    by (cases m) (simp add: api_QueryParamsResponse_new_def wide_word)
  ultimately show ?thesis by simp
qed

lemma api_QueryParamsResponse_message:
  assumes "rt_laws R" "proto_laws PA encp okp"
  shows "pulsar_message R ''QueryParamsResponse'' (api_QueryParamsResponse_fields PA) (api_QueryParamsResponse_size R PA) (api_QueryParamsResponse_body R PA) (api_QueryParamsResponse_enc encp) api_QueryParamsResponse_new
    (api_QueryParamsResponse_ok PA okp)"
proof -
  have "safe_fields (api_QueryParamsResponse_fields PA)"
    by (rule safe_fieldsI) (auto simp: api_QueryParamsResponse_fields_def intro: safe_ptr_case [OF assms(2)] split: if_splits)
  with assms(1) show ?thesis
    unfolding pulsar_message_def pulsar_message_axioms_def
    using api_QueryParamsResponse_writes [OF assms] api_QueryParamsResponse_size_enc [OF assms] api_QueryParamsResponse_decodes [OF assms(2)]
    by (simp add: api_QueryParamsResponse_ok_def)
qed

lemmas api_QueryParamsResponse_reflect =
  api_QueryParamsResponse_new_def api_QueryParamsResponse_Range_def api_QueryParamsResponse_Has_def api_QueryParamsResponse_Clear_def api_QueryParamsResponse_Get_def api_QueryParamsResponse_Set_def
  api_QueryParamsResponse_Mutable_def api_QueryParamsResponse_NewField_def

lemma api_QueryParamsResponse_reflection:
  fixes MP :: "('v, 'd api_params) msg_value"
  assumes "msg_value_laws MP" "\<And>f. FullName (D f) = ''halbornctf.hal.QueryParamsResponse.'' @ f"
  shows "reflection [''halbornctf.hal.QueryParamsResponse.params'']
    [D ''params''] api_QueryParamsResponse_new api_QueryParamsResponse_Has api_QueryParamsResponse_Clear
    (api_QueryParamsResponse_Get MP) (api_QueryParamsResponse_Set MP) (api_QueryParamsResponse_Mutable PA MP)
    (api_QueryParamsResponse_NewField PA MP) (api_QueryParamsResponse_Range MP D)"
  using assms by unfold_locales (auto simp: api_QueryParamsResponse_reflect reflect_simps split: if_splits)

end
