(* ===== verification/Pulsar_Reference.thy ===== *)
theory Pulsar_Reference
  imports Pulsar_Store Pulsar_Tx Pulsar_Query
begin

text \<open>
  Instances of the packages that the pulsar files call, and the interpretation of their contracts
  for the messages of the model: a runtime that is the code of \<open>x/hal/types\<close>, a proto package that
  dispatches to the closures of \<open>ProtoMethods\<close>, and reflection values as tagged data. A message type of another
  package is kept as its encoded bytes.
\<close>

section \<open>The packages\<close>

definition ref_runtime :: pulsar_rt where
  "ref_runtime = \<lparr>rt_Sov = sov, rt_EncodeVarint = encodeVarint, rt_Skip = skip PbRuntime\<rparr>"

interpretation ref_rt: rt_laws ref_runtime
  by unfold_locales (simp_all add: ref_runtime_def)

definition bytes_ops :: "bytes proto_ops" where
  "bytes_ops = \<lparr>op_Size = \<lambda>m. int (length m), op_Marshal = Ok, op_Unmarshal = \<lambda>bs m. Ok bs, op_new = []\<rparr>"

interpretation ref_bytes: proto_laws bytes_ops "\<lambda>m. m" "\<lambda>_. True"
  by unfold_locales (simp_all add: bytes_ops_def)

definition proto_dispatch :: "bool \<Rightarrow> ('m option \<Rightarrow> int) \<Rightarrow> (('m \<Rightarrow> int) \<Rightarrow> 'm option \<Rightarrow> bytes option \<Rightarrow> bytes option outcome) \<Rightarrow>
    ('m option \<Rightarrow> bytes \<Rightarrow> 'm option outcome) \<Rightarrow> 'm \<Rightarrow> 'm proto_ops" where
  "proto_dispatch merge sz ma un new =
     \<lparr>op_Size = \<lambda>m. sz (Some m),
      op_Marshal = \<lambda>m. bind_o (ma (\<lambda>m. sz (Some m)) (Some m) None) (\<lambda>b. Ok (case b of None \<Rightarrow> [] | Some b \<Rightarrow> b)),
      op_Unmarshal = \<lambda>bs m. result_o (un (Some (if merge then m else new)) bs),
      op_new = new\<rparr>"

lemma dispatches_dispatch:
  "P = proto_dispatch merge sz ma un new \<Longrightarrow> dispatches merge P sz (ma (op_Size P)) un new"
  by (simp add: dispatches_def proto_dispatch_def)

datatype 'm go_value = VString string | VUint64 "64 word" | VUint32 "32 word" | VInt32 "32 word" | VMessage "'m option"

definition ref_values :: "'m go_value value_lib" where
  "ref_values = \<lparr>ValueOfString = VString, ValueOfUint64 = VUint64, ValueOfUint32 = VUint32, ValueOfInt32 = VInt32,
     Value_string = \<lambda>v. case v of VString s \<Rightarrow> Ok s | _ \<Rightarrow> Panic ''interface conversion'',
     Value_Uint = \<lambda>v. case v of VUint64 u \<Rightarrow> Ok u | VUint32 u \<Rightarrow> Ok (ucast u) | _ \<Rightarrow> Panic ''type mismatch'',
     Value_Int = \<lambda>v. case v of VInt32 i \<Rightarrow> Ok (scast i) | _ \<Rightarrow> Panic ''type mismatch''\<rparr>"

interpretation ref_val: value_laws ref_values
  by unfold_locales (simp_all add: ref_values_def)

text \<open>Values of a message type that is injected into the type of all messages.\<close>

definition ref_message :: "('a \<Rightarrow> 'm) \<Rightarrow> ('m \<Rightarrow> 'a option) \<Rightarrow> ('m go_value, 'a) msg_value" where
  "ref_message up down = \<lparr>ValueOfMessage = \<lambda>p. VMessage (map_option up p),
     Value_Message = \<lambda>v. case v of VMessage None \<Rightarrow> Ok None
       | VMessage (Some m) \<Rightarrow> (case down m of Some a \<Rightarrow> Ok (Some a) | None \<Rightarrow> Panic ''interface conversion'')
       | _ \<Rightarrow> Panic ''type mismatch''\<rparr>"

lemma ref_message_laws: "(\<And>a. down (up a) = Some a) \<Longrightarrow> msg_value_laws (ref_message up down)"
  by unfold_locales (simp add: ref_message_def split: option.split)

interpretation ref_msg: msg_value_laws "ref_message Inl (\<lambda>x. case x of Inl a \<Rightarrow> Some a | Inr b \<Rightarrow> None)"
  by (rule ref_message_laws) simp

definition ref_desc :: "string \<Rightarrow> string \<Rightarrow> field_descriptor" where
  "ref_desc msg f = \<lparr>FullName = msg @ ''.'' @ f, IsExtension = False\<rparr>"

section \<open>The contracts for the messages of the model\<close>

interpretation ref_Ticket: pulsar_message ref_runtime "''Ticket''" api_Ticket_fields "api_Ticket_size ref_runtime"
    "api_Ticket_body ref_runtime" api_Ticket_enc api_Ticket_new api_Ticket_ok
  by (rule api_Ticket_message) (rule ref_rt.rt_laws_axioms)

interpretation ref_RedeemRequest: pulsar_message ref_runtime "''RedeemRequest''" "api_RedeemRequest_fields bytes_ops bytes_ops"
    "api_RedeemRequest_size ref_runtime bytes_ops bytes_ops" "api_RedeemRequest_body ref_runtime bytes_ops bytes_ops"
    "api_RedeemRequest_enc (\<lambda>m. m) (\<lambda>m. m)" api_RedeemRequest_new
    "api_RedeemRequest_ok bytes_ops bytes_ops (\<lambda>_. True) (\<lambda>_. True)"
  by (rule api_RedeemRequest_message) (rule ref_rt.rt_laws_axioms ref_bytes.proto_laws_axioms)+

interpretation ref_Ticket_reflection: reflection
    "[''halbornctf.hal.Ticket.author'', ''halbornctf.hal.Ticket.issue'', ''halbornctf.hal.Ticket.id'', ''halbornctf.hal.Ticket.additionalInfo'']"
    "map (ref_desc ''halbornctf.hal.Ticket'') [''author'', ''issue'', ''id'', ''additionalInfo'']"
    api_Ticket_new api_Ticket_Has api_Ticket_Clear "api_Ticket_Get ref_values" "api_Ticket_Set ref_values" api_Ticket_Mutable
    "api_Ticket_NewField ref_values" "api_Ticket_Range ref_values (ref_desc ''halbornctf.hal.Ticket'')"
  using api_Ticket_reflection [OF ref_val.value_laws_axioms, of "ref_desc ''halbornctf.hal.Ticket''"]
  by (simp add: ref_desc_def)

definition meta_ops :: "bool \<Rightarrow> bool \<Rightarrow> api_token_meta proto_ops" where
  "meta_ops merge disc = proto_dispatch merge (api_TokenMeta_size ref_runtime) (api_TokenMeta_marshal ref_runtime)
     (api_TokenMeta_unmarshal ref_runtime disc) api_TokenMeta_new"

lemma meta_dispatches:
  "dispatches merge (meta_ops merge disc) (api_TokenMeta_size ref_runtime)
     (api_TokenMeta_marshal ref_runtime (op_Size (meta_ops merge disc))) (api_TokenMeta_unmarshal ref_runtime disc) api_TokenMeta_new"
  by (rule dispatches_dispatch) (simp add: meta_ops_def)

interpretation ref_meta: proto_laws "meta_ops merge disc" "\<lambda>m. api_TokenMeta_enc m @ unknownFields m"
    "\<lambda>m. api_TokenMeta_ok m \<and> (disc \<longrightarrow> unknownFields m = [])"
  by (rule pulsar_message.proto [OF api_TokenMeta_message [OF ref_rt.rt_laws_axioms]])
    (rule meta_dispatches [unfolded api_TokenMeta_marshal_def api_TokenMeta_unmarshal_def])

definition params_ops :: "bool \<Rightarrow> bool \<Rightarrow> bytes api_params proto_ops" where
  "params_ops merge disc = proto_dispatch merge (api_Params_size ref_runtime bytes_ops (meta_ops merge disc))
     (api_Params_marshal ref_runtime bytes_ops (meta_ops merge disc))
     (api_Params_unmarshal ref_runtime bytes_ops (meta_ops merge disc) disc) api_Params_new"

lemma params_dispatches:
  "dispatches merge (params_ops merge disc) (api_Params_size ref_runtime bytes_ops (meta_ops merge disc))
     (api_Params_marshal ref_runtime bytes_ops (meta_ops merge disc) (op_Size (params_ops merge disc)))
     (api_Params_unmarshal ref_runtime bytes_ops (meta_ops merge disc) disc) api_Params_new"
  by (rule dispatches_dispatch) (simp add: params_ops_def)

interpretation ref_params: proto_laws "params_ops merge disc"
    "\<lambda>m. api_Params_enc (\<lambda>m. m) (\<lambda>m. api_TokenMeta_enc m @ unknownFields m) m @ unknownFields m"
    "\<lambda>m. api_Params_ok bytes_ops (meta_ops merge disc) (\<lambda>_. True) (\<lambda>m. api_TokenMeta_ok m \<and> (disc \<longrightarrow> unknownFields m = [])) m \<and>
       (disc \<longrightarrow> unknownFields m = [])"
  by (rule pulsar_message.proto [OF api_Params_message [OF ref_rt.rt_laws_axioms ref_bytes.proto_laws_axioms ref_meta.proto_laws_axioms]])
    (rule params_dispatches [unfolded api_Params_marshal_def api_Params_unmarshal_def])

end
