(* ===== verification/Pulsar_Agree.thy ===== *)
theory Pulsar_Agree
  imports Pulsar_Store Pulsar_Tx Ticket_Pb Tx_Pb
begin

text \<open>
  The two generated codecs side by side. A message type that both \<open>x/hal/types\<close> and \<open>api/halbornctf/hal\<close> declare
  is decoded by two loops that differ in the error values, in the \<open>skip\<close> function and in what becomes
  of unknown fields; here they are shown to accept the same input, with the same message as result.
\<close>

section \<open>Related outcomes\<close>

definition agree :: "('a \<Rightarrow> 'b \<Rightarrow> bool) \<Rightarrow> 'a outcome \<Rightarrow> 'b outcome \<Rightarrow> bool" where
  "agree rel r s = (case (r, s) of (Ok a, Ok b) \<Rightarrow> rel a b | (Err _, Err _) \<Rightarrow> True | (Panic _, Panic _) \<Rightarrow> True | _ \<Rightarrow> False)"

lemma agree_simps [simp]:
  "agree rel (Ok a) (Ok b) = rel a b" "agree rel (Err e) (Err e')" "agree rel (Panic p) (Panic p')"
  "\<not> agree rel (Ok a) (Err e')" "\<not> agree rel (Ok a) (Panic p')" "\<not> agree rel (Err e) (Ok b)"
  "\<not> agree rel (Err e) (Panic p')" "\<not> agree rel (Panic p) (Ok b)" "\<not> agree rel (Panic p) (Err e')"
  by (simp_all add: agree_def)

lemma agree_bind:
  assumes "agree rel r s" "\<And>a b. r = Ok a \<Longrightarrow> s = Ok b \<Longrightarrow> rel a b \<Longrightarrow> agree rel' (f a) (g b)"
  shows "agree rel' (bind_o r f) (bind_o s g)"
  using assms by (cases r; cases s) auto

lemma agree_eq_Ok: "agree (=) r s \<Longrightarrow> r = Ok a \<Longrightarrow> s = Ok a"
  by (cases s) auto

lemma decode_varint_agree: "agree (=) (decode_varint pf dAtA i s v) (decode_varint pf' dAtA i s v)"
proof (induction pf dAtA i s v rule: decode_varint.induct)
  case (1 pf dAtA i s v)
  show ?case
    by (subst (1 2) decode_varint.simps) (cases "index dAtA i"; auto simp: Let_def intro!: "1.IH")
qed

lemma skip_field_agree: "agree (=) (skip_field pf dAtA t i d) (skip_field pf' dAtA t i d)"
  unfolding skip_field_def
  by (auto simp: Let_def intro!: agree_bind [OF decode_varint_agree])

lemma skip_loop_agree: "agree (=) (skip_loop pf dAtA i d) (skip_loop pf' dAtA i d)"
proof (induction pf dAtA i d rule: skip_loop.induct)
  case (1 pf dAtA i d)
  show ?case
  proof (cases "decode_varint pf dAtA i 0 (0 :: 64 word)")
    case (Ok wi)
    obtain wire i1 where wi: "wi = (wire, i1)" by (cases wi)
    have ok': "decode_varint pf' dAtA i 0 (0 :: 64 word) = Ok (wire, i1)"
      using agree_eq_Ok [OF decode_varint_agree Ok] wi by simp
    note sf = skip_field_agree [of pf dAtA "wire AND 7" i1 d pf']
    show ?thesis
      using sf "1.IH" [OF _ Ok wi [symmetric]]
      by (subst (1 2) skip_loop.simps)
        (cases "skip_field pf dAtA (wire AND 7) i1 d"; cases "skip_field pf' dAtA (wire AND 7) i1 d"; auto simp: Ok wi ok')
  qed (use decode_varint_agree [of pf dAtA i 0 "0 :: 64 word" pf'] in
      \<open>(subst (1 2) skip_loop.simps, cases "decode_varint pf' dAtA i 0 (0 :: 64 word)"; auto)\<close>)+
qed

lemma skip_agree: "agree (=) (skip pf dAtA) (skip pf' dAtA)"
  by (simp add: skip_def skip_loop_agree)

section \<open>Related field tables\<close>

text \<open>The same field numbers with the same kind of field, and related messages stay related.\<close>

fun case_agree :: "('a \<Rightarrow> 'b \<Rightarrow> bool) \<Rightarrow> 'a field_case option \<Rightarrow> 'b field_case option \<Rightarrow> bool" where
  "case_agree rel None None \<longleftrightarrow> True"
| "case_agree rel (Some (LenDelim n f)) (Some (LenDelim n' g)) \<longleftrightarrow> (\<forall>bs a b. rel a b \<longrightarrow> agree rel (f bs a) (g bs b))"
| "case_agree rel (Some (Varint n f)) (Some (Varint n' g)) \<longleftrightarrow> (\<forall>v a b. rel a b \<longrightarrow> rel (f v a) (g v b))"
| "case_agree rel _ _ \<longleftrightarrow> False"

lemma unmarshal_field_agree:
  assumes fs: "case_agree rel (fs n) (gs n)" and keep: "\<And>raw a b. rel a b \<Longrightarrow> rel (k raw a) (k' raw b)" and ab: "rel a b"
  shows "agree (\<lambda>(a, i) (b, j). rel a b \<and> i = j)
    (unmarshal_field pf (skip pf) k fs dAtA pre i n t a) (unmarshal_field pf' (skip pf') k' gs dAtA pre i n t b)"
proof (cases "fs n")
  case None
  with fs have "gs n = None" by (cases "gs n") auto
  with None show ?thesis
    by (auto simp: unmarshal_field_def Let_def intro!: agree_bind [of "(=)" "slice _ _ _"] agree_bind [OF skip_agree] keep ab)
      (cases "slice dAtA pre (int (length dAtA))"; simp)
next
  case (Some c)
  show ?thesis
  proof (cases c)
    case (LenDelim name f)
    with Some fs obtain name' g where g: "gs n = Some (LenDelim name' g)" "\<forall>bs a b. rel a b \<longrightarrow> agree rel (f bs a) (g bs b)"
      by (cases "gs n"; simp; cases "the (gs n)"; simp)
    have "agree (=) (slice dAtA lo hi) (slice dAtA lo hi)" for lo hi
      by (cases "slice dAtA lo hi") simp_all
    with Some LenDelim g ab show ?thesis
      by (auto simp: unmarshal_field_def Let_def intro!: agree_bind [OF decode_varint_agree] agree_bind [of "(=)" "slice _ _ _"] agree_bind [of rel])
  next
    case (Varint name f)
    with Some fs obtain name' g where g: "gs n = Some (Varint name' g)" "\<forall>v a b. rel a b \<longrightarrow> rel (f v a) (g v b)"
      by (cases "gs n"; simp; cases "the (gs n)"; simp)
    with Some Varint ab show ?thesis
      by (auto simp: unmarshal_field_def Let_def intro!: agree_bind [OF decode_varint_agree])
  qed
qed

lemma unmarshal_loop_agree:
  assumes fs: "\<And>n. case_agree rel (fs n) (gs n)" and keep: "\<And>raw a b. rel a b \<Longrightarrow> rel (k raw a) (k' raw b)" and ab: "rel a b"
  shows "agree rel (unmarshal_loop pf msg k fs dAtA i a) (unmarshal_loop pf' msg' k' gs dAtA i b)"
  using assms
proof (induction pf msg k fs dAtA i a arbitrary: b rule: unmarshal_loop.induct)
  case (1 pf msg k fs dAtA i a)
  show ?case
  proof (cases "decode_varint pf dAtA i 0 (0 :: 64 word)")
    case (Ok wi)
    obtain wire i1 where wi: "wi = (wire, i1)" by (cases wi)
    have ok': "decode_varint pf' dAtA i 0 (0 :: 64 word) = Ok (wire, i1)"
      using agree_eq_Ok [OF decode_varint_agree Ok] wi by simp
    let ?u = "unmarshal_field pf (skip pf) k fs dAtA i i1 (wire_field wire) (wire_type wire) a"
    let ?u' = "unmarshal_field pf' (skip pf') k' gs dAtA i i1 (wire_field wire) (wire_type wire) b"
    have uf: "agree (\<lambda>(a, i) (b, j). rel a b \<and> i = j) ?u ?u'"
      by (rule unmarshal_field_agree) (use "1.prems" in auto)
    have rec: "agree rel (unmarshal_loop pf msg k fs dAtA i2 a2) (unmarshal_loop pf' msg' k' gs dAtA i2 b2)"
      if "i < int (length dAtA)" "wire_type wire \<noteq> 4" "\<not> wire_field wire \<le> 0" "?u = Ok (a2, i2)" "rel a2 b2" for a2 b2 i2
      using "1.IH" [OF that(1) Ok wi [symmetric] that(2-4) refl "1.prems"(1,2) that(5)] by simp
    show ?thesis
      using uf rec
      by (subst (1 2) unmarshal_loop.simps) (cases ?u; cases ?u'; auto simp: Ok wi ok' "1.prems"(3))
  qed (use decode_varint_agree [of pf dAtA i 0 "0 :: 64 word" pf'] "1.prems"(3) in
      \<open>(subst (1 2) unmarshal_loop.simps, cases "decode_varint pf' dAtA i 0 (0 :: 64 word)"; auto)\<close>)+
qed

section \<open>Messages that both codecs know\<close>

lemma p_unmarshal_agree:
  assumes "rt_laws R" "\<And>n. case_agree rel (fs n) (gs n)" "\<And>a b u. rel a b \<Longrightarrow> rel a (b\<lparr>unknownFields := u\<rparr>)" "rel a b"
  shows "agree (\<lambda>a y. y \<noteq> None \<and> rel a (the y)) (unmarshal pf msg fs a dAtA) (p_unmarshal R disc msg' gs (Some b) dAtA)"
proof -
  have "agree rel (unmarshal_loop pf msg (\<lambda>_ m. m) fs dAtA 0 a)
      (unmarshal_loop PbRuntime msg' (keep_unknown disc) gs dAtA 0 b)"
    by (rule unmarshal_loop_agree) (use assms in \<open>auto simp: keep_unknown_def\<close>)
  then show ?thesis
    unfolding unmarshal_def p_unmarshal_def
    by (cases "unmarshal_loop pf msg (\<lambda>_ m. m) fs dAtA 0 a";
        cases "unmarshal_loop PbRuntime msg' (keep_unknown disc) gs dAtA 0 b")
      (auto simp: rt_laws.p_loop_eq [OF assms(1)] simp del: p_unmarshal_loop.simps)
qed

text \<open>What a message of \<open>api/halbornctf/hal\<close> is as one of \<open>x/hal/types\<close>, which has no unknown fields.\<close>

definition ticket_of_api :: "api_ticket \<Rightarrow> ticket" where
  "ticket_of_api x = \<lparr>tk_Author = api_tk_Author x, tk_Issue = api_tk_Issue x, tk_Id = api_tk_Id x,
     tk_AdditionalInfo = api_tk_AdditionalInfo x\<rparr>"

lemma Ticket_cases_agree:
  "case_agree (\<lambda>t x. ticket_of_api x = t) (Ticket_fields n) (api_Ticket_fields n)"
  by (simp add: Ticket_fields_def api_Ticket_fields_def string_case_def ticket_of_api_def)

lemma Ticket_enc_agree: "api_Ticket_enc x = Ticket_enc (ticket_of_api x)"
  by (simp add: api_Ticket_enc_def Ticket_enc_def ticket_of_api_def)

definition create_ticket_of_api :: "api_create_ticket \<Rightarrow> msg_create_ticket" where
  "create_ticket_of_api x = \<lparr>ct_Creator = api_ct_Creator x, ct_Author = api_ct_Author x, ct_Issue = api_ct_Issue x\<rparr>"

lemma CreateTicket_cases_agree:
  "case_agree (\<lambda>t x. create_ticket_of_api x = t) (MsgCreateTicket_fields n) (api_MsgCreateTicket_fields n)"
  by (simp add: MsgCreateTicket_fields_def api_MsgCreateTicket_fields_def string_case_def create_ticket_of_api_def)

lemma CreateTicket_enc_agree: "api_MsgCreateTicket_enc x = MsgCreateTicket_enc (create_ticket_of_api x)"
  by (simp add: api_MsgCreateTicket_enc_def MsgCreateTicket_enc_def create_ticket_of_api_def)

definition token_meta_of_api :: "api_token_meta \<Rightarrow> token_meta" where
  "token_meta_of_api x = \<lparr>tm_Denom = api_tm_Denom x, tm_Decimals = api_tm_Decimals x, tm_Description = api_tm_Description x\<rparr>"

lemma TokenMeta_cases_agree:
  "case_agree (\<lambda>t x. token_meta_of_api x = t) (TokenMeta_fields n) (api_TokenMeta_fields n)"
  by (simp add: TokenMeta_fields_def api_TokenMeta_fields_def string_case_def token_meta_of_api_def)

lemma TokenMeta_enc_agree: "api_TokenMeta_enc x = TokenMeta_enc (token_meta_of_api x)"
  by (simp add: api_TokenMeta_enc_def TokenMeta_enc_def token_meta_of_api_def)

end
