(* ===== verification/Pulsar_Desc.thy ===== *)
theory Pulsar_Desc
  imports Pulsar_Store Pulsar_Tx Pulsar_Query
begin

text \<open>
  The raw file descriptors of the files \<open>api/halbornctf/hal/*.pulsar.go\<close>, which protoimpl registers and the reflection
  methods refer to. A descriptor is itself in the protobuf format; a reader of that format extracts the
  messages with the name, number and type of every field, and the lemmas compare them with the
  generated code.
\<close>

section \<open>Reading a file descriptor\<close>

fun rd_varint :: "int list \<Rightarrow> (int \<times> int list) option" where
  "rd_varint [] = None"
| "rd_varint (b # bs) =
     (if b < 128 then Some (b, bs)
      else case rd_varint bs of None \<Rightarrow> None | Some (v, rest) \<Rightarrow> Some (b - 128 + 128 * v, rest))"

fun split_bytes :: "int \<Rightarrow> int list \<Rightarrow> int list \<Rightarrow> (int list \<times> int list) option" where
  "split_bytes n acc [] = (if n \<le> 0 then Some (rev acc, []) else None)"
| "split_bytes n acc (b # bs) = (if n \<le> 0 then Some (rev acc, b # bs) else split_bytes (n - 1) (b # acc) bs)"

lemma rd_varint_shorter: "rd_varint bs = Some (v, rest) \<Longrightarrow> length rest < length bs"
  by (induction bs arbitrary: v rest) (fastforce split: if_splits option.splits)+

lemma split_bytes_shorter: "split_bytes n acc bs = Some (xs, rest) \<Longrightarrow> length rest \<le> length bs"
  by (induction n acc bs arbitrary: xs rest rule: split_bytes.induct) (fastforce split: if_splits option.splits)+

text \<open>The fields of a message in the wire format: field number and value, an integer or bytes. Other wire types do not
  occur in descriptors.\<close>

datatype wire_value = WInt int | WBytes "int list"

function wire_items :: "int list \<Rightarrow> (int \<times> wire_value) list option" where
  "wire_items bs =
     (if bs = [] then Some []
      else case rd_varint bs of
        None \<Rightarrow> None
      | Some (tag, r1) \<Rightarrow>
          (case rd_varint r1 of
             None \<Rightarrow> None
           | Some (v, r2) \<Rightarrow>
               if tag mod 8 = 0 then map_option ((#) (tag div 8, WInt v)) (wire_items r2)
               else if tag mod 8 = 2 then
                 (case split_bytes v [] r2 of
                    None \<Rightarrow> None
                  | Some (xs, r3) \<Rightarrow> map_option ((#) (tag div 8, WBytes xs)) (wire_items r3))
               else None))"
  by pat_completeness auto
termination
  by (relation "measure length") (auto dest!: rd_varint_shorter split_bytes_shorter)

declare wire_items.simps [simp del]

definition bytes_at :: "int \<Rightarrow> (int \<times> wire_value) list \<Rightarrow> int list list" where
  "bytes_at n items = concat (map (\<lambda>(k, v). case v of WBytes b \<Rightarrow> if k = n then [b] else [] | WInt _ \<Rightarrow> []) items)"

definition int_at :: "int \<Rightarrow> (int \<times> wire_value) list \<Rightarrow> int" where
  "int_at n items = (case concat (map (\<lambda>(k, v). case v of WInt i \<Rightarrow> if k = n then [i] else [] | WBytes _ \<Rightarrow> []) items) of
     [] \<Rightarrow> 0 | i # _ \<Rightarrow> i)"

definition name_at :: "int \<Rightarrow> (int \<times> wire_value) list \<Rightarrow> string" where
  "name_at n items = map char_of (concat (bytes_at n items))"

fun all_some :: "'a option list \<Rightarrow> 'a list option" where
  "all_some [] = Some []"
| "all_some (None # xs) = None"
| "all_some (Some x # xs) = map_option ((#) x) (all_some xs)"

text \<open>Name, number and type of a field: fields 1, 3 and 5 of \<open>FieldDescriptorProto\<close>; name and fields of a message: fields 1 and 2
  of \<open>DescriptorProto\<close>; package and messages of a file: fields 2 and 4 of \<open>FileDescriptorProto\<close>.\<close>

type_synonym field_decl = "string \<times> int \<times> int"

definition rd_field :: "int list \<Rightarrow> field_decl option" where
  "rd_field bs = map_option (\<lambda>it. (name_at 1 it, int_at 3 it, int_at 5 it)) (wire_items bs)"

definition rd_message :: "int list \<Rightarrow> (string \<times> field_decl list) option" where
  "rd_message bs = (case wire_items bs of None \<Rightarrow> None
     | Some it \<Rightarrow> map_option (Pair (name_at 1 it)) (all_some (map rd_field (bytes_at 2 it))))"

text \<open>Name, request and response of a method: fields 1, 2 and 3 of \<open>MethodDescriptorProto\<close>; name and methods of a service: fields 1 and 2
  of \<open>ServiceDescriptorProto\<close>; the services of a file are its field 6.\<close>

type_synonym method_decl = "string \<times> string \<times> string"

definition rd_method :: "int list \<Rightarrow> method_decl option" where
  "rd_method bs = map_option (\<lambda>it. (name_at 1 it, name_at 2 it, name_at 3 it)) (wire_items bs)"

definition rd_service :: "int list \<Rightarrow> (string \<times> method_decl list) option" where
  "rd_service bs = (case wire_items bs of None \<Rightarrow> None
     | Some it \<Rightarrow> map_option (Pair (name_at 1 it)) (all_some (map rd_method (bytes_at 2 it))))"

record file_decl =
  fd_package :: string
  fd_messages :: "(string \<times> field_decl list) list"
  fd_services :: "(string \<times> method_decl list) list"

definition file_of_items :: "(int \<times> wire_value) list \<Rightarrow> file_decl option" where
  "file_of_items it =
     (case (all_some (map rd_message (bytes_at 4 it)), all_some (map rd_service (bytes_at 6 it))) of
        (Some msgs, Some svcs) \<Rightarrow> Some \<lparr>fd_package = name_at 2 it, fd_messages = msgs, fd_services = svcs\<rparr>
      | _ \<Rightarrow> None)"

definition rd_file :: "int list \<Rightarrow> file_decl option" where
  "rd_file bs = (case wire_items bs of None \<Rightarrow> None | Some it \<Rightarrow> file_of_items it)"

section \<open>Reading in parts\<close>

text \<open>Input that is cut at the end of a field can be read part by part.\<close>

lemma rd_varint_append: "rd_varint xs = Some (v, rest) \<Longrightarrow> rd_varint (xs @ ys) = Some (v, rest @ ys)"
  by (induction xs arbitrary: v rest) (fastforce split: if_splits option.splits)+

lemma split_bytes_append: "split_bytes n acc xs = Some (us, rest) \<Longrightarrow> split_bytes n acc (xs @ ys) = Some (us, rest @ ys)"
proof (induction n acc xs arbitrary: us rest rule: split_bytes.induct)
  case (1 n acc)
  then show ?case by (cases ys) (auto split: if_splits)
qed (auto split: if_splits)

lemma wire_items_append: "wire_items xs = Some a \<Longrightarrow> wire_items (xs @ ys) = map_option ((@) a) (wire_items ys)"
proof (induction xs arbitrary: a rule: wire_items.induct)
  case (1 bs)
  show ?case
  proof (cases "bs = []")
    case True
    then have "a = []" using "1.prems" by (simp add: wire_items.simps [of "[]"])
    then show ?thesis using True by (cases "wire_items ys") simp_all
  next
    case False
    then obtain tag r1 v r2 where r: "rd_varint bs = Some (tag, r1)" "rd_varint r1 = Some (v, r2)"
      using "1.prems" by (auto simp: wire_items.simps [of bs] split: option.splits)
    note app = rd_varint_append [OF r(1), of ys] rd_varint_append [OF r(2), of ys]
    show ?thesis
    proof (cases "tag mod 8 = 0")
      case True
      then obtain b where b: "wire_items r2 = Some b" "a = (tag div 8, WInt v) # b"
        using "1.prems" False r by (auto simp: wire_items.simps [of bs])
      show ?thesis
        using "1.IH"(1) [OF False r(1) refl r(2) refl True b(1)] False app True b(2)
        by (cases "wire_items ys") (simp_all add: wire_items.simps [of "bs @ ys"])
    next
      case other: False
      then obtain xs r3 b where b: "tag mod 8 = 2" "split_bytes v [] r2 = Some (xs, r3)" "wire_items r3 = Some b"
          "a = (tag div 8, WBytes xs) # b"
        using "1.prems" False r by (auto simp: wire_items.simps [of bs] split: if_splits option.splits)
      show ?thesis
        using "1.IH"(2) [OF False r(1) refl r(2) refl other b(1,2) refl b(3)] False app b split_bytes_append [OF b(2), of ys]
        by (cases "wire_items ys") (simp_all add: wire_items.simps [of "bs @ ys"])
    qed
  qed
qed

fun rd_parts :: "int list list \<Rightarrow> (int \<times> wire_value) list option" where
  "rd_parts [] = Some []"
| "rd_parts (p # ps) = (case wire_items p of None \<Rightarrow> None | Some a \<Rightarrow> map_option ((@) a) (rd_parts ps))"

lemma rd_parts_concat: "rd_parts ps = Some a \<Longrightarrow> wire_items (concat ps) = Some a"
  by (induction ps arbitrary: a) (auto simp: wire_items.simps [of "[]"] wire_items_append split: option.splits)

text \<open>A byte slice given by its values; the descriptors below have a break after each field of the file.\<close>

definition byte_list :: "int list \<Rightarrow> bytes" where
  "byte_list xs = map word_of_int xs"

definition are_bytes :: "int list \<Rightarrow> bool" where
  "are_bytes xs = list_all (\<lambda>b. 0 \<le> b \<and> b < 256) xs"

lemma uint_byte_list: "are_bytes xs \<Longrightarrow> map uint (byte_list xs) = xs"
  by (induction xs) (auto simp: are_bytes_def byte_list_def uint_word_of_int)

lemma rd_file_parts:
  assumes "list_all are_bytes ps" "rd_parts ps = Some it" "file_of_items it = r"
  shows "rd_file (map uint (byte_list (concat ps))) = r"
proof -
  have "are_bytes (concat ps)" using assms(1) by (auto simp: are_bytes_def list_all_iff)
  then show ?thesis using rd_parts_concat [OF assms(2)] assms(3) by (simp add: uint_byte_list rd_file_def)
qed

lemma rd_file_eval:
  "list_all are_bytes ps \<Longrightarrow> (case rd_parts ps of None \<Rightarrow> None | Some it \<Rightarrow> file_of_items it) = Some r \<Longrightarrow>
     rd_file (map uint (byte_list (concat ps))) = Some r"
  by (cases "rd_parts ps") (auto intro: rd_file_parts)

section \<open>Descriptor and code\<close>

text \<open>The wire type of a field type: strings (9) and messages (11) are length-delimited, the integer types 4, 5 and 13 are varints.\<close>

definition type_wire :: "int \<Rightarrow> int" where
  "type_wire t = (if t \<in> {9, 11} then 2 else 0)"

fun case_wire :: "'m field_case \<Rightarrow> int" where
  "case_wire (LenDelim name st) = 2"
| "case_wire (Varint name st) = 0"

lemma case_wire_simps [simp]: "case_wire (string_case name put) = 2" "case_wire (ptr_case name get put' P) = 2"
  by (simp_all add: string_case_def ptr_case_def)

text \<open>The switch on the field number decodes exactly the declared fields, with the wire type of their type, and the
  switch on the full name knows exactly the declared fields.\<close>

definition code_matches :: "string \<Rightarrow> field_decl list \<Rightarrow> 'm fields \<Rightarrow> (field_descriptor \<Rightarrow> 'm option \<Rightarrow> bool outcome) \<Rightarrow> bool" where
  "code_matches full decls table Has \<longleftrightarrow>
     (\<forall>n. map_option case_wire (table n) = map_of (map (\<lambda>(f, n, t). (n, type_wire t)) decls) n) \<and>
     (\<forall>fd m. is_Panic (Has fd (Some m)) \<longleftrightarrow> FullName fd \<notin> set (map (\<lambda>(f, n, t). full @ ''.'' @ f) decls))"

definition declares :: "bytes \<Rightarrow> string \<Rightarrow> 'm fields \<Rightarrow> (field_descriptor \<Rightarrow> 'm option \<Rightarrow> bool outcome) \<Rightarrow> bool" where
  "declares raw msg table Has = (case rd_file (map uint raw) of None \<Rightarrow> False
     | Some fd \<Rightarrow> (case map_of (fd_messages fd) msg of None \<Rightarrow> False
         | Some decls \<Rightarrow> code_matches (fd_package fd @ ''.'' @ msg) decls table Has))"


section \<open>tickets.pulsar.go\<close>

definition file_halbornctf_hal_tickets_proto_rawDesc :: bytes where
  "file_halbornctf_hal_tickets_proto_rawDesc = byte_list (concat
    [[0x0a, 0x1c, 0x68, 0x61, 0x6c, 0x62, 0x6f, 0x72, 0x6e, 0x63, 0x74, 0x66, 0x2f, 0x68, 0x61, 0x6c,
      0x2f, 0x74, 0x69, 0x63, 0x6b, 0x65, 0x74, 0x73, 0x2e, 0x70, 0x72, 0x6f, 0x74, 0x6f],
     [0x12, 0x0e, 0x68, 0x61, 0x6c, 0x62, 0x6f, 0x72, 0x6e, 0x63, 0x74, 0x66, 0x2e, 0x68, 0x61, 0x6c],
     [0x22, 0x6e, 0x0a, 0x06, 0x54, 0x69, 0x63, 0x6b, 0x65, 0x74, 0x12, 0x16, 0x0a, 0x06, 0x61, 0x75,
      0x74, 0x68, 0x6f, 0x72, 0x18, 0x01, 0x20, 0x01, 0x28, 0x09, 0x52, 0x06, 0x61, 0x75, 0x74, 0x68,
      0x6f, 0x72, 0x12, 0x14, 0x0a, 0x05, 0x69, 0x73, 0x73, 0x75, 0x65, 0x18, 0x02, 0x20, 0x01, 0x28,
      0x09, 0x52, 0x05, 0x69, 0x73, 0x73, 0x75, 0x65, 0x12, 0x0e, 0x0a, 0x02, 0x69, 0x64, 0x18, 0x03,
      0x20, 0x01, 0x28, 0x04, 0x52, 0x02, 0x69, 0x64, 0x12, 0x26, 0x0a, 0x0e, 0x61, 0x64, 0x64, 0x69,
      0x74, 0x69, 0x6f, 0x6e, 0x61, 0x6c, 0x49, 0x6e, 0x66, 0x6f, 0x18, 0x04, 0x20, 0x01, 0x28, 0x09,
      0x52, 0x0e, 0x61, 0x64, 0x64, 0x69, 0x74, 0x69, 0x6f, 0x6e, 0x61, 0x6c, 0x49, 0x6e, 0x66, 0x6f],
     [0x42, 0x9a, 0x01, 0x0a, 0x12, 0x63, 0x6f, 0x6d, 0x2e, 0x68, 0x61, 0x6c, 0x62, 0x6f, 0x72, 0x6e,
      0x63, 0x74, 0x66, 0x2e, 0x68, 0x61, 0x6c, 0x42, 0x0c, 0x54, 0x69, 0x63, 0x6b, 0x65, 0x74, 0x73,
      0x50, 0x72, 0x6f, 0x74, 0x6f, 0x50, 0x01, 0x5a, 0x1d, 0x48, 0x61, 0x6c, 0x62, 0x6f, 0x72, 0x6e,
      0x43, 0x54, 0x46, 0x2f, 0x61, 0x70, 0x69, 0x2f, 0x68, 0x61, 0x6c, 0x62, 0x6f, 0x72, 0x6e, 0x63,
      0x74, 0x66, 0x2f, 0x68, 0x61, 0x6c, 0xa2, 0x02, 0x03, 0x48, 0x48, 0x58, 0xaa, 0x02, 0x0e, 0x48,
      0x61, 0x6c, 0x62, 0x6f, 0x72, 0x6e, 0x63, 0x74, 0x66, 0x2e, 0x48, 0x61, 0x6c, 0xca, 0x02, 0x0e,
      0x48, 0x61, 0x6c, 0x62, 0x6f, 0x72, 0x6e, 0x63, 0x74, 0x66, 0x5c, 0x48, 0x61, 0x6c, 0xe2, 0x02,
      0x1a, 0x48, 0x61, 0x6c, 0x62, 0x6f, 0x72, 0x6e, 0x63, 0x74, 0x66, 0x5c, 0x48, 0x61, 0x6c, 0x5c,
      0x47, 0x50, 0x42, 0x4d, 0x65, 0x74, 0x61, 0x64, 0x61, 0x74, 0x61, 0xea, 0x02, 0x0f, 0x48, 0x61,
      0x6c, 0x62, 0x6f, 0x72, 0x6e, 0x63, 0x74, 0x66, 0x3a, 0x3a, 0x48, 0x61, 0x6c],
     [0x62, 0x06, 0x70, 0x72, 0x6f, 0x74, 0x6f, 0x33]])"

lemma tickets_file:
  "rd_file (map uint file_halbornctf_hal_tickets_proto_rawDesc) = Some \<lparr>fd_package = ''halbornctf.hal'',
    fd_messages = [(''Ticket'', [(''author'', 1, 9), (''issue'', 2, 9), (''id'', 3, 4), (''additionalInfo'', 4, 9)])],
    fd_services = []\<rparr>"
  unfolding file_halbornctf_hal_tickets_proto_rawDesc_def by (rule rd_file_eval; code_simp)

lemma Ticket_declared: "declares file_halbornctf_hal_tickets_proto_rawDesc ''Ticket'' (api_Ticket_fields) api_Ticket_Has"
  by (simp add: declares_def tickets_file code_matches_def type_wire_def api_Ticket_fields_def api_Ticket_Has_def no_field_def deref_def)

section \<open>redeem_request.pulsar.go\<close>

definition file_halbornctf_hal_redeem_request_proto_rawDesc :: bytes where
  "file_halbornctf_hal_redeem_request_proto_rawDesc = byte_list (concat
    [[0x0a, 0x23, 0x68, 0x61, 0x6c, 0x62, 0x6f, 0x72, 0x6e, 0x63, 0x74, 0x66, 0x2f, 0x68, 0x61, 0x6c,
      0x2f, 0x72, 0x65, 0x64, 0x65, 0x65, 0x6d, 0x5f, 0x72, 0x65, 0x71, 0x75, 0x65, 0x73, 0x74, 0x2e,
      0x70, 0x72, 0x6f, 0x74, 0x6f],
     [0x12, 0x0e, 0x68, 0x61, 0x6c, 0x62, 0x6f, 0x72, 0x6e, 0x63, 0x74, 0x66, 0x2e, 0x68, 0x61, 0x6c],
     [0x1a, 0x14, 0x67, 0x6f, 0x67, 0x6f, 0x70, 0x72, 0x6f, 0x74, 0x6f, 0x2f, 0x67, 0x6f, 0x67, 0x6f,
      0x2e, 0x70, 0x72, 0x6f, 0x74, 0x6f],
     [0x1a, 0x1e, 0x63, 0x6f, 0x73, 0x6d, 0x6f, 0x73, 0x2f, 0x62, 0x61, 0x73, 0x65, 0x2f, 0x76, 0x31,
      0x62, 0x65, 0x74, 0x61, 0x31, 0x2f, 0x63, 0x6f, 0x69, 0x6e, 0x2e, 0x70, 0x72, 0x6f, 0x74, 0x6f],
     [0x1a, 0x1f, 0x67, 0x6f, 0x6f, 0x67, 0x6c, 0x65, 0x2f, 0x70, 0x72, 0x6f, 0x74, 0x6f, 0x62, 0x75,
      0x66, 0x2f, 0x74, 0x69, 0x6d, 0x65, 0x73, 0x74, 0x61, 0x6d, 0x70, 0x2e, 0x70, 0x72, 0x6f, 0x74,
      0x6f],
     [0x22, 0xd2, 0x01, 0x0a, 0x0d, 0x52, 0x65, 0x64, 0x65, 0x65, 0x6d, 0x52, 0x65, 0x71, 0x75, 0x65,
      0x73, 0x74, 0x12, 0x18, 0x0a, 0x07, 0x61, 0x63, 0x63, 0x6f, 0x75, 0x6e, 0x74, 0x18, 0x01, 0x20,
      0x01, 0x28, 0x09, 0x52, 0x07, 0x61, 0x63, 0x63, 0x6f, 0x75, 0x6e, 0x74, 0x12, 0x3f, 0x0a, 0x0a,
      0x63, 0x6f, 0x6c, 0x6c, 0x61, 0x74, 0x65, 0x72, 0x61, 0x6c, 0x18, 0x02, 0x20, 0x01, 0x28, 0x0b,
      0x32, 0x19, 0x2e, 0x63, 0x6f, 0x73, 0x6d, 0x6f, 0x73, 0x2e, 0x62, 0x61, 0x73, 0x65, 0x2e, 0x76,
      0x31, 0x62, 0x65, 0x74, 0x61, 0x31, 0x2e, 0x43, 0x6f, 0x69, 0x6e, 0x42, 0x04, 0xc8, 0xde, 0x1f,
      0x00, 0x52, 0x0a, 0x63, 0x6f, 0x6c, 0x6c, 0x61, 0x74, 0x65, 0x72, 0x61, 0x6c, 0x12, 0x66, 0x0a,
      0x0e, 0x63, 0x6f, 0x6d, 0x70, 0x6c, 0x65, 0x74, 0x69, 0x6f, 0x6e, 0x74, 0x69, 0x6d, 0x65, 0x18,
      0x03, 0x20, 0x01, 0x28, 0x0b, 0x32, 0x1a, 0x2e, 0x67, 0x6f, 0x6f, 0x67, 0x6c, 0x65, 0x2e, 0x70,
      0x72, 0x6f, 0x74, 0x6f, 0x62, 0x75, 0x66, 0x2e, 0x54, 0x69, 0x6d, 0x65, 0x73, 0x74, 0x61, 0x6d,
      0x70, 0x42, 0x22, 0xc8, 0xde, 0x1f, 0x00, 0xf2, 0xde, 0x1f, 0x16, 0x79, 0x61, 0x6d, 0x6c, 0x3a,
      0x22, 0x63, 0x6f, 0x6d, 0x70, 0x6c, 0x65, 0x74, 0x69, 0x6f, 0x6e, 0x5f, 0x74, 0x69, 0x6d, 0x65,
      0x22, 0x90, 0xdf, 0x1f, 0x01, 0x52, 0x0e, 0x63, 0x6f, 0x6d, 0x70, 0x6c, 0x65, 0x74, 0x69, 0x6f,
      0x6e, 0x74, 0x69, 0x6d, 0x65],
     [0x42, 0xa0, 0x01, 0x0a, 0x12, 0x63, 0x6f, 0x6d, 0x2e, 0x68, 0x61, 0x6c, 0x62, 0x6f, 0x72, 0x6e,
      0x63, 0x74, 0x66, 0x2e, 0x68, 0x61, 0x6c, 0x42, 0x12, 0x52, 0x65, 0x64, 0x65, 0x65, 0x6d, 0x52,
      0x65, 0x71, 0x75, 0x65, 0x73, 0x74, 0x50, 0x72, 0x6f, 0x74, 0x6f, 0x50, 0x01, 0x5a, 0x1d, 0x48,
      0x61, 0x6c, 0x62, 0x6f, 0x72, 0x6e, 0x43, 0x54, 0x46, 0x2f, 0x61, 0x70, 0x69, 0x2f, 0x68, 0x61,
      0x6c, 0x62, 0x6f, 0x72, 0x6e, 0x63, 0x74, 0x66, 0x2f, 0x68, 0x61, 0x6c, 0xa2, 0x02, 0x03, 0x48,
      0x48, 0x58, 0xaa, 0x02, 0x0e, 0x48, 0x61, 0x6c, 0x62, 0x6f, 0x72, 0x6e, 0x63, 0x74, 0x66, 0x2e,
      0x48, 0x61, 0x6c, 0xca, 0x02, 0x0e, 0x48, 0x61, 0x6c, 0x62, 0x6f, 0x72, 0x6e, 0x63, 0x74, 0x66,
      0x5c, 0x48, 0x61, 0x6c, 0xe2, 0x02, 0x1a, 0x48, 0x61, 0x6c, 0x62, 0x6f, 0x72, 0x6e, 0x63, 0x74,
      0x66, 0x5c, 0x48, 0x61, 0x6c, 0x5c, 0x47, 0x50, 0x42, 0x4d, 0x65, 0x74, 0x61, 0x64, 0x61, 0x74,
      0x61, 0xea, 0x02, 0x0f, 0x48, 0x61, 0x6c, 0x62, 0x6f, 0x72, 0x6e, 0x63, 0x74, 0x66, 0x3a, 0x3a,
      0x48, 0x61, 0x6c],
     [0x62, 0x06, 0x70, 0x72, 0x6f, 0x74, 0x6f, 0x33]])"

lemma redeem_request_file:
  "rd_file (map uint file_halbornctf_hal_redeem_request_proto_rawDesc) = Some \<lparr>fd_package = ''halbornctf.hal'',
    fd_messages = [(''RedeemRequest'', [(''account'', 1, 9), (''collateral'', 2, 11), (''completiontime'', 3, 11)])],
    fd_services = []\<rparr>"
  unfolding file_halbornctf_hal_redeem_request_proto_rawDesc_def by (rule rd_file_eval; code_simp)

lemma RedeemRequest_declared: "declares file_halbornctf_hal_redeem_request_proto_rawDesc ''RedeemRequest'' (api_RedeemRequest_fields C T) api_RedeemRequest_Has"
  by (simp add: declares_def redeem_request_file code_matches_def type_wire_def api_RedeemRequest_fields_def api_RedeemRequest_Has_def no_field_def deref_def)

section \<open>params.pulsar.go\<close>

definition file_halbornctf_hal_params_proto_rawDesc :: bytes where
  "file_halbornctf_hal_params_proto_rawDesc = byte_list (concat
    [[0x0a, 0x1b, 0x68, 0x61, 0x6c, 0x62, 0x6f, 0x72, 0x6e, 0x63, 0x74, 0x66, 0x2f, 0x68, 0x61, 0x6c,
      0x2f, 0x70, 0x61, 0x72, 0x61, 0x6d, 0x73, 0x2e, 0x70, 0x72, 0x6f, 0x74, 0x6f],
     [0x12, 0x0e, 0x68, 0x61, 0x6c, 0x62, 0x6f, 0x72, 0x6e, 0x63, 0x74, 0x66, 0x2e, 0x68, 0x61, 0x6c],
     [0x1a, 0x11, 0x61, 0x6d, 0x69, 0x6e, 0x6f, 0x2f, 0x61, 0x6d, 0x69, 0x6e, 0x6f, 0x2e, 0x70, 0x72,
      0x6f, 0x74, 0x6f],
     [0x1a, 0x14, 0x67, 0x6f, 0x67, 0x6f, 0x70, 0x72, 0x6f, 0x74, 0x6f, 0x2f, 0x67, 0x6f, 0x67, 0x6f,
      0x2e, 0x70, 0x72, 0x6f, 0x74, 0x6f],
     [0x1a, 0x1e, 0x67, 0x6f, 0x6f, 0x67, 0x6c, 0x65, 0x2f, 0x70, 0x72, 0x6f, 0x74, 0x6f, 0x62, 0x75,
      0x66, 0x2f, 0x64, 0x75, 0x72, 0x61, 0x74, 0x69, 0x6f, 0x6e, 0x2e, 0x70, 0x72, 0x6f, 0x74, 0x6f],
     [0x22, 0x86, 0x03, 0x0a, 0x06, 0x50, 0x61, 0x72, 0x61, 0x6d, 0x73, 0x12, 0x57, 0x0a, 0x0a, 0x72,
      0x65, 0x64, 0x65, 0x65, 0x6d, 0x5f, 0x64, 0x75, 0x72, 0x18, 0x01, 0x20, 0x01, 0x28, 0x0b, 0x32,
      0x19, 0x2e, 0x67, 0x6f, 0x6f, 0x67, 0x6c, 0x65, 0x2e, 0x70, 0x72, 0x6f, 0x74, 0x6f, 0x62, 0x75,
      0x66, 0x2e, 0x44, 0x75, 0x72, 0x61, 0x74, 0x69, 0x6f, 0x6e, 0x42, 0x1d, 0xc8, 0xde, 0x1f, 0x00,
      0xf2, 0xde, 0x1f, 0x11, 0x79, 0x61, 0x6d, 0x6c, 0x3a, 0x22, 0x72, 0x65, 0x64, 0x65, 0x65, 0x6d,
      0x5f, 0x64, 0x75, 0x72, 0x22, 0x98, 0xdf, 0x1f, 0x01, 0x52, 0x09, 0x72, 0x65, 0x64, 0x65, 0x65,
      0x6d, 0x44, 0x75, 0x72, 0x12, 0x4b, 0x0a, 0x12, 0x6d, 0x61, 0x78, 0x5f, 0x72, 0x65, 0x64, 0x65,
      0x65, 0x6d, 0x5f, 0x65, 0x6e, 0x74, 0x72, 0x69, 0x65, 0x73, 0x18, 0x02, 0x20, 0x01, 0x28, 0x05,
      0x42, 0x1d, 0xf2, 0xde, 0x1f, 0x19, 0x79, 0x61, 0x6d, 0x6c, 0x3a, 0x22, 0x6d, 0x61, 0x78, 0x5f,
      0x72, 0x65, 0x64, 0x65, 0x65, 0x6d, 0x5f, 0x65, 0x6e, 0x74, 0x72, 0x69, 0x65, 0x73, 0x22, 0x52,
      0x10, 0x6d, 0x61, 0x78, 0x52, 0x65, 0x64, 0x65, 0x65, 0x6d, 0x45, 0x6e, 0x74, 0x72, 0x69, 0x65,
      0x73, 0x12, 0x65, 0x0a, 0x10, 0x63, 0x6f, 0x6c, 0x6c, 0x61, 0x74, 0x65, 0x72, 0x61, 0x6c, 0x5f,
      0x6d, 0x65, 0x74, 0x61, 0x73, 0x18, 0x03, 0x20, 0x01, 0x28, 0x0b, 0x32, 0x19, 0x2e, 0x68, 0x61,
      0x6c, 0x62, 0x6f, 0x72, 0x6e, 0x63, 0x74, 0x66, 0x2e, 0x68, 0x61, 0x6c, 0x2e, 0x54, 0x6f, 0x6b,
      0x65, 0x6e, 0x4d, 0x65, 0x74, 0x61, 0x42, 0x1f, 0xc8, 0xde, 0x1f, 0x00, 0xf2, 0xde, 0x1f, 0x17,
      0x79, 0x61, 0x6d, 0x6c, 0x3a, 0x22, 0x63, 0x6f, 0x6c, 0x6c, 0x61, 0x74, 0x65, 0x72, 0x61, 0x6c,
      0x5f, 0x6d, 0x65, 0x74, 0x61, 0x73, 0x22, 0x52, 0x0f, 0x63, 0x6f, 0x6c, 0x6c, 0x61, 0x74, 0x65,
      0x72, 0x61, 0x6c, 0x4d, 0x65, 0x74, 0x61, 0x73, 0x12, 0x4d, 0x0a, 0x08, 0x68, 0x61, 0x6c, 0x5f,
      0x6d, 0x65, 0x74, 0x61, 0x18, 0x04, 0x20, 0x01, 0x28, 0x0b, 0x32, 0x19, 0x2e, 0x68, 0x61, 0x6c,
      0x62, 0x6f, 0x72, 0x6e, 0x63, 0x74, 0x66, 0x2e, 0x68, 0x61, 0x6c, 0x2e, 0x54, 0x6f, 0x6b, 0x65,
      0x6e, 0x4d, 0x65, 0x74, 0x61, 0x42, 0x17, 0xc8, 0xde, 0x1f, 0x00, 0xf2, 0xde, 0x1f, 0x0f, 0x79,
      0x61, 0x6d, 0x6c, 0x3a, 0x22, 0x68, 0x61, 0x6c, 0x5f, 0x6d, 0x65, 0x74, 0x61, 0x22, 0x52, 0x07,
      0x68, 0x61, 0x6c, 0x4d, 0x65, 0x74, 0x61, 0x3a, 0x20, 0xe8, 0xa0, 0x1f, 0x01, 0x8a, 0xe7, 0xb0,
      0x2a, 0x17, 0x68, 0x61, 0x6c, 0x62, 0x6f, 0x72, 0x6e, 0x63, 0x74, 0x66, 0x2f, 0x78, 0x2f, 0x68,
      0x61, 0x6c, 0x2f, 0x50, 0x61, 0x72, 0x61, 0x6d, 0x73],
     [0x22, 0xa4, 0x01, 0x0a, 0x09, 0x54, 0x6f, 0x6b, 0x65, 0x6e, 0x4d, 0x65, 0x74, 0x61, 0x12, 0x26,
      0x0a, 0x05, 0x64, 0x65, 0x6e, 0x6f, 0x6d, 0x18, 0x01, 0x20, 0x01, 0x28, 0x09, 0x42, 0x10, 0xf2,
      0xde, 0x1f, 0x0c, 0x79, 0x61, 0x6d, 0x6c, 0x3a, 0x22, 0x64, 0x65, 0x6e, 0x6f, 0x6d, 0x22, 0x52,
      0x05, 0x64, 0x65, 0x6e, 0x6f, 0x6d, 0x12, 0x2f, 0x0a, 0x08, 0x64, 0x65, 0x63, 0x69, 0x6d, 0x61,
      0x6c, 0x73, 0x18, 0x02, 0x20, 0x01, 0x28, 0x0d, 0x42, 0x13, 0xf2, 0xde, 0x1f, 0x0f, 0x79, 0x61,
      0x6d, 0x6c, 0x3a, 0x22, 0x64, 0x65, 0x63, 0x69, 0x6d, 0x61, 0x6c, 0x73, 0x22, 0x52, 0x08, 0x64,
      0x65, 0x63, 0x69, 0x6d, 0x61, 0x6c, 0x73, 0x12, 0x38, 0x0a, 0x0b, 0x64, 0x65, 0x73, 0x63, 0x72,
      0x69, 0x70, 0x74, 0x69, 0x6f, 0x6e, 0x18, 0x03, 0x20, 0x01, 0x28, 0x09, 0x42, 0x16, 0xf2, 0xde,
      0x1f, 0x12, 0x79, 0x61, 0x6d, 0x6c, 0x3a, 0x22, 0x64, 0x65, 0x73, 0x63, 0x72, 0x69, 0x70, 0x74,
      0x69, 0x6f, 0x6e, 0x22, 0x52, 0x0b, 0x64, 0x65, 0x73, 0x63, 0x72, 0x69, 0x70, 0x74, 0x69, 0x6f,
      0x6e, 0x3a, 0x04, 0xe8, 0xa0, 0x1f, 0x01],
     [0x42, 0x99, 0x01, 0x0a, 0x12, 0x63, 0x6f, 0x6d, 0x2e, 0x68, 0x61, 0x6c, 0x62, 0x6f, 0x72, 0x6e,
      0x63, 0x74, 0x66, 0x2e, 0x68, 0x61, 0x6c, 0x42, 0x0b, 0x50, 0x61, 0x72, 0x61, 0x6d, 0x73, 0x50,
      0x72, 0x6f, 0x74, 0x6f, 0x50, 0x01, 0x5a, 0x1d, 0x48, 0x61, 0x6c, 0x62, 0x6f, 0x72, 0x6e, 0x43,
      0x54, 0x46, 0x2f, 0x61, 0x70, 0x69, 0x2f, 0x68, 0x61, 0x6c, 0x62, 0x6f, 0x72, 0x6e, 0x63, 0x74,
      0x66, 0x2f, 0x68, 0x61, 0x6c, 0xa2, 0x02, 0x03, 0x48, 0x48, 0x58, 0xaa, 0x02, 0x0e, 0x48, 0x61,
      0x6c, 0x62, 0x6f, 0x72, 0x6e, 0x63, 0x74, 0x66, 0x2e, 0x48, 0x61, 0x6c, 0xca, 0x02, 0x0e, 0x48,
      0x61, 0x6c, 0x62, 0x6f, 0x72, 0x6e, 0x63, 0x74, 0x66, 0x5c, 0x48, 0x61, 0x6c, 0xe2, 0x02, 0x1a,
      0x48, 0x61, 0x6c, 0x62, 0x6f, 0x72, 0x6e, 0x63, 0x74, 0x66, 0x5c, 0x48, 0x61, 0x6c, 0x5c, 0x47,
      0x50, 0x42, 0x4d, 0x65, 0x74, 0x61, 0x64, 0x61, 0x74, 0x61, 0xea, 0x02, 0x0f, 0x48, 0x61, 0x6c,
      0x62, 0x6f, 0x72, 0x6e, 0x63, 0x74, 0x66, 0x3a, 0x3a, 0x48, 0x61, 0x6c],
     [0x62, 0x06, 0x70, 0x72, 0x6f, 0x74, 0x6f, 0x33]])"

lemma params_file:
  "rd_file (map uint file_halbornctf_hal_params_proto_rawDesc) = Some \<lparr>fd_package = ''halbornctf.hal'',
    fd_messages = [(''Params'', [(''redeem_dur'', 1, 11), (''max_redeem_entries'', 2, 5), (''collateral_metas'', 3, 11), (''hal_meta'', 4, 11)]),
     (''TokenMeta'', [(''denom'', 1, 9), (''decimals'', 2, 13), (''description'', 3, 9)])],
    fd_services = []\<rparr>"
  unfolding file_halbornctf_hal_params_proto_rawDesc_def by (rule rd_file_eval; code_simp)

lemma Params_declared: "declares file_halbornctf_hal_params_proto_rawDesc ''Params'' (api_Params_fields DU TM) api_Params_Has"
  by (simp add: declares_def params_file code_matches_def type_wire_def api_Params_fields_def api_Params_Has_def no_field_def deref_def)

lemma TokenMeta_declared: "declares file_halbornctf_hal_params_proto_rawDesc ''TokenMeta'' (api_TokenMeta_fields) api_TokenMeta_Has"
  by (simp add: declares_def params_file code_matches_def type_wire_def api_TokenMeta_fields_def api_TokenMeta_Has_def no_field_def deref_def)

section \<open>tx.pulsar.go\<close>

definition file_halbornctf_hal_tx_proto_rawDesc :: bytes where
  "file_halbornctf_hal_tx_proto_rawDesc = byte_list (concat
    [[0x0a, 0x17, 0x68, 0x61, 0x6c, 0x62, 0x6f, 0x72, 0x6e, 0x63, 0x74, 0x66, 0x2f, 0x68, 0x61, 0x6c,
      0x2f, 0x74, 0x78, 0x2e, 0x70, 0x72, 0x6f, 0x74, 0x6f],
     [0x12, 0x0e, 0x68, 0x61, 0x6c, 0x62, 0x6f, 0x72, 0x6e, 0x63, 0x74, 0x66, 0x2e, 0x68, 0x61, 0x6c],
     [0x1a, 0x11, 0x61, 0x6d, 0x69, 0x6e, 0x6f, 0x2f, 0x61, 0x6d, 0x69, 0x6e, 0x6f, 0x2e, 0x70, 0x72,
      0x6f, 0x74, 0x6f],
     [0x1a, 0x17, 0x63, 0x6f, 0x73, 0x6d, 0x6f, 0x73, 0x2f, 0x6d, 0x73, 0x67, 0x2f, 0x76, 0x31, 0x2f,
      0x6d, 0x73, 0x67, 0x2e, 0x70, 0x72, 0x6f, 0x74, 0x6f],
     [0x1a, 0x19, 0x63, 0x6f, 0x73, 0x6d, 0x6f, 0x73, 0x5f, 0x70, 0x72, 0x6f, 0x74, 0x6f, 0x2f, 0x63,
      0x6f, 0x73, 0x6d, 0x6f, 0x73, 0x2e, 0x70, 0x72, 0x6f, 0x74, 0x6f],
     [0x1a, 0x14, 0x67, 0x6f, 0x67, 0x6f, 0x70, 0x72, 0x6f, 0x74, 0x6f, 0x2f, 0x67, 0x6f, 0x67, 0x6f,
      0x2e, 0x70, 0x72, 0x6f, 0x74, 0x6f],
     [0x1a, 0x1b, 0x68, 0x61, 0x6c, 0x62, 0x6f, 0x72, 0x6e, 0x63, 0x74, 0x66, 0x2f, 0x68, 0x61, 0x6c,
      0x2f, 0x70, 0x61, 0x72, 0x61, 0x6d, 0x73, 0x2e, 0x70, 0x72, 0x6f, 0x74, 0x6f],
     [0x1a, 0x1e, 0x63, 0x6f, 0x73, 0x6d, 0x6f, 0x73, 0x2f, 0x62, 0x61, 0x73, 0x65, 0x2f, 0x76, 0x31,
      0x62, 0x65, 0x74, 0x61, 0x31, 0x2f, 0x63, 0x6f, 0x69, 0x6e, 0x2e, 0x70, 0x72, 0x6f, 0x74, 0x6f],
     [0x1a, 0x1f, 0x67, 0x6f, 0x6f, 0x67, 0x6c, 0x65, 0x2f, 0x70, 0x72, 0x6f, 0x74, 0x6f, 0x62, 0x75,
      0x66, 0x2f, 0x74, 0x69, 0x6d, 0x65, 0x73, 0x74, 0x61, 0x6d, 0x70, 0x2e, 0x70, 0x72, 0x6f, 0x74,
      0x6f],
     [0x22, 0xb9, 0x01, 0x0a, 0x0f, 0x4d, 0x73, 0x67, 0x55, 0x70, 0x64, 0x61, 0x74, 0x65, 0x50, 0x61,
      0x72, 0x61, 0x6d, 0x73, 0x12, 0x36, 0x0a, 0x09, 0x61, 0x75, 0x74, 0x68, 0x6f, 0x72, 0x69, 0x74,
      0x79, 0x18, 0x01, 0x20, 0x01, 0x28, 0x09, 0x42, 0x18, 0xd2, 0xb4, 0x2d, 0x14, 0x63, 0x6f, 0x73,
      0x6d, 0x6f, 0x73, 0x2e, 0x41, 0x64, 0x64, 0x72, 0x65, 0x73, 0x73, 0x53, 0x74, 0x72, 0x69, 0x6e,
      0x67, 0x52, 0x09, 0x61, 0x75, 0x74, 0x68, 0x6f, 0x72, 0x69, 0x74, 0x79, 0x12, 0x39, 0x0a, 0x06,
      0x70, 0x61, 0x72, 0x61, 0x6d, 0x73, 0x18, 0x02, 0x20, 0x01, 0x28, 0x0b, 0x32, 0x16, 0x2e, 0x68,
      0x61, 0x6c, 0x62, 0x6f, 0x72, 0x6e, 0x63, 0x74, 0x66, 0x2e, 0x68, 0x61, 0x6c, 0x2e, 0x50, 0x61,
      0x72, 0x61, 0x6d, 0x73, 0x42, 0x09, 0xc8, 0xde, 0x1f, 0x00, 0xa8, 0xe7, 0xb0, 0x2a, 0x01, 0x52,
      0x06, 0x70, 0x61, 0x72, 0x61, 0x6d, 0x73, 0x3a, 0x33, 0x82, 0xe7, 0xb0, 0x2a, 0x09, 0x61, 0x75,
      0x74, 0x68, 0x6f, 0x72, 0x69, 0x74, 0x79, 0x8a, 0xe7, 0xb0, 0x2a, 0x20, 0x68, 0x61, 0x6c, 0x62,
      0x6f, 0x72, 0x6e, 0x63, 0x74, 0x66, 0x2f, 0x78, 0x2f, 0x68, 0x61, 0x6c, 0x2f, 0x4d, 0x73, 0x67,
      0x55, 0x70, 0x64, 0x61, 0x74, 0x65, 0x50, 0x61, 0x72, 0x61, 0x6d, 0x73],
     [0x22, 0x19, 0x0a, 0x17, 0x4d, 0x73, 0x67, 0x55, 0x70, 0x64, 0x61, 0x74, 0x65, 0x50, 0x61, 0x72,
      0x61, 0x6d, 0x73, 0x52, 0x65, 0x73, 0x70, 0x6f, 0x6e, 0x73, 0x65],
     [0x22, 0x81, 0x01, 0x0a, 0x0a, 0x4d, 0x73, 0x67, 0x4d, 0x69, 0x6e, 0x74, 0x48, 0x61, 0x6c, 0x12,
      0x18, 0x0a, 0x07, 0x63, 0x72, 0x65, 0x61, 0x74, 0x6f, 0x72, 0x18, 0x01, 0x20, 0x01, 0x28, 0x09,
      0x52, 0x07, 0x63, 0x72, 0x65, 0x61, 0x74, 0x6f, 0x72, 0x12, 0x4b, 0x0a, 0x10, 0x63, 0x6f, 0x6c,
      0x6c, 0x61, 0x74, 0x65, 0x72, 0x61, 0x6c, 0x41, 0x6d, 0x6f, 0x75, 0x6e, 0x74, 0x18, 0x02, 0x20,
      0x01, 0x28, 0x0b, 0x32, 0x19, 0x2e, 0x63, 0x6f, 0x73, 0x6d, 0x6f, 0x73, 0x2e, 0x62, 0x61, 0x73,
      0x65, 0x2e, 0x76, 0x31, 0x62, 0x65, 0x74, 0x61, 0x31, 0x2e, 0x43, 0x6f, 0x69, 0x6e, 0x42, 0x04,
      0xc8, 0xde, 0x1f, 0x00, 0x52, 0x10, 0x63, 0x6f, 0x6c, 0x6c, 0x61, 0x74, 0x65, 0x72, 0x61, 0x6c,
      0x41, 0x6d, 0x6f, 0x75, 0x6e, 0x74, 0x3a, 0x0c, 0x82, 0xe7, 0xb0, 0x2a, 0x07, 0x63, 0x72, 0x65,
      0x61, 0x74, 0x6f, 0x72],
     [0x22, 0x59, 0x0a, 0x12, 0x4d, 0x73, 0x67, 0x4d, 0x69, 0x6e, 0x74, 0x48, 0x61, 0x6c, 0x52, 0x65,
      0x73, 0x70, 0x6f, 0x6e, 0x73, 0x65, 0x12, 0x43, 0x0a, 0x0c, 0x6d, 0x69, 0x6e, 0x74, 0x65, 0x64,
      0x41, 0x6d, 0x6f, 0x75, 0x6e, 0x74, 0x18, 0x01, 0x20, 0x01, 0x28, 0x0b, 0x32, 0x19, 0x2e, 0x63,
      0x6f, 0x73, 0x6d, 0x6f, 0x73, 0x2e, 0x62, 0x61, 0x73, 0x65, 0x2e, 0x76, 0x31, 0x62, 0x65, 0x74,
      0x61, 0x31, 0x2e, 0x43, 0x6f, 0x69, 0x6e, 0x42, 0x04, 0xc8, 0xde, 0x1f, 0x00, 0x52, 0x0c, 0x6d,
      0x69, 0x6e, 0x74, 0x65, 0x64, 0x41, 0x6d, 0x6f, 0x75, 0x6e, 0x74],
     [0x22, 0x7c, 0x0a, 0x13, 0x4d, 0x73, 0x67, 0x52, 0x65, 0x64, 0x65, 0x65, 0x6d, 0x43, 0x6f, 0x6c,
      0x6c, 0x61, 0x74, 0x65, 0x72, 0x61, 0x6c, 0x12, 0x18, 0x0a, 0x07, 0x63, 0x72, 0x65, 0x61, 0x74,
      0x6f, 0x72, 0x18, 0x01, 0x20, 0x01, 0x28, 0x09, 0x52, 0x07, 0x63, 0x72, 0x65, 0x61, 0x74, 0x6f,
      0x72, 0x12, 0x3d, 0x0a, 0x09, 0x68, 0x61, 0x6c, 0x41, 0x6d, 0x6f, 0x75, 0x6e, 0x74, 0x18, 0x02,
      0x20, 0x01, 0x28, 0x0b, 0x32, 0x19, 0x2e, 0x63, 0x6f, 0x73, 0x6d, 0x6f, 0x73, 0x2e, 0x62, 0x61,
      0x73, 0x65, 0x2e, 0x76, 0x31, 0x62, 0x65, 0x74, 0x61, 0x31, 0x2e, 0x43, 0x6f, 0x69, 0x6e, 0x42,
      0x04, 0xc8, 0xde, 0x1f, 0x00, 0x52, 0x09, 0x68, 0x61, 0x6c, 0x41, 0x6d, 0x6f, 0x75, 0x6e, 0x74,
      0x3a, 0x0c, 0x82, 0xe7, 0xb0, 0x2a, 0x07, 0x63, 0x72, 0x65, 0x61, 0x74, 0x6f, 0x72],
     [0x22, 0xcb, 0x01, 0x0a, 0x1b, 0x4d, 0x73, 0x67, 0x52, 0x65, 0x64, 0x65, 0x65, 0x6d, 0x43, 0x6f,
      0x6c, 0x6c, 0x61, 0x74, 0x65, 0x72, 0x61, 0x6c, 0x52, 0x65, 0x73, 0x70, 0x6f, 0x6e, 0x73, 0x65,
      0x12, 0x43, 0x0a, 0x0c, 0x62, 0x75, 0x72, 0x6e, 0x65, 0x64, 0x41, 0x6d, 0x6f, 0x75, 0x6e, 0x74,
      0x18, 0x01, 0x20, 0x01, 0x28, 0x0b, 0x32, 0x19, 0x2e, 0x63, 0x6f, 0x73, 0x6d, 0x6f, 0x73, 0x2e,
      0x62, 0x61, 0x73, 0x65, 0x2e, 0x76, 0x31, 0x62, 0x65, 0x74, 0x61, 0x31, 0x2e, 0x43, 0x6f, 0x69,
      0x6e, 0x42, 0x04, 0xc8, 0xde, 0x1f, 0x00, 0x52, 0x0c, 0x62, 0x75, 0x72, 0x6e, 0x65, 0x64, 0x41,
      0x6d, 0x6f, 0x75, 0x6e, 0x74, 0x12, 0x67, 0x0a, 0x0f, 0x63, 0x6f, 0x6d, 0x70, 0x6c, 0x65, 0x74,
      0x69, 0x6f, 0x6e, 0x5f, 0x74, 0x69, 0x6d, 0x65, 0x18, 0x02, 0x20, 0x01, 0x28, 0x0b, 0x32, 0x1a,
      0x2e, 0x67, 0x6f, 0x6f, 0x67, 0x6c, 0x65, 0x2e, 0x70, 0x72, 0x6f, 0x74, 0x6f, 0x62, 0x75, 0x66,
      0x2e, 0x54, 0x69, 0x6d, 0x65, 0x73, 0x74, 0x61, 0x6d, 0x70, 0x42, 0x22, 0xc8, 0xde, 0x1f, 0x00,
      0xf2, 0xde, 0x1f, 0x16, 0x79, 0x61, 0x6d, 0x6c, 0x3a, 0x22, 0x63, 0x6f, 0x6d, 0x70, 0x6c, 0x65,
      0x74, 0x69, 0x6f, 0x6e, 0x5f, 0x74, 0x69, 0x6d, 0x65, 0x22, 0x90, 0xdf, 0x1f, 0x01, 0x52, 0x0e,
      0x63, 0x6f, 0x6d, 0x70, 0x6c, 0x65, 0x74, 0x69, 0x6f, 0x6e, 0x54, 0x69, 0x6d, 0x65],
     [0x22, 0x67, 0x0a, 0x0f, 0x4d, 0x73, 0x67, 0x43, 0x72, 0x65, 0x61, 0x74, 0x65, 0x54, 0x69, 0x63,
      0x6b, 0x65, 0x74, 0x12, 0x18, 0x0a, 0x07, 0x63, 0x72, 0x65, 0x61, 0x74, 0x6f, 0x72, 0x18, 0x01,
      0x20, 0x01, 0x28, 0x09, 0x52, 0x07, 0x63, 0x72, 0x65, 0x61, 0x74, 0x6f, 0x72, 0x12, 0x16, 0x0a,
      0x06, 0x61, 0x75, 0x74, 0x68, 0x6f, 0x72, 0x18, 0x02, 0x20, 0x01, 0x28, 0x09, 0x52, 0x06, 0x61,
      0x75, 0x74, 0x68, 0x6f, 0x72, 0x12, 0x14, 0x0a, 0x05, 0x69, 0x73, 0x73, 0x75, 0x65, 0x18, 0x03,
      0x20, 0x01, 0x28, 0x09, 0x52, 0x05, 0x69, 0x73, 0x73, 0x75, 0x65, 0x3a, 0x0c, 0x82, 0xe7, 0xb0,
      0x2a, 0x07, 0x63, 0x72, 0x65, 0x61, 0x74, 0x6f, 0x72],
     [0x22, 0x29, 0x0a, 0x17, 0x4d, 0x73, 0x67, 0x43, 0x72, 0x65, 0x61, 0x74, 0x65, 0x54, 0x69, 0x63,
      0x6b, 0x65, 0x74, 0x52, 0x65, 0x73, 0x70, 0x6f, 0x6e, 0x73, 0x65, 0x12, 0x0e, 0x0a, 0x02, 0x69,
      0x64, 0x18, 0x01, 0x20, 0x01, 0x28, 0x04, 0x52, 0x02, 0x69, 0x64],
     [0x32, 0xf1, 0x02, 0x0a, 0x03, 0x4d, 0x73, 0x67, 0x12, 0x58, 0x0a, 0x0c, 0x55, 0x70, 0x64, 0x61,
      0x74, 0x65, 0x50, 0x61, 0x72, 0x61, 0x6d, 0x73, 0x12, 0x1f, 0x2e, 0x68, 0x61, 0x6c, 0x62, 0x6f,
      0x72, 0x6e, 0x63, 0x74, 0x66, 0x2e, 0x68, 0x61, 0x6c, 0x2e, 0x4d, 0x73, 0x67, 0x55, 0x70, 0x64,
      0x61, 0x74, 0x65, 0x50, 0x61, 0x72, 0x61, 0x6d, 0x73, 0x1a, 0x27, 0x2e, 0x68, 0x61, 0x6c, 0x62,
      0x6f, 0x72, 0x6e, 0x63, 0x74, 0x66, 0x2e, 0x68, 0x61, 0x6c, 0x2e, 0x4d, 0x73, 0x67, 0x55, 0x70,
      0x64, 0x61, 0x74, 0x65, 0x50, 0x61, 0x72, 0x61, 0x6d, 0x73, 0x52, 0x65, 0x73, 0x70, 0x6f, 0x6e,
      0x73, 0x65, 0x12, 0x49, 0x0a, 0x07, 0x4d, 0x69, 0x6e, 0x74, 0x48, 0x61, 0x6c, 0x12, 0x1a, 0x2e,
      0x68, 0x61, 0x6c, 0x62, 0x6f, 0x72, 0x6e, 0x63, 0x74, 0x66, 0x2e, 0x68, 0x61, 0x6c, 0x2e, 0x4d,
      0x73, 0x67, 0x4d, 0x69, 0x6e, 0x74, 0x48, 0x61, 0x6c, 0x1a, 0x22, 0x2e, 0x68, 0x61, 0x6c, 0x62,
      0x6f, 0x72, 0x6e, 0x63, 0x74, 0x66, 0x2e, 0x68, 0x61, 0x6c, 0x2e, 0x4d, 0x73, 0x67, 0x4d, 0x69,
      0x6e, 0x74, 0x48, 0x61, 0x6c, 0x52, 0x65, 0x73, 0x70, 0x6f, 0x6e, 0x73, 0x65, 0x12, 0x64, 0x0a,
      0x10, 0x52, 0x65, 0x64, 0x65, 0x65, 0x6d, 0x43, 0x6f, 0x6c, 0x6c, 0x61, 0x74, 0x65, 0x72, 0x61,
      0x6c, 0x12, 0x23, 0x2e, 0x68, 0x61, 0x6c, 0x62, 0x6f, 0x72, 0x6e, 0x63, 0x74, 0x66, 0x2e, 0x68,
      0x61, 0x6c, 0x2e, 0x4d, 0x73, 0x67, 0x52, 0x65, 0x64, 0x65, 0x65, 0x6d, 0x43, 0x6f, 0x6c, 0x6c,
      0x61, 0x74, 0x65, 0x72, 0x61, 0x6c, 0x1a, 0x2b, 0x2e, 0x68, 0x61, 0x6c, 0x62, 0x6f, 0x72, 0x6e,
      0x63, 0x74, 0x66, 0x2e, 0x68, 0x61, 0x6c, 0x2e, 0x4d, 0x73, 0x67, 0x52, 0x65, 0x64, 0x65, 0x65,
      0x6d, 0x43, 0x6f, 0x6c, 0x6c, 0x61, 0x74, 0x65, 0x72, 0x61, 0x6c, 0x52, 0x65, 0x73, 0x70, 0x6f,
      0x6e, 0x73, 0x65, 0x12, 0x58, 0x0a, 0x0c, 0x43, 0x72, 0x65, 0x61, 0x74, 0x65, 0x54, 0x69, 0x63,
      0x6b, 0x65, 0x74, 0x12, 0x1f, 0x2e, 0x68, 0x61, 0x6c, 0x62, 0x6f, 0x72, 0x6e, 0x63, 0x74, 0x66,
      0x2e, 0x68, 0x61, 0x6c, 0x2e, 0x4d, 0x73, 0x67, 0x43, 0x72, 0x65, 0x61, 0x74, 0x65, 0x54, 0x69,
      0x63, 0x6b, 0x65, 0x74, 0x1a, 0x27, 0x2e, 0x68, 0x61, 0x6c, 0x62, 0x6f, 0x72, 0x6e, 0x63, 0x74,
      0x66, 0x2e, 0x68, 0x61, 0x6c, 0x2e, 0x4d, 0x73, 0x67, 0x43, 0x72, 0x65, 0x61, 0x74, 0x65, 0x54,
      0x69, 0x63, 0x6b, 0x65, 0x74, 0x52, 0x65, 0x73, 0x70, 0x6f, 0x6e, 0x73, 0x65, 0x1a, 0x05, 0x80,
      0xe7, 0xb0, 0x2a, 0x01],
     [0x42, 0x95, 0x01, 0x0a, 0x12, 0x63, 0x6f, 0x6d, 0x2e, 0x68, 0x61, 0x6c, 0x62, 0x6f, 0x72, 0x6e,
      0x63, 0x74, 0x66, 0x2e, 0x68, 0x61, 0x6c, 0x42, 0x07, 0x54, 0x78, 0x50, 0x72, 0x6f, 0x74, 0x6f,
      0x50, 0x01, 0x5a, 0x1d, 0x48, 0x61, 0x6c, 0x62, 0x6f, 0x72, 0x6e, 0x43, 0x54, 0x46, 0x2f, 0x61,
      0x70, 0x69, 0x2f, 0x68, 0x61, 0x6c, 0x62, 0x6f, 0x72, 0x6e, 0x63, 0x74, 0x66, 0x2f, 0x68, 0x61,
      0x6c, 0xa2, 0x02, 0x03, 0x48, 0x48, 0x58, 0xaa, 0x02, 0x0e, 0x48, 0x61, 0x6c, 0x62, 0x6f, 0x72,
      0x6e, 0x63, 0x74, 0x66, 0x2e, 0x48, 0x61, 0x6c, 0xca, 0x02, 0x0e, 0x48, 0x61, 0x6c, 0x62, 0x6f,
      0x72, 0x6e, 0x63, 0x74, 0x66, 0x5c, 0x48, 0x61, 0x6c, 0xe2, 0x02, 0x1a, 0x48, 0x61, 0x6c, 0x62,
      0x6f, 0x72, 0x6e, 0x63, 0x74, 0x66, 0x5c, 0x48, 0x61, 0x6c, 0x5c, 0x47, 0x50, 0x42, 0x4d, 0x65,
      0x74, 0x61, 0x64, 0x61, 0x74, 0x61, 0xea, 0x02, 0x0f, 0x48, 0x61, 0x6c, 0x62, 0x6f, 0x72, 0x6e,
      0x63, 0x74, 0x66, 0x3a, 0x3a, 0x48, 0x61, 0x6c],
     [0x62, 0x06, 0x70, 0x72, 0x6f, 0x74, 0x6f, 0x33]])"

lemma tx_file:
  "rd_file (map uint file_halbornctf_hal_tx_proto_rawDesc) = Some \<lparr>fd_package = ''halbornctf.hal'',
    fd_messages = [(''MsgUpdateParams'', [(''authority'', 1, 9), (''params'', 2, 11)]),
     (''MsgUpdateParamsResponse'', []),
     (''MsgMintHal'', [(''creator'', 1, 9), (''collateralAmount'', 2, 11)]),
     (''MsgMintHalResponse'', [(''mintedAmount'', 1, 11)]),
     (''MsgRedeemCollateral'', [(''creator'', 1, 9), (''halAmount'', 2, 11)]),
     (''MsgRedeemCollateralResponse'', [(''burnedAmount'', 1, 11), (''completion_time'', 2, 11)]),
     (''MsgCreateTicket'', [(''creator'', 1, 9), (''author'', 2, 9), (''issue'', 3, 9)]),
     (''MsgCreateTicketResponse'', [(''id'', 1, 4)])],
    fd_services = [(''Msg'', [(''UpdateParams'', ''.halbornctf.hal.MsgUpdateParams'', ''.halbornctf.hal.MsgUpdateParamsResponse''),
        (''MintHal'', ''.halbornctf.hal.MsgMintHal'', ''.halbornctf.hal.MsgMintHalResponse''),
        (''RedeemCollateral'', ''.halbornctf.hal.MsgRedeemCollateral'', ''.halbornctf.hal.MsgRedeemCollateralResponse''),
        (''CreateTicket'', ''.halbornctf.hal.MsgCreateTicket'', ''.halbornctf.hal.MsgCreateTicketResponse'')])]\<rparr>"
  unfolding file_halbornctf_hal_tx_proto_rawDesc_def by (rule rd_file_eval; code_simp)

lemma MsgUpdateParams_declared: "declares file_halbornctf_hal_tx_proto_rawDesc ''MsgUpdateParams'' (api_MsgUpdateParams_fields PA) api_MsgUpdateParams_Has"
  by (simp add: declares_def tx_file code_matches_def type_wire_def api_MsgUpdateParams_fields_def api_MsgUpdateParams_Has_def no_field_def deref_def)

lemma MsgUpdateParamsResponse_declared: "declares file_halbornctf_hal_tx_proto_rawDesc ''MsgUpdateParamsResponse'' (api_MsgUpdateParamsResponse_fields) api_MsgUpdateParamsResponse_Has"
  by (simp add: declares_def tx_file code_matches_def type_wire_def api_MsgUpdateParamsResponse_fields_def api_MsgUpdateParamsResponse_Has_def no_field_def deref_def)

lemma MsgMintHal_declared: "declares file_halbornctf_hal_tx_proto_rawDesc ''MsgMintHal'' (api_MsgMintHal_fields C) api_MsgMintHal_Has"
  by (simp add: declares_def tx_file code_matches_def type_wire_def api_MsgMintHal_fields_def api_MsgMintHal_Has_def no_field_def deref_def)

lemma MsgMintHalResponse_declared: "declares file_halbornctf_hal_tx_proto_rawDesc ''MsgMintHalResponse'' (api_MsgMintHalResponse_fields C) api_MsgMintHalResponse_Has"
  by (simp add: declares_def tx_file code_matches_def type_wire_def api_MsgMintHalResponse_fields_def api_MsgMintHalResponse_Has_def no_field_def deref_def)

lemma MsgRedeemCollateral_declared: "declares file_halbornctf_hal_tx_proto_rawDesc ''MsgRedeemCollateral'' (api_MsgRedeemCollateral_fields C) api_MsgRedeemCollateral_Has"
  by (simp add: declares_def tx_file code_matches_def type_wire_def api_MsgRedeemCollateral_fields_def api_MsgRedeemCollateral_Has_def no_field_def deref_def)

lemma MsgRedeemCollateralResponse_declared: "declares file_halbornctf_hal_tx_proto_rawDesc ''MsgRedeemCollateralResponse'' (api_MsgRedeemCollateralResponse_fields C T) api_MsgRedeemCollateralResponse_Has"
  by (simp add: declares_def tx_file code_matches_def type_wire_def api_MsgRedeemCollateralResponse_fields_def api_MsgRedeemCollateralResponse_Has_def no_field_def deref_def)

lemma MsgCreateTicket_declared: "declares file_halbornctf_hal_tx_proto_rawDesc ''MsgCreateTicket'' (api_MsgCreateTicket_fields) api_MsgCreateTicket_Has"
  by (simp add: declares_def tx_file code_matches_def type_wire_def api_MsgCreateTicket_fields_def api_MsgCreateTicket_Has_def no_field_def deref_def)

lemma MsgCreateTicketResponse_declared: "declares file_halbornctf_hal_tx_proto_rawDesc ''MsgCreateTicketResponse'' (api_MsgCreateTicketResponse_fields) api_MsgCreateTicketResponse_Has"
  by (simp add: declares_def tx_file code_matches_def type_wire_def api_MsgCreateTicketResponse_fields_def api_MsgCreateTicketResponse_Has_def no_field_def deref_def)

section \<open>genesis.pulsar.go\<close>

definition file_halbornctf_hal_genesis_proto_rawDesc :: bytes where
  "file_halbornctf_hal_genesis_proto_rawDesc = byte_list (concat
    [[0x0a, 0x1c, 0x68, 0x61, 0x6c, 0x62, 0x6f, 0x72, 0x6e, 0x63, 0x74, 0x66, 0x2f, 0x68, 0x61, 0x6c,
      0x2f, 0x67, 0x65, 0x6e, 0x65, 0x73, 0x69, 0x73, 0x2e, 0x70, 0x72, 0x6f, 0x74, 0x6f],
     [0x12, 0x0e, 0x68, 0x61, 0x6c, 0x62, 0x6f, 0x72, 0x6e, 0x63, 0x74, 0x66, 0x2e, 0x68, 0x61, 0x6c],
     [0x1a, 0x11, 0x61, 0x6d, 0x69, 0x6e, 0x6f, 0x2f, 0x61, 0x6d, 0x69, 0x6e, 0x6f, 0x2e, 0x70, 0x72,
      0x6f, 0x74, 0x6f],
     [0x1a, 0x14, 0x67, 0x6f, 0x67, 0x6f, 0x70, 0x72, 0x6f, 0x74, 0x6f, 0x2f, 0x67, 0x6f, 0x67, 0x6f,
      0x2e, 0x70, 0x72, 0x6f, 0x74, 0x6f],
     [0x1a, 0x1b, 0x68, 0x61, 0x6c, 0x62, 0x6f, 0x72, 0x6e, 0x63, 0x74, 0x66, 0x2f, 0x68, 0x61, 0x6c,
      0x2f, 0x70, 0x61, 0x72, 0x61, 0x6d, 0x73, 0x2e, 0x70, 0x72, 0x6f, 0x74, 0x6f],
     [0x22, 0x49, 0x0a, 0x0c, 0x47, 0x65, 0x6e, 0x65, 0x73, 0x69, 0x73, 0x53, 0x74, 0x61, 0x74, 0x65,
      0x12, 0x39, 0x0a, 0x06, 0x70, 0x61, 0x72, 0x61, 0x6d, 0x73, 0x18, 0x01, 0x20, 0x01, 0x28, 0x0b,
      0x32, 0x16, 0x2e, 0x68, 0x61, 0x6c, 0x62, 0x6f, 0x72, 0x6e, 0x63, 0x74, 0x66, 0x2e, 0x68, 0x61,
      0x6c, 0x2e, 0x50, 0x61, 0x72, 0x61, 0x6d, 0x73, 0x42, 0x09, 0xc8, 0xde, 0x1f, 0x00, 0xa8, 0xe7,
      0xb0, 0x2a, 0x01, 0x52, 0x06, 0x70, 0x61, 0x72, 0x61, 0x6d, 0x73],
     [0x42, 0x9a, 0x01, 0x0a, 0x12, 0x63, 0x6f, 0x6d, 0x2e, 0x68, 0x61, 0x6c, 0x62, 0x6f, 0x72, 0x6e,
      0x63, 0x74, 0x66, 0x2e, 0x68, 0x61, 0x6c, 0x42, 0x0c, 0x47, 0x65, 0x6e, 0x65, 0x73, 0x69, 0x73,
      0x50, 0x72, 0x6f, 0x74, 0x6f, 0x50, 0x01, 0x5a, 0x1d, 0x48, 0x61, 0x6c, 0x62, 0x6f, 0x72, 0x6e,
      0x43, 0x54, 0x46, 0x2f, 0x61, 0x70, 0x69, 0x2f, 0x68, 0x61, 0x6c, 0x62, 0x6f, 0x72, 0x6e, 0x63,
      0x74, 0x66, 0x2f, 0x68, 0x61, 0x6c, 0xa2, 0x02, 0x03, 0x48, 0x48, 0x58, 0xaa, 0x02, 0x0e, 0x48,
      0x61, 0x6c, 0x62, 0x6f, 0x72, 0x6e, 0x63, 0x74, 0x66, 0x2e, 0x48, 0x61, 0x6c, 0xca, 0x02, 0x0e,
      0x48, 0x61, 0x6c, 0x62, 0x6f, 0x72, 0x6e, 0x63, 0x74, 0x66, 0x5c, 0x48, 0x61, 0x6c, 0xe2, 0x02,
      0x1a, 0x48, 0x61, 0x6c, 0x62, 0x6f, 0x72, 0x6e, 0x63, 0x74, 0x66, 0x5c, 0x48, 0x61, 0x6c, 0x5c,
      0x47, 0x50, 0x42, 0x4d, 0x65, 0x74, 0x61, 0x64, 0x61, 0x74, 0x61, 0xea, 0x02, 0x0f, 0x48, 0x61,
      0x6c, 0x62, 0x6f, 0x72, 0x6e, 0x63, 0x74, 0x66, 0x3a, 0x3a, 0x48, 0x61, 0x6c],
     [0x62, 0x06, 0x70, 0x72, 0x6f, 0x74, 0x6f, 0x33]])"

lemma genesis_file:
  "rd_file (map uint file_halbornctf_hal_genesis_proto_rawDesc) = Some \<lparr>fd_package = ''halbornctf.hal'',
    fd_messages = [(''GenesisState'', [(''params'', 1, 11)])],
    fd_services = []\<rparr>"
  unfolding file_halbornctf_hal_genesis_proto_rawDesc_def by (rule rd_file_eval; code_simp)

lemma GenesisState_declared: "declares file_halbornctf_hal_genesis_proto_rawDesc ''GenesisState'' (api_GenesisState_fields PA) api_GenesisState_Has"
  by (simp add: declares_def genesis_file code_matches_def type_wire_def api_GenesisState_fields_def api_GenesisState_Has_def no_field_def deref_def)

section \<open>query.pulsar.go\<close>

definition file_halbornctf_hal_query_proto_rawDesc :: bytes where
  "file_halbornctf_hal_query_proto_rawDesc = byte_list (concat
    [[0x0a, 0x1a, 0x68, 0x61, 0x6c, 0x62, 0x6f, 0x72, 0x6e, 0x63, 0x74, 0x66, 0x2f, 0x68, 0x61, 0x6c,
      0x2f, 0x71, 0x75, 0x65, 0x72, 0x79, 0x2e, 0x70, 0x72, 0x6f, 0x74, 0x6f],
     [0x12, 0x0e, 0x68, 0x61, 0x6c, 0x62, 0x6f, 0x72, 0x6e, 0x63, 0x74, 0x66, 0x2e, 0x68, 0x61, 0x6c],
     [0x1a, 0x11, 0x61, 0x6d, 0x69, 0x6e, 0x6f, 0x2f, 0x61, 0x6d, 0x69, 0x6e, 0x6f, 0x2e, 0x70, 0x72,
      0x6f, 0x74, 0x6f],
     [0x1a, 0x14, 0x67, 0x6f, 0x67, 0x6f, 0x70, 0x72, 0x6f, 0x74, 0x6f, 0x2f, 0x67, 0x6f, 0x67, 0x6f,
      0x2e, 0x70, 0x72, 0x6f, 0x74, 0x6f],
     [0x1a, 0x1c, 0x67, 0x6f, 0x6f, 0x67, 0x6c, 0x65, 0x2f, 0x61, 0x70, 0x69, 0x2f, 0x61, 0x6e, 0x6e,
      0x6f, 0x74, 0x61, 0x74, 0x69, 0x6f, 0x6e, 0x73, 0x2e, 0x70, 0x72, 0x6f, 0x74, 0x6f],
     [0x1a, 0x2a, 0x63, 0x6f, 0x73, 0x6d, 0x6f, 0x73, 0x2f, 0x62, 0x61, 0x73, 0x65, 0x2f, 0x71, 0x75,
      0x65, 0x72, 0x79, 0x2f, 0x76, 0x31, 0x62, 0x65, 0x74, 0x61, 0x31, 0x2f, 0x70, 0x61, 0x67, 0x69,
      0x6e, 0x61, 0x74, 0x69, 0x6f, 0x6e, 0x2e, 0x70, 0x72, 0x6f, 0x74, 0x6f],
     [0x1a, 0x1b, 0x68, 0x61, 0x6c, 0x62, 0x6f, 0x72, 0x6e, 0x63, 0x74, 0x66, 0x2f, 0x68, 0x61, 0x6c,
      0x2f, 0x70, 0x61, 0x72, 0x61, 0x6d, 0x73, 0x2e, 0x70, 0x72, 0x6f, 0x74, 0x6f],
     [0x22, 0x14, 0x0a, 0x12, 0x51, 0x75, 0x65, 0x72, 0x79, 0x50, 0x61, 0x72, 0x61, 0x6d, 0x73, 0x52,
      0x65, 0x71, 0x75, 0x65, 0x73, 0x74],
     [0x22, 0x50, 0x0a, 0x13, 0x51, 0x75, 0x65, 0x72, 0x79, 0x50, 0x61, 0x72, 0x61, 0x6d, 0x73, 0x52,
      0x65, 0x73, 0x70, 0x6f, 0x6e, 0x73, 0x65, 0x12, 0x39, 0x0a, 0x06, 0x70, 0x61, 0x72, 0x61, 0x6d,
      0x73, 0x18, 0x01, 0x20, 0x01, 0x28, 0x0b, 0x32, 0x16, 0x2e, 0x68, 0x61, 0x6c, 0x62, 0x6f, 0x72,
      0x6e, 0x63, 0x74, 0x66, 0x2e, 0x68, 0x61, 0x6c, 0x2e, 0x50, 0x61, 0x72, 0x61, 0x6d, 0x73, 0x42,
      0x09, 0xc8, 0xde, 0x1f, 0x00, 0xa8, 0xe7, 0xb0, 0x2a, 0x01, 0x52, 0x06, 0x70, 0x61, 0x72, 0x61,
      0x6d, 0x73],
     [0x32, 0x7a, 0x0a, 0x05, 0x51, 0x75, 0x65, 0x72, 0x79, 0x12, 0x71, 0x0a, 0x06, 0x50, 0x61, 0x72,
      0x61, 0x6d, 0x73, 0x12, 0x22, 0x2e, 0x68, 0x61, 0x6c, 0x62, 0x6f, 0x72, 0x6e, 0x63, 0x74, 0x66,
      0x2e, 0x68, 0x61, 0x6c, 0x2e, 0x51, 0x75, 0x65, 0x72, 0x79, 0x50, 0x61, 0x72, 0x61, 0x6d, 0x73,
      0x52, 0x65, 0x71, 0x75, 0x65, 0x73, 0x74, 0x1a, 0x23, 0x2e, 0x68, 0x61, 0x6c, 0x62, 0x6f, 0x72,
      0x6e, 0x63, 0x74, 0x66, 0x2e, 0x68, 0x61, 0x6c, 0x2e, 0x51, 0x75, 0x65, 0x72, 0x79, 0x50, 0x61,
      0x72, 0x61, 0x6d, 0x73, 0x52, 0x65, 0x73, 0x70, 0x6f, 0x6e, 0x73, 0x65, 0x22, 0x1e, 0x82, 0xd3,
      0xe4, 0x93, 0x02, 0x18, 0x12, 0x16, 0x2f, 0x48, 0x61, 0x6c, 0x62, 0x6f, 0x72, 0x6e, 0x43, 0x54,
      0x46, 0x2f, 0x68, 0x61, 0x6c, 0x2f, 0x70, 0x61, 0x72, 0x61, 0x6d, 0x73],
     [0x42, 0x98, 0x01, 0x0a, 0x12, 0x63, 0x6f, 0x6d, 0x2e, 0x68, 0x61, 0x6c, 0x62, 0x6f, 0x72, 0x6e,
      0x63, 0x74, 0x66, 0x2e, 0x68, 0x61, 0x6c, 0x42, 0x0a, 0x51, 0x75, 0x65, 0x72, 0x79, 0x50, 0x72,
      0x6f, 0x74, 0x6f, 0x50, 0x01, 0x5a, 0x1d, 0x48, 0x61, 0x6c, 0x62, 0x6f, 0x72, 0x6e, 0x43, 0x54,
      0x46, 0x2f, 0x61, 0x70, 0x69, 0x2f, 0x68, 0x61, 0x6c, 0x62, 0x6f, 0x72, 0x6e, 0x63, 0x74, 0x66,
      0x2f, 0x68, 0x61, 0x6c, 0xa2, 0x02, 0x03, 0x48, 0x48, 0x58, 0xaa, 0x02, 0x0e, 0x48, 0x61, 0x6c,
      0x62, 0x6f, 0x72, 0x6e, 0x63, 0x74, 0x66, 0x2e, 0x48, 0x61, 0x6c, 0xca, 0x02, 0x0e, 0x48, 0x61,
      0x6c, 0x62, 0x6f, 0x72, 0x6e, 0x63, 0x74, 0x66, 0x5c, 0x48, 0x61, 0x6c, 0xe2, 0x02, 0x1a, 0x48,
      0x61, 0x6c, 0x62, 0x6f, 0x72, 0x6e, 0x63, 0x74, 0x66, 0x5c, 0x48, 0x61, 0x6c, 0x5c, 0x47, 0x50,
      0x42, 0x4d, 0x65, 0x74, 0x61, 0x64, 0x61, 0x74, 0x61, 0xea, 0x02, 0x0f, 0x48, 0x61, 0x6c, 0x62,
      0x6f, 0x72, 0x6e, 0x63, 0x74, 0x66, 0x3a, 0x3a, 0x48, 0x61, 0x6c],
     [0x62, 0x06, 0x70, 0x72, 0x6f, 0x74, 0x6f, 0x33]])"

lemma query_file:
  "rd_file (map uint file_halbornctf_hal_query_proto_rawDesc) = Some \<lparr>fd_package = ''halbornctf.hal'',
    fd_messages = [(''QueryParamsRequest'', []),
     (''QueryParamsResponse'', [(''params'', 1, 11)])],
    fd_services = [(''Query'', [(''Params'', ''.halbornctf.hal.QueryParamsRequest'', ''.halbornctf.hal.QueryParamsResponse'')])]\<rparr>"
  unfolding file_halbornctf_hal_query_proto_rawDesc_def by (rule rd_file_eval; code_simp)

lemma QueryParamsRequest_declared: "declares file_halbornctf_hal_query_proto_rawDesc ''QueryParamsRequest'' (api_QueryParamsRequest_fields) api_QueryParamsRequest_Has"
  by (simp add: declares_def query_file code_matches_def type_wire_def api_QueryParamsRequest_fields_def api_QueryParamsRequest_Has_def no_field_def deref_def)

lemma QueryParamsResponse_declared: "declares file_halbornctf_hal_query_proto_rawDesc ''QueryParamsResponse'' (api_QueryParamsResponse_fields PA) api_QueryParamsResponse_Has"
  by (simp add: declares_def query_file code_matches_def type_wire_def api_QueryParamsResponse_fields_def api_QueryParamsResponse_Has_def no_field_def deref_def)

section \<open>module/module.pulsar.go\<close>

definition file_halbornctf_hal_module_module_proto_rawDesc :: bytes where
  "file_halbornctf_hal_module_module_proto_rawDesc = byte_list (concat
    [[0x0a, 0x22, 0x68, 0x61, 0x6c, 0x62, 0x6f, 0x72, 0x6e, 0x63, 0x74, 0x66, 0x2f, 0x68, 0x61, 0x6c,
      0x2f, 0x6d, 0x6f, 0x64, 0x75, 0x6c, 0x65, 0x2f, 0x6d, 0x6f, 0x64, 0x75, 0x6c, 0x65, 0x2e, 0x70,
      0x72, 0x6f, 0x74, 0x6f],
     [0x12, 0x15, 0x68, 0x61, 0x6c, 0x62, 0x6f, 0x72, 0x6e, 0x63, 0x74, 0x66, 0x2e, 0x68, 0x61, 0x6c,
      0x2e, 0x6d, 0x6f, 0x64, 0x75, 0x6c, 0x65],
     [0x1a, 0x20, 0x63, 0x6f, 0x73, 0x6d, 0x6f, 0x73, 0x2f, 0x61, 0x70, 0x70, 0x2f, 0x76, 0x31, 0x61,
      0x6c, 0x70, 0x68, 0x61, 0x31, 0x2f, 0x6d, 0x6f, 0x64, 0x75, 0x6c, 0x65, 0x2e, 0x70, 0x72, 0x6f,
      0x74, 0x6f],
     [0x22, 0x40, 0x0a, 0x06, 0x4d, 0x6f, 0x64, 0x75, 0x6c, 0x65, 0x12, 0x1c, 0x0a, 0x09, 0x61, 0x75,
      0x74, 0x68, 0x6f, 0x72, 0x69, 0x74, 0x79, 0x18, 0x01, 0x20, 0x01, 0x28, 0x09, 0x52, 0x09, 0x61,
      0x75, 0x74, 0x68, 0x6f, 0x72, 0x69, 0x74, 0x79, 0x3a, 0x18, 0xba, 0xc0, 0x96, 0xda, 0x01, 0x12,
      0x0a, 0x10, 0x48, 0x61, 0x6c, 0x62, 0x6f, 0x72, 0x6e, 0x43, 0x54, 0x46, 0x2f, 0x78, 0x2f, 0x68,
      0x61, 0x6c],
     [0x42, 0xc4, 0x01, 0x0a, 0x19, 0x63, 0x6f, 0x6d, 0x2e, 0x68, 0x61, 0x6c, 0x62, 0x6f, 0x72, 0x6e,
      0x63, 0x74, 0x66, 0x2e, 0x68, 0x61, 0x6c, 0x2e, 0x6d, 0x6f, 0x64, 0x75, 0x6c, 0x65, 0x42, 0x0b,
      0x4d, 0x6f, 0x64, 0x75, 0x6c, 0x65, 0x50, 0x72, 0x6f, 0x74, 0x6f, 0x50, 0x01, 0x5a, 0x24, 0x48,
      0x61, 0x6c, 0x62, 0x6f, 0x72, 0x6e, 0x43, 0x54, 0x46, 0x2f, 0x61, 0x70, 0x69, 0x2f, 0x68, 0x61,
      0x6c, 0x62, 0x6f, 0x72, 0x6e, 0x63, 0x74, 0x66, 0x2f, 0x68, 0x61, 0x6c, 0x2f, 0x6d, 0x6f, 0x64,
      0x75, 0x6c, 0x65, 0xa2, 0x02, 0x03, 0x48, 0x48, 0x4d, 0xaa, 0x02, 0x15, 0x48, 0x61, 0x6c, 0x62,
      0x6f, 0x72, 0x6e, 0x63, 0x74, 0x66, 0x2e, 0x48, 0x61, 0x6c, 0x2e, 0x4d, 0x6f, 0x64, 0x75, 0x6c,
      0x65, 0xca, 0x02, 0x15, 0x48, 0x61, 0x6c, 0x62, 0x6f, 0x72, 0x6e, 0x63, 0x74, 0x66, 0x5c, 0x48,
      0x61, 0x6c, 0x5c, 0x4d, 0x6f, 0x64, 0x75, 0x6c, 0x65, 0xe2, 0x02, 0x21, 0x48, 0x61, 0x6c, 0x62,
      0x6f, 0x72, 0x6e, 0x63, 0x74, 0x66, 0x5c, 0x48, 0x61, 0x6c, 0x5c, 0x4d, 0x6f, 0x64, 0x75, 0x6c,
      0x65, 0x5c, 0x47, 0x50, 0x42, 0x4d, 0x65, 0x74, 0x61, 0x64, 0x61, 0x74, 0x61, 0xea, 0x02, 0x17,
      0x48, 0x61, 0x6c, 0x62, 0x6f, 0x72, 0x6e, 0x63, 0x74, 0x66, 0x3a, 0x3a, 0x48, 0x61, 0x6c, 0x3a,
      0x3a, 0x4d, 0x6f, 0x64, 0x75, 0x6c, 0x65],
     [0x62, 0x06, 0x70, 0x72, 0x6f, 0x74, 0x6f, 0x33]])"

lemma module_file:
  "rd_file (map uint file_halbornctf_hal_module_module_proto_rawDesc) = Some \<lparr>fd_package = ''halbornctf.hal.module'',
    fd_messages = [(''Module'', [(''authority'', 1, 9)])],
    fd_services = []\<rparr>"
  unfolding file_halbornctf_hal_module_module_proto_rawDesc_def by (rule rd_file_eval; code_simp)

lemma Module_declared: "declares file_halbornctf_hal_module_module_proto_rawDesc ''Module'' (api_Module_fields) api_Module_Has"
  by (simp add: declares_def module_file code_matches_def type_wire_def api_Module_fields_def api_Module_Has_def no_field_def deref_def)

end
