(* ===== verification/Pulsar_Properties.thy ===== *)
theory Pulsar_Properties
  imports Pulsar_Reference Pulsar_Agree Pulsar_Desc
begin

text \<open>
  The properties of the messages under \<open>api/halbornctf/hal\<close>: their encodings are read back, unknown fields included;
  no input makes a decoder panic; the decoders accept what those of \<open>x/hal/types\<close> accept; and the
  reflection methods do what their comments say.
\<close>

lemma ok_msg: "pulsar_message R msg fs Size body enc new ok \<Longrightarrow> ok m \<Longrightarrow> Size (Some m) < 2 ^ 63 \<Longrightarrow>
    length (enc m @ unknownFields m) < 2 ^ 63"
  by (simp add: pulsar_message.size_enc)

text \<open>
  Marshalling succeeds and appends to the given buffer bytes that unmarshal to the message.
\<close>

lemma message_roundtrip:
  assumes msg: "pulsar_message R msg fs Size body enc new ok" and m: "ok m" "Size (Some m) < 2 ^ 63"
    and S: "\<And>m. Sz m = Size (Some m)"
  shows "\<exists>bs. p_marshal Sz body (Some m) buf = Ok (Some ((case buf of None \<Rightarrow> [] | Some b \<Rightarrow> b) @ bs)) \<and>
    p_unmarshal R False msg fs (Some new) bs = Ok (Some m) \<and>
    p_unmarshal R True msg fs (Some new) bs = Ok (Some (m\<lparr>unknownFields := []\<rparr>))"
proof -
  have "Sz = (\<lambda>m. Size (Some m))" using S by auto
  then show ?thesis
    using pulsar_message.marshal_enc [OF msg m(1), of buf]
      pulsar_message.unmarshal_enc [OF msg m(1) ok_msg [OF msg m], of False]
      pulsar_message.unmarshal_enc [OF msg m(1) ok_msg [OF msg m], of True]
    by (intro exI [of _ "enc m @ unknownFields m"]) simp
qed

text \<open>C30: A redeem request of the API that carries unknown fields is marshalled to bytes that unmarshal to the
  same request, and to the request without its unknown fields when the caller asks to discard
  them. Assumed are the contracts of the runtime package and of the Coin and Timestamp codecs, and that
  the proto package takes the size of a message from its own size method.\<close>

theorem api_RedeemRequest_roundtrip:
  assumes "rt_laws R" "proto_laws C encc okc" "proto_laws T enct okt"
    and "\<And>m. Sz m = api_RedeemRequest_size R C T (Some m)"
    and "api_RedeemRequest_ok C T okc okt m" "api_RedeemRequest_size R C T (Some m) < 2 ^ 63"
  shows "\<exists>bs. api_RedeemRequest_marshal R C T Sz (Some m) buf
      = Ok (Some ((case buf of None \<Rightarrow> [] | Some b \<Rightarrow> b) @ bs)) \<and>
    api_RedeemRequest_unmarshal R C T False (Some api_RedeemRequest_new) bs = Ok (Some m) \<and>
    api_RedeemRequest_unmarshal R C T True (Some api_RedeemRequest_new) bs = Ok (Some (m\<lparr>unknownFields := []\<rparr>))"
  unfolding api_RedeemRequest_marshal_def api_RedeemRequest_unmarshal_def
  by (rule message_roundtrip [OF api_RedeemRequest_message [OF assms(1-3)] assms(5,6,4)])

definition sample_api_request :: "(bytes, bytes) api_redeem_request" where
  "sample_api_request = \<lparr>unknownFields = [0x22, 0x01, 0x07], api_rr_Account = ''a'', api_rr_Collateral = Some [0x0a, 0x00],
     api_rr_Completiontime = None\<rparr>"

lemma sample_raw: "raw_fields (api_RedeemRequest_fields bytes_ops bytes_ops) [0x22, 0x01, 0x07]"
proof -
  have "raw_field PbRuntime (api_RedeemRequest_fields bytes_ops bytes_ops) (enc_len 0x22 [0x07])"
    by (rule raw_field_len [where n = 4]) (simp_all add: api_RedeemRequest_fields_def)
  moreover have "enc_len 0x22 [0x07] = [0x22, 0x01, 0x07]"
    by code_simp
  ultimately show ?thesis by (simp add: raw_fields_single)
qed

theorem api_RedeemRequest_roundtrip_witness:
  "\<exists>bs. api_RedeemRequest_marshal ref_runtime bytes_ops bytes_ops (\<lambda>m. api_RedeemRequest_size ref_runtime bytes_ops bytes_ops (Some m))
      (Some sample_api_request) (Some [0xff]) = Ok (Some ([0xff] @ bs)) \<and>
    api_RedeemRequest_unmarshal ref_runtime bytes_ops bytes_ops False (Some api_RedeemRequest_new) bs = Ok (Some sample_api_request) \<and>
    api_RedeemRequest_unmarshal ref_runtime bytes_ops bytes_ops True (Some api_RedeemRequest_new) bs
      = Ok (Some (sample_api_request\<lparr>unknownFields := []\<rparr>))"
proof -
  have "api_RedeemRequest_size ref_runtime bytes_ops bytes_ops (Some sample_api_request) < 2 ^ 63"
    by code_simp
  moreover have "api_RedeemRequest_ok bytes_ops bytes_ops (\<lambda>_. True) (\<lambda>_. True) sample_api_request"
    by (simp add: api_RedeemRequest_ok_def sample_api_request_def sample_raw)
  ultimately show ?thesis
    using api_RedeemRequest_roundtrip [OF ref_rt.rt_laws_axioms ref_bytes.proto_laws_axioms ref_bytes.proto_laws_axioms,
      where Sz = "\<lambda>m. api_RedeemRequest_size ref_runtime bytes_ops bytes_ops (Some m)" and m = sample_api_request and buf = "Some [0xff]"] by simp
qed

text \<open>C29: The parameters of the API, with their two token metas inside, are marshalled to bytes that unmarshal
  to the same parameters. The token metas go through the proto package, which is assumed to dispatch
  to their own methods, whether or not it resets a message before it decodes into it.\<close>

theorem api_Params_roundtrip:
  assumes "rt_laws R" "proto_laws DU encd okd"
    and "dispatches merge TM (api_TokenMeta_size R) (api_TokenMeta_marshal R (op_Size TM)) (api_TokenMeta_unmarshal R disc) api_TokenMeta_new"
    and "\<And>m. Sz m = api_Params_size R DU TM (Some m)"
    and "api_Params_ok DU TM okd (\<lambda>m. api_TokenMeta_ok m \<and> (disc \<longrightarrow> unknownFields m = [])) m"
    and "api_Params_size R DU TM (Some m) < 2 ^ 63"
  shows "\<exists>bs. api_Params_marshal R DU TM Sz (Some m) None = Ok (Some bs) \<and>
    api_Params_unmarshal R DU TM False (Some api_Params_new) bs = Ok (Some m) \<and>
    api_Params_unmarshal R DU TM True (Some api_Params_new) bs = Ok (Some (m\<lparr>unknownFields := []\<rparr>))"
proof -
  have "proto_laws TM (\<lambda>m. api_TokenMeta_enc m @ unknownFields m) (\<lambda>m. api_TokenMeta_ok m \<and> (disc \<longrightarrow> unknownFields m = []))"
    using assms(3) unfolding api_TokenMeta_marshal_def api_TokenMeta_unmarshal_def
    by (rule pulsar_message.proto [OF api_TokenMeta_message [OF assms(1)]])
  from message_roundtrip [OF api_Params_message [OF assms(1,2) this] assms(5,6,4), of None] show ?thesis
    by (simp add: api_Params_marshal_def api_Params_unmarshal_def)
qed

definition sample_api_params :: "bytes api_params" where
  "sample_api_params = \<lparr>unknownFields = [], api_pa_RedeemDur = Some [0x08, 0x05], api_pa_MaxRedeemEntries = 7,
     api_pa_CollateralMetas = Some \<lparr>unknownFields = [], api_tm_Denom = ''usd'', api_tm_Decimals = 6, api_tm_Description = []\<rparr>,
     api_pa_HalMeta = None\<rparr>"

theorem api_Params_roundtrip_witness:
  "\<exists>bs. api_Params_marshal ref_runtime bytes_ops (meta_ops False False)
      (\<lambda>m. api_Params_size ref_runtime bytes_ops (meta_ops False False) (Some m)) (Some sample_api_params) None = Ok (Some bs) \<and>
    api_Params_unmarshal ref_runtime bytes_ops (meta_ops False False) False (Some api_Params_new) bs = Ok (Some sample_api_params)"
proof -
  have "api_Params_size ref_runtime bytes_ops (meta_ops False False) (Some sample_api_params) < 2 ^ 63"
    by code_simp
  moreover have "api_Params_ok bytes_ops (meta_ops False False) (\<lambda>_. True)
      (\<lambda>m. api_TokenMeta_ok m \<and> (False \<longrightarrow> unknownFields m = [])) sample_api_params"
    by (simp add: api_Params_ok_def api_TokenMeta_ok_def sample_api_params_def)
  ultimately show ?thesis
    using api_Params_roundtrip [OF ref_rt.rt_laws_axioms ref_bytes.proto_laws_axioms meta_dispatches,
      where Sz = "\<lambda>m. api_Params_size ref_runtime bytes_ops (meta_ops False False) (Some m)" and m = sample_api_params]
    by blast
qed

text \<open>C32: No input makes the decoder of a transaction message or of a stored message of the API panic: with
  codecs for the embedded messages that do not panic, every byte sequence decodes to a message or
  to an error, whatever the message it is decoded into and whether or not unknown fields are kept.\<close>

theorem api_unmarshal_never_panics:
  assumes "rt_laws R" "proto_laws C encc okc" "proto_laws T enct okt" "proto_laws PA encp okp" "length dAtA < 2 ^ 63"
  shows "\<not> is_Panic (api_Ticket_unmarshal R disc x1 dAtA) \<and>
    \<not> is_Panic (api_RedeemRequest_unmarshal R C T disc x2 dAtA) \<and>
    \<not> is_Panic (api_MsgMintHal_unmarshal R C disc x3 dAtA) \<and>
    \<not> is_Panic (api_MsgRedeemCollateral_unmarshal R C disc x4 dAtA) \<and>
    \<not> is_Panic (api_MsgCreateTicket_unmarshal R disc x5 dAtA) \<and>
    \<not> is_Panic (api_MsgUpdateParams_unmarshal R PA disc x6 dAtA)"
  unfolding api_Ticket_unmarshal_def api_RedeemRequest_unmarshal_def api_MsgMintHal_unmarshal_def
    api_MsgRedeemCollateral_unmarshal_def api_MsgCreateTicket_unmarshal_def api_MsgUpdateParams_unmarshal_def
  by (intro conjI pulsar_message.no_panic [OF api_Ticket_message [OF assms(1)]]
      pulsar_message.no_panic [OF api_RedeemRequest_message [OF assms(1-3)]]
      pulsar_message.no_panic [OF api_MsgMintHal_message [OF assms(1,2)]]
      pulsar_message.no_panic [OF api_MsgRedeemCollateral_message [OF assms(1,2)]]
      pulsar_message.no_panic [OF api_MsgCreateTicket_message [OF assms(1)]]
      pulsar_message.no_panic [OF api_MsgUpdateParams_message [OF assms(1,4)]] assms(5))

theorem api_unmarshal_never_panics_witness:
  "\<not> is_Panic (api_RedeemRequest_unmarshal ref_runtime bytes_ops bytes_ops False (Some sample_api_request) [0x0a, 0xff, 0xff])"
  using api_unmarshal_never_panics [OF ref_rt.rt_laws_axioms ref_bytes.proto_laws_axioms ref_bytes.proto_laws_axioms
      ref_params.proto_laws_axioms, of "[0x0a, 0xff, 0xff]"] by simp

text \<open>C33: The field loop of every generated decoder of the API ends after at most one round per byte: with
  any number of rounds greater than the number of bytes the result is that of the modelled decoder, for
  every table of fields. For a redeem request the loop returns: it gives a message or an error.\<close>

theorem api_unmarshal_loop_terminates:
  assumes "rt_laws R" "proto_laws C encc okc" "proto_laws T enct okt" "length dAtA < 2 ^ 63" "length dAtA < n"
  shows "p_unmarshal_loop n R msg keep fs dAtA 0 m = p_unmarshal_loop (Suc (length dAtA)) R msg keep fs dAtA 0 m \<and>
    ((\<exists>y. p_unmarshal_loop n R ''RedeemRequest'' (keep_unknown disc) (api_RedeemRequest_fields C T) dAtA 0 x = Ok y) \<or>
     (\<exists>e. p_unmarshal_loop n R ''RedeemRequest'' (keep_unknown disc) (api_RedeemRequest_fields C T) dAtA 0 x = Err e))"
proof
  have n: "nat (int (length dAtA) - 0) < n" "nat (int (length dAtA) - 0) < Suc (length dAtA)"
    using assms(5) by simp_all
  show "p_unmarshal_loop n R msg keep fs dAtA 0 m = p_unmarshal_loop (Suc (length dAtA)) R msg keep fs dAtA 0 m"
    by (simp only: rt_laws.p_loop_eq [OF assms(1) n(1)] rt_laws.p_loop_eq [OF assms(1) n(2)])
  have "safe_fields (api_RedeemRequest_fields C T)"
    using pulsar_message.safe [OF api_RedeemRequest_message [OF assms(1-3)]] .
  from unmarshal_loop_no_panic [OF this assms(4), of 0 PbRuntime "''RedeemRequest''" "keep_unknown disc" x]
  show "(\<exists>y. p_unmarshal_loop n R ''RedeemRequest'' (keep_unknown disc) (api_RedeemRequest_fields C T) dAtA 0 x = Ok y) \<or>
     (\<exists>e. p_unmarshal_loop n R ''RedeemRequest'' (keep_unknown disc) (api_RedeemRequest_fields C T) dAtA 0 x = Err e)"
    by (cases "unmarshal_loop PbRuntime ''RedeemRequest'' (keep_unknown disc) (api_RedeemRequest_fields C T) dAtA 0 x")
      (simp_all add: rt_laws.p_loop_eq [OF assms(1) n(1)])
qed

theorem api_unmarshal_loop_terminates_witness:
  "(\<exists>y. p_unmarshal_loop 4 ref_runtime ''RedeemRequest'' (keep_unknown False) (api_RedeemRequest_fields bytes_ops bytes_ops)
      [0x0a, 0x01, 0x62] 0 sample_api_request = Ok y) \<or>
   (\<exists>e. p_unmarshal_loop 4 ref_runtime ''RedeemRequest'' (keep_unknown False) (api_RedeemRequest_fields bytes_ops bytes_ops)
      [0x0a, 0x01, 0x62] 0 sample_api_request = Err e)"
  by (rule conjunct2, rule api_unmarshal_loop_terminates [OF ref_rt.rt_laws_axioms ref_bytes.proto_laws_axioms
      ref_bytes.proto_laws_axioms]) simp_all

text \<open>C31: The two decoders of a ticket agree: on every input, the one of the API and the one of \<open>x/hal/types\<close> both
  succeed, with the same author, issue, id and additional information, or both return an error. The
  two encoders write the same bytes for a ticket without unknown fields.\<close>

theorem api_Ticket_agrees:
  assumes "rt_laws R" "\<And>m. Sz m = api_Ticket_size R (Some m)"
  shows "agree (\<lambda>t y. y \<noteq> None \<and> ticket_of_api (the y) = t)
      (Ticket_Unmarshal (ticket_of_api x) dAtA) (api_Ticket_unmarshal R disc (Some x) dAtA) \<and>
    api_Ticket_marshal R Sz (Some (x\<lparr>unknownFields := []\<rparr>)) None
      = bind_o (Ticket_Marshal (ticket_of_api x)) (\<lambda>bs. Ok (Some bs))"
proof
  show "agree (\<lambda>t y. y \<noteq> None \<and> ticket_of_api (the y) = t)
      (Ticket_Unmarshal (ticket_of_api x) dAtA) (api_Ticket_unmarshal R disc (Some x) dAtA)"
    unfolding Ticket_Unmarshal_def api_Ticket_unmarshal_def
    by (rule p_unmarshal_agree [OF assms(1) Ticket_cases_agree]) (simp_all add: ticket_of_api_def)
next
  have sz: "Sz = (\<lambda>m. api_Ticket_size R (Some m))" using assms(2) by auto
  have "api_Ticket_ok (x\<lparr>unknownFields := []\<rparr>)" by (simp add: api_Ticket_ok_def)
  from pulsar_message.marshal_enc [OF api_Ticket_message [OF assms(1)] this, of None]
  show "api_Ticket_marshal R Sz (Some (x\<lparr>unknownFields := []\<rparr>)) None
      = bind_o (Ticket_Marshal (ticket_of_api x)) (\<lambda>bs. Ok (Some bs))"
    by (simp add: api_Ticket_marshal_def sz Ticket_enc_agree Ticket_Marshal_enc ticket_of_api_def)
qed

definition sample_api_ticket :: api_ticket where
  "sample_api_ticket = \<lparr>unknownFields = [], api_tk_Author = ''bob'', api_tk_Issue = ''why'', api_tk_Id = 3, api_tk_AdditionalInfo = []\<rparr>"

theorem api_Ticket_agrees_witness:
  "agree (\<lambda>t y. y \<noteq> None \<and> ticket_of_api (the y) = t)
      (Ticket_Unmarshal (ticket_of_api sample_api_ticket) [0x18, 0x05, 0x2a, 0x00])
      (api_Ticket_unmarshal ref_runtime False (Some sample_api_ticket) [0x18, 0x05, 0x2a, 0x00])"
  using api_Ticket_agrees [OF ref_rt.rt_laws_axioms refl] by blast





text \<open>C34: The descriptors that the API files register describe the code beside them. Each raw descriptor is a
  well-formed file descriptor that declares the message, the switch of the decoder has a case for
  exactly the declared field numbers with the wire type of the declared type, and the switch of \<open>Has\<close>
  knows exactly the declared field names. This holds for all messages of the seven files.\<close>

theorem descriptors_match_code:
  "declares file_halbornctf_hal_tickets_proto_rawDesc ''Ticket'' api_Ticket_fields api_Ticket_Has \<and>
   declares file_halbornctf_hal_redeem_request_proto_rawDesc ''RedeemRequest'' (api_RedeemRequest_fields C T) api_RedeemRequest_Has \<and>
   declares file_halbornctf_hal_params_proto_rawDesc ''Params'' (api_Params_fields DU TM) api_Params_Has \<and>
   declares file_halbornctf_hal_params_proto_rawDesc ''TokenMeta'' api_TokenMeta_fields api_TokenMeta_Has \<and>
   declares file_halbornctf_hal_tx_proto_rawDesc ''MsgUpdateParams'' (api_MsgUpdateParams_fields PA) api_MsgUpdateParams_Has \<and>
   declares file_halbornctf_hal_tx_proto_rawDesc ''MsgUpdateParamsResponse'' api_MsgUpdateParamsResponse_fields api_MsgUpdateParamsResponse_Has \<and>
   declares file_halbornctf_hal_tx_proto_rawDesc ''MsgMintHal'' (api_MsgMintHal_fields C) api_MsgMintHal_Has \<and>
   declares file_halbornctf_hal_tx_proto_rawDesc ''MsgMintHalResponse'' (api_MsgMintHalResponse_fields C) api_MsgMintHalResponse_Has \<and>
   declares file_halbornctf_hal_tx_proto_rawDesc ''MsgRedeemCollateral'' (api_MsgRedeemCollateral_fields C) api_MsgRedeemCollateral_Has \<and>
   declares file_halbornctf_hal_tx_proto_rawDesc ''MsgRedeemCollateralResponse'' (api_MsgRedeemCollateralResponse_fields C T) api_MsgRedeemCollateralResponse_Has \<and>
   declares file_halbornctf_hal_tx_proto_rawDesc ''MsgCreateTicket'' api_MsgCreateTicket_fields api_MsgCreateTicket_Has \<and>
   declares file_halbornctf_hal_tx_proto_rawDesc ''MsgCreateTicketResponse'' api_MsgCreateTicketResponse_fields api_MsgCreateTicketResponse_Has \<and>
   declares file_halbornctf_hal_genesis_proto_rawDesc ''GenesisState'' (api_GenesisState_fields PA) api_GenesisState_Has \<and>
   declares file_halbornctf_hal_query_proto_rawDesc ''QueryParamsRequest'' api_QueryParamsRequest_fields api_QueryParamsRequest_Has \<and>
   declares file_halbornctf_hal_query_proto_rawDesc ''QueryParamsResponse'' (api_QueryParamsResponse_fields PA) api_QueryParamsResponse_Has \<and>
   declares file_halbornctf_hal_module_module_proto_rawDesc ''Module'' api_Module_fields api_Module_Has"
  by (intro conjI Ticket_declared RedeemRequest_declared Params_declared TokenMeta_declared
      MsgUpdateParams_declared MsgUpdateParamsResponse_declared MsgMintHal_declared MsgMintHalResponse_declared
      MsgRedeemCollateral_declared MsgRedeemCollateralResponse_declared MsgCreateTicket_declared MsgCreateTicketResponse_declared
      GenesisState_declared QueryParamsRequest_declared QueryParamsResponse_declared Module_declared)

end
