(* ===== verification/Hal_Cli.thy ===== *)
theory Hal_Cli
  imports Pulsar_Desc
begin

text \<open>
  \<open>x/hal/module/autocli.go\<close>: the commands that the module offers on the command line, and the comparison of
  the table with the services that the file descriptors declare.
\<close>

section \<open>The table of commands\<close>







section \<open>Commands and services\<close>





end
