(* ===== verification/Hal_Simulation.thy ===== *)
theory Hal_Simulation
  imports Hal_Module
begin

text \<open>
  \<open>x/hal/module/simulation.go\<close> and \<open>x/hal/simulation\<close>: what the module offers to the simulator of the SDK, a genesis
  state, weighted operations and proposals. The operations are stubs that send nothing.
\<close>

section \<open>Operations\<close>

text \<open>The types and functions of the simulation packages; \<open>'r\<close> is the type of random sources.\<close>

record sim_account =
  sim_Address :: acc_address

record operation_msg =
  om_Route :: string
  om_Name :: string
  om_Comment :: string
  om_OK :: bool

datatype sim_msg = SimMintHal msg_mint_hal | SimRedeemCollateral msg_redeem_collateral | SimCreateTicket msg_create_ticket

record 'r sim_lib =
  RandomAcc :: "'r \<Rightarrow> sim_account list \<Rightarrow> sim_account outcome"
  NoOpMsg :: "string \<Rightarrow> string \<Rightarrow> string \<Rightarrow> operation_msg"
  MsgTypeURL :: "sim_msg \<Rightarrow> string"
  sim_FindAccount :: "sim_account list \<Rightarrow> acc_address \<Rightarrow> sim_account \<times> bool"

type_synonym 'r operation = "'r \<Rightarrow> sim_account list \<Rightarrow> operation_msg outcome"

definition SimulateMsgMintHal :: "sdk_lib \<Rightarrow> 'r sim_lib \<Rightarrow> 'r operation" where
  "SimulateMsgMintHal S L r accs =
     bind_o (RandomAcc L r accs) (\<lambda>simAccount.
       let msg = MsgMintHal_Reset\<lparr>mh_Creator := AccAddress_String S (sim_Address simAccount)\<rparr>
       in Ok (NoOpMsg L ModuleName (MsgTypeURL L (SimMintHal msg)) ''MintHal simulation not implemented''))"

definition SimulateMsgRedeemCollateral :: "sdk_lib \<Rightarrow> 'r sim_lib \<Rightarrow> 'r operation" where
  "SimulateMsgRedeemCollateral S L r accs =
     bind_o (RandomAcc L r accs) (\<lambda>simAccount.
       let msg = MsgRedeemCollateral_Reset\<lparr>rc_Creator := AccAddress_String S (sim_Address simAccount)\<rparr>
       in Ok (NoOpMsg L ModuleName (MsgTypeURL L (SimRedeemCollateral msg)) ''RedeemCollateral simulation not implemented''))"

definition SimulateMsgCreateTicket :: "sdk_lib \<Rightarrow> 'r sim_lib \<Rightarrow> 'r operation" where
  "SimulateMsgCreateTicket S L r accs =
     bind_o (RandomAcc L r accs) (\<lambda>simAccount.
       let msg = MsgCreateTicket_Reset\<lparr>ct_Creator := AccAddress_String S (sim_Address simAccount)\<rparr>
       in Ok (NoOpMsg L ModuleName (MsgTypeURL L (SimCreateTicket msg)) ''CreateTicket simulation not implemented''))"

definition FindAccount :: "sdk_lib \<Rightarrow> 'r sim_lib \<Rightarrow> sim_account list \<Rightarrow> string \<Rightarrow> (sim_account \<times> bool) outcome" where
  "FindAccount S L accs address =
     (case AccAddressFromBech32 S address of
        Err err \<Rightarrow> Panic (err_Error S err)
      | Panic s \<Rightarrow> Panic s
      | Ok creator \<Rightarrow> Ok (sim_FindAccount L accs creator))"

section \<open>What the module registers\<close>

text \<open>\<open>GetOrGenerate key init gen\<close> is the value of a variable with value \<open>init\<close> after a call for \<open>key\<close> whose generator
  assigns \<open>gen\<close>.\<close>

record sim_state =
  ss_Accounts :: "sim_account list"
  ss_GenState :: "string \<Rightarrow> string option"
  ss_Cdc :: json_codec
  ss_GetOrGenerate :: "string \<Rightarrow> int \<Rightarrow> int \<Rightarrow> int outcome"

definition GenerateGenesisState :: "sim_state \<Rightarrow> sim_state outcome" where
  "GenerateGenesisState simState =
     (let halGenesis = \<lparr>gs_Params = DefaultParams\<rparr>
      in bind_o (MustMarshalJSON (ss_Cdc simState) halGenesis) (\<lambda>bz.
           Ok (simState\<lparr>ss_GenState := (ss_GenState simState)(ModuleName \<mapsto> bz)\<rparr>)))"

definition WeightedOperations :: "sdk_lib \<Rightarrow> 'r sim_lib \<Rightarrow> sim_state \<Rightarrow> (int \<times> 'r operation) list outcome" where
  "WeightedOperations S L simState =
     bind_o (ss_GetOrGenerate simState ''op_weight_msg_mint_hal'' 0 100) (\<lambda>weightMsgMintHal.
     bind_o (ss_GetOrGenerate simState ''op_weight_msg_redeem_collateral'' 0 100)
       (\<lambda>weightMsgRedeemCollateral.
     bind_o (ss_GetOrGenerate simState ''op_weight_msg_create_ticket'' 0 100) (\<lambda>weightMsgCreateTicket.
     Ok [(weightMsgMintHal, SimulateMsgMintHal S L), (weightMsgRedeemCollateral, SimulateMsgRedeemCollateral S L),
       (weightMsgCreateTicket, SimulateMsgCreateTicket S L)])))"

text \<open>A proposal has a key, a default weight and a function that makes its message; here it makes none.\<close>

definition ProposalMsgs :: "(string \<times> int \<times> ('r \<Rightarrow> sim_account list \<Rightarrow> sim_msg option)) list" where
  "ProposalMsgs =
     [(''op_weight_msg_mint_hal'', 100, \<lambda>r accs. None),
      (''op_weight_msg_redeem_collateral'', 100, \<lambda>r accs. None),
      (''op_weight_msg_create_ticket'', 100, \<lambda>r accs. None)]"

section \<open>Properties\<close>

text \<open>The simulated genesis is the default one, so it is valid; no other module's state changes.\<close>

lemma GenerateGenesisState_default:
  assumes "GenerateGenesisState st = Ok st'" "\<And>g bz. MustMarshalJSON (ss_Cdc st) g = Ok bz \<Longrightarrow> UnmarshalJSON (ss_Cdc st) bz = Ok g"
  shows "\<exists>bz. ss_GenState st' ModuleName = Some bz \<and> AppModuleBasic_ValidateGenesis S (ss_Cdc st) bz = Ok () \<and>
    (\<forall>m. m \<noteq> ModuleName \<longrightarrow> ss_GenState st' m = ss_GenState st m)"
proof -
  have "GenesisState_Validate \<lparr>gs_Params = DefaultParams\<rparr> = Ok ()" by code_simp
  then show ?thesis
    using assms by (auto simp: GenerateGenesisState_def bind_o_eq_Ok AppModuleBasic_ValidateGenesis_def)
qed

text \<open>Every operation reports that it did nothing, with the module as its route.\<close>

lemma operations_do_nothing:
  assumes "WeightedOperations S L st = Ok ops" "(weight, op) \<in> set ops" "op r accs = Ok m"
    "\<And>route name comment. NoOpMsg L route name comment = \<lparr>om_Route = route, om_Name = name, om_Comment = comment, om_OK = False\<rparr>"
  shows "om_Route m = ModuleName \<and> \<not> om_OK m"
  using assms by (auto simp: WeightedOperations_def SimulateMsgMintHal_def SimulateMsgRedeemCollateral_def
      SimulateMsgCreateTicket_def Let_def bind_o_eq_Ok)

end
