(* ===== verification/App_Export.thy ===== *)
theory App_Export
  imports App_Config
begin

text \<open>
  The parts of \<open>app\<close> that work on data: the export of the state for a restart at height zero (\<open>export.go\<close>), the
  validation of the accounts of a simulated genesis (\<open>genesis_account.go\<close>) and the maps that \<open>app.go\<close> builds from its
  configuration. The keepers of staking, distribution, slashing and crisis are arguments; what the
  export relies on is stated in the locale \<open>app_laws\<close>, over a view of the staking and slashing state.
\<close>

section \<open>The keepers of the application\<close>

text \<open>The messages of other packages, with the fields that the export reads or writes; \<open>'x\<close> stands for the others.\<close>

record 'x validator =
  val_Operator :: string
  val_UnbondingHeight :: "64 word"
  val_Jailed :: bool
  val_rest :: 'x

record 'x ubd_entry =
  en_CreationHeight :: "64 word"
  en_rest :: 'x

record 'x redelegation =
  red_Entries :: "'x ubd_entry list"
  red_rest :: 'x

record 'x unbonding =
  ubd_Entries :: "'x ubd_entry list"
  ubd_rest :: 'x

record delegation =
  del_ValidatorAddress :: string
  del_DelegatorAddress :: string

record 'x signing_info =
  si_StartHeight :: "64 word"
  si_rest :: 'x

text \<open>Of a context only the block height matters here; \<open>'f\<close> is the type of decimal coins.\<close>

type_synonym height = "64 word"

record ('s, 'x, 'f) app_keepers =
  ValAddressFromBech32 :: "string \<Rightarrow> bytes outcome"
  ValAddress_String :: "bytes \<Rightarrow> string"
  MustAccAddressFromBech32 :: "string \<Rightarrow> bytes outcome"
  StringToBytes :: "string \<Rightarrow> bytes outcome"
  AssertInvariants :: "height \<Rightarrow> ('s, unit) act"
  IterateValidators :: "height \<Rightarrow> (int \<Rightarrow> 'x validator \<Rightarrow> ('s, bool) act) \<Rightarrow> ('s, unit) act"
  WithdrawValidatorCommission :: "height \<Rightarrow> bytes \<Rightarrow> ('s, unit) act"
  GetAllDelegations :: "height \<Rightarrow> 's \<Rightarrow> delegation list outcome"
  WithdrawDelegationRewards :: "height \<Rightarrow> bytes \<Rightarrow> bytes \<Rightarrow> ('s, unit) act"
  DeleteAllValidatorSlashEvents :: "height \<Rightarrow> ('s, unit) act"
  DeleteAllValidatorHistoricalRewards :: "height \<Rightarrow> ('s, unit) act"
  GetValidatorOutstandingRewardsCoins :: "height \<Rightarrow> bytes \<Rightarrow> 's \<Rightarrow> 'f outcome"
  FeePool_Get :: "height \<Rightarrow> 's \<Rightarrow> 'f outcome"
  FeePool_Set :: "height \<Rightarrow> 'f \<Rightarrow> ('s, unit) act"
  DecCoins_Add :: "'f \<Rightarrow> 'f \<Rightarrow> 'f outcome"
  AfterValidatorCreated :: "height \<Rightarrow> bytes \<Rightarrow> ('s, unit) act"
  BeforeDelegationCreated :: "height \<Rightarrow> bytes \<Rightarrow> bytes \<Rightarrow> ('s, unit) act"
  AfterDelegationModified :: "height \<Rightarrow> bytes \<Rightarrow> bytes \<Rightarrow> ('s, unit) act"
  IterateRedelegations :: "height \<Rightarrow> (int \<Rightarrow> 'x redelegation \<Rightarrow> ('s, bool) act) \<Rightarrow> ('s, unit) act"
  SetRedelegation :: "height \<Rightarrow> 'x redelegation \<Rightarrow> ('s, unit) act"
  IterateUnbondingDelegations :: "height \<Rightarrow> (int \<Rightarrow> 'x unbonding \<Rightarrow> ('s, bool) act) \<Rightarrow> ('s, unit) act"
  SetUnbondingDelegation :: "height \<Rightarrow> 'x unbonding \<Rightarrow> ('s, unit) act"
  ReverseValidatorKeys :: "height \<Rightarrow> 's \<Rightarrow> bytes list"
  AddressFromValidatorsKey :: "bytes \<Rightarrow> bytes"
  GetValidator :: "height \<Rightarrow> bytes \<Rightarrow> 's \<Rightarrow> 'x validator outcome"
  SetValidator :: "height \<Rightarrow> 'x validator \<Rightarrow> ('s, unit) act"
  iter_Close :: "'s \<Rightarrow> unit outcome"
  ApplyAndReturnValidatorSetUpdates :: "height \<Rightarrow> ('s, unit) act"
  IterateValidatorSigningInfos :: "height \<Rightarrow> (bytes \<Rightarrow> 'x signing_info \<Rightarrow> ('s, bool) act) \<Rightarrow> ('s, unit) act"
  SetValidatorSigningInfo :: "height \<Rightarrow> bytes \<Rightarrow> 'x signing_info \<Rightarrow> ('s, unit) act"

section \<open>Zero-height export\<close>

text \<open>\<open>if err != nil { panic(err) }\<close>, and \<open>if err != nil { log.Fatal(err) }\<close>, which ends the process.\<close>

definition must_a :: "('w, 'a) act \<Rightarrow> ('w, 'a) act" where
  "must_a m = try_a m (\<lambda>_. panic_a ''error'') ret_a"

definition fatal_a :: "('w, 'a) act \<Rightarrow> ('w, 'a) act" where
  "fatal_a m = try_a m (\<lambda>_. panic_a ''log.Fatal'') ret_a"

fun for_each :: "('a \<Rightarrow> ('w, unit) act) \<Rightarrow> 'a list \<Rightarrow> ('w, unit) act" where
  "for_each f [] = ret_a ()"
| "for_each f (x # xs) = bind_a (f x) (\<lambda>_. for_each f xs)"

fun allowedAddrsMap :: "('s, 'x, 'f) app_keepers \<Rightarrow> string list \<Rightarrow> (string \<Rightarrow> bool) \<Rightarrow> ('s, string \<Rightarrow> bool) act" where
  "allowedAddrsMap K [] allowed = ret_a allowed"
| "allowedAddrsMap K (addr # addrs) allowed =
     bind_a (fatal_a (lift_a (ValAddressFromBech32 K addr))) (\<lambda>_. allowedAddrsMap K addrs (allowed(addr := True)))"

text \<open>The callbacks of the iterations and the bodies of the loops.\<close>

definition withdraw_commission :: "('s, 'x, 'f) app_keepers \<Rightarrow> height \<Rightarrow> int \<Rightarrow> 'x validator \<Rightarrow> ('s, bool) act" where
  "withdraw_commission K ctx i val =
     bind_a (must_a (lift_a (StringToBytes K (val_Operator val)))) (\<lambda>valBz.
     bind_a (discard_a (WithdrawValidatorCommission K ctx valBz)) (\<lambda>_. ret_a False))"

definition withdraw_rewards :: "('s, 'x, 'f) app_keepers \<Rightarrow> height \<Rightarrow> delegation \<Rightarrow> ('s, unit) act" where
  "withdraw_rewards K ctx delegation =
     bind_a (must_a (lift_a (ValAddressFromBech32 K (del_ValidatorAddress delegation)))) (\<lambda>valAddr.
     bind_a (lift_a (MustAccAddressFromBech32 K (del_DelegatorAddress delegation))) (\<lambda>delAddr.
     discard_a (WithdrawDelegationRewards K ctx delAddr valAddr)))"

definition reinit_validator :: "('s, 'x, 'f) app_keepers \<Rightarrow> height \<Rightarrow> int \<Rightarrow> 'x validator \<Rightarrow> ('s, bool) act" where
  "reinit_validator K ctx i val =
     bind_a (must_a (lift_a (StringToBytes K (val_Operator val)))) (\<lambda>valBz.
     bind_a (must_a (read_a (GetValidatorOutstandingRewardsCoins K ctx valBz))) (\<lambda>scraps.
     bind_a (must_a (read_a (FeePool_Get K ctx))) (\<lambda>communityPool.
     bind_a (lift_a (DecCoins_Add K communityPool scraps)) (\<lambda>feePool.
     bind_a (must_a (FeePool_Set K ctx feePool)) (\<lambda>_.
     bind_a (must_a (AfterValidatorCreated K ctx valBz)) (\<lambda>_. ret_a False))))))"

definition reinit_delegation :: "('s, 'x, 'f) app_keepers \<Rightarrow> height \<Rightarrow> delegation \<Rightarrow> ('s, unit) act" where
  "reinit_delegation K ctx del =
     bind_a (must_a (lift_a (ValAddressFromBech32 K (del_ValidatorAddress del)))) (\<lambda>valAddr.
     bind_a (lift_a (MustAccAddressFromBech32 K (del_DelegatorAddress del))) (\<lambda>delAddr.
     bind_a (must_a (BeforeDelegationCreated K ctx delAddr valAddr)) (\<lambda>_.
     must_a (AfterDelegationModified K ctx delAddr valAddr))))"

definition zero_entries :: "'x ubd_entry list \<Rightarrow> 'x ubd_entry list" where
  "zero_entries es = map (\<lambda>e. e\<lparr>en_CreationHeight := 0\<rparr>) es"

definition reset_redelegation :: "('s, 'x, 'f) app_keepers \<Rightarrow> height \<Rightarrow> int \<Rightarrow> 'x redelegation \<Rightarrow> ('s, bool) act" where
  "reset_redelegation K ctx i red =
     bind_a (must_a (SetRedelegation K ctx (red\<lparr>red_Entries := zero_entries (red_Entries red)\<rparr>))) (\<lambda>_. ret_a False)"

definition reset_unbonding :: "('s, 'x, 'f) app_keepers \<Rightarrow> height \<Rightarrow> int \<Rightarrow> 'x unbonding \<Rightarrow> ('s, bool) act" where
  "reset_unbonding K ctx i ubd =
     bind_a (must_a (SetUnbondingDelegation K ctx (ubd\<lparr>ubd_Entries := zero_entries (ubd_Entries ubd)\<rparr>))) (\<lambda>_. ret_a False)"

definition reset_validator :: "('s, 'x, 'f) app_keepers \<Rightarrow> height \<Rightarrow> bool \<Rightarrow> (string \<Rightarrow> bool) \<Rightarrow> bytes \<Rightarrow> ('s, unit) act" where
  "reset_validator K ctx applyAllowedAddrs allowed key =
     (let addr = AddressFromValidatorsKey K key
      in bind_a (must_a (read_a (GetValidator K ctx addr))) (\<lambda>validator.
         let v1 = validator\<lparr>val_UnbondingHeight := 0\<rparr>;
             v2 = (if applyAllowedAddrs \<and> \<not> allowed (ValAddress_String K addr) then v1\<lparr>val_Jailed := True\<rparr> else v1)
         in must_a (SetValidator K ctx v2)))"

definition reset_signing_info :: "('s, 'x, 'f) app_keepers \<Rightarrow> height \<Rightarrow> bytes \<Rightarrow> 'x signing_info \<Rightarrow> ('s, bool) act" where
  "reset_signing_info K ctx addr info =
     bind_a (discard_a (SetValidatorSigningInfo K ctx addr (info\<lparr>si_StartHeight := 0\<rparr>))) (\<lambda>_. ret_a False)"

text \<open>The three parts of \<open>prepForZeroHeightGenesis\<close>. The second iteration over the validators assigns its error to
  a variable that is not read before the next assignment.\<close>

definition prep_distribution :: "('s, 'x, 'f) app_keepers \<Rightarrow> height \<Rightarrow> ('s, unit) act" where
  "prep_distribution K ctx =
     bind_a (must_a (IterateValidators K ctx (withdraw_commission K ctx))) (\<lambda>_.
     bind_a (must_a (read_a (GetAllDelegations K ctx))) (\<lambda>dels.
     bind_a (for_each (withdraw_rewards K ctx) dels) (\<lambda>_.
     bind_a (discard_a (DeleteAllValidatorSlashEvents K ctx)) (\<lambda>_.
     bind_a (discard_a (DeleteAllValidatorHistoricalRewards K ctx)) (\<lambda>_.
     bind_a (discard_a (IterateValidators K 0 (reinit_validator K 0))) (\<lambda>_.
     for_each (reinit_delegation K 0) dels))))))"

definition prep_staking :: "('s, 'x, 'f) app_keepers \<Rightarrow> height \<Rightarrow> bool \<Rightarrow> (string \<Rightarrow> bool) \<Rightarrow> ('s, unit) act" where
  "prep_staking K ctx applyAllowedAddrs allowed =
     bind_a (must_a (IterateRedelegations K ctx (reset_redelegation K ctx))) (\<lambda>_.
     bind_a (must_a (IterateUnbondingDelegations K ctx (reset_unbonding K ctx))) (\<lambda>_.
     bind_a (read_a (\<lambda>s. Ok (ReverseValidatorKeys K ctx s))) (\<lambda>keys.
     for_each (reset_validator K ctx applyAllowedAddrs allowed) keys)))"

definition prep_finish :: "('s, 'x, 'f) app_keepers \<Rightarrow> height \<Rightarrow> ('s, unit) act" where
  "prep_finish K ctx =
     bind_a (fatal_a (ApplyAndReturnValidatorSetUpdates K ctx)) (\<lambda>_.
     fatal_a (IterateValidatorSigningInfos K ctx (reset_signing_info K ctx)))"

definition prepForZeroHeightGenesis :: "('s, 'x, 'f) app_keepers \<Rightarrow> height \<Rightarrow> string list \<Rightarrow> ('s, unit) act" where
  "prepForZeroHeightGenesis K ctx jailAllowedAddrs =
     (let applyAllowedAddrs = (length jailAllowedAddrs > 0)
      in bind_a (allowedAddrsMap K jailAllowedAddrs (\<lambda>_. False)) (\<lambda>allowed.
         bind_a (AssertInvariants K ctx) (\<lambda>_.
         bind_a (prep_distribution K ctx) (\<lambda>_.
         bind_a (prep_staking K ctx applyAllowedAddrs allowed) (\<lambda>_.
         try_a (read_a (iter_Close K)) (\<lambda>_. ret_a ()) (\<lambda>_. prep_finish K ctx))))))"

text \<open>\<open>ExportAppStateAndValidators\<close>. The export of the modules, its JSON text and the validator set are results of other
  packages.\<close>

record ('s, 'g, 'v, 'c) export_calls =
  LastBlockHeight :: "'s \<Rightarrow> height"
  ExportGenesisForModules :: "height \<Rightarrow> string list \<Rightarrow> 's \<Rightarrow> 'g outcome"
  MarshalIndent :: "'g \<Rightarrow> bytes outcome"
  WriteValidators :: "height \<Rightarrow> 's \<Rightarrow> 'v outcome"
  GetConsensusParams :: "height \<Rightarrow> 's \<Rightarrow> 'c"

record ('v, 'c) exported_app =
  ea_AppState :: bytes
  ea_Validators :: 'v
  ea_Height :: "64 word"
  ea_ConsensusParams :: 'c

definition ExportAppStateAndValidators ::
    "('s, 'x, 'f) app_keepers \<Rightarrow> ('s, 'g, 'v, 'c) export_calls \<Rightarrow> bool \<Rightarrow> string list \<Rightarrow> string list \<Rightarrow>
     ('s, ('v, 'c) exported_app) act" where
  "ExportAppStateAndValidators K E forZeroHeight jailAllowedAddrs modulesToExport =
     bind_a (read_a (\<lambda>s. Ok (LastBlockHeight E s))) (\<lambda>ctx.
     let h = (if forZeroHeight then 0 else ctx + 1)
     in bind_a (if forZeroHeight then prepForZeroHeightGenesis K ctx jailAllowedAddrs else ret_a ()) (\<lambda>_.
        bind_a (read_a (ExportGenesisForModules E ctx modulesToExport)) (\<lambda>genState.
        bind_a (lift_a (MarshalIndent E genState)) (\<lambda>appState.
        bind_a (read_a (WriteValidators E ctx)) (\<lambda>validators.
        bind_a (read_a (\<lambda>s. Ok (GetConsensusParams E ctx s))) (\<lambda>params.
        ret_a \<lparr>ea_AppState = appState, ea_Validators = validators, ea_Height = h, ea_ConsensusParams = params\<rparr>))))))"

section \<open>The view of the state\<close>

record 'x staking_view =
  sv_vals :: "bytes \<Rightarrow> 'x validator option"
  sv_reds :: "bytes \<Rightarrow> 'x redelegation option"
  sv_ubds :: "bytes \<Rightarrow> 'x unbonding option"
  sv_infos :: "bytes \<Rightarrow> 'x signing_info option"

text \<open>An iteration with a callback that can stop it.\<close>

fun iterate :: "(int \<Rightarrow> 'a \<Rightarrow> ('s, bool) act) \<Rightarrow> int \<Rightarrow> 'a list \<Rightarrow> ('s, unit) act" where
  "iterate f i [] = ret_a ()"
| "iterate f i (x # xs) = bind_a (f i x) (\<lambda>stop. if stop then ret_a () else iterate f (i + 1) xs)"

text \<open>Every value is stored under its own key.\<close>

definition view_ok :: "('s, 'x, 'f) app_keepers \<Rightarrow> ('x \<Rightarrow> bytes) \<Rightarrow> ('x \<Rightarrow> bytes) \<Rightarrow> 'x staking_view \<Rightarrow> bool" where
  "view_ok K red_key ubd_key v \<longleftrightarrow>
     (\<forall>a x. sv_vals v a = Some x \<longrightarrow> StringToBytes K (val_Operator x) = Ok a) \<and>
     (\<forall>k r. sv_reds v k = Some r \<longrightarrow> red_key (red_rest r) = k) \<and>
     (\<forall>k u. sv_ubds v k = Some u \<longrightarrow> ubd_key (ubd_rest u) = k)"

text \<open>Calls that succeed and leave the view alone.\<close>

definition calm :: "('s \<Rightarrow> 'v) \<Rightarrow> ('v \<Rightarrow> bool) \<Rightarrow> ('s, 'a) act \<Rightarrow> bool" where
  "calm view good m \<longleftrightarrow> (\<forall>s. good (view s) \<longrightarrow> (\<exists>a s'. m s = (Ok a, s') \<and> view s' = view s))"

text \<open>What the export relies on. Distribution calls and hooks do not touch staking or slashing and, as the comments in the
  code say of the hooks, return no error; iterations visit the stored values; setters store
  under the key of the value; the update of the validator set neither jails nor releases a validator
  and leaves the other stores alone. It is not assumed that this update succeeds.\<close>

locale app_laws =
  fixes K :: "('s, 'x, 'f) app_keepers" and view :: "'s \<Rightarrow> 'x staking_view" and red_key ubd_key :: "'x \<Rightarrow> bytes"
  assumes validators: "view_ok K red_key ubd_key (view s) \<Longrightarrow>
      \<exists>l. set l \<subseteq> ran (sv_vals (view s)) \<and> (\<forall>f. IterateValidators K h f s = iterate f 0 l s)"
    and delegations: "view_ok K red_key ubd_key (view s) \<Longrightarrow>
      \<exists>dels. GetAllDelegations K h s = Ok dels \<and> (\<forall>d\<in>set dels. is_Ok (ValAddressFromBech32 K (del_ValidatorAddress d)) \<and>
        is_Ok (MustAccAddressFromBech32 K (del_DelegatorAddress d)))"
    and withdrawals: "calm view (view_ok K red_key ubd_key) (discard_a (WithdrawValidatorCommission K h a))"
      "calm view (view_ok K red_key ubd_key) (discard_a (WithdrawDelegationRewards K h b a))"
    and deletions: "calm view (view_ok K red_key ubd_key) (discard_a (DeleteAllValidatorSlashEvents K h))"
      "calm view (view_ok K red_key ubd_key) (discard_a (DeleteAllValidatorHistoricalRewards K h))"
    and rewards: "is_Ok (GetValidatorOutstandingRewardsCoins K h a s)" "is_Ok (FeePool_Get K h s)" "is_Ok (DecCoins_Add K c c')"
    and fee_pool: "calm view (view_ok K red_key ubd_key) (FeePool_Set K h c)"
    and hooks: "calm view (view_ok K red_key ubd_key) (AfterValidatorCreated K h a)"
      "calm view (view_ok K red_key ubd_key) (BeforeDelegationCreated K h b a)"
      "calm view (view_ok K red_key ubd_key) (AfterDelegationModified K h b a)"
    and redelegations: "view_ok K red_key ubd_key (view s) \<Longrightarrow>
      \<exists>l. set l = ran (sv_reds (view s)) \<and> (\<forall>f. IterateRedelegations K h f s = iterate f 0 l s)"
    and set_redelegation: "\<exists>s'. SetRedelegation K h r s = (Ok (), s') \<and>
      view s' = (view s)\<lparr>sv_reds := (sv_reds (view s))(red_key (red_rest r) \<mapsto> r)\<rparr>"
    and unbondings: "view_ok K red_key ubd_key (view s) \<Longrightarrow>
      \<exists>l. set l = ran (sv_ubds (view s)) \<and> (\<forall>f. IterateUnbondingDelegations K h f s = iterate f 0 l s)"
    and set_unbonding: "\<exists>s'. SetUnbondingDelegation K h u s = (Ok (), s') \<and>
      view s' = (view s)\<lparr>sv_ubds := (sv_ubds (view s))(ubd_key (ubd_rest u) \<mapsto> u)\<rparr>"
    and validator_keys: "distinct (map (AddressFromValidatorsKey K) (ReverseValidatorKeys K h s))"
      "AddressFromValidatorsKey K ` set (ReverseValidatorKeys K h s) = dom (sv_vals (view s))"
    and get_validator: "sv_vals (view s) a = Some x \<Longrightarrow> GetValidator K h a s = Ok x"
    and set_validator: "StringToBytes K (val_Operator x) = Ok a \<Longrightarrow>
      \<exists>s'. SetValidator K h x s = (Ok (), s') \<and> view s' = (view s)\<lparr>sv_vals := (sv_vals (view s))(a \<mapsto> x)\<rparr>"
    and close: "iter_Close K s = Ok ()"
    and updates: "ApplyAndReturnValidatorSetUpdates K h s = (Ok (), s') \<Longrightarrow>
      sv_reds (view s') = sv_reds (view s) \<and> sv_ubds (view s') = sv_ubds (view s) \<and> sv_infos (view s') = sv_infos (view s) \<and>
      (\<forall>a. map_option val_Jailed (sv_vals (view s') a) = map_option val_Jailed (sv_vals (view s) a))"
    and infos: "\<exists>l. set l = {(a, i). sv_infos (view s) a = Some i} \<and>
      (\<forall>f. IterateValidatorSigningInfos K h f s = iterate (\<lambda>_ (a, i). f a i) 0 l s)"
    and set_info: "\<exists>s'. SetValidatorSigningInfo K h a i s = (Ok (), s') \<and>
      view s' = (view s)\<lparr>sv_infos := (sv_infos (view s))(a \<mapsto> i)\<rparr>"

section \<open>What the export leaves\<close>

definition jail_unlisted :: "('s, 'x, 'f) app_keepers \<Rightarrow> string list \<Rightarrow> bytes \<Rightarrow> 'x validator \<Rightarrow> 'x validator" where
  "jail_unlisted K allowed a x =
     x\<lparr>val_UnbondingHeight := 0, val_Jailed := val_Jailed x \<or> (allowed \<noteq> [] \<and> ValAddress_String K a \<notin> set allowed)\<rparr>"

definition zeroed :: "('s, 'x, 'f) app_keepers \<Rightarrow> string list \<Rightarrow> 'x staking_view \<Rightarrow> 'x staking_view" where
  "zeroed K allowed v = v\<lparr>
     sv_vals := (\<lambda>a. map_option (jail_unlisted K allowed a) (sv_vals v a)),
     sv_reds := (\<lambda>k. map_option (red_Entries_update zero_entries) (sv_reds v k)),
     sv_ubds := (\<lambda>k. map_option (ubd_Entries_update zero_entries) (sv_ubds v k))\<rparr>"

text \<open>Storing a new value for every value of a map.\<close>

lemma fold_updates:
  assumes "\<forall>x\<in>set l. m0 (key x) = Some x"
  shows "fold (\<lambda>x m. m(key x \<mapsto> z x)) l m k = (if k \<in> key ` set l then map_option z (m0 k) else m k)"
  using assms by (induction l arbitrary: m) (auto simp: image_iff)

lemma fold_updates_all:
  assumes "\<forall>x\<in>set l. m (key x) = Some x" "dom m \<subseteq> key ` set l"
  shows "fold (\<lambda>x m. m(key x \<mapsto> z x)) l m = (\<lambda>k. map_option z (m k))"
proof
  fix k
  have "k \<notin> key ` set l \<Longrightarrow> m k = None" using assms(2) by auto
  then show "fold (\<lambda>x m. m(key x \<mapsto> z x)) l m k = map_option z (m k)"
    by (auto simp: fold_updates [where m0 = m, OF assms(1)])
qed

lemma must_a_Ok [simp]: "m s = (Ok a, s') \<Longrightarrow> must_a m s = (Ok a, s')"
  by (simp add: must_a_def try_a_def)

lemma fatal_a_Ok: "fatal_a m s = (Ok a, s') \<longleftrightarrow> m s = (Ok a, s')"
  by (auto simp: fatal_a_def try_a_def split: prod.splits outcome.splits)

text \<open>An iteration whose callback never stops and does a known change to a part of the view.\<close>

lemma iterate_fold:
  assumes "\<And>i x s. x \<in> set l \<Longrightarrow> \<exists>s'. f i x s = (Ok False, s') \<and> view s' = upd x (view s)"
  shows "\<exists>s'. iterate f i l s = (Ok (), s') \<and> view s' = fold upd l (view s)"
  using assms
proof (induction l arbitrary: i s)
  case (Cons x l)
  obtain s1 where s1: "f i x s = (Ok False, s1)" "view s1 = upd x (view s)"
    using Cons.prems [of x] by auto
  obtain s2 where "iterate f (i + 1) l s1 = (Ok (), s2)" "view s2 = fold upd l (view s1)"
    using Cons.IH [of "i + 1" s1] Cons.prems by auto
  then show ?case using s1 by (simp add: bind_a_def)
qed simp

lemma is_Ok_iff: "is_Ok r \<longleftrightarrow> (\<exists>a. r = Ok a)"
  by (cases r) simp_all

lemma calm_bind:
  "calm view good m \<Longrightarrow> (\<And>a. calm view good (f a)) \<Longrightarrow> calm view good (bind_a m f)"
  unfolding calm_def by (metis bind_a_Ok)

lemma calm_basic: "calm view good (ret_a a)" "is_Ok r \<Longrightarrow> calm view good (lift_a r)"
    "(\<And>s. is_Ok (g s)) \<Longrightarrow> calm view good (read_a g)"
  by (auto simp: calm_def is_Ok_iff)

lemma calm_must: "calm view good m \<Longrightarrow> calm view good (must_a m)"
  unfolding calm_def by (metis must_a_Ok)

lemma calm_discard: "calm view good m \<Longrightarrow> calm view good (discard_a m)"
  unfolding calm_def discard_a_def by fastforce

lemma calm_for_each: "(\<And>x. x \<in> set l \<Longrightarrow> calm view good (f x)) \<Longrightarrow> calm view good (for_each f l)"
  by (induction l) (simp_all add: calm_basic calm_bind)

lemma calm_iterate: "(\<And>i x. x \<in> set l \<Longrightarrow> calm view good (f i x)) \<Longrightarrow> calm view good (iterate f i l)"
  by (induction l arbitrary: i) (simp_all add: calm_basic calm_bind)

lemma entries_update [simp]:
  "r\<lparr>red_Entries := zero_entries (red_Entries r)\<rparr> = red_Entries_update zero_entries r"
  "u\<lparr>ubd_Entries := zero_entries (ubd_Entries u)\<rparr> = ubd_Entries_update zero_entries u"
  by (cases r, simp) (cases u, simp)

lemma fold_view:
  "fold (\<lambda>r v. v\<lparr>sv_reds := (sv_reds v)(kr r \<mapsto> zr r)\<rparr>) lr v = v\<lparr>sv_reds := fold (\<lambda>r m. m(kr r \<mapsto> zr r)) lr (sv_reds v)\<rparr>"
  "fold (\<lambda>u v. v\<lparr>sv_ubds := (sv_ubds v)(ku u \<mapsto> zu u)\<rparr>) lu v = v\<lparr>sv_ubds := fold (\<lambda>u m. m(ku u \<mapsto> zu u)) lu (sv_ubds v)\<rparr>"
  "fold (\<lambda>i v. v\<lparr>sv_infos := (sv_infos v)(ki i \<mapsto> zi i)\<rparr>) li v = v\<lparr>sv_infos := fold (\<lambda>i m. m(ki i \<mapsto> zi i)) li (sv_infos v)\<rparr>"
  by (induction lr arbitrary: v, simp_all) (induction lu arbitrary: v, simp_all, induction li arbitrary: v, simp_all)

lemma allowedAddrsMap_eq:
  "\<forall>a\<in>set l. is_Ok (ValAddressFromBech32 K a) \<Longrightarrow> allowedAddrsMap K l m s = (Ok (\<lambda>a. m a \<or> a \<in> set l), s)"
proof (induction l arbitrary: m)
  case (Cons a l)
  then obtain b where "ValAddressFromBech32 K a = Ok b" by (auto simp: is_Ok_iff)
  then have "fatal_a (lift_a (ValAddressFromBech32 K a)) s = (Ok b, s)" by (simp add: fatal_a_Ok)
  moreover have "(\<lambda>x. (m(a := True)) x \<or> x \<in> set l) = (\<lambda>x. m x \<or> x \<in> set (a # l))" by auto
  ultimately show ?case using Cons by (simp add: bind_a_Ok)
qed simp

context app_laws
begin

abbreviation good :: "'x staking_view \<Rightarrow> bool" where
  "good \<equiv> view_ok K red_key ubd_key"

lemma calm_validators:
  assumes "\<And>i x. is_Ok (StringToBytes K (val_Operator x)) \<Longrightarrow> calm view good (f i x)"
  shows "calm view good (IterateValidators K h f)"
  unfolding calm_def
proof (intro allI impI)
  fix s assume g: "good (view s)"
  obtain l where l: "set l \<subseteq> ran (sv_vals (view s))" "IterateValidators K h f s = iterate f 0 l s"
    using validators [OF g] by blast
  have "calm view good (f i x)" if "x \<in> set l" for i x
    using that l(1) g by (intro assms) (auto simp: view_ok_def ran_def is_Ok_iff)
  then have "calm view good (iterate f 0 l)" by (rule calm_iterate)
  then show "\<exists>a s'. IterateValidators K h f s = (Ok a, s') \<and> view s' = view s"
    using g by (simp add: calm_def l(2))
qed

lemma distribution_calm: "calm view good (prep_distribution K h)"
proof -
  have dels: "\<exists>a s'. bind_a (must_a (read_a (GetAllDelegations K h))) f s = (Ok a, s') \<and> view s' = view s"
    if g: "good (view s)" and c: "\<And>dels. \<forall>d\<in>set dels. is_Ok (ValAddressFromBech32 K (del_ValidatorAddress d)) \<and>
        is_Ok (MustAccAddressFromBech32 K (del_DelegatorAddress d)) \<Longrightarrow> calm view good (f dels)"
    for f :: "delegation list \<Rightarrow> ('s, unit) act" and s
  proof -
    obtain dels where d: "GetAllDelegations K h s = Ok dels" "calm view good (f dels)"
      using delegations [OF g, of h] c by blast
    then have "must_a (read_a (GetAllDelegations K h)) s = (Ok dels, s)" by simp
    then show ?thesis using d(2) g by (simp add: bind_a_Ok calm_def)
  qed
  have rest: "calm view good (bind_a (must_a (read_a (GetAllDelegations K h))) (\<lambda>dels.
     bind_a (for_each (withdraw_rewards K h) dels) (\<lambda>_.
     bind_a (discard_a (DeleteAllValidatorSlashEvents K h)) (\<lambda>_.
     bind_a (discard_a (DeleteAllValidatorHistoricalRewards K h)) (\<lambda>_.
     bind_a (discard_a (IterateValidators K 0 (reinit_validator K 0))) (\<lambda>_.
     for_each (reinit_delegation K 0) dels))))))"
    unfolding calm_def [of view good "bind_a _ _"]
    by (intro allI impI dels) (auto simp: withdraw_rewards_def reinit_delegation_def reinit_validator_def
        intro!: calm_bind calm_for_each calm_must calm_discard calm_basic calm_validators deletions withdrawals hooks
          rewards fee_pool)
  have "calm view good (must_a (IterateValidators K h (withdraw_commission K h)))"
    by (auto simp: withdraw_commission_def intro!: calm_bind calm_must calm_basic withdrawals calm_validators)
  then show ?thesis
    unfolding prep_distribution_def by (rule calm_bind) (rule rest)
qed

lemma redelegations_zeroed:
  assumes "good (view s)"
  shows "\<exists>s'. must_a (IterateRedelegations K h (reset_redelegation K h)) s = (Ok (), s') \<and>
    view s' = (view s)\<lparr>sv_reds := (\<lambda>k. map_option (red_Entries_update zero_entries) (sv_reds (view s) k))\<rparr>"
proof -
  obtain l where l: "set l = ran (sv_reds (view s))"
      "IterateRedelegations K h (reset_redelegation K h) s = iterate (reset_redelegation K h) 0 l s"
    using redelegations [OF assms] by blast
  have keys: "\<forall>r\<in>set l. sv_reds (view s) (red_key (red_rest r)) = Some r"
    using assms by (auto simp: l(1) ran_def view_ok_def)
  have dom: "dom (sv_reds (view s)) \<subseteq> (\<lambda>r. red_key (red_rest r)) ` set l"
    using assms by (force simp: l(1) ran_def view_ok_def dom_def image_iff)
  have step: "\<exists>t'. reset_redelegation K h i r t = (Ok False, t') \<and>
      view t' = (view t)\<lparr>sv_reds := (sv_reds (view t))(red_key (red_rest r) \<mapsto> red_Entries_update zero_entries r)\<rparr>" for i r t
    using set_redelegation [of h "red_Entries_update zero_entries r" t] by (auto simp: reset_redelegation_def bind_a_def)
  obtain s' where "iterate (reset_redelegation K h) 0 l s = (Ok (), s')"
      "view s' = fold (\<lambda>r v. v\<lparr>sv_reds := (sv_reds v)(red_key (red_rest r) \<mapsto> red_Entries_update zero_entries r)\<rparr>) l (view s)"
    using iterate_fold [of l "reset_redelegation K h" view, OF step] by blast
  then show ?thesis
    using l(2) by (simp add: fold_view fold_updates_all [OF keys dom])
qed

lemma unbondings_zeroed:
  assumes "good (view s)"
  shows "\<exists>s'. must_a (IterateUnbondingDelegations K h (reset_unbonding K h)) s = (Ok (), s') \<and>
    view s' = (view s)\<lparr>sv_ubds := (\<lambda>k. map_option (ubd_Entries_update zero_entries) (sv_ubds (view s) k))\<rparr>"
proof -
  obtain l where l: "set l = ran (sv_ubds (view s))"
      "IterateUnbondingDelegations K h (reset_unbonding K h) s = iterate (reset_unbonding K h) 0 l s"
    using unbondings [OF assms] by blast
  have keys: "\<forall>u\<in>set l. sv_ubds (view s) (ubd_key (ubd_rest u)) = Some u"
    using assms by (auto simp: l(1) ran_def view_ok_def)
  have dom: "dom (sv_ubds (view s)) \<subseteq> (\<lambda>u. ubd_key (ubd_rest u)) ` set l"
    using assms by (force simp: l(1) ran_def view_ok_def dom_def image_iff)
  have step: "\<exists>t'. reset_unbonding K h i u t = (Ok False, t') \<and>
      view t' = (view t)\<lparr>sv_ubds := (sv_ubds (view t))(ubd_key (ubd_rest u) \<mapsto> ubd_Entries_update zero_entries u)\<rparr>" for i u t
    using set_unbonding [of h "ubd_Entries_update zero_entries u" t] by (auto simp: reset_unbonding_def bind_a_def)
  obtain s' where "iterate (reset_unbonding K h) 0 l s = (Ok (), s')"
      "view s' = fold (\<lambda>u v. v\<lparr>sv_ubds := (sv_ubds v)(ubd_key (ubd_rest u) \<mapsto> ubd_Entries_update zero_entries u)\<rparr>) l (view s)"
    using iterate_fold [of l "reset_unbonding K h" view, OF step] by blast
  then show ?thesis
    using l(2) by (simp add: fold_view fold_updates_all [OF keys dom])
qed

lemma infos_zeroed:
  "\<exists>s'. IterateValidatorSigningInfos K h (reset_signing_info K h) s = (Ok (), s') \<and>
    view s' = (view s)\<lparr>sv_infos := (\<lambda>a. map_option (si_StartHeight_update (\<lambda>_. 0)) (sv_infos (view s) a))\<rparr>"
proof -
  obtain l where l: "set l = {(a, i). sv_infos (view s) a = Some i}"
      "IterateValidatorSigningInfos K h (reset_signing_info K h) s = iterate (\<lambda>_ (a, i). reset_signing_info K h a i) 0 l s"
    using infos by blast
  let ?upd = "\<lambda>p v. v\<lparr>sv_infos := (sv_infos v)(fst p \<mapsto> (snd p)\<lparr>si_StartHeight := 0\<rparr>)\<rparr>"
  have step: "\<exists>t'. (\<lambda>_ (a, i). reset_signing_info K h a i) j p t = (Ok False, t') \<and> view t' = ?upd p (view t)" for j :: int and p t
    using set_info [of h "fst p" "(snd p)\<lparr>si_StartHeight := 0\<rparr>" t]
    by (auto simp: reset_signing_info_def bind_a_def discard_a_def split: prod.splits)
  obtain s' where s': "iterate (\<lambda>_ (a, i). reset_signing_info K h a i) 0 l s = (Ok (), s')" "view s' = fold ?upd l (view s)"
    using iterate_fold [of l "\<lambda>_ (a, i). reset_signing_info K h a i" view ?upd 0 s] step by blast
  have "fold (\<lambda>p m. m(fst p \<mapsto> (snd p)\<lparr>si_StartHeight := 0\<rparr>)) l (sv_infos (view s)) a
      = map_option (si_StartHeight_update (\<lambda>_. 0)) (sv_infos (view s) a)" for a
  proof -
    have "fold (\<lambda>p m. m(fst p \<mapsto> (snd p)\<lparr>si_StartHeight := 0\<rparr>)) l m a
        = (if a \<in> fst ` set l then map_option (si_StartHeight_update (\<lambda>_. 0)) (sv_infos (view s) a) else m a)"
      if "\<forall>p\<in>set l. sv_infos (view s) (fst p) = Some (snd p)" for m l
      using that by (induction l arbitrary: m) (auto simp: image_iff)
    moreover have "a \<notin> fst ` set l \<Longrightarrow> sv_infos (view s) a = None"
      by (cases "sv_infos (view s) a") (force simp: l(1))+
    ultimately show ?thesis by (auto simp: l(1))
  qed
  then show ?thesis using s' l(2) by (simp add: fold_view fun_eq_iff)
qed

lemma reset_validator_eq:
  assumes "sv_vals (view s) (AddressFromValidatorsKey K key) = Some x"
    "StringToBytes K (val_Operator x) = Ok (AddressFromValidatorsKey K key)"
  shows "\<exists>s'. reset_validator K h (allowed \<noteq> []) (\<lambda>a. a \<in> set allowed) key s = (Ok (), s') \<and>
    view s' = (view s)\<lparr>sv_vals := (sv_vals (view s))(AddressFromValidatorsKey K key \<mapsto>
      jail_unlisted K allowed (AddressFromValidatorsKey K key) x)\<rparr>"
proof -
  let ?a = "AddressFromValidatorsKey K key"
  have "(if allowed \<noteq> [] \<and> ValAddress_String K ?a \<notin> set allowed then x\<lparr>val_UnbondingHeight := 0\<rparr>\<lparr>val_Jailed := True\<rparr>
      else x\<lparr>val_UnbondingHeight := 0\<rparr>) = jail_unlisted K allowed ?a x"
    by (cases x) (simp add: jail_unlisted_def)
  moreover have "StringToBytes K (val_Operator (jail_unlisted K allowed ?a x)) = Ok ?a"
    using assms(2) by (simp add: jail_unlisted_def)
  moreover have "must_a (read_a (GetValidator K h ?a)) s = (Ok x, s)"
    using get_validator [OF assms(1)] by simp
  ultimately show ?thesis
    using set_validator [of "jail_unlisted K allowed ?a x" ?a h s]
    by (auto simp: reset_validator_def Let_def bind_a_Ok)
qed

lemma validators_zeroed:
  assumes "distinct (map (AddressFromValidatorsKey K) keys)"
    "\<forall>key\<in>set keys. \<exists>x. sv_vals (view s) (AddressFromValidatorsKey K key) = Some x \<and>
      StringToBytes K (val_Operator x) = Ok (AddressFromValidatorsKey K key)"
  shows "\<exists>s'. for_each (reset_validator K h (allowed \<noteq> []) (\<lambda>a. a \<in> set allowed)) keys s = (Ok (), s') \<and>
    view s' = (view s)\<lparr>sv_vals := (\<lambda>a. if a \<in> AddressFromValidatorsKey K ` set keys
      then map_option (jail_unlisted K allowed a) (sv_vals (view s) a) else sv_vals (view s) a)\<rparr>"
  using assms
proof (induction keys arbitrary: s)
  case (Cons key keys)
  let ?addr = "AddressFromValidatorsKey K" and ?reset = "reset_validator K h (allowed \<noteq> []) (\<lambda>a. a \<in> set allowed)"
  obtain x where x: "sv_vals (view s) (?addr key) = Some x" "StringToBytes K (val_Operator x) = Ok (?addr key)"
    using Cons.prems(2) by auto
  obtain s1 where s1: "?reset key s = (Ok (), s1)"
      "view s1 = (view s)\<lparr>sv_vals := (sv_vals (view s))(?addr key \<mapsto> jail_unlisted K allowed (?addr key) x)\<rparr>"
    using reset_validator_eq [OF x] by blast
  have other: "?addr k \<noteq> ?addr key" if "k \<in> set keys" for k
    using Cons.prems(1) that by (metis distinct.simps(2) image_eqI list.simps(9) set_map)
  have "\<forall>k\<in>set keys. \<exists>y. sv_vals (view s1) (?addr k) = Some y \<and> StringToBytes K (val_Operator y) = Ok (?addr k)"
    using Cons.prems(2) other by (simp add: s1(2))
  then obtain s2 where s2: "for_each ?reset keys s1 = (Ok (), s2)"
      "view s2 = (view s1)\<lparr>sv_vals := (\<lambda>a. if a \<in> ?addr ` set keys
        then map_option (jail_unlisted K allowed a) (sv_vals (view s1) a) else sv_vals (view s1) a)\<rparr>"
    using Cons.IH [of s1] Cons.prems(1) by auto
  have "for_each ?reset (key # keys) s = (Ok (), s2)"
    using s1(1) s2(1) by (simp add: bind_a_Ok)
  moreover have "?addr key \<notin> ?addr ` set keys" using Cons.prems(1) by simp
  ultimately show ?case
    using x(1) by (auto simp: s1(2) s2(2) fun_eq_iff)
qed simp

lemma prep_staking_eq:
  assumes "good (view s)"
  shows "\<exists>s'. prep_staking K h (allowed \<noteq> []) (\<lambda>a. a \<in> set allowed) s = (Ok (), s') \<and> view s' = zeroed K allowed (view s)"
proof -
  obtain s1 where s1: "must_a (IterateRedelegations K h (reset_redelegation K h)) s = (Ok (), s1)"
      "view s1 = (view s)\<lparr>sv_reds := (\<lambda>k. map_option (red_Entries_update zero_entries) (sv_reds (view s) k))\<rparr>"
    using redelegations_zeroed [OF assms] by blast
  have "good (view s1)" using assms by (auto simp: s1(2) view_ok_def)
  then obtain s2 where s2: "must_a (IterateUnbondingDelegations K h (reset_unbonding K h)) s1 = (Ok (), s2)"
      "view s2 = (view s1)\<lparr>sv_ubds := (\<lambda>k. map_option (ubd_Entries_update zero_entries) (sv_ubds (view s1) k))\<rparr>"
    using unbondings_zeroed by blast
  let ?keys = "ReverseValidatorKeys K h s2"
  have vals: "sv_vals (view s2) = sv_vals (view s)" by (simp add: s1(2) s2(2))
  have dom: "AddressFromValidatorsKey K ` set ?keys = dom (sv_vals (view s))"
    using validator_keys(2) [of h s2] by (simp add: vals)
  have "\<forall>key\<in>set ?keys. \<exists>x. sv_vals (view s2) (AddressFromValidatorsKey K key) = Some x \<and>
      StringToBytes K (val_Operator x) = Ok (AddressFromValidatorsKey K key)"
    using dom assms unfolding vals view_ok_def by blast
  then obtain s3 where s3: "for_each (reset_validator K h (allowed \<noteq> []) (\<lambda>a. a \<in> set allowed)) ?keys s2 = (Ok (), s3)"
      "view s3 = (view s2)\<lparr>sv_vals := (\<lambda>a. if a \<in> AddressFromValidatorsKey K ` set ?keys
        then map_option (jail_unlisted K allowed a) (sv_vals (view s2) a) else sv_vals (view s2) a)\<rparr>"
    using validators_zeroed [OF validator_keys(1)] by blast
  have "(\<lambda>a. if a \<in> dom (sv_vals (view s)) then map_option (jail_unlisted K allowed a) (sv_vals (view s) a) else sv_vals (view s) a)
      = (\<lambda>a. map_option (jail_unlisted K allowed a) (sv_vals (view s) a))"
    by (auto simp: fun_eq_iff domIff)
  then have "view s3 = zeroed K allowed (view s)"
    unfolding s3(2) dom vals by (simp add: s1(2) s2(2) zeroed_def)
  then show ?thesis
    using s1(1) s2(1) s3(1) by (simp add: prep_staking_def bind_a_def)
qed

lemma prep_eq:
  assumes "good (view s)" "\<forall>a\<in>set allowed. is_Ok (ValAddressFromBech32 K a)" "AssertInvariants K h s = (Ok (), s)"
  shows "\<exists>s1. view s1 = zeroed K allowed (view s) \<and> prepForZeroHeightGenesis K h allowed s = prep_finish K h s1"
proof -
  obtain u s0 where s0: "prep_distribution K h s = (Ok u, s0)" "view s0 = view s"
    using distribution_calm assms(1) unfolding calm_def by blast
  obtain s1 where "prep_staking K h (allowed \<noteq> []) (\<lambda>a. a \<in> set allowed) s0 = (Ok (), s1)" "view s1 = zeroed K allowed (view s)"
    using prep_staking_eq [of s0] assms(1) s0(2) by auto
  then show ?thesis
    using s0(1) allowedAddrsMap_eq [OF assms(2), of "\<lambda>_. False" s] assms(3) close [of s1]
    by (auto simp: prepForZeroHeightGenesis_def Let_def bind_a_def try_a_def)
qed

lemma prep_finish_eq:
  assumes "prep_finish K h s1 = (Ok (), s2)"
  shows "sv_reds (view s2) = sv_reds (view s1)" "sv_ubds (view s2) = sv_ubds (view s1)"
    "sv_infos (view s2) = (\<lambda>a. map_option (si_StartHeight_update (\<lambda>_. 0)) (sv_infos (view s1) a))"
    "map_option val_Jailed (sv_vals (view s2) a) = map_option val_Jailed (sv_vals (view s1) a)"
proof -
  obtain t where t: "ApplyAndReturnValidatorSetUpdates K h s1 = (Ok (), t)"
      "IterateValidatorSigningInfos K h (reset_signing_info K h) t = (Ok (), s2)"
    using assms by (auto simp: prep_finish_def bind_a_eq_Ok fatal_a_Ok)
  have v: "view s2 = (view t)\<lparr>sv_infos := (\<lambda>a. map_option (si_StartHeight_update (\<lambda>_. 0)) (sv_infos (view t) a))\<rparr>"
    using infos_zeroed [of h t] t(2) by auto
  show "sv_reds (view s2) = sv_reds (view s1)" "sv_ubds (view s2) = sv_ubds (view s1)"
    "sv_infos (view s2) = (\<lambda>a. map_option (si_StartHeight_update (\<lambda>_. 0)) (sv_infos (view s1) a))"
    "map_option val_Jailed (sv_vals (view s2) a) = map_option val_Jailed (sv_vals (view s1) a)"
    using updates [OF t(1)] by (simp_all add: v)
qed

lemma prep_finish_returns:
  "ApplyAndReturnValidatorSetUpdates K h s1 = (Ok (), s0) \<Longrightarrow> \<exists>s2. prep_finish K h s1 = (Ok (), s2)"
  using infos_zeroed [of h s0] by (auto simp: prep_finish_def bind_a_eq_Ok fatal_a_Ok)

end

text \<open>The exported height is zero or the one after the last block, and an export at the current height changes nothing.\<close>

lemma Export_height:
  assumes "ExportAppStateAndValidators K E forZeroHeight allowed modules s = (Ok r, s')"
  shows "ea_Height r = (if forZeroHeight then 0 else LastBlockHeight E s + 1) \<and> (\<not> forZeroHeight \<longrightarrow> s' = s)"
  using assms by (auto simp: ExportAppStateAndValidators_def Let_def bind_a_eq_Ok split: if_splits)

end
