(* ===== verification/App_Accounts.thy ===== *)
theory App_Accounts
  imports App_Config
begin

text \<open>
  \<open>app/genesis_account.go\<close>, the validation of the accounts of a simulated genesis, the maps that
  \<open>app/app.go\<close> builds from the lists of module accounts, and its cache of scoped keepers.
\<close>

section \<open>Genesis accounts\<close>

text \<open>Coins and base accounts are types of other packages, as are the functions on them.\<close>

record ('c, 'b) genesis_account =
  ga_BaseAccount :: 'b
  ga_OriginalVesting :: 'c
  ga_DelegatedFree :: 'c
  ga_DelegatedVesting :: 'c
  ga_StartTime :: "64 word"
  ga_EndTime :: "64 word"
  ga_ModuleName :: string
  ga_ModulePermissions :: "string list"

record ('c, 'b) account_calls =
  Coins_IsZero :: "'c \<Rightarrow> bool"
  ModuleAccount_Validate :: "'b \<Rightarrow> string \<Rightarrow> string list \<Rightarrow> unit outcome"
  BaseAccount_Validate :: "'b \<Rightarrow> unit outcome"

definition GenesisAccount_Validate :: "('c, 'b) account_calls \<Rightarrow> ('c, 'b) genesis_account \<Rightarrow> unit outcome" where
  "GenesisAccount_Validate A sga =
     (if \<not> Coins_IsZero A (ga_OriginalVesting sga) \<and> ga_EndTime sga \<le>s ga_StartTime sga
      then Err (Errorf ''vesting start-time cannot be before end-time'')
      else bind_o (if ga_ModuleName sga \<noteq> []
          then ModuleAccount_Validate A (ga_BaseAccount sga) (ga_ModuleName sga) (ga_ModulePermissions sga) else Ok ())
        (\<lambda>_. BaseAccount_Validate A (ga_BaseAccount sga)))"

lemma GenesisAccount_Validate_iff:
  "GenesisAccount_Validate A sga = Ok () \<longleftrightarrow>
     (Coins_IsZero A (ga_OriginalVesting sga) \<or> sint (ga_StartTime sga) < sint (ga_EndTime sga)) \<and>
     (ga_ModuleName sga \<noteq> [] \<longrightarrow>
        ModuleAccount_Validate A (ga_BaseAccount sga) (ga_ModuleName sga) (ga_ModulePermissions sga) = Ok ()) \<and>
     BaseAccount_Validate A (ga_BaseAccount sga) = Ok ()"
  by (auto simp: GenesisAccount_Validate_def bind_o_eq_Ok word_sle_eq)

section \<open>Module accounts as maps\<close>

text \<open>A Go map is built by assignments in the order of the list.\<close>

definition GetMaccPerms :: "ext_names \<Rightarrow> string \<Rightarrow> string list option" where
  "GetMaccPerms N = foldl (\<lambda>dup (account, permissions). dup(account \<mapsto> permissions)) Map.empty (moduleAccPerms N)"

definition BlockedAddresses :: "ext_names \<Rightarrow> string \<Rightarrow> bool option" where
  "BlockedAddresses N =
     (if length (blockAccAddrs N) > 0 then foldl (\<lambda>result addr. result(addr \<mapsto> True)) Map.empty (blockAccAddrs N)
      else (\<lambda>addr. if GetMaccPerms N addr \<noteq> None then Some True else None))"

lemma foldl_assign: "foldl (\<lambda>m (k, v). m(k \<mapsto> v)) m xs = m ++ map_of (rev xs)"
  by (induction xs arbitrary: m) (auto simp: map_add_def fun_eq_iff split: option.splits)

lemma foldl_mark: "foldl (\<lambda>m k. m(k \<mapsto> True)) m xs = (\<lambda>k. if k \<in> set xs then Some True else m k)"
  by (induction xs arbitrary: m) (auto simp: fun_eq_iff)

lemma GetMaccPerms_eq: "distinct (map fst (moduleAccPerms N)) \<Longrightarrow> GetMaccPerms N = map_of (moduleAccPerms N)"
  unfolding GetMaccPerms_def foldl_assign
  by (simp add: map_of_inject_set rev_map [symmetric])

lemma BlockedAddresses_eq: "BlockedAddresses N = (\<lambda>a. if a \<in> set (blockAccAddrs N) then Some True else None)"
  by (simp add: BlockedAddresses_def foldl_mark) (simp add: blockAccAddrs_def)

text \<open>The pools of the module are not blocked, and a blocked address is that of a module account.\<close>

lemma blocked_are_accounts:
  assumes "app_names N" "BlockedAddresses N a \<noteq> None"
  shows "GetMaccPerms N a \<noteq> None \<and> a \<noteq> CollateralPoolName \<and> a \<noteq> RedeemPoolName"
proof -
  have a: "a \<in> set (blockAccAddrs N)" using assms(2) by (simp add: BlockedAddresses_eq split: if_splits)
  have "a \<in> fst ` set (moduleAccPerms N)" using a app_names.blocked_registered [OF assms(1)] by blast
  then have "GetMaccPerms N a \<noteq> None"
    unfolding GetMaccPerms_def foldl_assign by (simp add: map_of_eq_None_iff)
  then show ?thesis using a app_names.pools_not_blocked [OF assms(1)] by auto
qed

section \<open>Scoped keepers\<close>

text \<open>\<open>GetCapabilityScopedKeeper\<close> on the map \<open>ScopedKeepers\<close> of the application and the state of the capability keeper.\<close>

definition GetCapabilityScopedKeeper :: "(string \<Rightarrow> ('c, 'k) act) \<Rightarrow> string \<Rightarrow> ((string \<Rightarrow> 'k option) \<times> 'c, 'k) act" where
  "GetCapabilityScopedKeeper ScopeToModule moduleName = (\<lambda>(ScopedKeepers, c).
     case ScopedKeepers moduleName of
       Some sk \<Rightarrow> (Ok sk, (ScopedKeepers, c))
     | None \<Rightarrow>
        (case ScopeToModule moduleName c of
           (Ok sk, c') \<Rightarrow> (Ok sk, (ScopedKeepers(moduleName \<mapsto> sk), c'))
         | (Err e, c') \<Rightarrow> (Err e, (ScopedKeepers, c'))
         | (Panic s, c') \<Rightarrow> (Panic s, (ScopedKeepers, c'))))"

text \<open>A module is scoped once: later calls return the same keeper and leave the capability keeper alone, whatever modules are
  scoped in between.\<close>

lemma scoped_once:
  assumes "GetCapabilityScopedKeeper scope m s = (Ok sk, s1)" "GetCapabilityScopedKeeper scope m' s1 = (r, s2)"
  shows "GetCapabilityScopedKeeper scope m s2 = (Ok sk, s2)"
proof -
  have "fst s1 m = Some sk"
    using assms(1) by (cases s) (auto simp: GetCapabilityScopedKeeper_def split: option.splits prod.splits outcome.splits)
  then have "fst s2 m = Some sk"
    using assms(2) by (cases s1) (auto simp: GetCapabilityScopedKeeper_def split: option.splits prod.splits outcome.splits)
  then show ?thesis
    by (cases s2) (simp add: GetCapabilityScopedKeeper_def)
qed

end
