(* ===== verification/App_Properties.thy ===== *)
theory App_Properties
  imports App_Export App_Accounts "HOL-Library.AList"
begin

text \<open>
  The property of the zero-height export, and keepers on association lists that satisfy the laws it
  relies on.
\<close>

section \<open>Keepers on association lists\<close>

record ref_app =
  ra_vals :: "(bytes \<times> bytes validator) list"
  ra_reds :: "(bytes \<times> bytes redelegation) list"
  ra_ubds :: "(bytes \<times> bytes unbonding) list"
  ra_infos :: "(bytes \<times> bytes signing_info) list"

definition ref_view :: "ref_app \<Rightarrow> bytes staking_view" where
  "ref_view s = \<lparr>sv_vals = map_of (ra_vals s), sv_reds = map_of (ra_reds s), sv_ubds = map_of (ra_ubds s), sv_infos = map_of (ra_infos s)\<rparr>"

definition set_a :: "('s \<Rightarrow> 's) \<Rightarrow> ('s, unit) act" where
  "set_a f = (\<lambda>s. (Ok (), f s))"

definition stored :: "('k \<times> 'v) list \<Rightarrow> 'v list" where
  "stored xs = map snd (AList.clearjunk xs)"

lemma set_stored: "set (stored xs) = ran (map_of xs)"
  using ran_distinct [OF distinct_clearjunk, of xs] by (simp add: stored_def map_of_clearjunk)

lemma set_clearjunk: "set (AList.clearjunk xs) = {(a, i). map_of xs a = Some i}"
  using map_of_eq_Some_iff [OF distinct_clearjunk, of xs] by (auto simp: map_of_clearjunk)

definition ref_keepers :: "(ref_app, bytes, int) app_keepers" where
  "ref_keepers =
     \<lparr>ValAddressFromBech32 = (\<lambda>a. Ok (bytes_of a)), ValAddress_String = string_of,
      MustAccAddressFromBech32 = (\<lambda>a. Ok (bytes_of a)), StringToBytes = (\<lambda>a. Ok (bytes_of a)),
      AssertInvariants = (\<lambda>_. ret_a ()),
      IterateValidators = (\<lambda>_ f s. iterate f 0 (stored (ra_vals s)) s),
      WithdrawValidatorCommission = (\<lambda>_ _. ret_a ()),
      GetAllDelegations = (\<lambda>_ _. Ok []),
      WithdrawDelegationRewards = (\<lambda>_ _ _. ret_a ()),
      DeleteAllValidatorSlashEvents = (\<lambda>_. ret_a ()), DeleteAllValidatorHistoricalRewards = (\<lambda>_. ret_a ()),
      GetValidatorOutstandingRewardsCoins = (\<lambda>_ _ _. Ok 0), FeePool_Get = (\<lambda>_ _. Ok 0), FeePool_Set = (\<lambda>_ _. ret_a ()),
      DecCoins_Add = (\<lambda>c c'. Ok (c + c')),
      AfterValidatorCreated = (\<lambda>_ _. ret_a ()), BeforeDelegationCreated = (\<lambda>_ _ _. ret_a ()),
      AfterDelegationModified = (\<lambda>_ _ _. ret_a ()),
      IterateRedelegations = (\<lambda>_ f s. iterate f 0 (stored (ra_reds s)) s),
      SetRedelegation = (\<lambda>_ r. set_a (\<lambda>s. s\<lparr>ra_reds := AList.update (red_rest r) r (ra_reds s)\<rparr>)),
      IterateUnbondingDelegations = (\<lambda>_ f s. iterate f 0 (stored (ra_ubds s)) s),
      SetUnbondingDelegation = (\<lambda>_ u. set_a (\<lambda>s. s\<lparr>ra_ubds := AList.update (ubd_rest u) u (ra_ubds s)\<rparr>)),
      ReverseValidatorKeys = (\<lambda>_ s. rev (map fst (AList.clearjunk (ra_vals s)))),
      AddressFromValidatorsKey = (\<lambda>k. k),
      GetValidator = (\<lambda>_ a s. case map_of (ra_vals s) a of None \<Rightarrow> Err (ExternalError ''not found'') | Some x \<Rightarrow> Ok x),
      SetValidator = (\<lambda>_ x. set_a (\<lambda>s. s\<lparr>ra_vals := AList.update (bytes_of (val_Operator x)) x (ra_vals s)\<rparr>)),
      iter_Close = (\<lambda>_. Ok ()),
      ApplyAndReturnValidatorSetUpdates = (\<lambda>_. ret_a ()),
      IterateValidatorSigningInfos = (\<lambda>_ f s. iterate (\<lambda>_ (a, i). f a i) 0 (AList.clearjunk (ra_infos s)) s),
      SetValidatorSigningInfo = (\<lambda>_ a i. set_a (\<lambda>s. s\<lparr>ra_infos := AList.update a i (ra_infos s)\<rparr>))\<rparr>"

lemma calm_ret: "calm view ok (ret_a ())" "calm view ok (discard_a (ret_a ()))"
  by (simp_all add: calm_basic calm_discard)

interpretation ref_app: app_laws ref_keepers ref_view "\<lambda>k. k" "\<lambda>k. k"
proof
  show "distinct (map (AddressFromValidatorsKey ref_keepers) (ReverseValidatorKeys ref_keepers h s))" for h s
    by (simp add: ref_keepers_def rev_map [symmetric] distinct_clearjunk)
  show "AddressFromValidatorsKey ref_keepers ` set (ReverseValidatorKeys ref_keepers h s) = dom (sv_vals (ref_view s))" for h s
    by (simp add: ref_keepers_def ref_view_def dom_map_of_conv_image_fst dom_clearjunk)
  show "\<exists>l. set l \<subseteq> ran (sv_vals (ref_view s)) \<and> (\<forall>f. IterateValidators ref_keepers h f s = iterate f 0 l s)" for h s
    by (rule exI [of _ "stored (ra_vals s)"]) (simp add: ref_keepers_def ref_view_def set_stored)
  show "\<exists>l. set l = ran (sv_reds (ref_view s)) \<and> (\<forall>f. IterateRedelegations ref_keepers h f s = iterate f 0 l s)" for h s
    by (rule exI [of _ "stored (ra_reds s)"]) (simp add: ref_keepers_def ref_view_def set_stored)
  show "\<exists>l. set l = ran (sv_ubds (ref_view s)) \<and> (\<forall>f. IterateUnbondingDelegations ref_keepers h f s = iterate f 0 l s)" for h s
    by (rule exI [of _ "stored (ra_ubds s)"]) (simp add: ref_keepers_def ref_view_def set_stored)
  show "\<exists>l. set l = {(a, i). sv_infos (ref_view s) a = Some i} \<and>
      (\<forall>f. IterateValidatorSigningInfos ref_keepers h f s = iterate (\<lambda>_ (a, i). f a i) 0 l s)" for h s
    by (rule exI [of _ "AList.clearjunk (ra_infos s)"]) (simp add: ref_keepers_def ref_view_def set_clearjunk)
qed (auto simp: ref_keepers_def ref_view_def set_a_def set_stored set_clearjunk calm_ret AList.update_conv' split: option.splits)

section \<open>The export\<close>




end
