(* ===== verification/App_Testnet.thy ===== *)
theory App_Testnet
  imports Sdk_Interface
begin

text \<open>
  \<open>getCommandArgs\<close> of \<open>cmd/HalbornCTFd/cmd/testnet.go\<close>: the arguments of the command that turns a node into a
  testnet, taken from the options of the application.
\<close>

text \<open>An option has a dynamic type; \<open>'p\<close> is the interface of public keys.\<close>

datatype 'p opt_value = OptHexBytes bytes | OptPubKey 'p | OptString string | OptOther

record 'p val_args =
  va_newValAddr :: bytes
  va_newOperatorAddress :: string
  va_newValPubKey :: 'p
  va_accountsToFund :: "acc_address list"
  va_upgradeToTrigger :: string
  va_homeDir :: string

text \<open>The names of options in the server and flags packages, and \<open>cast.ToString\<close>.\<close>

record 'p opt_names =
  KeyNewValAddr :: string
  KeyUserPubKey :: string
  KeyNewOpAddr :: string
  KeyTriggerTestnetUpgrade :: string
  FlagHome :: string
  ToString :: "'p opt_value \<Rightarrow> string"

text \<open>\<open>strings.Split(s, ",")\<close>\<close>

fun split_commas :: "string \<Rightarrow> string list" where
  "split_commas [] = [[]]"
| "split_commas (c # cs) =
     (if c = CHR '','' then [] # split_commas cs
      else case split_commas cs of [] \<Rightarrow> [[c]] | w # ws \<Rightarrow> (c # w) # ws)"

fun accounts_to_fund :: "sdk_lib \<Rightarrow> string list \<Rightarrow> acc_address list \<Rightarrow> acc_address list outcome" where
  "accounts_to_fund S [] acc = Ok acc"
| "accounts_to_fund S (account # rest) acc =
     (if account \<noteq> [] then
        (case AccAddressFromBech32 S account of
           Err err \<Rightarrow> Err (Errorf (''invalid bech32 address format '' @ err_Error S err))
         | Panic s \<Rightarrow> Panic s
         | Ok addr \<Rightarrow> accounts_to_fund S rest (acc @ [addr]))
      else accounts_to_fund S rest acc)"

definition getCommandArgs :: "sdk_lib \<Rightarrow> 'p opt_names \<Rightarrow> (string \<Rightarrow> 'p opt_value) \<Rightarrow> 'p val_args outcome" where
  "getCommandArgs S C Get =
     (case Get (KeyNewValAddr C) of
        OptHexBytes newValAddr \<Rightarrow>
          (case Get (KeyUserPubKey C) of
             OptPubKey newValPubKey \<Rightarrow>
               (case Get (KeyNewOpAddr C) of
                  OptString newOperatorAddress \<Rightarrow>
                    (case Get (KeyTriggerTestnetUpgrade C) of
                       OptString upgradeToTrigger \<Rightarrow>
                         bind_o (accounts_to_fund S (split_commas (ToString C (Get ''accounts-to-fund''))) []) (\<lambda>accounts.
                         let homeDir = ToString C (Get (FlagHome C))
                         in if homeDir = [] then Err (Errorf ''invalid home dir'')
                            else Ok \<lparr>va_newValAddr = newValAddr, va_newOperatorAddress = newOperatorAddress,
                              va_newValPubKey = newValPubKey, va_accountsToFund = accounts,
                              va_upgradeToTrigger = upgradeToTrigger, va_homeDir = homeDir\<rparr>)
                     | _ \<Rightarrow> Panic ''upgradeToTrigger is not of type string'')
                | _ \<Rightarrow> Panic ''newOperatorAddress is not of type string'')
           | _ \<Rightarrow> Panic ''newValPubKey is not of type crypto.PubKey'')
      | _ \<Rightarrow> Panic ''newValAddr is not of type bytes.HexBytes'')"

text \<open>A list of words without commas is read back from its text.\<close>

fun join_commas :: "string list \<Rightarrow> string" where
  "join_commas [] = []"
| "join_commas [w] = w"
| "join_commas (w # ws) = w @ CHR '','' # join_commas ws"

lemma split_word: "CHR '','' \<notin> set w \<Longrightarrow> split_commas w = [w]"
  by (induction w) auto

lemma split_word_comma: "CHR '','' \<notin> set w \<Longrightarrow> split_commas (w @ CHR '','' # s) = w # split_commas s"
  by (induction w) auto

lemma split_join: "ws \<noteq> [] \<Longrightarrow> \<forall>w\<in>set ws. CHR '','' \<notin> set w \<Longrightarrow> split_commas (join_commas ws) = ws"
  by (induction ws rule: join_commas.induct) (auto simp: split_word split_word_comma)

lemma accounts_to_fund_eq:
  "\<forall>w\<in>set ws. w \<noteq> [] \<longrightarrow> AccAddressFromBech32 S w = Ok (addr w) \<Longrightarrow>
     accounts_to_fund S ws acc = Ok (acc @ map addr (filter (\<lambda>w. w \<noteq> []) ws))"
  by (induction ws arbitrary: acc) auto

text \<open>The accounts of the result are those of the comma-separated option, in its order, with empty words left out.\<close>

lemma getCommandArgs_accounts:
  assumes "getCommandArgs S C Get = Ok args" "ToString C (Get ''accounts-to-fund'') = join_commas ws" "ws \<noteq> []"
    "\<forall>w\<in>set ws. CHR '','' \<notin> set w \<and> (w \<noteq> [] \<longrightarrow> AccAddressFromBech32 S w = Ok (addr w))"
  shows "va_accountsToFund args = map addr (filter (\<lambda>w. w \<noteq> []) ws)"
proof -
  have "split_commas (ToString C (Get ''accounts-to-fund'')) = ws"
    using assms(2-4) by (simp add: split_join)
  moreover have "accounts_to_fund S ws [] = Ok (map addr (filter (\<lambda>w. w \<noteq> []) ws))"
    using assms(4) accounts_to_fund_eq [of ws S addr "[]"] by simp
  ultimately show ?thesis
    using assms(1) by (auto simp: getCommandArgs_def Let_def split: opt_value.splits if_splits)
qed

end
