(* ===== verification/App_Commands.thy ===== *)
theory App_Commands
  imports App_Export App_Testnet
begin

text \<open>
  \<open>appExport\<close> of \<open>cmd/HalbornCTFd/cmd/commands.go\<close>, which loads the application at a height and exports it.
\<close>

text \<open>Options of a type \<open>'o\<close>, and an application with a state \<open>'s\<close>.\<close>

record ('s, 'o, 'p) export_env =
  opt_Get :: "'o \<Rightarrow> string \<Rightarrow> 'p opt_value"
  is_Viper :: "'o \<Rightarrow> bool"
  viper_Set :: "string \<Rightarrow> int \<Rightarrow> 'o \<Rightarrow> 'o"
  FlagInvCheckPeriod :: string
  app_New :: "bool \<Rightarrow> 'o \<Rightarrow> 's outcome"
  LoadHeight :: "64 word \<Rightarrow> ('s, unit) act"

definition appExport :: "'p opt_names \<Rightarrow> ('s, 'o, 'p) export_env \<Rightarrow> ('s, 'x, 'f) app_keepers \<Rightarrow> ('s, 'g, 'v, 'c) export_calls \<Rightarrow>
    64 word \<Rightarrow> bool \<Rightarrow> string list \<Rightarrow> 'o \<Rightarrow> string list \<Rightarrow> ('v, 'c) exported_app outcome" where
  "appExport C X K E h forZeroHeight jailAllowedAddrs appOpts modulesToExport =
     (if \<not> (case opt_Get X appOpts (FlagHome C) of OptString homePath \<Rightarrow> homePath \<noteq> [] | _ \<Rightarrow> False)
      then Err (Errorf ''application home not set'')
      else if \<not> is_Viper X appOpts then Err (Errorf ''appOpts is not viper.Viper'')
      else
        let opts = viper_Set X (FlagInvCheckPeriod X) 1 appOpts
        in if h \<noteq> - 1 then
             bind_o (app_New X False opts) (\<lambda>bApp.
               fst (bind_a (LoadHeight X h) (\<lambda>_.
                 ExportAppStateAndValidators K E forZeroHeight jailAllowedAddrs modulesToExport) bApp))
           else
             bind_o (app_New X True opts) (\<lambda>bApp.
               fst (ExportAppStateAndValidators K E forZeroHeight jailAllowedAddrs modulesToExport bApp)))"

text \<open>An export of a given height is labelled with the next one, if \<open>LoadHeight\<close> loads what it is asked for; an export for a restart
  is labelled with zero. Without a home directory nothing is loaded.\<close>

lemma appExport_height:
  assumes "appExport C X K E h forZeroHeight allowed opts modules = Ok r"
    "\<And>s s'. LoadHeight X h s = (Ok (), s') \<Longrightarrow> LastBlockHeight E s' = h"
  shows "(forZeroHeight \<longrightarrow> ea_Height r = 0) \<and> (\<not> forZeroHeight \<and> h \<noteq> - 1 \<longrightarrow> ea_Height r = h + 1)"
proof -
  have exp: "ea_Height r = (if forZeroHeight then 0 else LastBlockHeight E s + 1)"
    if "fst (ExportAppStateAndValidators K E forZeroHeight allowed modules s) = Ok r" for s
    using that Export_height [of K E forZeroHeight allowed modules s r] by (metis prod.collapse)
  show ?thesis
  proof (cases "h = - 1")
    case True
    then show ?thesis using assms(1) exp by (auto simp: appExport_def Let_def bind_o_eq_Ok split: if_splits)
  next
    case False
    then obtain s where s: "fst (bind_a (LoadHeight X h) (\<lambda>_. ExportAppStateAndValidators K E forZeroHeight allowed modules) s) = Ok r"
      using assms(1) by (auto simp: appExport_def Let_def bind_o_eq_Ok split: if_splits)
    then obtain s' where "LoadHeight X h s = (Ok (), s')" "fst (ExportAppStateAndValidators K E forZeroHeight allowed modules s') = Ok r"
      by (auto simp: bind_a_def split: prod.splits outcome.splits)
    then show ?thesis using exp assms(2) by auto
  qed
qed

lemma appExport_no_home:
  "opt_Get X opts (FlagHome C) = OptString [] \<Longrightarrow>
     appExport C X K E h z allowed opts modules = Err (Errorf ''application home not set'')"
  by (simp add: appExport_def)

end
