(* ===== verification/Testnet_Init.thy ===== *)
theory Testnet_Init
  imports App_Testnet App_Export Keeper_Params Ledger "HOL-Library.Sublist"
begin

text \<open>
  The rest of \<open>cmd/HalbornCTFd/cmd/testnet.go\<close>: rewriting the state of a node so that a given validator runs it alone, and
  funding accounts. The keepers of staking, distribution and slashing are arguments, with their laws
  over a map that is the staking store; the bank is the one of \<open>bank_laws\<close>.
\<close>

section \<open>Keepers and messages\<close>

datatype bond_status = Unspecified | Unbonded | Unbonding | Bonded

text \<open>The fields of \<open>stakingtypes.Validator\<close> and of \<open>slashingtypes.ValidatorSigningInfo\<close> that the code sets; \<open>'k\<close> is a packed
  public key.\<close>

record 'k new_val =
  nv_OperatorAddress :: string
  nv_ConsensusPubkey :: 'k
  nv_Jailed :: bool
  nv_Status :: bond_status
  nv_Tokens :: int
  nv_DelegatorShares :: dec
  nv_Moniker :: string
  nv_Rate :: dec
  nv_MaxRate :: dec
  nv_MaxChangeRate :: dec
  nv_MinSelfDelegation :: int

record new_info =
  ni_Address :: string
  ni_StartHeight :: "64 word"
  ni_Tombstoned :: bool

text \<open>The calls, on a state \<open>'t\<close> of the stores of these modules. An iterator is the list of its keys; the rewards are empty in
  every call and left out.\<close>

record ('t, 'p, 'k) node_keepers =
  PubKey_Bytes :: "'p \<Rightarrow> bytes"
  NewAnyWithValue :: "bytes \<Rightarrow> 'k outcome"
  LegacyMustNewDecFromStr :: "string \<Rightarrow> dec outcome"
  tn_StringToBytes :: "string \<Rightarrow> bytes outcome"
  ValidatorsPowerStoreIterator :: "'t \<Rightarrow> bytes list outcome"
  LastValidatorsIterator :: "'t \<Rightarrow> bytes list outcome"
  ValidatorsKey :: bytes
  ValidatorQueueKey :: bytes
  staking_Iterator :: "bytes \<Rightarrow> 't \<Rightarrow> bytes list"
  staking_Delete :: "bytes \<Rightarrow> ('t, unit) act"
  tn_SetValidator :: "'k new_val \<Rightarrow> ('t, unit) act"
  SetValidatorByConsAddr :: "'k new_val \<Rightarrow> ('t, unit) act"
  SetValidatorByPowerIndex :: "'k new_val \<Rightarrow> ('t, unit) act"
  SetLastValidatorPower :: "bytes \<Rightarrow> 64 word \<Rightarrow> ('t, unit) act"
  tn_AfterValidatorCreated :: "bytes \<Rightarrow> ('t, unit) act"
  SetValidatorHistoricalRewards :: "bytes \<Rightarrow> 64 word \<Rightarrow> 32 word \<Rightarrow> ('t, unit) act"
  SetValidatorCurrentRewards :: "bytes \<Rightarrow> 64 word \<Rightarrow> ('t, unit) act"
  SetValidatorAccumulatedCommission :: "bytes \<Rightarrow> ('t, unit) act"
  SetValidatorOutstandingRewards :: "bytes \<Rightarrow> ('t, unit) act"
  ConsAddress_String :: "bytes \<Rightarrow> string"
  tn_LastBlockHeight :: "'t \<Rightarrow> 64 word"
  tn_SetValidatorSigningInfo :: "bytes \<Rightarrow> new_info \<Rightarrow> ('t, unit) act"
  BondDenom :: "'t \<Rightarrow> string outcome"

section \<open>Rewriting the state\<close>

text \<open>\<open>if err != nil { tmos.Exit(err.Error()) }\<close> ends the process.\<close>

definition exit_a :: "('w, 'a) act \<Rightarrow> ('w, 'a) act" where
  "exit_a m = try_a m (\<lambda>_. panic_a ''tmos.Exit'') ret_a"

definition testnet_validator :: "('t, 'p, 'k) node_keepers \<Rightarrow> 'p val_args \<Rightarrow> 'k \<Rightarrow> 'k new_val outcome" where
  "testnet_validator K args pubkeyAny =
     bind_o (LegacyMustNewDecFromStr K ''10000000'') (\<lambda>shares.
     bind_o (LegacyMustNewDecFromStr K ''0.05'') (\<lambda>rate.
     bind_o (LegacyMustNewDecFromStr K ''0.1'') (\<lambda>maxRate.
     bind_o (LegacyMustNewDecFromStr K ''0.05'') (\<lambda>maxChangeRate.
     Ok \<lparr>nv_OperatorAddress = va_newOperatorAddress args, nv_ConsensusPubkey = pubkeyAny, nv_Jailed = False,
       nv_Status = Bonded, nv_Tokens = 900000000000000, nv_DelegatorShares = shares, nv_Moniker = ''Testnet Validator'',
       nv_Rate = rate, nv_MaxRate = maxRate, nv_MaxChangeRate = maxChangeRate, nv_MinSelfDelegation = 1\<rparr>))))"

text \<open>\<open>for ; iterator.Valid(); iterator.Next() { stakingStore.Delete(iterator.Key()) }\<close> for four iterators.\<close>

definition remove_validators :: "('t, 'p, 'k) node_keepers \<Rightarrow> ('t, unit) act" where
  "remove_validators K =
     bind_a (exit_a (read_a (ValidatorsPowerStoreIterator K))) (\<lambda>power.
     bind_a (for_each (staking_Delete K) power) (\<lambda>_.
     bind_a (exit_a (read_a (LastValidatorsIterator K))) (\<lambda>last.
     bind_a (for_each (staking_Delete K) last) (\<lambda>_.
     bind_a (read_a (\<lambda>t. Ok (staking_Iterator K (ValidatorsKey K) t))) (\<lambda>vals.
     bind_a (for_each (staking_Delete K) vals) (\<lambda>_.
     bind_a (read_a (\<lambda>t. Ok (staking_Iterator K (ValidatorQueueKey K) t))) (\<lambda>queue.
     for_each (staking_Delete K) queue)))))))"

definition add_validator :: "('t, 'p, 'k) node_keepers \<Rightarrow> 'k new_val \<Rightarrow> bytes \<Rightarrow> bytes \<Rightarrow> ('t, unit) act" where
  "add_validator K newVal validator newConsAddr =
     bind_a (discard_a (tn_SetValidator K newVal)) (\<lambda>_.
     bind_a (exit_a (SetValidatorByConsAddr K newVal)) (\<lambda>_.
     bind_a (discard_a (SetValidatorByPowerIndex K newVal)) (\<lambda>_.
     bind_a (discard_a (SetLastValidatorPower K validator 0)) (\<lambda>_.
     bind_a (exit_a (tn_AfterValidatorCreated K validator)) (\<lambda>_.
     bind_a (discard_a (SetValidatorHistoricalRewards K validator 0 1)) (\<lambda>_.
     bind_a (discard_a (SetValidatorCurrentRewards K validator 1)) (\<lambda>_.
     bind_a (discard_a (SetValidatorAccumulatedCommission K validator)) (\<lambda>_.
     bind_a (discard_a (SetValidatorOutstandingRewards K validator)) (\<lambda>_.
     bind_a (read_a (\<lambda>t. Ok (tn_LastBlockHeight K t))) (\<lambda>h.
     discard_a (tn_SetValidatorSigningInfo K newConsAddr
       \<lparr>ni_Address = ConsAddress_String K newConsAddr, ni_StartHeight = h - 1, ni_Tombstoned = False\<rparr>)))))))))))"

definition fund_account :: "'b bank_keeper \<Rightarrow> string \<Rightarrow> coin list \<Rightarrow> acc_address \<Rightarrow> ('b, unit) act" where
  "fund_account B mint defaultCoins account =
     bind_a (exit_a (MintCoins B mint defaultCoins)) (\<lambda>_.
     exit_a (SendCoinsFromModuleToAccount B mint account defaultCoins))"

definition initAppForTestnet :: "sdk_lib \<Rightarrow> ('t, 'p, 'k) node_keepers \<Rightarrow> 'b bank_keeper \<Rightarrow> ext_names \<Rightarrow> 'p val_args \<Rightarrow>
    (('t, 'b) world, unit) act" where
  "initAppForTestnet S K B N args =
     bind_a (exit_a (lift_a (NewAnyWithValue K (PubKey_Bytes K (va_newValPubKey args))))) (\<lambda>pubkeyAny.
     bind_a (lift_a (testnet_validator K args pubkeyAny)) (\<lambda>newVal.
     bind_a (exit_a (lift_a (tn_StringToBytes K (nv_OperatorAddress newVal)))) (\<lambda>validator.
     bind_a (on_kv (remove_validators K)) (\<lambda>_.
     bind_a (on_kv (add_validator K newVal validator (va_newValAddr args))) (\<lambda>_.
     bind_a (exit_a (read_a (\<lambda>w. BondDenom K (w_kv w)))) (\<lambda>bondDenom.
     bind_a (lift_a (NewCoin S bondDenom (Some 1000000000))) (\<lambda>coin.
     bind_a (lift_a (NewCoins S [coin])) (\<lambda>defaultCoins.
     on_bank (for_each (fund_account B (mint_ModuleName N) defaultCoins) (va_accountsToFund args))))))))))"

text \<open>\<open>newTestnetApp\<close> on the state that the application has loaded.\<close>

definition newTestnetApp :: "sdk_lib \<Rightarrow> 'p opt_names \<Rightarrow> (string \<Rightarrow> 'p opt_value) \<Rightarrow> ('t, 'p, 'k) node_keepers \<Rightarrow> 'b bank_keeper \<Rightarrow>
    ext_names \<Rightarrow> (('t, 'b) world, unit) act" where
  "newTestnetApp S C Get K B N =
     bind_a (lift_a (must (getCommandArgs S C Get))) (\<lambda>args. initAppForTestnet S K B N args)"

section \<open>What the keepers promise\<close>










section \<open>Funding accounts\<close>


section \<open>Keepers on association lists\<close>








section \<open>The property\<close>





end
