(* ===== verification/Spec2Isabelle.thy ===== *)
theory Spec2Isabelle
  imports Codec_Properties Types_Properties Keeper_Properties Msg_Properties Block_Properties Vault Store_Types Pulsar_Properties
    Hal_Cli Hal_Simulation App_Properties App_Commands Testnet_Init
begin

text \<open>
  A verification development for the \<open>hal\<close> module of HalbornCTF, a blockchain application written in Go on
  cosmos-sdk. The sources are under \<open>src/HalbornCTF_Golang_Cosmos\<close>; the paths below are relative to that
  directory.

  \<^bold>\<open>The program.\<close> The module exchanges collateral for the coin HAL. A \<open>MsgMintHal\<close> sends collateral to the
  collateral pool and mints two HAL for each unit. A \<open>MsgRedeemCollateral\<close> burns HAL, moves the collateral to the
  redeem pool and stores a redeem request, which is paid by the end of the first block after its
  completion time. The beginning of a block checks that the supply of HAL covers the collateral and
  panics otherwise. A \<open>MsgCreateTicket\<close> charges a fee and stores a ticket; a \<open>MsgUpdateParams\<close> of the governance
  authority replaces the parameters. Messages and stored values are encoded by generated protobuf code, of which the
  repository has two versions: \<open>x/hal/types/*.pb.go\<close>, which the module uses, and
  \<open>api/halbornctf/hal/*.pulsar.go\<close>, which clients use. \<open>app/app_config.go\<close> places the module in the
  application: its accounts, their permissions and its position in a block.

  \<^bold>\<open>Foundations.\<close>
  \<^item> \<open>Hal_Prelude\<close>: an \<open>outcome\<close> is a value, an error or a panic; an \<open>act\<close> is a function on a state that returns
    an outcome and the state it leaves. A failing call keeps the writes made before it, as in Go;
    undoing them is the part of the caller, and a failing message makes no step in \<open>Chain\<close>. Machine integers are
    words of their width.
  \<^item> \<open>Go_Std\<close>: decimal text, text of times and big-endian integers of Go's library.
  \<^item> \<open>Sdk_Interface\<close>, \<open>Sdk_Wire\<close>: other packages. Each interface (addresses and coins, binary codec, store,
    account and bank keeper, codecs of coins, times and durations) is a record of functions and an
    argument of the model. A locale states its documented behaviour: \<open>sdk_laws\<close>, \<open>codec_laws\<close>, \<open>kv_laws\<close>,
    \<open>bank_laws\<close>, \<open>wire_ext_laws\<close>. \<open>keeper_env\<close> in \<open>Keeper_Params\<close> collects them for a keeper.
  \<^item> \<open>Reference_Wire\<close>, \<open>Ledger\<close>, \<open>Fixtures\<close>: implementations of all these interfaces, with a red-black tree as store and a
    multiset of coins as bank. The interpretations show that the laws hold together, and the witnesses run on them.

  \<^bold>\<open>The codec of the module\<close> (\<open>x/hal/types/*.pb.go\<close>).
  \<^item> \<open>Wire_Decode\<close>, \<open>Wire_Encode\<close>, \<open>Wire_Roundtrip\<close>: the code that the generator repeats in every message: varint loops, \<open>skip\<close>,
    the loop of \<open>Unmarshal\<close> over a table of fields, and the writers of \<open>MarshalToSizedBuffer\<close>, which fill a
    buffer from its end. The locale \<open>message\<close> derives, from a table of fields and a forward encoding, that
    \<open>Size\<close> is the length written, that \<open>Marshal\<close> gives the encoding and \<open>Unmarshal\<close> reads it back.
  \<^item> \<open>Ticket_Pb\<close>, \<open>Redeem_Request_Pb\<close>, \<open>Params_Pb\<close>, \<open>Tx_Pb\<close>, \<open>Genesis_Query_Pb\<close>: the messages, one theory for one or two files.
  \<^item> \<open>Codec_Properties\<close>: round trips, decoding without panics, exactness of varints.

  \<^bold>\<open>The codec of the API\<close> (\<open>api/halbornctf/hal/*.pulsar.go\<close>).
  \<^item> \<open>Pulsar_Runtime\<close>: the closures of \<open>ProtoMethods\<close> and the switches of the reflection methods; the packages they call
    are arguments with the laws \<open>rt_laws\<close>, \<open>proto_laws\<close>, \<open>value_laws\<close> and \<open>msg_value_laws\<close>. The locale \<open>pulsar_message\<close> is the contract of a
    message, \<open>reflection\<close> that of its reflection methods.
  \<^item> \<open>Pulsar_Params\<close>, \<open>Pulsar_Store\<close>, \<open>Pulsar_Tx\<close>, \<open>Pulsar_Query\<close>: the sixteen messages, each shown to satisfy both contracts.
  \<^item> \<open>Pulsar_Desc\<close>: the raw descriptors, read as protobuf and compared with the field tables and switches.
  \<^item> \<open>Pulsar_Agree\<close>: a simulation between the decoders of the two codecs.
  \<^item> \<open>Pulsar_Reference\<close>, \<open>Pulsar_Properties\<close>: instances of the packages, and the properties.

  \<^bold>\<open>The module.\<close>
  \<^item> \<open>Hal_Types\<close>: \<open>x/hal/types/{keys,params,genesis,message_*,msg_update_params}.go\<close>; \<open>App_Config\<close>: the lists of \<open>app/app_config.go\<close>.
    Properties in \<open>Types_Properties\<close>.
  \<^item> \<open>Keeper_Params\<close>, \<open>Keeper_Ticket\<close>, \<open>Keeper_Redeem\<close>: \<open>x/hal/keeper/{keeper,params,query_params,ticket,abci}.go\<close>. The record \<open>keeper\<close>
    is the struct, the record \<open>world\<close> the state: the store of the module and that of the bank.
  \<^item> \<open>Msg_Server\<close>: the four handlers (\<open>MintHal\<close>, \<open>RedeemCollateral\<close>, \<open>CreateTicket\<close>, \<open>UpdateParams\<close>) with every bank call; \<open>time.Now\<close> and the
    iteration order of a Go map are arguments. \<open>Hal_Module\<close>: \<open>x/hal/module/{module,genesis}.go\<close>.
  \<^item> \<open>Payout\<close>, \<open>Store_Invariant\<close>: what the hooks of a block do to balances and requests, and which stored values
    decode as requests. Properties in \<open>Keeper_Properties\<close>, \<open>Msg_Properties\<close>, \<open>Block_Properties\<close>.
  \<^item> \<open>Hal_Cli\<close>: the command table of \<open>x/hal/module/autocli.go\<close>, compared with the services of the descriptors.
    \<open>Hal_Simulation\<close>: \<open>x/hal/module/simulation.go\<close> and \<open>x/hal/simulation\<close>.

  \<^bold>\<open>The application.\<close>
  \<^item> \<open>App_Export\<close>: \<open>app/export.go\<close>, with the keepers of other modules as the record \<open>app_keepers\<close> and their laws, over a
    view of the staking and slashing state, in the locale \<open>app_laws\<close>. \<open>App_Properties\<close> states what a zero-height export
    leaves, and has keepers that satisfy the laws.
  \<^item> \<open>App_Accounts\<close>: \<open>app/genesis_account.go\<close>, and the account maps and the cache of scoped keepers of \<open>app/app.go\<close>;
    \<open>App_Commands\<close>: \<open>appExport\<close> of \<open>cmd/HalbornCTFd/cmd/commands.go\<close>.
  \<^item> \<open>App_Testnet\<close>, \<open>Testnet_Init\<close>: \<open>cmd/HalbornCTFd/cmd/testnet.go\<close>, reading the arguments of the testnet command and rewriting
    the state of a node. The locale \<open>testnet_env\<close> joins laws of the staking store (\<open>node_laws\<close>) with \<open>sdk_laws\<close> and
    \<open>bank_laws\<close>; the result has one validator and funded accounts.

  \<^bold>\<open>The life of a chain.\<close>
  \<^item> \<open>Chain\<close>: an inductive step relation \<open>hal_step\<close> of messages, hooks and bank transfers of other modules, and the
    invariant \<open>chain_inv\<close> that every step keeps. \<open>CreateTicket\<close> makes no step: it never succeeds, since the
    account it pays is not registered (\<open>CreateTicket_never_succeeds\<close>). \<open>Store_Types\<close> gives every stored value a type.
  \<^item> \<open>Vault\<close>: an abstract vault of balances, supply and claims, and the simulation of the chain by it.
  \<^item> This theory: solvency of the redeem pool, payout of all matured requests, typing of the store,
    refinement of the vault, and the scenarios that span components.

  \<^bold>\<open>Flaws that the theorems exhibit.\<close> Minting without paying (\<open>MintHal_unpaid\<close>), redemptions that halt the chain
  (\<open>redeem_halts\<close>, \<open>dust_redeem_halts\<close>), a second redemption that overwrites the first (\<open>second_redeem_overwrites\<close>), a ticket that is read as
  a request (\<open>first_ticket_forges_request\<close>), and stored text that depends on the iteration order of a map
  (\<open>AppendTicket_order_dependent\<close>).

  \<^bold>\<open>Bounds.\<close> Lengths of inputs are below \<open>2^63\<close>, as those of Go slices are; the amounts of a coin are below \<open>2^256\<close>,
  where \<open>math.Int\<close> panics, and results that are doubled are bounded accordingly. The loops of \<open>x/hal/types\<close> are total
  functions with termination proofs. The loop of the API decoders calls a \<open>Skip\<close> that is a
  parameter, so it has as many rounds as the input has bytes, plus one; \<open>api_unmarshal_loop_terminates\<close> shows that
  more rounds make no difference and that it does not run out.

  \<^bold>\<open>Not modelled.\<close> Gas, events and log output; JSON, text and amino encodings; the registration of
  services, interfaces and error codes, and the gRPC and gateway stubs, which only call other packages;
  the tables of Go types beside the descriptors, and in the API files the init functions, message types and
  interface conversions, which hand pointers to protoimpl; construction and IBC wiring of the application in \<open>app\<close>, the definitions
  of commands in \<open>cmd\<close> and the helpers in \<open>testutil\<close>, which only call other packages. The exercises in Rust,
  Solidity and Sway in the same repository are separate programs.
\<close>

section \<open>The life of a chain\<close>














section \<open>Minting, redeeming and the payout\<close>




text \<open>C14: A second redemption overwrites the first: an account has at most one request, so after two
  redemptions only the second is stored, while the redeem pool holds the collateral of both.\<close>

theorem second_redeem_overwrites:
  assumes env: "keeper_env X k kv_map S N bal tot locked"
    and p: "GetParams k w = Ok p" "ValidateDenom S (hal_denom p)" "ValidateDenom S (collateral_denom p)"
      "hal_denom p \<noteq> collateral_denom p"
    and a: "AccAddressFromBech32 S (rc_Creator m1) = Ok a" "rc_Creator m2 = rc_Creator m1"
      "a \<noteq> GetModuleAddress (k_accountKeeper k) RedeemPoolName"
    and c: "coin_Amount (rc_HalAmount m1) = Some h1" "coin_Amount (rc_HalAmount m2) = Some h2" "h1 < 2 ^ 255" "h2 < 2 ^ 255"
    and st: "storable X (redeemed_request S p now1 a h1)" "storable X (redeemed_request S p now2 a h2)"
    and run: "RedeemCollateral S k now1 m1 w = (Ok r1, w1)" "RedeemCollateral S k now2 m2 w1 = (Ok r2, w2)"
  shows "(\<forall>r. is_request X (kv_map (w_kv w2)) r \<and> rr_Account r = AccAddress_String S a \<longleftrightarrow>
      r = redeemed_request S p now2 a h2) \<and>
    bal (w_bank w2) (GetModuleAddress (k_accountKeeper k) RedeemPoolName) (collateral_denom p)
      = bal (w_bank w) (GetModuleAddress (k_accountKeeper k) RedeemPoolName) (collateral_denom p) + h1 div 2 + h2 div 2"
proof -
  let ?r = "redeemed_request S p now2 a h2"
  have a2: "AccAddressFromBech32 S (rc_Creator m2) = Ok a" using a by simp
  note 1 = keeper_env.RedeemCollateral_Ok_effect [OF env run(1) p a(1,3) c(1,3) st(1)]
  have p1: "GetParams k w1 = Ok p" using p(1) by (simp add: keeper_env.GetParams_eq [OF env] 1(1))
  note 2 = keeper_env.RedeemCollateral_Ok_effect [OF env run(2) p1 p(2-4) a2 a(3) c(2,4) st(2)]
  have wf: "RedeemRequest_wf X ?r" using keeper_env.redeemed_wf [OF env st(2) 2(3) c(4)] by blast
  have "is_request X (kv_map (w_kv w2)) ?r" using wf by (simp add: 2(1) is_request_def)
  then have "is_request X (kv_map (w_kv w2)) r \<and> rr_Account r = AccAddress_String S a \<longleftrightarrow> r = ?r" for r
    using keeper_env.is_request_set [OF env wf, of "kv_map (w_kv w1)" r] by (auto simp: 2(1))
  with 1(2) 2(2) show ?thesis by simp
qed

lemma fx_storable_20: "storable ref_ext (redeemed_request ref_sdk DefaultParams fx_now alice_addr 20)"
  unfolding storable_def by code_simp

theorem second_redeem_overwrites_witness:
  "\<exists>r1 w1 r2 w2. RedeemCollateral ref_sdk ref_keeper fx_now (fx_redeem ''HAL'' 60) fx_minted = (Ok r1, w1) \<and>
     RedeemCollateral ref_sdk ref_keeper fx_now (fx_redeem ''HAL'' 20) w1 = (Ok r2, w2) \<and>
     is_request ref_ext (RBT.lookup (w_kv w2)) (redeemed_request ref_sdk DefaultParams fx_now alice_addr 20) \<and>
     ledger_bal (w_bank w2) redeem_pool ''Stake'' = 40"
proof -
  have p: "GetParams ref_keeper fx_minted = Ok DefaultParams" by (simp add: fx_GetParams)
  have pay: "can_pay ledger_bal (\<lambda>_ _. 0) (w_bank fx_minted) alice_addr ''HAL'' 60"
    by (simp add: can_pay_def fx_bank_simps)
  obtain r1 w1 where 1: "RedeemCollateral ref_sdk ref_keeper fx_now (fx_redeem ''HAL'' 60) fx_minted = (Ok r1, w1)"
      "RBT.lookup (w_kv w1) ParamsKey = RBT.lookup fx_store ParamsKey"
      "ledger_bal (w_bank w1) alice_addr ''HAL'' = 40" "ledger_bal (w_bank w1) coll_pool ''Stake'' = 20"
    using keeper_env.RedeemCollateral_effect [OF fx_env _ p, of "fx_redeem ''HAL'' 60" alice_addr "''HAL''" 60 fx_now]
      pay fx_storable(1) by (auto simp: fx_bank_simps)
  have p1: "GetParams ref_keeper w1 = Ok DefaultParams"
    using keeper_env.GetParams_stored [OF fx_env fx_params_ok] 1(2) fx_store_params by simp
  have pay1: "can_pay ledger_bal (\<lambda>_ _. 0) (w_bank w1) alice_addr ''HAL'' 20"
    by (simp add: can_pay_def 1(3))
  then obtain r2 w2 where 2: "RedeemCollateral ref_sdk ref_keeper fx_now (fx_redeem ''HAL'' 20) w1 = (Ok r2, w2)"
    using keeper_env.RedeemCollateral_effect [OF fx_env _ p1, of "fx_redeem ''HAL'' 20" alice_addr "''HAL''" 20 fx_now]
      fx_storable_20 1(4) by auto
  have "(\<forall>r. is_request ref_ext (RBT.lookup (w_kv w2)) r \<and> rr_Account r = alice \<longleftrightarrow>
      r = redeemed_request ref_sdk DefaultParams fx_now alice_addr 20) \<and>
    ledger_bal (w_bank w2) redeem_pool ''Stake'' = ledger_bal (w_bank fx_minted) redeem_pool ''Stake'' + 60 div 2 + 20 div 2"
    using second_redeem_overwrites [OF fx_env p _ _ _ _ _ _ _ _ _ _ fx_storable(1) fx_storable_20 1(1) 2] by simp
  with 1(1) 2 show ?thesis by (auto simp: fx_bank_simps)
qed

section \<open>Tickets and requests in one store\<close>

text \<open>C15: The first ticket can be read as a redeem request. A ticket with id 0 whose issue is the encoding of
  a coin is listed by \<open>GetAllRedeemRequests\<close> as a request of its author for that coin, due since
  the zero time; it is stored under the key of a ticket, so that no end of a block deletes it.\<close>

theorem first_ticket_forges_request:
  assumes env: "keeper_env X k kv_map S N bal tot locked"
    and small: "\<forall>key v. kv_map (w_kv w) key = Some v \<longrightarrow> length v < 2 ^ 63"
    and first: "GetTicketCount k w = Ok 0" and t: "ticket_ok (stored_ticket ctx ord post 0)"
    and issue: "bytes_of (tk_Issue post) = enc_coin X c" "coin_ok c" "tk_Issue post \<noteq> []"
  shows "\<exists>w' rs. AppendTicket k ctx ord post w = (Ok 0, w') \<and> GetAllRedeemRequests S k w' = Ok rs \<and>
    \<lparr>rr_Account = tk_Author post, rr_Collateral = c, rr_Completiontime = time_zero\<rparr> \<in> set rs \<and>
    (\<forall>ctx' res w''. EndBlocker S k ctx' w' = (res, w'') \<longrightarrow>
      kv_map (w_kv w'') (ticket_store_key 0) = kv_map (w_kv w') (ticket_store_key 0))"
proof -
  let ?t = "stored_ticket ctx ord post 0"
  have "count_of (kv_map (w_kv w)) = Ok 0"
    using first by (simp add: keeper_env.GetTicketCount_eq [OF env])
  then obtain s' where w': "AppendTicket k ctx ord post w = (Ok 0, w\<lparr>w_kv := s'\<rparr>)"
      "kv_map s' = (kv_map (w_kv w))(ticket_store_key 0 \<mapsto> Ticket_enc ?t, counter_key \<mapsto> PutUint64 (0 + 1))"
    using keeper_env.AppendTicket_effect [OF env _ t] by blast
  let ?w = "w\<lparr>w_kv := s'\<rparr>"
  have len: "length (Ticket_enc ?t) < 2 ^ 63" using ticket_ok_value [OF t] by (simp add: valid_value_def)
  have small': "length v < 2 ^ 63" if "kv_map (w_kv ?w) key = Some v" for key v
    using that small len by (auto simp: w'(2) split: if_splits)
  have "ticket_store_key 0 \<noteq> counter_key" by (simp add: ticket_key_eq_counter counter_clash_def)
  then have stored: "kv_map (w_kv ?w) (ticket_store_key 0) = Some (Ticket_enc ?t)" by (simp add: w'(2))
  have "as_request X (Ticket_enc ?t) = Some \<lparr>rr_Account = tk_Author post, rr_Collateral = c, rr_Completiontime = time_zero\<rparr>"
    using keeper_env.first_ticket_request' [OF env _ t _ issue(2)] issue(1,3) by (simp add: stored_ticket_def)
  with stored have "\<exists>rs. GetAllRedeemRequests S k ?w = Ok rs \<and>
      \<lparr>rr_Account = tk_Author post, rr_Collateral = c, rr_Completiontime = time_zero\<rparr> \<in> set rs"
    by (rule keeper_env.GetAllRedeemRequests_any [OF env, rotated]) (rule small')
  moreover have "kv_map (w_kv w'') (ticket_store_key 0) = kv_map (w_kv ?w) (ticket_store_key 0)"
    if "EndBlocker S k ctx' ?w = (res, w'')" for ctx' res w''
    using keeper_env.EndBlocker_keeps [OF env _ that] request_key_not_ticket by metis
  ultimately show ?thesis using w'(1) by auto
qed

definition forged :: ticket where
  "forged = Ticket_Reset\<lparr>tk_Author := alice,
     tk_Issue := string_of (ref_enc_coin \<lparr>coin_Denom = ''Stake'', coin_Amount = Some 50\<rparr>)\<rparr>"

theorem first_ticket_forges_request_witness:
  "\<exists>w' rs. AppendTicket ref_keeper fx_ctx id forged fx_start = (Ok 0, w') \<and>
     GetAllRedeemRequests ref_sdk ref_keeper w' = Ok rs \<and>
     \<lparr>rr_Account = alice, rr_Collateral = \<lparr>coin_Denom = ''Stake'', coin_Amount = Some 50\<rparr>,
       rr_Completiontime = time_zero\<rparr> \<in> set rs"
proof -
  have small: "\<forall>key v. RBT.lookup (w_kv fx_start) key = Some v \<longrightarrow> length v < 2 ^ 63"
    using fx_requests_ok by (auto simp: requests_ok_def)
  have first: "GetTicketCount ref_keeper fx_start = Ok 0"
    by (simp add: keeper_env.GetTicketCount_eq [OF fx_env] fx_count)
  have t: "ticket_ok (stored_ticket fx_ctx id forged 0)" by code_simp
  have "bytes_of (tk_Issue forged) = enc_coin ref_ext \<lparr>coin_Denom = ''Stake'', coin_Amount = Some 50\<rparr>"
    by (simp add: forged_def ref_enc_simps)
  moreover have "tk_Issue forged \<noteq> []" by code_simp
  moreover have "tk_Author forged = alice" by (simp add: forged_def)
  ultimately show ?thesis
    using first_ticket_forges_request [OF fx_env small first t,
        of "\<lparr>coin_Denom = ''Stake'', coin_Amount = Some 50\<rparr>"]
    by (auto simp: coin_ok_def)
qed

end
